(* ===== verification/Prelude.thy ===== *)
theory Prelude
  imports Main "HOL-Library.Word"
begin

text \<open>
  Shared vocabulary of the development: the machine integers and byte strings of the Rust
  sources, the error monad in which every fallible operation is written, big-endian and
  decimal and hexadecimal renderings with their round trips, and generic list lemmas.
  The collections \<open>bindE_simps\<close> and \<open>codec_simps\<close> carry the component proofs.
\<close>

unbundle bit_operations_syntax

named_theorems bindE_simps \<open>characterisations of sequenced fallible operations\<close>
named_theorems codec_simps \<open>lengths and round trips of the byte encodings\<close>

type_synonym u8 = "8 word"
type_synonym u32 = "32 word"
type_synonym u64 = "64 word"
type_synonym bytes = "u8 list"

text \<open>A byte-string literal such as Rust's \<open>b"transfer"\<close>.\<close>

definition asc :: "string \<Rightarrow> bytes" where
  "asc s = map of_char s"

lemma asc_Nil [simp]: "asc [] = []"
  by (simp add: asc_def)

lemma length_asc [simp]: "length (asc s) = length s"
  by (simp add: asc_def)

section \<open>Fallible operations\<close>

text \<open>
  A computation returns \<open>Inl\<close> of the error it stopped with or \<open>Inr\<close> of its result;
  \<open>bindE\<close> is the early return of \<open>?\<close> and of a panic, \<open>ensure\<close> a guard.
\<close>

definition bindE :: "'e + 'a \<Rightarrow> ('a \<Rightarrow> 'e + 'b) \<Rightarrow> 'e + 'b" where
  "bindE m f = (case m of Inl e \<Rightarrow> Inl e | Inr a \<Rightarrow> f a)"

definition ensure :: "bool \<Rightarrow> 'e \<Rightarrow> 'e + unit" where
  "ensure b e = (if b then Inr () else Inl e)"

definition ok_or :: "'e \<Rightarrow> 'a option \<Rightarrow> 'e + 'a" where
  "ok_or e v = (case v of None \<Rightarrow> Inl e | Some a \<Rightarrow> Inr a)"

lemma bindE_Inr [simp]: "bindE (Inr a) f = f a"
  by (simp add: bindE_def)

lemma bindE_Inl [simp]: "bindE (Inl e) f = Inl e"
  by (simp add: bindE_def)

lemma ensure_True [simp]: "ensure True e = Inr ()"
  by (simp add: ensure_def)

lemma ensure_False [simp]: "ensure False e = Inl e"
  by (simp add: ensure_def)

lemma ok_or_Some [simp]: "ok_or e (Some a) = Inr a"
  by (simp add: ok_or_def)

lemma ok_or_None [simp]: "ok_or e None = Inl e"
  by (simp add: ok_or_def)

lemma bindE_eq_Inr [bindE_simps]:
  "bindE m f = Inr b \<longleftrightarrow> (\<exists>a. m = Inr a \<and> f a = Inr b)"
  by (cases m) auto

lemma bindE_eq_Inl [bindE_simps]:
  "bindE m f = Inl e \<longleftrightarrow> m = Inl e \<or> (\<exists>a. m = Inr a \<and> f a = Inl e)"
  by (cases m) auto

lemma ensure_eq_Inr [bindE_simps]: "ensure b e = Inr u \<longleftrightarrow> b"
  by (simp add: ensure_def)

lemma ensure_eq_Inl [bindE_simps]: "ensure b e = Inl e' \<longleftrightarrow> \<not> b \<and> e' = e"
  by (auto simp: ensure_def)

lemma ok_or_eq_Inr [bindE_simps]: "ok_or e v = Inr a \<longleftrightarrow> v = Some a"
  by (cases v) auto

lemma ok_or_eq_Inl [bindE_simps]: "ok_or e v = Inl e' \<longleftrightarrow> v = None \<and> e' = e"
  by (cases v) auto

text \<open>The error of a result rewritten, as \<open>map_err\<close> and the conversions of \<open>?\<close> do.\<close>

definition map_err :: "('e \<Rightarrow> 'f) \<Rightarrow> 'e + 'a \<Rightarrow> 'f + 'a" where
  "map_err f m = (case m of Inl e \<Rightarrow> Inl (f e) | Inr a \<Rightarrow> Inr a)"

lemma map_err_simps [simp]: "map_err f (Inl e) = Inl (f e)" "map_err f (Inr a) = Inr a"
  by (simp_all add: map_err_def)

lemma map_err_eq_Inr [bindE_simps]: "map_err f m = Inr a \<longleftrightarrow> m = Inr a"
  by (cases m) simp_all

lemma bindE_cong [fundef_cong]:
  "m = m' \<Longrightarrow> (\<And>a. m' = Inr a \<Longrightarrow> f a = f' a) \<Longrightarrow> bindE m f = bindE m' f'"
  by (cases m') auto

lemma bindE_assoc: "bindE (bindE m f) g = bindE m (\<lambda>a. bindE (f a) g)"
  by (cases m) auto

text \<open>A loop over a list that threads a state and stops at the first error.\<close>

fun foldE :: "('a \<Rightarrow> 's \<Rightarrow> 'e + 's) \<Rightarrow> 'a list \<Rightarrow> 's \<Rightarrow> 'e + 's" where
  "foldE f [] s = Inr s"
| "foldE f (x # xs) s = bindE (f x s) (foldE f xs)"

lemma foldE_append: "foldE f (xs @ ys) s = bindE (foldE f xs s) (foldE f ys)"
  by (induction xs arbitrary: s) (auto simp: bindE_assoc intro: bindE_cong)

text \<open>\<open>iter().map(f).collect::<Result<Vec<_>, _>>()\<close>.\<close>

fun mapE :: "('a \<Rightarrow> 'e + 'b) \<Rightarrow> 'a list \<Rightarrow> 'e + 'b list" where
  "mapE f [] = Inr []"
| "mapE f (x # xs) = bindE (f x) (\<lambda>y. bindE (mapE f xs) (\<lambda>ys. Inr (y # ys)))"

lemma mapE_all_Inr: "(\<And>x. x \<in> set xs \<Longrightarrow> f x = Inr (g x)) \<Longrightarrow> mapE f xs = Inr (map g xs)"
  by (induction xs) auto

lemma mapE_length: "mapE f xs = Inr ys \<Longrightarrow> length ys = length xs"
  by (induction xs arbitrary: ys) (auto simp: bindE_simps)

lemma mapE_eq_Inr: "mapE f xs = Inr ys \<longleftrightarrow> list_all2 (\<lambda>x y. f x = Inr y) xs ys"
  by (induction xs arbitrary: ys) (auto simp: bindE_simps list_all2_Cons1)

section \<open>Lists\<close>

lemma append_eq_same_length_suffix:
  "length ys = length ys' \<Longrightarrow> xs @ ys = xs' @ ys' \<longleftrightarrow> xs = xs' \<and> ys = ys'"
  by auto

text \<open>Concatenations of equally long blocks are equal only block by block.\<close>

lemma concat_blocks_inj:
  assumes "concat xss = concat yss"
    and "\<forall>x \<in> set xss. length x = n" and "\<forall>y \<in> set yss. length y = n" and "0 < n"
  shows "xss = yss"
  using assms
proof (induction xss arbitrary: yss)
  case Nil
  then show ?case by (cases yss) auto
next
  case (Cons x xss)
  then obtain y yss' where yss: "yss = y # yss'"
    by (cases yss) auto
  with Cons.prems have "x = y" and "concat xss = concat yss'"
    by (simp_all add: append_eq_append_conv)
  with Cons yss show ?case by auto
qed

lemma count_list_distinct: "distinct xs \<Longrightarrow> count_list xs a \<le> 1"
  by (induction xs) (auto simp: count_list_0_iff)

lemma length_concat_blocks: "\<forall>x \<in> set xss. length x = n \<Longrightarrow> length (concat xss) = n * length xss"
  by (induction xss) auto

section \<open>Big-endian integers\<close>

text \<open>\<open>u64::to_be_bytes\<close> and \<open>u64::from_be_bytes\<close>.\<close>

definition to_be_bytes :: "u64 \<Rightarrow> bytes" where
  "to_be_bytes w = map (\<lambda>k. ucast (drop_bit (8 * k) w)) [7, 6, 5, 4, 3, 2, 1, 0]"

definition from_be_bytes :: "bytes \<Rightarrow> u64" where
  "from_be_bytes bs = foldl (\<lambda>a b. push_bit 8 a OR ucast b) 0 bs"

lemma length_to_be_bytes [simp, codec_simps]: "length (to_be_bytes w) = 8"
  by (simp add: to_be_bytes_def)

lemma join_byte: "push_bit 8 (drop_bit (8 + k) w) OR ucast (ucast (drop_bit k w) :: u8) = drop_bit k (w :: u64)"
  by (rule bit_word_eqI) (auto simp: bit_simps)

lemma from_to_be_bytes [simp, codec_simps]: "from_be_bytes (to_be_bytes w) = w"
  using join_byte [of 0 w] join_byte [of 8 w] join_byte [of 16 w] join_byte [of 24 w]
    join_byte [of 32 w] join_byte [of 40 w] join_byte [of 48 w] join_byte [of 56 w]
  by (simp add: from_be_bytes_def to_be_bytes_def drop_bit_word_beyond)
lemma to_be_bytes_inj [simp, codec_simps]: "to_be_bytes v = to_be_bytes w \<longleftrightarrow> v = w"
  by (metis from_to_be_bytes)

section \<open>Decimal numerals\<close>

text \<open>
  The digit loop the sources write by hand and that \<open>format!\<close> performs: the low digit
  first, then reversed. \<open>undecimal\<close> reads a numeral back.
\<close>

fun digits_rev :: "nat \<Rightarrow> bytes" where
  "digits_rev n = (if n = 0 then [] else (48 + of_nat (n mod 10)) # digits_rev (n div 10))"

declare digits_rev.simps [simp del]

definition decimal :: "nat \<Rightarrow> bytes" where
  "decimal n = (if n = 0 then [48] else rev (digits_rev n))"

definition undecimal :: "bytes \<Rightarrow> nat" where
  "undecimal bs = foldr (\<lambda>d a. 10 * a + unat (d - 48)) (rev bs) 0"

definition is_digit :: "u8 \<Rightarrow> bool" where
  "is_digit c \<longleftrightarrow> 48 \<le> c \<and> c \<le> 57"

lemma digit_byte: "m < 10 \<Longrightarrow> unat (of_nat m :: u8) = m"
  by (simp add: unat_of_nat take_bit_nat_eq_self)

lemma is_digit_byte: "m < 10 \<Longrightarrow> is_digit (48 + of_nat m)"
  unfolding is_digit_def word_le_nat_alt by (simp add: unat_word_ariths digit_byte)

lemma digits_rev_value: "foldr (\<lambda>d a. 10 * a + unat (d - 48)) (digits_rev n) 0 = n"
proof (induction n rule: digits_rev.induct)
  case (1 n)
  show ?case
  proof (cases "n = 0")
    case False
    then show ?thesis using 1 by (subst digits_rev.simps) (simp add: digit_byte)
  qed (simp add: digits_rev.simps)
qed

lemma undecimal_decimal [simp, codec_simps]: "undecimal (decimal n) = n"
  by (simp add: undecimal_def decimal_def digits_rev_value)

lemma digits_rev_digits: "d \<in> set (digits_rev n) \<Longrightarrow> is_digit d"
proof (induction n rule: digits_rev.induct)
  case (1 n)
  then show ?case
    by (cases "n = 0") (auto simp: digits_rev.simps [of n] digits_rev.simps [of 0] is_digit_byte split: if_splits)
qed

lemma decimal_digits: "d \<in> set (decimal n) \<Longrightarrow> is_digit d"
  by (auto simp: decimal_def is_digit_def split: if_splits dest: digits_rev_digits [unfolded is_digit_def])

lemma decimal_inj [simp, codec_simps]: "decimal m = decimal n \<longleftrightarrow> m = n"
  by (metis undecimal_decimal)

lemma decimal_nonempty [simp]: "decimal n \<noteq> []"
  by (simp add: decimal_def digits_rev.simps [of n])

lemma length_digits_rev: "n < 10 ^ k \<Longrightarrow> length (digits_rev n) \<le> k"
proof (induction k arbitrary: n)
  case 0
  then show ?case by (simp add: digits_rev.simps)
next
  case (Suc k)
  have "length (digits_rev (n div 10)) \<le> k"
    using Suc.prems by (intro Suc.IH) (simp add: less_mult_imp_div_less mult.commute)
  then show ?case by (subst digits_rev.simps) simp
qed

lemma length_decimal: "n < 10 ^ k \<Longrightarrow> 0 < k \<Longrightarrow> length (decimal n) \<le> k"
  using length_digits_rev by (auto simp: decimal_def)

text \<open>A separator that does not occur in the tails fixes where the tails begin.\<close>

lemma split_at_last_sep:
  assumes "xs @ d # ys = xs' @ d # ys'" "d \<notin> set ys" "d \<notin> set ys'"
  shows "xs = xs' \<and> ys = ys'"
  using assms
proof (induction ys arbitrary: ys' rule: rev_induct)
  case Nil then show ?case by (cases ys' rule: rev_cases) auto
next
  case (snoc y ys) then show ?case by (cases ys' rule: rev_cases) auto
qed

end
