(* ===== verification/Soroban_Host.thy ===== *)
theory Soroban_Host
  imports Prelude
begin

text \<open>
  What a Soroban contract sees of its host: the ledger clock, authorisation, checked integer
  arithmetic and the ways an invocation can stop. A panic in a contract or in a contract it
  calls unwinds the whole invocation and discards every storage write made on the way, so an
  operation that stops returns \<open>Inl\<close> of the fault and no state: the caller keeps the state
  it had. The error enumerations are those of the four contract crates.
\<close>

text \<open>An address is an opaque host handle; contracts only compare, store and serialise it.\<close>

type_synonym address = nat

section \<open>Faults\<close>

text \<open>\<open>contracts/soroban/ibc-router/src/errors.rs\<close>\<close>

datatype router_error =
    AdminNotSet
  | UnknownClientType
  | ClientIdNotFound
  | CounterpartyAlreadyRegistered
  | ClientFrozen
  | PortAlreadyRegistered
  | InvalidIdentifierLength
  | InvalidIdentifierPrefix
  | InvalidIdentifierChar
  | CounterpartyNotRegistered
  | TimeoutAlreadyElapsed
  | PortNotRegistered
  | PayloadsEmpty
  | ReceiptAlreadyExists
  | PacketCounterpartyMismatch
  | MembershipVerificationFailed
  | NonMembershipVerificationFailed
  | NoCommitmentForSequence
  | CommitmentMismatch
  | AckAlreadyExists
  | NoReceiptForSequence
  | TimeoutNotYetElapsed

text \<open>\<open>contracts/soroban/ibc-transfer/src/lib.rs\<close>\<close>

datatype transfer_error =
    RouterNotSet
  | InvalidPacketData
  | InsufficientBalance
  | AmountMustBePositive
  | CallerIsNotRouter
  | UnknownSourcePort
  | UnknownDestPort
  | TransferAdminNotSet
  | DailyLimitExceeded

text \<open>\<open>contracts/soroban/light-clients/tendermint/src/lib.rs\<close>\<close>

datatype tendermint_error =
    TmClientNotInitialised
  | TmClientFrozen
  | TmInvalidClientState
  | TmInvalidConsensusState
  | TmInvalidHeader
  | TmConsensusStateMissing
  | TmHeightAlreadyExistsWithDifferentRoot
  | TmChainIdMismatch
  | TmHeaderHeightNotAfterTrusted
  | TmTrustingPeriodElapsed

text \<open>\<open>contracts/soroban/light-clients/attestation/src/lib.rs\<close>\<close>

datatype attestation_error =
    AttClientNotInitialised
  | AttClientFrozen
  | AttInvalidClientState
  | AttInvalidProof
  | AttSignerIndexOutOfRange
  | AttDuplicateSigner
  | AttQuorumNotMet
  | AttAttestationHeightMismatch
  | AttConsensusStateMissing

text \<open>
  Stops that are no contract error: a slice index out of range, an integer overflow (every
  release profile of the workspace sets \<open>overflow-checks\<close>), a failed \<open>require_auth\<close>, a
  signature the host rejects, a stored or returned value of another type than the one asked
  for, and an invocation of an address that has no such contract.
\<close>

datatype trap =
    SliceOutOfBounds
  | ArithmeticOverflow
  | AuthRequired
  | SignatureRejected
  | ConversionFailed
  | NoSuchContract

datatype fault =
    RouterFault router_error
  | TransferFault transfer_error
  | TendermintFault tendermint_error
  | AttestationFault attestation_error
  | Trap trap

section \<open>The environment of an invocation\<close>

text \<open>
  \<open>auths\<close> lists the addresses whose signed authorisation covers the invocation, \<open>invoker\<close>
  is the contract that made the call (none for a transaction's top frame) and
  \<open>current_contract\<close> the callee itself. The host accepts \<open>require_auth\<close> of an address
  that signed or that is the direct invoker.
\<close>

record env =
  ledger_timestamp :: u64
  auths :: "address list"
  invoker :: "address option"
  current_contract :: address

definition require_auth :: "env \<Rightarrow> address \<Rightarrow> fault + unit" where
  "require_auth e a = ensure (a \<in> set (auths e) \<or> invoker e = Some a) (Trap AuthRequired)"

text \<open>The environment a contract at address \<open>a\<close> runs in when it is invoked from \<open>e\<close>.\<close>

definition invoke_env :: "env \<Rightarrow> address \<Rightarrow> env" where
  "invoke_env e a = e\<lparr>invoker := Some (current_contract e), current_contract := a\<rparr>"

lemma require_auth_invoke_env [simp]:
  "require_auth (invoke_env e a) (current_contract e) = Inr ()"
  by (simp add: require_auth_def invoke_env_def)

lemma require_auth_eq_Inr [bindE_simps]:
  "require_auth e a = Inr u \<longleftrightarrow> a \<in> set (auths e) \<or> invoker e = Some a"
  by (simp add: require_auth_def bindE_simps)

lemma require_auth_eq_Inl [bindE_simps]:
  "require_auth e a = Inl f \<longleftrightarrow> a \<notin> set (auths e) \<and> invoker e \<noteq> Some a \<and> f = Trap AuthRequired"
  by (auto simp: require_auth_def bindE_simps)

section \<open>Checked arithmetic\<close>

definition add_u64 :: "u64 \<Rightarrow> u64 \<Rightarrow> fault + u64" where
  "add_u64 a b = (if unat a + unat b < 2 ^ 64 then Inr (a + b) else Inl (Trap ArithmeticOverflow))"

definition add_u32 :: "u32 \<Rightarrow> u32 \<Rightarrow> fault + u32" where
  "add_u32 a b = (if unat a + unat b < 2 ^ 32 then Inr (a + b) else Inl (Trap ArithmeticOverflow))"

text \<open>A signed 128-bit integer is an \<open>int\<close> whose range every operation checks.\<close>

type_synonym i128 = int

definition in_i128 :: "int \<Rightarrow> bool" where
  "in_i128 n \<longleftrightarrow> - (2 ^ 127) \<le> n \<and> n < 2 ^ 127"

definition add_i128 :: "i128 \<Rightarrow> i128 \<Rightarrow> fault + i128" where
  "add_i128 a b = (if in_i128 (a + b) then Inr (a + b) else Inl (Trap ArithmeticOverflow))"

definition sub_i128 :: "i128 \<Rightarrow> i128 \<Rightarrow> fault + i128" where
  "sub_i128 a b = (if in_i128 (a - b) then Inr (a - b) else Inl (Trap ArithmeticOverflow))"

lemma add_u64_eq_Inr [bindE_simps]:
  "add_u64 a b = Inr c \<longleftrightarrow> unat a + unat b < 2 ^ 64 \<and> c = a + b"
  by (auto simp: add_u64_def)

lemma add_u32_eq_Inr [bindE_simps]:
  "add_u32 a b = Inr c \<longleftrightarrow> unat a + unat b < 2 ^ 32 \<and> c = a + b"
  by (auto simp: add_u32_def)

lemma unat_add_u64: "add_u64 a b = Inr c \<Longrightarrow> unat c = unat a + unat b"
  by (auto simp: add_u64_def unat_word_ariths split: if_splits)

lemma unat_add_u32: "add_u32 a b = Inr c \<Longrightarrow> unat c = unat a + unat b"
  by (auto simp: add_u32_def unat_word_ariths split: if_splits)

lemma add_i128_eq_Inr [bindE_simps]: "add_i128 a b = Inr c \<longleftrightarrow> in_i128 (a + b) \<and> c = a + b"
  by (auto simp: add_i128_def)

lemma sub_i128_eq_Inr [bindE_simps]: "sub_i128 a b = Inr c \<longleftrightarrow> in_i128 (a - b) \<and> c = a - b"
  by (auto simp: sub_i128_def)

end
