(* ===== verification/Identifiers.thy ===== *)
theory Identifiers
  imports Soroban_Host
begin

text \<open>
  The ICS-24 identifier rules of the router, \<open>contracts/soroban/ibc-router/src/identifiers.rs\<close>:
  client types, counterparty client ids and port ids share one validator, whose three errors
  are tried in the order length, reserved prefix, character.
\<close>

definition MIN_LEN :: nat where
  "MIN_LEN = 4"

definition MAX_LEN :: nat where
  "MAX_LEN = 128"

definition CHANNEL_PREFIX :: bytes where
  "CHANNEL_PREFIX = asc ''channel-''"

definition CLIENT_PREFIX :: bytes where
  "CLIENT_PREFIX = asc ''client-''"

definition has_prefix :: "bytes \<Rightarrow> bytes \<Rightarrow> bool" where
  "has_prefix bz prefix \<longleftrightarrow> length prefix \<le> length bz \<and> take (length prefix) bz = prefix"

text \<open>\<open>a-z A-Z 0-9 . _ + - # [ ] < >\<close>\<close>

definition is_allowed_char :: "u8 \<Rightarrow> bool" where
  "is_allowed_char c \<longleftrightarrow>
     (97 \<le> c \<and> c \<le> 122) \<or> (65 \<le> c \<and> c \<le> 90) \<or> (48 \<le> c \<and> c \<le> 57)
     \<or> c \<in> set [46, 95, 43, 45, 35, 91, 93, 60, 62]"

definition validate_custom_identifier :: "bytes \<Rightarrow> fault + unit" where
  "validate_custom_identifier s =
     bindE (ensure (MIN_LEN \<le> length s \<and> length s \<le> MAX_LEN) (RouterFault InvalidIdentifierLength)) (\<lambda>_.
     bindE (ensure (\<not> (has_prefix s CHANNEL_PREFIX \<or> has_prefix s CLIENT_PREFIX))
              (RouterFault InvalidIdentifierPrefix)) (\<lambda>_.
     foldE (\<lambda>c _. ensure (is_allowed_char c) (RouterFault InvalidIdentifierChar)) s ()))"

definition validate_client_type :: "bytes \<Rightarrow> fault + unit" where
  "validate_client_type s = validate_custom_identifier s"

definition validate_counterparty_client_id :: "bytes \<Rightarrow> fault + unit" where
  "validate_counterparty_client_id s = validate_custom_identifier s"

definition validate_port_id :: "bytes \<Rightarrow> fault + unit" where
  "validate_port_id s = validate_custom_identifier s"

lemmas validate_defs =
  validate_client_type_def validate_counterparty_client_id_def validate_port_id_def

section \<open>What the validator accepts\<close>

lemma char_loop:
  "foldE (\<lambda>c _. ensure (P c) e) s () = (if \<forall>c \<in> set s. P c then Inr () else Inl e)"
  by (induction s) (auto simp: ensure_def)

lemma has_prefix_iff: "has_prefix s p \<longleftrightarrow> (\<exists>t. s = p @ t)"
  unfolding has_prefix_def
  by (metis append_take_drop_id append_eq_conv_conj length_append le_add1)

text \<open>The bytes an accepted identifier can hold are printable, so none is a path discriminator.\<close>

lemma allowed_char_ge: "is_allowed_char c \<Longrightarrow> 35 \<le> c"
  by (auto simp: is_allowed_char_def intro: order_trans [rotated])

lemma validate_custom_identifier_cases:
  "validate_custom_identifier s =
     (if length s < 4 \<or> 128 < length s then Inl (RouterFault InvalidIdentifierLength)
      else if (\<exists>t. s = asc ''channel-'' @ t) \<or> (\<exists>t. s = asc ''client-'' @ t)
        then Inl (RouterFault InvalidIdentifierPrefix)
      else if \<exists>c \<in> set s. \<not> is_allowed_char c then Inl (RouterFault InvalidIdentifierChar)
      else Inr ())"
  by (auto simp: validate_custom_identifier_def char_loop has_prefix_iff MIN_LEN_def MAX_LEN_def
        CHANNEL_PREFIX_def CLIENT_PREFIX_def)

lemma validate_custom_identifier_ok:
  "validate_custom_identifier s = Inr u \<longleftrightarrow>
     4 \<le> length s \<and> length s \<le> 128
     \<and> (\<forall>t. s \<noteq> asc ''channel-'' @ t) \<and> (\<forall>t. s \<noteq> asc ''client-'' @ t)
     \<and> (\<forall>c \<in> set s. is_allowed_char c)"
  by (auto simp: validate_custom_identifier_cases)

end
