(* ===== verification/Sample_Values.thy ===== *)
theory Sample_Values
  imports Soroban_Host
begin

text \<open>
  Concrete values for the parameters of the model, used only where a theorem with hypotheses is
  applied to an input: a 32-byte digest that has no collision on the strings it is applied to
  there, and an environment. The theorems themselves hold for every digest function with the
  stated properties.
\<close>

definition sample_sha :: "bytes \<Rightarrow> bytes" where
  "sample_sha bs =
     take 16 (bs @ replicate 16 0) @ take 15 (rev bs @ replicate 15 0) @ [of_nat (length bs)]"

lemma length_sample_sha [simp]: "length (sample_sha x) = 32"
  by (simp add: sample_sha_def)

text \<open>Collision freedom on a finite list, in a form the kernel evaluates.\<close>

lemma inj_on_distinct: "distinct (map f (remdups xs)) \<Longrightarrow> inj_on f (set xs)"
  by (metis distinct_map set_remdups)

definition sample_env :: env where
  "sample_env = \<lparr>ledger_timestamp = 100, auths = [1], invoker = None, current_contract = 2\<rparr>"

end
