(* ===== verification/Ics24_Host.thy ===== *)
theory Ics24_Host
  imports Identifiers Sample_Values
begin

text \<open>
  The packet types of \<open>contracts/soroban/ibc-router/src/types.rs\<close> and the ICS-24 host functions of
  \<open>src/ics24_host.rs\<close>: the provable path of a commitment, receipt or acknowledgement, and the
  commitments themselves. The host's SHA-256 is the parameter \<open>sha\<close>; what a theorem relies on
  (32-byte digests, no collision among the strings at hand) is a hypothesis of that theorem.
  The fixed stack buffers of the source make the functions partial: an identifier that does not
  fit traps.
\<close>

section \<open>Packets\<close>

record counterparty =
  cp_client_id :: bytes
  cp_commitment_prefix :: "bytes list"

record payload =
  pl_source_port :: bytes
  pl_dest_port :: bytes
  pl_version :: bytes
  pl_encoding :: bytes
  pl_value :: bytes

record packet =
  pk_sequence :: u64
  pk_source_client :: bytes
  pk_dest_client :: bytes
  pk_timeout_timestamp :: u64
  pk_payloads :: "payload list"

record recv_callback =
  rc_source_client :: bytes
  rc_dest_client :: bytes
  rc_sequence :: u64
  rc_payload :: payload

record ack_callback =
  ac_source_client :: bytes
  ac_dest_client :: bytes
  ac_sequence :: u64
  ac_payload :: payload
  ac_acknowledgement :: bytes

record timeout_callback =
  tc_source_client :: bytes
  tc_dest_client :: bytes
  tc_sequence :: u64
  tc_payload :: payload

section \<open>Paths\<close>

definition PACKET_COMMITMENT_DISCRIMINATOR :: u8 where
  "PACKET_COMMITMENT_DISCRIMINATOR = 0x01"

definition PACKET_RECEIPT_DISCRIMINATOR :: u8 where
  "PACKET_RECEIPT_DISCRIMINATOR = 0x02"

definition ACK_COMMITMENT_DISCRIMINATOR :: u8 where
  "ACK_COMMITMENT_DISCRIMINATOR = 0x03"

definition RECEIPT_SENTINEL :: u8 where
  "RECEIPT_SENTINEL = 0x01"

definition COMMITMENT_VERSION_PREFIX :: u8 where
  "COMMITMENT_VERSION_PREFIX = 0x02"

definition PROVABLE_TTL_THRESHOLD :: u32 where
  "PROVABLE_TTL_THRESHOLD = 17280"

definition PROVABLE_TTL_EXTEND_TO :: u32 where
  "PROVABLE_TTL_EXTEND_TO = 86400"

definition ERROR_ACK_PREIMAGE :: bytes where
  "ERROR_ACK_PREIMAGE = asc ''UNIVERSAL_ERROR_ACKNOWLEDGEMENT''"

lemmas discriminator_defs =
  PACKET_COMMITMENT_DISCRIMINATOR_def PACKET_RECEIPT_DISCRIMINATOR_def ACK_COMMITMENT_DISCRIMINATOR_def

lemma discriminators_distinct [simp]:
  "PACKET_COMMITMENT_DISCRIMINATOR \<noteq> PACKET_RECEIPT_DISCRIMINATOR"
  "PACKET_COMMITMENT_DISCRIMINATOR \<noteq> ACK_COMMITMENT_DISCRIMINATOR"
  "PACKET_RECEIPT_DISCRIMINATOR \<noteq> ACK_COMMITMENT_DISCRIMINATOR"
  "PACKET_RECEIPT_DISCRIMINATOR \<noteq> PACKET_COMMITMENT_DISCRIMINATOR"
  "ACK_COMMITMENT_DISCRIMINATOR \<noteq> PACKET_COMMITMENT_DISCRIMINATOR"
  "ACK_COMMITMENT_DISCRIMINATOR \<noteq> PACKET_RECEIPT_DISCRIMINATOR"
  by (simp_all add: discriminator_defs)

text \<open>The 128-byte buffer holds the identifier, the discriminator and eight sequence bytes.\<close>

definition v2_path_key :: "bytes \<Rightarrow> u8 \<Rightarrow> u64 \<Rightarrow> fault + bytes" where
  "v2_path_key client_id discriminator sequence =
     bindE (ensure (length client_id + 9 \<le> 128) (Trap SliceOutOfBounds)) (\<lambda>_.
     Inr (client_id @ [discriminator] @ to_be_bytes sequence))"

definition packet_commitment_path :: "bytes \<Rightarrow> u64 \<Rightarrow> fault + bytes" where
  "packet_commitment_path source_client_id sequence =
     v2_path_key source_client_id PACKET_COMMITMENT_DISCRIMINATOR sequence"

definition packet_receipt_path :: "bytes \<Rightarrow> u64 \<Rightarrow> fault + bytes" where
  "packet_receipt_path dest_client_id sequence =
     v2_path_key dest_client_id PACKET_RECEIPT_DISCRIMINATOR sequence"

definition ack_commitment_path :: "bytes \<Rightarrow> u64 \<Rightarrow> fault + bytes" where
  "ack_commitment_path dest_client_id sequence =
     v2_path_key dest_client_id ACK_COMMITMENT_DISCRIMINATOR sequence"

section \<open>Commitments\<close>

definition sha256_bytes :: "(bytes \<Rightarrow> bytes) \<Rightarrow> bytes \<Rightarrow> bytes" where
  "sha256_bytes sha data = sha data"

text \<open>A string is copied through a 256-byte buffer before it is hashed.\<close>

definition sha256_string :: "(bytes \<Rightarrow> bytes) \<Rightarrow> bytes \<Rightarrow> fault + bytes" where
  "sha256_string sha s =
     bindE (ensure (length s \<le> 256) (Trap SliceOutOfBounds)) (\<lambda>_. Inr (sha256_bytes sha s))"

definition error_ack_hash :: "(bytes \<Rightarrow> bytes) \<Rightarrow> bytes" where
  "error_ack_hash sha = sha256_bytes sha ERROR_ACK_PREIMAGE"

definition commit_payload :: "(bytes \<Rightarrow> bytes) \<Rightarrow> payload \<Rightarrow> fault + bytes" where
  "commit_payload sha payload =
     bindE (sha256_string sha (pl_source_port payload)) (\<lambda>h1.
     bindE (sha256_string sha (pl_dest_port payload)) (\<lambda>h2.
     bindE (sha256_string sha (pl_version payload)) (\<lambda>h3.
     bindE (sha256_string sha (pl_encoding payload)) (\<lambda>h4.
     Inr (sha256_bytes sha (h1 @ h2 @ h3 @ h4 @ sha256_bytes sha (pl_value payload)))))))"

definition commit_v2_packet :: "(bytes \<Rightarrow> bytes) \<Rightarrow> packet \<Rightarrow> fault + bytes" where
  "commit_v2_packet sha packet =
     bindE (mapE (commit_payload sha) (pk_payloads packet)) (\<lambda>payload_hashes.
     let payloads_concat = concat payload_hashes;
         timeout_bytes = to_be_bytes (pk_timeout_timestamp packet) in
     bindE (sha256_string sha (pk_dest_client packet)) (\<lambda>dest_hash.
     Inr (sha256_bytes sha
       ([COMMITMENT_VERSION_PREFIX] @ dest_hash @ sha256_bytes sha timeout_bytes
          @ sha256_bytes sha payloads_concat))))"

definition commit_v2_acknowledgement :: "(bytes \<Rightarrow> bytes) \<Rightarrow> bytes list \<Rightarrow> bytes" where
  "commit_v2_acknowledgement sha app_acks =
     sha256_bytes sha ([COMMITMENT_VERSION_PREFIX] @ concat (map (sha256_bytes sha) app_acks))"

section \<open>Distinct paths\<close>

lemma v2_path_key_eq_Inr [bindE_simps]:
  "v2_path_key c d n = Inr p \<longleftrightarrow> length c \<le> 119 \<and> p = c @ d # to_be_bytes n"
  by (auto simp: v2_path_key_def bindE_simps)

lemma v2_path_key_Inl:
  "v2_path_key c d n = Inl f \<longleftrightarrow> 119 < length c \<and> f = Trap SliceOutOfBounds"
  by (auto simp: v2_path_key_def bindE_simps)

lemma path_bytes_inj:
  "c @ d # to_be_bytes n = c' @ d' # to_be_bytes n' \<longleftrightarrow> c = c' \<and> d = d' \<and> n = n'"
proof -
  have "length (d # to_be_bytes n) = length (d' # to_be_bytes n')" by simp
  then show ?thesis by (auto simp: append_eq_same_length_suffix)
qed

lemma v2_path_key_inj:
  assumes "v2_path_key c d n = Inr p" and "v2_path_key c' d' n' = Inr p"
  shows "c = c' \<and> d = d' \<and> n = n'"
proof -
  from assms have "c @ d # to_be_bytes n = c' @ d' # to_be_bytes n'"
    by (simp add: bindE_simps)
  then show ?thesis by (simp only: path_bytes_inj)
qed

lemmas path_defs = packet_commitment_path_def packet_receipt_path_def ack_commitment_path_def

section \<open>Commitments bind what they commit to\<close>

text \<open>Every string hashed on the way to a payload's and to a packet's commitment.\<close>

definition payload_preimages :: "(bytes \<Rightarrow> bytes) \<Rightarrow> payload \<Rightarrow> bytes list" where
  "payload_preimages sha p =
     [pl_source_port p, pl_dest_port p, pl_version p, pl_encoding p, pl_value p,
      sha (pl_source_port p) @ sha (pl_dest_port p) @ sha (pl_version p) @ sha (pl_encoding p)
        @ sha (pl_value p)]"

definition payload_hash :: "(bytes \<Rightarrow> bytes) \<Rightarrow> payload \<Rightarrow> bytes" where
  "payload_hash sha p = sha (last (payload_preimages sha p))"

definition packet_preimages :: "(bytes \<Rightarrow> bytes) \<Rightarrow> packet \<Rightarrow> bytes list" where
  "packet_preimages sha p =
     (let payloads_concat = concat (map (payload_hash sha) (pk_payloads p));
          timeout_bytes = to_be_bytes (pk_timeout_timestamp p) in
      [pk_dest_client p, timeout_bytes, payloads_concat,
       [COMMITMENT_VERSION_PREFIX] @ sha (pk_dest_client p) @ sha timeout_bytes @ sha payloads_concat]
      @ concat (map (payload_preimages sha) (pk_payloads p)))"

lemma commit_payload_hash: "commit_payload sha p = Inr h \<Longrightarrow> h = payload_hash sha p"
  by (auto simp: commit_payload_def payload_hash_def payload_preimages_def sha256_string_def
        sha256_bytes_def bindE_simps)

lemma commit_payloads_hashes:
  "mapE (commit_payload sha) ps = Inr hs \<Longrightarrow> hs = map (payload_hash sha) ps"
  by (induction ps arbitrary: hs) (auto simp: bindE_simps dest: commit_payload_hash)

lemma commit_v2_packet_last:
  "commit_v2_packet sha p = Inr h \<Longrightarrow> h = sha (packet_preimages sha p ! 3)"
  by (auto simp: commit_v2_packet_def packet_preimages_def sha256_string_def sha256_bytes_def
        bindE_simps Let_def dest: commit_payloads_hashes)

lemma payload_preimages_length [simp]: "length (payload_preimages sha p) = 6"
  by (simp add: payload_preimages_def)

lemma payload_preimages_nonempty: "payload_preimages sha p \<noteq> []"
  by (simp add: payload_preimages_def)

lemma payload_hash_inj:
  assumes len: "\<And>x. length (sha x) = 32"
    and inj: "inj_on sha (set (payload_preimages sha p) \<union> set (payload_preimages sha q))"
    and eq: "payload_hash sha p = payload_hash sha q"
  shows "p = q"
proof -
  have cancel: "x = y" if "sha x = sha y" "x \<in> set (payload_preimages sha p)"
    "y \<in> set (payload_preimages sha q)" for x y
    using inj that by (meson UnI1 UnI2 inj_onD)
  have "last (payload_preimages sha p) = last (payload_preimages sha q)"
    by (rule cancel) (use eq in \<open>simp_all add: payload_hash_def payload_preimages_nonempty\<close>)
  then have "sha (pl_source_port p) = sha (pl_source_port q)"
    and "sha (pl_dest_port p) = sha (pl_dest_port q)"
    and "sha (pl_version p) = sha (pl_version q)"
    and "sha (pl_encoding p) = sha (pl_encoding q)"
    and "sha (pl_value p) = sha (pl_value q)"
    by (simp_all add: payload_preimages_def len)
  note fields = this [THEN cancel]
  show ?thesis
    by (rule payload.equality; (rule fields)?) (simp_all add: payload_preimages_def)
qed

lemma payload_hashes_inj:
  assumes len: "\<And>x. length (sha x) = 32"
    and inj: "inj_on sha (set (concat (map (payload_preimages sha) ps))
                \<union> set (concat (map (payload_preimages sha) qs)))"
    and eq: "map (payload_hash sha) ps = map (payload_hash sha) qs"
  shows "ps = qs"
  using inj eq
proof (induction ps arbitrary: qs)
  case Nil
  then show ?case by simp
next
  case (Cons p ps)
  then obtain q qs' where qs: "qs = q # qs'" and heads: "payload_hash sha p = payload_hash sha q"
    and tails: "map (payload_hash sha) ps = map (payload_hash sha) qs'"
    by (cases qs) auto
  have "p = q"
    by (rule payload_hash_inj [OF len _ heads])
       (use Cons.prems(1) in \<open>auto simp: qs intro: inj_on_subset\<close>)
  moreover have "ps = qs'"
    by (rule Cons.IH [OF _ tails])
       (use Cons.prems(1) in \<open>auto simp: qs intro: inj_on_subset\<close>)
  ultimately show ?case by (simp add: qs)
qed

lemma packet_preimages_set:
  "{pk_dest_client p, to_be_bytes (pk_timeout_timestamp p),
      concat (map (payload_hash sha) (pk_payloads p)), packet_preimages sha p ! 3}
     \<union> set (concat (map (payload_preimages sha) (pk_payloads p))) \<subseteq> set (packet_preimages sha p)"
  by (simp add: packet_preimages_def Let_def)

lemma packet_preimages_root:
  "packet_preimages sha p ! 3 =
     COMMITMENT_VERSION_PREFIX # sha (pk_dest_client p) @ sha (to_be_bytes (pk_timeout_timestamp p))
       @ sha (concat (map (payload_hash sha) (pk_payloads p)))"
  by (simp add: packet_preimages_def Let_def)

lemma payload_hash_blocks:
  "(\<And>x. length (sha x) = (32 :: nat)) \<Longrightarrow> \<forall>h \<in> set (map (payload_hash sha) ps). length h = 32"
  by (auto simp: payload_hash_def)

lemma packet_hash_inj:
  assumes len: "\<And>x. length (sha x) = 32"
    and inj: "inj_on sha (set (packet_preimages sha p) \<union> set (packet_preimages sha q))"
    and eq: "sha (packet_preimages sha p ! 3) = sha (packet_preimages sha q ! 3)"
  shows "pk_dest_client p = pk_dest_client q
    \<and> pk_timeout_timestamp p = pk_timeout_timestamp q \<and> pk_payloads p = pk_payloads q"
proof -
  have cancel: "x = y" if "sha x = sha y" "x \<in> set (packet_preimages sha p)"
    "y \<in> set (packet_preimages sha q)" for x y
    using inj that by (meson UnI1 UnI2 inj_onD)
  note mem = packet_preimages_set [of p sha] packet_preimages_set [of q sha]
  have "packet_preimages sha p ! 3 = packet_preimages sha q ! 3"
    by (rule cancel [OF eq]) (use mem in blast)+
  then have "sha (pk_dest_client p) = sha (pk_dest_client q)"
    and "sha (to_be_bytes (pk_timeout_timestamp p)) = sha (to_be_bytes (pk_timeout_timestamp q))"
    and "sha (concat (map (payload_hash sha) (pk_payloads p)))
           = sha (concat (map (payload_hash sha) (pk_payloads q)))"
    by (simp_all add: packet_preimages_root len)
  note fields = this [THEN cancel]
  have "concat (map (payload_hash sha) (pk_payloads p)) = concat (map (payload_hash sha) (pk_payloads q))"
    by (rule fields(3)) (use mem in blast)+
  then have "map (payload_hash sha) (pk_payloads p) = map (payload_hash sha) (pk_payloads q)"
    by (rule concat_blocks_inj [where n = 32]) (auto simp: payload_hash_def len)
  then have "pk_payloads p = pk_payloads q"
    by (rule payload_hashes_inj [OF len, rotated]) (rule inj_on_subset [OF inj], use mem in blast)
  moreover have "pk_dest_client p = pk_dest_client q"
    by (rule fields(1)) (use mem in blast)+
  moreover have "to_be_bytes (pk_timeout_timestamp p) = to_be_bytes (pk_timeout_timestamp q)"
    by (rule fields(2)) (use mem in blast)+
  ultimately show ?thesis by simp
qed

lemma ack_hash_inj:
  assumes len: "\<And>x. length (sha x) = 32"
    and inj: "inj_on sha ({[COMMITMENT_VERSION_PREFIX] @ concat (map sha as),
                [COMMITMENT_VERSION_PREFIX] @ concat (map sha bs)} \<union> set as \<union> set bs)"
    and eq: "commit_v2_acknowledgement sha as = commit_v2_acknowledgement sha bs"
  shows "as = bs"
proof -
  have "[COMMITMENT_VERSION_PREFIX] @ concat (map sha as) = [COMMITMENT_VERSION_PREFIX] @ concat (map sha bs)"
    by (rule inj_onD [OF inj]) (use eq in \<open>auto simp: commit_v2_acknowledgement_def sha256_bytes_def [abs_def]\<close>)
  then have "map sha as = map sha bs"
    using concat_blocks_inj [of "map sha as" "map sha bs" 32] by (simp add: len)
  then show "as = bs"
    by (rule map_inj_on) (rule inj_on_subset [OF inj], blast)
qed

definition sample_payload :: payload where
  "sample_payload = \<lparr>pl_source_port = asc ''transfer'', pl_dest_port = asc ''transfer'',
     pl_version = asc ''ics20-1'', pl_encoding = asc ''json'', pl_value = [1, 2, 3]\<rparr>"

definition sample_packet :: packet where
  "sample_packet = \<lparr>pk_sequence = 1, pk_source_client = asc ''08-wasm-0'',
     pk_dest_client = asc ''07-tendermint-0'', pk_timeout_timestamp = 1000,
     pk_payloads = [sample_payload]\<rparr>"

section \<open>Properties\<close>

text \<open>
  C9 (disjoint provable paths). A commitment, a receipt and an acknowledgement path never coincide,
  and each determines the client and the sequence it was built for: an entry stored under one of
  them is never overwritten, found or deleted through another.
\<close>

theorem provable_paths_disjoint:
  assumes "packet_commitment_path c n = Inr p" and "packet_receipt_path c' n' = Inr q"
    and "ack_commitment_path c'' n'' = Inr r"
  shows "distinct [p, q, r]
    \<and> (\<forall>d m. packet_commitment_path d m = Inr p \<longrightarrow> d = c \<and> m = n)
    \<and> (\<forall>d m. packet_receipt_path d m = Inr q \<longrightarrow> d = c' \<and> m = n')
    \<and> (\<forall>d m. ack_commitment_path d m = Inr r \<longrightarrow> d = c'' \<and> m = n'')"
  using assms by (auto simp: path_defs discriminator_defs v2_path_key_eq_Inr path_bytes_inj)

theorem provable_paths_disjoint_witness:
  "distinct [asc ''07-tendermint-0'' @ 1 # to_be_bytes 5, asc ''07-tendermint-0'' @ 2 # to_be_bytes 5,
             asc ''07-tendermint-0'' @ 3 # to_be_bytes 5]"
  using provable_paths_disjoint [of "asc ''07-tendermint-0''" 5 "asc ''07-tendermint-0'' @ 1 # to_be_bytes 5"
      "asc ''07-tendermint-0''" 5 "asc ''07-tendermint-0'' @ 2 # to_be_bytes 5"
      "asc ''07-tendermint-0''" 5 "asc ''07-tendermint-0'' @ 3 # to_be_bytes 5"]
  by (simp add: path_defs discriminator_defs v2_path_key_eq_Inr)

text \<open>
  C10 (packet commitments bind). Two packets with the same commitment have the same destination
  client, timeout and payloads, in order, unless SHA-256 collides on one of the strings hashed
  on the way. (The sequence and the source client are bound by the path the commitment is
  stored under, not by the commitment.)
\<close>

theorem commit_v2_packet_binding:
  assumes "\<And>x. length (sha x) = 32"
    and "inj_on sha (set (packet_preimages sha p) \<union> set (packet_preimages sha q))"
    and "commit_v2_packet sha p = Inr h" and "commit_v2_packet sha q = Inr h"
  shows "pk_dest_client p = pk_dest_client q
    \<and> pk_timeout_timestamp p = pk_timeout_timestamp q \<and> pk_payloads p = pk_payloads q"
  by (rule packet_hash_inj [OF assms(1, 2)]) (use assms(3, 4) commit_v2_packet_last in metis)

lemma sample_packet_collision_free:
  "inj_on sample_sha (set (packet_preimages sample_sha sample_packet))"
  by (rule inj_on_distinct) code_simp

lemma sample_packet_resequenced:
  "packet_preimages sha (sample_packet\<lparr>pk_sequence := n\<rparr>) = packet_preimages sha sample_packet"
  by (simp add: packet_preimages_def)

lemma sample_packet_commits:
  "\<exists>h. commit_v2_packet sha sample_packet = Inr h
     \<and> commit_v2_packet sha (sample_packet\<lparr>pk_sequence := n\<rparr>) = Inr h"
  by (simp add: commit_v2_packet_def sample_packet_def sample_payload_def commit_payload_def
      sha256_string_def Let_def)

theorem commit_v2_packet_binding_witness:
  "pk_payloads (sample_packet\<lparr>pk_sequence := 9\<rparr>) = pk_payloads sample_packet"
proof -
  obtain h where "commit_v2_packet sample_sha (sample_packet\<lparr>pk_sequence := 9\<rparr>) = Inr h"
    and "commit_v2_packet sample_sha sample_packet = Inr h"
    using sample_packet_commits by blast
  from commit_v2_packet_binding [OF length_sample_sha _ this] show ?thesis
    using sample_packet_collision_free by (simp add: sample_packet_resequenced)
qed

text \<open>
  Acknowledgement commitments bind. Two lists of application acknowledgements with the same
  commitment are the same list, unless SHA-256 collides on one of the strings hashed.
\<close>

lemma commit_v2_acknowledgement_binding:
  assumes "\<And>x. length (sha x) = 32"
    and "inj_on sha ({[COMMITMENT_VERSION_PREFIX] @ concat (map sha as),
           [COMMITMENT_VERSION_PREFIX] @ concat (map sha bs)} \<union> set as \<union> set bs)"
    and "commit_v2_acknowledgement sha as = commit_v2_acknowledgement sha bs"
  shows "as = bs"
  by (rule ack_hash_inj [OF assms])

lemma sample_acks_collision_free:
  "inj_on sample_sha ({[COMMITMENT_VERSION_PREFIX] @ concat (map sample_sha [[1], [2]]),
     [COMMITMENT_VERSION_PREFIX] @ concat (map sample_sha [[1], [2]])} \<union> set [[1], [2]] \<union> set [[1], [2]])"
  using inj_on_distinct [of sample_sha
    "[[COMMITMENT_VERSION_PREFIX] @ concat (map sample_sha [[1], [2]]), [1], [2]]"]
  by (simp add: insert_commute) code_simp

lemma commit_v2_acknowledgement_binding_witness: "[[1], [2]] = [[1], [2 :: u8]]"
  by (rule commit_v2_acknowledgement_binding [OF length_sample_sha sample_acks_collision_free refl])

end
