(* ===== verification/Router_State.thy ===== *)
theory Router_State
  imports Ics24_Host
begin

text \<open>
  The state of the IBC router contract: its typed storage (\<open>DataKey\<close> of
  \<open>contracts/soroban/ibc-router/src/types.rs\<close>, one field per key), the provable entries stored under
  raw byte paths, the log of time-to-live extensions and the events of \<open>src/events.rs\<close>; and the
  contracts the router invokes. A Soroban contract cannot be re-entered, so a contract the router
  invokes changes only state outside the router: the type variable \<open>'x\<close>. The record
  \<open>callees\<close> gives what the invoked entry points do; it is an argument of every operation that
  makes such a call.
\<close>

section \<open>Events\<close>

datatype router_event =
    SendPacket bytes u64 packet
  | RecvPacket bytes u64 packet
  | WriteAck bytes u64 "bytes list"
  | AckPacket bytes u64 packet "bytes list"
  | TimeoutPacket bytes u64 packet

section \<open>Storage\<close>

record router_state =
  r_admin :: "address option"
  r_next_client_id :: "bytes \<rightharpoonup> u32"
  r_client_type_addr :: "bytes \<rightharpoonup> address"
  r_client_type :: "bytes \<rightharpoonup> bytes"
  r_client_lc_addr :: "bytes \<rightharpoonup> address"
  r_counterparty :: "bytes \<rightharpoonup> counterparty"
  r_frozen :: "bytes \<rightharpoonup> bool"
  r_port :: "bytes \<rightharpoonup> address"
  r_next_seq_send :: "bytes \<rightharpoonup> u64"
  r_store :: "bytes \<rightharpoonup> bytes"
  r_ttl :: "(bytes \<times> u32 \<times> u32) list"
  r_events :: "router_event list"

definition empty_router :: router_state where
  "empty_router = \<lparr>r_admin = None, r_next_client_id = Map.empty, r_client_type_addr = Map.empty,
     r_client_type = Map.empty, r_client_lc_addr = Map.empty, r_counterparty = Map.empty,
     r_frozen = Map.empty, r_port = Map.empty, r_next_seq_send = Map.empty, r_store = Map.empty,
     r_ttl = [], r_events = []\<rparr>"

definition publish :: "router_event \<Rightarrow> router_state \<Rightarrow> router_state" where
  "publish ev s = s\<lparr>r_events := r_events s @ [ev]\<rparr>"

lemma publish_simps [simp]:
  "r_admin (publish ev s) = r_admin s" "r_next_client_id (publish ev s) = r_next_client_id s"
  "r_client_type_addr (publish ev s) = r_client_type_addr s"
  "r_client_type (publish ev s) = r_client_type s"
  "r_client_lc_addr (publish ev s) = r_client_lc_addr s"
  "r_counterparty (publish ev s) = r_counterparty s" "r_frozen (publish ev s) = r_frozen s"
  "r_port (publish ev s) = r_port s" "r_next_seq_send (publish ev s) = r_next_seq_send s"
  "r_store (publish ev s) = r_store s" "r_ttl (publish ev s) = r_ttl s"
  "r_events (publish ev s) = r_events s @ [ev]"
  by (simp_all add: publish_def)

section \<open>The contracts the router invokes\<close>

text \<open>
  Each field is the entry point of that name at the given address, run in the environment the
  host gives it; the first seven belong to a light client, the last three to an application.
\<close>

record 'x callees =
  lc_initialise :: "env \<Rightarrow> address \<Rightarrow> bytes \<Rightarrow> bytes \<Rightarrow> bytes \<Rightarrow> u64 \<Rightarrow> 'x \<Rightarrow> fault + (unit \<times> 'x)"
  lc_check_for_misbehaviour :: "env \<Rightarrow> address \<Rightarrow> bytes \<Rightarrow> bytes \<Rightarrow> 'x \<Rightarrow> fault + (bool \<times> 'x)"
  lc_update_state_on_misbehaviour :: "env \<Rightarrow> address \<Rightarrow> bytes \<Rightarrow> bytes \<Rightarrow> 'x \<Rightarrow> fault + (unit \<times> 'x)"
  lc_update_state :: "env \<Rightarrow> address \<Rightarrow> bytes \<Rightarrow> bytes \<Rightarrow> 'x \<Rightarrow> fault + (u64 \<times> 'x)"
  lc_verify_membership ::
    "env \<Rightarrow> address \<Rightarrow> bytes \<Rightarrow> u64 \<Rightarrow> bytes \<Rightarrow> bytes \<Rightarrow> bytes \<Rightarrow> 'x \<Rightarrow> fault + (bool \<times> 'x)"
  lc_verify_non_membership ::
    "env \<Rightarrow> address \<Rightarrow> bytes \<Rightarrow> u64 \<Rightarrow> bytes \<Rightarrow> bytes \<Rightarrow> 'x \<Rightarrow> fault + (bool \<times> 'x)"
  lc_get_timestamp_at_height :: "env \<Rightarrow> address \<Rightarrow> bytes \<Rightarrow> u64 \<Rightarrow> 'x \<Rightarrow> fault + (u64 \<times> 'x)"
  app_on_recv_packet :: "env \<Rightarrow> address \<Rightarrow> recv_callback \<Rightarrow> 'x \<Rightarrow> fault + (bytes \<times> 'x)"
  app_on_acknowledgement_packet :: "env \<Rightarrow> address \<Rightarrow> ack_callback \<Rightarrow> 'x \<Rightarrow> fault + (unit \<times> 'x)"
  app_on_timeout_packet :: "env \<Rightarrow> address \<Rightarrow> timeout_callback \<Rightarrow> 'x \<Rightarrow> fault + (unit \<times> 'x)"

end
