(* ===== verification/Ibc_Store.thy ===== *)
theory Ibc_Store
  imports Router_State
begin

text \<open>
  The provable store of the router, \<open>contracts/soroban/ibc-router/src/ibc_store.rs\<close>: packet commitments,
  packet receipts and acknowledgement commitments kept as persistent entries under their ICS-24
  paths. The locale \<open>entry_view\<close> is the contract the packet handler relies on; it is interpreted
  for each of the three kinds of entry.
\<close>

section \<open>Operations\<close>

text \<open>\<open>storage.set(&key, value); storage.extend_ttl(&key, THRESHOLD, EXTEND_TO)\<close>\<close>

definition set_provable :: "bytes \<Rightarrow> bytes \<Rightarrow> router_state \<Rightarrow> router_state" where
  "set_provable key v s =
     s\<lparr>r_store := (r_store s)(key \<mapsto> v),
       r_ttl := r_ttl s @ [(key, PROVABLE_TTL_THRESHOLD, PROVABLE_TTL_EXTEND_TO)]\<rparr>"

text \<open>\<open>storage.get::<_, BytesN<32>>(&key)\<close>: an entry of another length fails to convert.\<close>

definition get_bytes32 :: "bytes \<Rightarrow> router_state \<Rightarrow> fault + bytes option" where
  "get_bytes32 key s =
     (case r_store s key of
        None \<Rightarrow> Inr None
      | Some v \<Rightarrow> if length v = 32 then Inr (Some v) else Inl (Trap ConversionFailed))"

definition set_packet_commitment :: "bytes \<Rightarrow> u64 \<Rightarrow> bytes \<Rightarrow> router_state \<Rightarrow> fault + router_state" where
  "set_packet_commitment source_client_id sequence commitment s =
     bindE (packet_commitment_path source_client_id sequence) (\<lambda>key.
     Inr (set_provable key commitment s))"

definition packet_commitment :: "bytes \<Rightarrow> u64 \<Rightarrow> router_state \<Rightarrow> fault + bytes option" where
  "packet_commitment source_client_id sequence s =
     bindE (packet_commitment_path source_client_id sequence) (\<lambda>key. get_bytes32 key s)"

definition delete_packet_commitment :: "bytes \<Rightarrow> u64 \<Rightarrow> router_state \<Rightarrow> fault + router_state" where
  "delete_packet_commitment source_client_id sequence s =
     bindE (packet_commitment_path source_client_id sequence) (\<lambda>key.
     Inr (s\<lparr>r_store := (r_store s)(key := None)\<rparr>))"

definition set_packet_receipt :: "bytes \<Rightarrow> u64 \<Rightarrow> router_state \<Rightarrow> fault + router_state" where
  "set_packet_receipt dest_client_id sequence s =
     bindE (packet_receipt_path dest_client_id sequence) (\<lambda>key.
     Inr (set_provable key [RECEIPT_SENTINEL] s))"

definition has_packet_receipt :: "bytes \<Rightarrow> u64 \<Rightarrow> router_state \<Rightarrow> fault + bool" where
  "has_packet_receipt dest_client_id sequence s =
     bindE (packet_receipt_path dest_client_id sequence) (\<lambda>key. Inr (r_store s key \<noteq> None))"

definition set_ack_commitment :: "bytes \<Rightarrow> u64 \<Rightarrow> bytes \<Rightarrow> router_state \<Rightarrow> fault + router_state" where
  "set_ack_commitment dest_client_id sequence ack_hash s =
     bindE (ack_commitment_path dest_client_id sequence) (\<lambda>key.
     Inr (set_provable key ack_hash s))"

definition acknowledgement :: "bytes \<Rightarrow> u64 \<Rightarrow> router_state \<Rightarrow> fault + bytes option" where
  "acknowledgement dest_client_id sequence s =
     bindE (ack_commitment_path dest_client_id sequence) (\<lambda>key. get_bytes32 key s)"

section \<open>What the entries hold\<close>

text \<open>The entry of each kind for a client and a sequence, read off the store directly.\<close>

definition commitment_at :: "router_state \<Rightarrow> bytes \<Rightarrow> u64 \<Rightarrow> bytes option" where
  "commitment_at s c n = r_store s (c @ PACKET_COMMITMENT_DISCRIMINATOR # to_be_bytes n)"

definition receipt_at :: "router_state \<Rightarrow> bytes \<Rightarrow> u64 \<Rightarrow> bytes option" where
  "receipt_at s c n = r_store s (c @ PACKET_RECEIPT_DISCRIMINATOR # to_be_bytes n)"

definition ack_at :: "router_state \<Rightarrow> bytes \<Rightarrow> u64 \<Rightarrow> bytes option" where
  "ack_at s c n = r_store s (c @ ACK_COMMITMENT_DISCRIMINATOR # to_be_bytes n)"

lemmas view_defs = commitment_at_def receipt_at_def ack_at_def

lemma view_frame:
  assumes "r_store s' = r_store s"
  shows "commitment_at s' = commitment_at s" "receipt_at s' = receipt_at s" "ack_at s' = ack_at s"
  using assms by (simp_all add: view_defs fun_eq_iff)

lemma views_publish [simp]:
  "commitment_at (publish ev s) = commitment_at s" "receipt_at (publish ev s) = receipt_at s"
  "ack_at (publish ev s) = ack_at s"
  by (simp_all add: view_defs fun_eq_iff)

lemmas store_op_defs =
  set_packet_commitment_def packet_commitment_def delete_packet_commitment_def
  set_packet_receipt_def has_packet_receipt_def set_ack_commitment_def acknowledgement_def

text \<open>Everything but the store and the time-to-live log, which the store operations leave alone.\<close>

definition same_registry :: "router_state \<Rightarrow> router_state \<Rightarrow> bool" where
  "same_registry s s' \<longleftrightarrow>
     r_admin s' = r_admin s \<and> r_next_client_id s' = r_next_client_id s
     \<and> r_client_type_addr s' = r_client_type_addr s \<and> r_client_type s' = r_client_type s
     \<and> r_client_lc_addr s' = r_client_lc_addr s \<and> r_counterparty s' = r_counterparty s
     \<and> r_frozen s' = r_frozen s \<and> r_port s' = r_port s"

lemma same_registry_refl [simp]: "same_registry s s"
  by (simp add: same_registry_def)

lemma same_registry_publish [simp]: "same_registry s (publish ev t) = same_registry s t"
  by (simp add: same_registry_def)

lemma same_registry_trans: "same_registry s t \<Longrightarrow> same_registry t u \<Longrightarrow> same_registry s u"
  by (simp add: same_registry_def)

lemma set_provable_simps [simp]:
  "r_store (set_provable k v s) = (r_store s)(k \<mapsto> v)"
  "same_registry s (set_provable k v s)"
  "r_next_seq_send (set_provable k v s) = r_next_seq_send s"
  "r_events (set_provable k v s) = r_events s"
  by (simp_all add: set_provable_def same_registry_def)

lemma get_bytes32_eq_Inr:
  "get_bytes32 k s = Inr r \<longleftrightarrow> r = r_store s k \<and> (\<forall>v. r = Some v \<longrightarrow> length v = 32)"
  by (auto simp: get_bytes32_def split: option.splits if_splits)

section \<open>Effects of the operations\<close>

lemma set_packet_commitment_eq_Inr:
  "set_packet_commitment c n v s = Inr s' \<longleftrightarrow>
     length c \<le> 119 \<and> s' = set_provable (c @ PACKET_COMMITMENT_DISCRIMINATOR # to_be_bytes n) v s"
  by (auto simp: store_op_defs path_defs bindE_simps)

lemma set_packet_receipt_eq_Inr:
  "set_packet_receipt c n s = Inr s' \<longleftrightarrow> length c \<le> 119
     \<and> s' = set_provable (c @ PACKET_RECEIPT_DISCRIMINATOR # to_be_bytes n) [RECEIPT_SENTINEL] s"
  by (auto simp: store_op_defs path_defs bindE_simps)

lemma set_ack_commitment_eq_Inr:
  "set_ack_commitment c n v s = Inr s' \<longleftrightarrow>
     length c \<le> 119 \<and> s' = set_provable (c @ ACK_COMMITMENT_DISCRIMINATOR # to_be_bytes n) v s"
  by (auto simp: store_op_defs path_defs bindE_simps)

lemma packet_commitment_eq_Inr:
  "packet_commitment c n s = Inr r \<longleftrightarrow>
     length c \<le> 119 \<and> r = commitment_at s c n \<and> (\<forall>v. r = Some v \<longrightarrow> length v = 32)"
  by (auto simp: store_op_defs path_defs bindE_simps get_bytes32_eq_Inr view_defs)

lemma has_packet_receipt_eq_Inr:
  "has_packet_receipt c n s = Inr b \<longleftrightarrow> length c \<le> 119 \<and> b = (receipt_at s c n \<noteq> None)"
  by (auto simp: store_op_defs path_defs bindE_simps view_defs)

lemma acknowledgement_eq_Inr:
  "acknowledgement c n s = Inr r \<longleftrightarrow>
     length c \<le> 119 \<and> r = ack_at s c n \<and> (\<forall>v. r = Some v \<longrightarrow> length v = 32)"
  by (auto simp: store_op_defs path_defs bindE_simps get_bytes32_eq_Inr view_defs)

lemma delete_packet_commitment_eq_Inr:
  "delete_packet_commitment c n s = Inr s' \<longleftrightarrow> length c \<le> 119
     \<and> s' = s\<lparr>r_store := (r_store s)(c @ PACKET_COMMITMENT_DISCRIMINATOR # to_be_bytes n := None)\<rparr>"
  by (auto simp: store_op_defs path_defs bindE_simps)

lemmas store_eq_Inr =
  set_packet_commitment_eq_Inr set_packet_receipt_eq_Inr set_ack_commitment_eq_Inr
  packet_commitment_eq_Inr has_packet_receipt_eq_Inr acknowledgement_eq_Inr
  delete_packet_commitment_eq_Inr

text \<open>A write or a deletion under one path, seen through the three views.\<close>

lemma views_of_write:
  "commitment_at (set_provable (c @ d # to_be_bytes n) v s) =
     (if d = PACKET_COMMITMENT_DISCRIMINATOR then (commitment_at s)(c := (commitment_at s c)(n \<mapsto> v))
      else commitment_at s)"
  "receipt_at (set_provable (c @ d # to_be_bytes n) v s) =
     (if d = PACKET_RECEIPT_DISCRIMINATOR then (receipt_at s)(c := (receipt_at s c)(n \<mapsto> v))
      else receipt_at s)"
  "ack_at (set_provable (c @ d # to_be_bytes n) v s) =
     (if d = ACK_COMMITMENT_DISCRIMINATOR then (ack_at s)(c := (ack_at s c)(n \<mapsto> v)) else ack_at s)"
  by (auto simp: view_defs path_bytes_inj fun_eq_iff)

lemma views_of_delete:
  "commitment_at (s\<lparr>r_store := (r_store s)(c @ PACKET_COMMITMENT_DISCRIMINATOR # to_be_bytes n := None)\<rparr>) =
     (commitment_at s)(c := (commitment_at s c)(n := None))"
  "receipt_at (s\<lparr>r_store := (r_store s)(c @ PACKET_COMMITMENT_DISCRIMINATOR # to_be_bytes n := None)\<rparr>) = receipt_at s"
  "ack_at (s\<lparr>r_store := (r_store s)(c @ PACKET_COMMITMENT_DISCRIMINATOR # to_be_bytes n := None)\<rparr>) = ack_at s"
  by (auto simp: view_defs path_bytes_inj fun_eq_iff discriminator_defs)

section \<open>The contract of an entry kind\<close>

text \<open>
  A kind of entry promises that a write is found again under its client and sequence, leaves every
  other entry of the kind alone and succeeds exactly for the identifiers that fit the path buffer.
\<close>

locale entry_view =
  fixes put :: "bytes \<Rightarrow> u64 \<Rightarrow> bytes \<Rightarrow> router_state \<Rightarrow> fault + router_state"
    and look :: "router_state \<Rightarrow> bytes \<Rightarrow> u64 \<Rightarrow> bytes option"
    and stored :: "bytes \<Rightarrow> bytes"
  assumes put_fits: "length c \<le> 119 \<Longrightarrow> \<exists>s'. put c n v s = Inr s'"
    and put_same: "put c n v s = Inr s' \<Longrightarrow> look s' c n = Some (stored v)"
    and put_other: "put c n v s = Inr s' \<Longrightarrow> (d, m) \<noteq> (c, n) \<Longrightarrow> look s' d m = look s d m"
begin

text \<open>The writes of a list, in order.\<close>

definition put_all :: "(bytes \<times> u64 \<times> bytes) list \<Rightarrow> router_state \<Rightarrow> fault + router_state" where
  "put_all ws = foldE (\<lambda>(c, n, v). put c n v) ws"

lemma put_keeps_present:
  "put c n v s = Inr s' \<Longrightarrow> look s d m \<noteq> None \<Longrightarrow> look s' d m \<noteq> None"
  by (cases "(d, m) = (c, n)") (auto simp: put_same put_other)

lemma put_all_keeps_present:
  "put_all ws s = Inr s' \<Longrightarrow> look s d m \<noteq> None \<Longrightarrow> look s' d m \<noteq> None"
  by (induction ws arbitrary: s)
     (auto simp: put_all_def bindE_simps split: prod.splits dest: put_keeps_present)

lemma put_all_frame:
  "put_all ws s = Inr s' \<Longrightarrow> (\<forall>(c, n, v) \<in> set ws. (d, m) \<noteq> (c, n)) \<Longrightarrow> look s' d m = look s d m"
  by (induction ws arbitrary: s)
     (auto simp: put_all_def bindE_simps split: prod.splits dest: put_other)

lemma put_all_last:
  assumes "put_all (ws @ (c, n, v) # us) s = Inr s'" and "\<forall>(d, m, v) \<in> set us. (c, n) \<noteq> (d, m)"
  shows "look s' c n = Some (stored v)"
proof -
  from assms(1) obtain t u where "put c n v t = Inr u" and us: "put_all us u = Inr s'"
    by (auto simp: put_all_def foldE_append bindE_simps)
  moreover from put_all_frame [OF us assms(2)] have "look s' c n = look u c n" .
  ultimately show ?thesis by (simp add: put_same)
qed

end

interpretation commitments: entry_view set_packet_commitment commitment_at "\<lambda>v. v"
  by unfold_locales (auto simp: store_eq_Inr views_of_write)

interpretation receipts: entry_view "\<lambda>c n _. set_packet_receipt c n" receipt_at "\<lambda>_. [RECEIPT_SENTINEL]"
  by unfold_locales (auto simp: store_eq_Inr views_of_write)

interpretation acks: entry_view set_ack_commitment ack_at "\<lambda>v. v"
  by unfold_locales (auto simp: store_eq_Inr views_of_write)

end
