(* ===== verification/Ics02_Client.thy ===== *)
theory Ics02_Client
  imports Ibc_Store
begin

text \<open>
  The client registry of the router, \<open>contracts/soroban/ibc-router/src/ics02_client.rs\<close>: client types
  and their light-client contracts, client creation with minted identifiers, counterparties,
  client updates and freezing; and the port registry of \<open>src/port_router.rs\<close>.
\<close>

section \<open>Client identifiers\<close>

text \<open>The low-digit-first loop over the ten-byte scratch array.\<close>

function u32_digits :: "u32 \<Rightarrow> bytes" where
  "u32_digits n = (if n = 0 then [] else (48 + ucast (n mod 10)) # u32_digits (n div 10))"
  by auto

lemma unat_div_10: "unat (n div 10 :: u32) = unat n div 10"
  by (simp add: unat_div)

termination u32_digits
  by (relation "measure unat") (auto simp: unat_div_10 unat_gt_0 intro!: div_less_dividend)

declare u32_digits.simps [simp del]

text \<open>
  \<open>write_u32\<close> writes into a slice with \<open>room\<close> bytes left and returns what it wrote. Indexing past
  the scratch array or the slice traps.
\<close>

definition write_u32 :: "nat \<Rightarrow> u32 \<Rightarrow> fault + bytes" where
  "write_u32 room n =
     (if n = 0
      then bindE (ensure (0 < room) (Trap SliceOutOfBounds)) (\<lambda>_. Inr [48])
      else let tmp = u32_digits n in
           bindE (ensure (length tmp \<le> 10) (Trap SliceOutOfBounds)) (\<lambda>_.
           bindE (ensure (length tmp \<le> room) (Trap SliceOutOfBounds)) (\<lambda>_.
           Inr (rev tmp))))"

definition CLIENT_ID_BUF :: nat where
  "CLIENT_ID_BUF = 64"

definition mint_client_id :: "bytes \<Rightarrow> router_state \<Rightarrow> fault + (bytes \<times> router_state)" where
  "mint_client_id client_type s =
     (let n = (case r_next_client_id s client_type of None \<Rightarrow> 0 | Some n \<Rightarrow> n) in
      bindE (add_u32 n 1) (\<lambda>n1.
      let s1 = s\<lparr>r_next_client_id := (r_next_client_id s)(client_type \<mapsto> n1)\<rparr>;
          prefix_len = length client_type in
      bindE (ensure (prefix_len \<le> CLIENT_ID_BUF) (Trap SliceOutOfBounds)) (\<lambda>_.
      bindE (ensure (prefix_len < CLIENT_ID_BUF) (Trap SliceOutOfBounds)) (\<lambda>_.
      bindE (write_u32 (CLIENT_ID_BUF - (prefix_len + 1)) n) (\<lambda>digits.
      Inr (client_type @ [45] @ digits, s1))))))"

section \<open>Operations\<close>

definition register_client_type :: "env \<Rightarrow> bytes \<Rightarrow> address \<Rightarrow> router_state \<Rightarrow> fault + router_state" where
  "register_client_type e client_type lc_addr s =
     bindE (ok_or (RouterFault AdminNotSet) (r_admin s)) (\<lambda>admin.
     bindE (require_auth e admin) (\<lambda>_.
     bindE (validate_client_type client_type) (\<lambda>_.
     Inr (s\<lparr>r_client_type_addr := (r_client_type_addr s)(client_type \<mapsto> lc_addr)\<rparr>))))"

definition lc_address :: "bytes \<Rightarrow> router_state \<Rightarrow> address option" where
  "lc_address client_type s = r_client_type_addr s client_type"

definition create_client ::
  "'x callees \<Rightarrow> env \<Rightarrow> bytes \<Rightarrow> bytes \<Rightarrow> bytes \<Rightarrow> u64 \<Rightarrow> router_state \<Rightarrow> 'x
   \<Rightarrow> fault + (bytes \<times> router_state \<times> 'x)" where
  "create_client ce e client_type client_state consensus_state height s x =
     bindE (ok_or (RouterFault UnknownClientType) (r_client_type_addr s client_type)) (\<lambda>lc_addr.
     bindE (mint_client_id client_type s) (\<lambda>(client_id, s1).
     bindE (lc_initialise ce (invoke_env e lc_addr) lc_addr client_id client_state consensus_state height x)
       (\<lambda>(_, x1).
     Inr (client_id,
          s1\<lparr>r_client_type := (r_client_type s1)(client_id \<mapsto> client_type),
             r_client_lc_addr := (r_client_lc_addr s1)(client_id \<mapsto> lc_addr)\<rparr>,
          x1))))"

definition register_counterparty ::
  "bytes \<Rightarrow> bytes \<Rightarrow> bytes list \<Rightarrow> router_state \<Rightarrow> fault + router_state" where
  "register_counterparty client_id counterparty_client_id counterparty_commitment_prefix s =
     bindE (validate_counterparty_client_id counterparty_client_id) (\<lambda>_.
     bindE (ensure (r_client_type s client_id \<noteq> None) (RouterFault ClientIdNotFound)) (\<lambda>_.
     bindE (ensure (r_counterparty s client_id = None) (RouterFault CounterpartyAlreadyRegistered)) (\<lambda>_.
     let cp = \<lparr>cp_client_id = counterparty_client_id,
               cp_commitment_prefix = counterparty_commitment_prefix\<rparr> in
     Inr (s\<lparr>r_counterparty := (r_counterparty s)(client_id \<mapsto> cp)\<rparr>))))"

definition client_counterparty :: "bytes \<Rightarrow> router_state \<Rightarrow> counterparty option" where
  "client_counterparty client_id s = r_counterparty s client_id"

definition frozen :: "bytes \<Rightarrow> router_state \<Rightarrow> bool" where
  "frozen client_id s = (case r_frozen s client_id of None \<Rightarrow> False | Some b \<Rightarrow> b)"

definition client_lc_address :: "bytes \<Rightarrow> router_state \<Rightarrow> address option" where
  "client_lc_address client_id s = r_client_lc_addr s client_id"

definition update_client ::
  "'x callees \<Rightarrow> env \<Rightarrow> bytes \<Rightarrow> bytes \<Rightarrow> router_state \<Rightarrow> 'x \<Rightarrow> fault + (u64 \<times> router_state \<times> 'x)" where
  "update_client ce e client_id client_message s x =
     bindE (ensure (\<not> frozen client_id s) (RouterFault ClientFrozen)) (\<lambda>_.
     bindE (ok_or (RouterFault ClientIdNotFound) (r_client_lc_addr s client_id)) (\<lambda>lc_addr.
     bindE (lc_check_for_misbehaviour ce (invoke_env e lc_addr) lc_addr client_id client_message x)
       (\<lambda>(misbehaviour, x1).
     if misbehaviour
     then bindE (lc_update_state_on_misbehaviour ce (invoke_env e lc_addr) lc_addr client_id client_message x1)
            (\<lambda>(_, x2).
          Inr (0, s\<lparr>r_frozen := (r_frozen s)(client_id \<mapsto> True)\<rparr>, x2))
     else bindE (lc_update_state ce (invoke_env e lc_addr) lc_addr client_id client_message x1)
            (\<lambda>(height, x2). Inr (height, s, x2)))))"

definition register_port :: "env \<Rightarrow> bytes \<Rightarrow> address \<Rightarrow> router_state \<Rightarrow> fault + router_state" where
  "register_port e port_id app_address s =
     bindE (ok_or (RouterFault AdminNotSet) (r_admin s)) (\<lambda>admin.
     bindE (require_auth e admin) (\<lambda>_.
     bindE (validate_port_id port_id) (\<lambda>_.
     bindE (ensure (r_port s port_id = None) (RouterFault PortAlreadyRegistered)) (\<lambda>_.
     Inr (s\<lparr>r_port := (r_port s)(port_id \<mapsto> app_address)\<rparr>)))))"

definition port_app :: "bytes \<Rightarrow> router_state \<Rightarrow> address option" where
  "port_app port_id s = r_port s port_id"

lemmas registry_op_defs =
  register_client_type_def create_client_def register_counterparty_def update_client_def register_port_def

section \<open>Minted identifiers are decimal, bounded and fresh\<close>

lemma u32_digits_rev: "u32_digits n = digits_rev (unat n)"
proof (induction n rule: u32_digits.induct)
  case (1 n)
  show ?case
  proof (cases "n = 0")
    case False
    have "(ucast (n mod 10) :: u8) = of_nat (unat n mod 10)"
      by (rule word_unat_eq_iff [THEN iffD2])
         (simp add: unat_mod unat_of_nat take_bit_nat_eq_self unsigned_ucast_eq take_bit_word_eq_self)
    with False 1 show ?thesis
      by (subst u32_digits.simps, subst digits_rev.simps) (simp add: unat_div_10 unat_eq_zero)
  qed (simp add: u32_digits.simps digits_rev.simps)
qed

lemma length_decimal_u32: "length (decimal (unat (n :: u32))) \<le> 10"
proof -
  have "unat n < 2 ^ 32" using unsigned_less [of n] by simp
  then show ?thesis by (intro length_decimal) simp_all
qed

text \<open>The scratch array is always large enough, and the loop writes the decimal numeral.\<close>

lemma write_u32_decimal:
  "write_u32 room n =
     (if length (decimal (unat n)) \<le> room then Inr (decimal (unat n)) else Inl (Trap SliceOutOfBounds))"
proof (cases "n = 0")
  case True
  then show ?thesis by (auto simp: write_u32_def decimal_def ensure_def)
next
  case False
  then have "decimal (unat n) = rev (u32_digits n)"
    by (simp add: decimal_def u32_digits_rev unat_eq_zero)
  with length_decimal_u32 [of n] False show ?thesis
    by (simp add: write_u32_def Let_def ensure_def)
qed

definition minted_id :: "bytes \<Rightarrow> nat \<Rightarrow> bytes" where
  "minted_id client_type n = client_type @ 45 # decimal n"

lemma dash_not_digit: "45 \<notin> set (decimal n)"
  using decimal_digits [of 45 n] by (auto simp: is_digit_def word_le_nat_alt)

lemma minted_id_inj: "minted_id t m = minted_id t' n \<longleftrightarrow> t = t' \<and> m = n"
  using split_at_last_sep [of t 45 "decimal m" t' "decimal n"] dash_not_digit
  by (auto simp: minted_id_def)

definition next_id :: "router_state \<Rightarrow> bytes \<Rightarrow> nat" where
  "next_id s t = (case r_next_client_id s t of None \<Rightarrow> 0 | Some n \<Rightarrow> unat n)"

lemma mint_client_id_eq_Inr:
  "mint_client_id t s = Inr (c, s') \<longleftrightarrow>
     next_id s t + 1 < 2 ^ 32 \<and> length t + 1 + length (decimal (next_id s t)) \<le> 64
     \<and> c = minted_id t (next_id s t)
     \<and> s' = s\<lparr>r_next_client_id := (r_next_client_id s)(t \<mapsto> of_nat (next_id s t + 1))\<rparr>"
proof -
  have "length (decimal (next_id s t)) > 0" by simp
  then show ?thesis
    by (auto simp: mint_client_id_def Let_def bindE_simps write_u32_decimal CLIENT_ID_BUF_def
        next_id_def minted_id_def add.commute split: option.splits if_splits)
qed

end
