(* ===== verification/Packet_Handler.thy ===== *)
theory Packet_Handler
  imports Ics02_Client
begin

text \<open>
  The packet life cycle of the router, \<open>contracts/soroban/ibc-router/src/packet_handler.rs\<close>: sending,
  receiving, acknowledging and timing out packets, with the calls into light clients and
  applications. Each operation is followed by the lemma that lists the checks a successful call
  has passed and the state it leaves.
\<close>

section \<open>Paths at the counterparty\<close>

definition counterparty_v2_path :: "bytes list \<Rightarrow> bytes \<Rightarrow> u8 \<Rightarrow> u64 \<Rightarrow> fault + bytes" where
  "counterparty_v2_path prefix client_id discriminator sequence =
     bindE (ensure (length client_id + 9 \<le> 128) (Trap SliceOutOfBounds)) (\<lambda>_.
     Inr (concat prefix @ client_id @ [discriminator] @ to_be_bytes sequence))"

definition counterparty_packet_commitment_path :: "bytes list \<Rightarrow> bytes \<Rightarrow> u64 \<Rightarrow> fault + bytes" where
  "counterparty_packet_commitment_path prefix source_client_id sequence =
     counterparty_v2_path prefix source_client_id 0x01 sequence"

definition counterparty_packet_receipt_path :: "bytes list \<Rightarrow> bytes \<Rightarrow> u64 \<Rightarrow> fault + bytes" where
  "counterparty_packet_receipt_path prefix dest_client_id sequence =
     counterparty_v2_path prefix dest_client_id 0x02 sequence"

definition counterparty_ack_commitment_path :: "bytes list \<Rightarrow> bytes \<Rightarrow> u64 \<Rightarrow> fault + bytes" where
  "counterparty_ack_commitment_path prefix dest_client_id sequence =
     counterparty_v2_path prefix dest_client_id 0x03 sequence"

section \<open>Calls into light clients\<close>

definition verify_membership ::
  "'x callees \<Rightarrow> env \<Rightarrow> bytes \<Rightarrow> u64 \<Rightarrow> bytes \<Rightarrow> bytes \<Rightarrow> bytes \<Rightarrow> router_state \<Rightarrow> 'x \<Rightarrow> fault + 'x" where
  "verify_membership ce e client_id proof_height proof_bytes path val s x =
     bindE (ok_or (RouterFault ClientIdNotFound) (client_lc_address client_id s)) (\<lambda>lc_addr.
     bindE (lc_verify_membership ce (invoke_env e lc_addr) lc_addr client_id proof_height proof_bytes path val x)
       (\<lambda>(verified, x1).
     bindE (ensure verified (RouterFault MembershipVerificationFailed)) (\<lambda>_. Inr x1)))"

definition verify_non_membership ::
  "'x callees \<Rightarrow> env \<Rightarrow> bytes \<Rightarrow> u64 \<Rightarrow> bytes \<Rightarrow> bytes \<Rightarrow> router_state \<Rightarrow> 'x \<Rightarrow> fault + 'x" where
  "verify_non_membership ce e client_id proof_height proof_bytes path s x =
     bindE (ok_or (RouterFault ClientIdNotFound) (client_lc_address client_id s)) (\<lambda>lc_addr.
     bindE (lc_verify_non_membership ce (invoke_env e lc_addr) lc_addr client_id proof_height proof_bytes path x)
       (\<lambda>(verified, x1).
     bindE (ensure verified (RouterFault NonMembershipVerificationFailed)) (\<lambda>_. Inr x1)))"

section \<open>Callbacks into applications\<close>

definition recv_step ::
  "'x callees \<Rightarrow> env \<Rightarrow> packet \<Rightarrow> router_state \<Rightarrow> payload \<Rightarrow> bytes list \<times> 'x \<Rightarrow> fault + (bytes list \<times> 'x)" where
  "recv_step ce e packet s payload = (\<lambda>(acks, x).
     bindE (ok_or (RouterFault PortNotRegistered) (port_app (pl_dest_port payload) s)) (\<lambda>app.
     let cb = \<lparr>rc_source_client = pk_source_client packet, rc_dest_client = pk_dest_client packet,
               rc_sequence = pk_sequence packet, rc_payload = payload\<rparr> in
     bindE (app_on_recv_packet ce (invoke_env e app) app cb x) (\<lambda>(ack, x1).
     Inr (acks @ [ack], x1))))"

definition dispatch_recv_callbacks ::
  "(bytes \<Rightarrow> bytes) \<Rightarrow> 'x callees \<Rightarrow> env \<Rightarrow> packet \<Rightarrow> router_state \<Rightarrow> 'x \<Rightarrow> fault + (bytes list \<times> 'x)" where
  "dispatch_recv_callbacks sha ce e packet s x =
     bindE (foldE (recv_step ce e packet s) (pk_payloads packet) ([], x)) (\<lambda>(acks, x1).
     Inr (if acks = [] then [error_ack_hash sha] else acks, x1))"

definition ack_step ::
  "(bytes \<Rightarrow> bytes) \<Rightarrow> 'x callees \<Rightarrow> env \<Rightarrow> packet \<Rightarrow> bytes list \<Rightarrow> router_state \<Rightarrow> nat \<times> payload \<Rightarrow> 'x \<Rightarrow> fault + 'x" where
  "ack_step sha ce e packet acks s = (\<lambda>(i, payload) x.
     let ack = (if i < length acks then acks ! i else error_ack_hash sha) in
     bindE (ok_or (RouterFault PortNotRegistered) (port_app (pl_source_port payload) s)) (\<lambda>app.
     let cb = \<lparr>ac_source_client = pk_source_client packet, ac_dest_client = pk_dest_client packet,
               ac_sequence = pk_sequence packet, ac_payload = payload, ac_acknowledgement = ack\<rparr> in
     bindE (app_on_acknowledgement_packet ce (invoke_env e app) app cb x) (\<lambda>(_, x1). Inr x1)))"

definition dispatch_ack_callbacks ::
  "(bytes \<Rightarrow> bytes) \<Rightarrow> 'x callees \<Rightarrow> env \<Rightarrow> packet \<Rightarrow> bytes list \<Rightarrow> router_state \<Rightarrow> 'x \<Rightarrow> fault + 'x" where
  "dispatch_ack_callbacks sha ce e packet acks s =
     foldE (ack_step sha ce e packet acks s) (enumerate 0 (pk_payloads packet))"

definition timeout_step ::
  "'x callees \<Rightarrow> env \<Rightarrow> packet \<Rightarrow> router_state \<Rightarrow> payload \<Rightarrow> 'x \<Rightarrow> fault + 'x" where
  "timeout_step ce e packet s payload x =
     bindE (ok_or (RouterFault PortNotRegistered) (port_app (pl_source_port payload) s)) (\<lambda>app.
     let cb = \<lparr>tc_source_client = pk_source_client packet, tc_dest_client = pk_dest_client packet,
               tc_sequence = pk_sequence packet, tc_payload = payload\<rparr> in
     bindE (app_on_timeout_packet ce (invoke_env e app) app cb x) (\<lambda>(_, x1). Inr x1))"

definition dispatch_timeout_callbacks ::
  "'x callees \<Rightarrow> env \<Rightarrow> packet \<Rightarrow> router_state \<Rightarrow> 'x \<Rightarrow> fault + 'x" where
  "dispatch_timeout_callbacks ce e packet s = foldE (timeout_step ce e packet s) (pk_payloads packet)"

section \<open>Packet operations\<close>

definition send_packet ::
  "(bytes \<Rightarrow> bytes) \<Rightarrow> env \<Rightarrow> bytes \<Rightarrow> u64 \<Rightarrow> payload list \<Rightarrow> router_state \<Rightarrow> fault + (u64 \<times> router_state)" where
  "send_packet sha e source_client_id timeout_timestamp payloads s =
     bindE (ensure (payloads \<noteq> []) (RouterFault PayloadsEmpty)) (\<lambda>_.
     bindE (ok_or (RouterFault CounterpartyNotRegistered) (client_counterparty source_client_id s)) (\<lambda>cp.
     bindE (ensure (\<not> timeout_timestamp \<le> ledger_timestamp e) (RouterFault TimeoutAlreadyElapsed)) (\<lambda>_.
     bindE (foldE (\<lambda>payload _.
              bindE (ok_or (RouterFault PortNotRegistered) (port_app (pl_source_port payload) s))
                (require_auth e)) payloads ()) (\<lambda>_.
     bindE (add_u64 (case r_next_seq_send s source_client_id of None \<Rightarrow> 0 | Some n \<Rightarrow> n) 1) (\<lambda>next.
     let s1 = s\<lparr>r_next_seq_send := (r_next_seq_send s)(source_client_id \<mapsto> next)\<rparr>;
         packet = \<lparr>pk_sequence = next, pk_source_client = source_client_id,
                   pk_dest_client = cp_client_id cp, pk_timeout_timestamp = timeout_timestamp,
                   pk_payloads = payloads\<rparr> in
     bindE (commit_v2_packet sha packet) (\<lambda>hash.
     bindE (set_packet_commitment source_client_id next hash s1) (\<lambda>s2.
     Inr (next, publish (SendPacket source_client_id next packet) s2))))))))"

definition recv_packet ::
  "(bytes \<Rightarrow> bytes) \<Rightarrow> 'x callees \<Rightarrow> env \<Rightarrow> packet \<Rightarrow> bytes \<Rightarrow> u64 \<Rightarrow> router_state \<Rightarrow> 'x
   \<Rightarrow> fault + (router_state \<times> 'x)" where
  "recv_packet sha ce e packet proof_bytes proof_height s x =
     bindE (ok_or (RouterFault CounterpartyNotRegistered) (client_counterparty (pk_dest_client packet) s)) (\<lambda>cp.
     bindE (ensure (cp_client_id cp = pk_source_client packet) (RouterFault PacketCounterpartyMismatch)) (\<lambda>_.
     bindE (ensure (\<not> pk_timeout_timestamp packet \<le> ledger_timestamp e) (RouterFault TimeoutAlreadyElapsed)) (\<lambda>_.
     bindE (has_packet_receipt (pk_dest_client packet) (pk_sequence packet) s) (\<lambda>received.
     bindE (ensure (\<not> received) (RouterFault ReceiptAlreadyExists)) (\<lambda>_.
     bindE (commit_v2_packet sha packet) (\<lambda>expected_hash.
     bindE (counterparty_packet_commitment_path (cp_commitment_prefix cp) (pk_source_client packet)
              (pk_sequence packet)) (\<lambda>cp_path.
     bindE (verify_membership ce e (pk_dest_client packet) proof_height proof_bytes cp_path expected_hash s x) (\<lambda>x1.
     bindE (set_packet_receipt (pk_dest_client packet) (pk_sequence packet) s) (\<lambda>s1.
     bindE (dispatch_recv_callbacks sha ce e packet s1 x1) (\<lambda>(acks, x2).
     let ack_hash = commit_v2_acknowledgement sha acks in
     bindE (set_ack_commitment (pk_dest_client packet) (pk_sequence packet) ack_hash s1) (\<lambda>s2.
     let s3 = publish (RecvPacket (pk_dest_client packet) (pk_sequence packet) packet) s2;
         s4 = publish (WriteAck (pk_dest_client packet) (pk_sequence packet) acks) s3 in
     Inr (s4, x2))))))))))))"

definition write_acknowledgement ::
  "(bytes \<Rightarrow> bytes) \<Rightarrow> bytes \<Rightarrow> u64 \<Rightarrow> bytes list \<Rightarrow> router_state \<Rightarrow> fault + router_state" where
  "write_acknowledgement sha dest_client_id sequence acknowledgements s =
     bindE (has_packet_receipt dest_client_id sequence s) (\<lambda>received.
     bindE (ensure received (RouterFault NoReceiptForSequence)) (\<lambda>_.
     bindE (acknowledgement dest_client_id sequence s) (\<lambda>present.
     bindE (ensure (present = None) (RouterFault AckAlreadyExists)) (\<lambda>_.
     let ack_hash = commit_v2_acknowledgement sha acknowledgements in
     bindE (set_ack_commitment dest_client_id sequence ack_hash s) (\<lambda>s1.
     Inr (publish (WriteAck dest_client_id sequence acknowledgements) s1))))))"

text \<open>The checks acknowledging and timing out share: a stored commitment that matches, and the counterparty.\<close>

definition check_in_flight ::
  "(bytes \<Rightarrow> bytes) \<Rightarrow> packet \<Rightarrow> router_state \<Rightarrow> fault + counterparty" where
  "check_in_flight sha packet s =
     bindE (packet_commitment (pk_source_client packet) (pk_sequence packet) s) (\<lambda>entry.
     bindE (ok_or (RouterFault NoCommitmentForSequence) entry) (\<lambda>stored.
     bindE (commit_v2_packet sha packet) (\<lambda>expected_hash.
     bindE (ensure (stored = expected_hash) (RouterFault CommitmentMismatch)) (\<lambda>_.
     bindE (ok_or (RouterFault CounterpartyNotRegistered) (client_counterparty (pk_source_client packet) s)) (\<lambda>cp.
     bindE (ensure (cp_client_id cp = pk_dest_client packet) (RouterFault PacketCounterpartyMismatch)) (\<lambda>_.
     Inr cp))))))"

definition acknowledge_packet ::
  "(bytes \<Rightarrow> bytes) \<Rightarrow> 'x callees \<Rightarrow> env \<Rightarrow> packet \<Rightarrow> bytes list \<Rightarrow> bytes \<Rightarrow> u64 \<Rightarrow> router_state \<Rightarrow> 'x
   \<Rightarrow> fault + (router_state \<times> 'x)" where
  "acknowledge_packet sha ce e packet acknowledgements proof_bytes proof_height s x =
     bindE (check_in_flight sha packet s) (\<lambda>cp.
     let ack_hash = commit_v2_acknowledgement sha acknowledgements in
     bindE (counterparty_ack_commitment_path (cp_commitment_prefix cp) (pk_dest_client packet)
              (pk_sequence packet)) (\<lambda>cp_path.
     bindE (verify_membership ce e (pk_source_client packet) proof_height proof_bytes cp_path ack_hash s x) (\<lambda>x1.
     bindE (dispatch_ack_callbacks sha ce e packet acknowledgements s x1) (\<lambda>x2.
     bindE (delete_packet_commitment (pk_source_client packet) (pk_sequence packet) s) (\<lambda>s1.
     Inr (publish (AckPacket (pk_source_client packet) (pk_sequence packet) packet acknowledgements) s1, x2))))))"

definition timeout_packet ::
  "(bytes \<Rightarrow> bytes) \<Rightarrow> 'x callees \<Rightarrow> env \<Rightarrow> packet \<Rightarrow> bytes \<Rightarrow> u64 \<Rightarrow> router_state \<Rightarrow> 'x
   \<Rightarrow> fault + (router_state \<times> 'x)" where
  "timeout_packet sha ce e packet proof_bytes proof_height s x =
     bindE (check_in_flight sha packet s) (\<lambda>cp.
     bindE (ok_or (RouterFault ClientIdNotFound) (client_lc_address (pk_source_client packet) s)) (\<lambda>lc_addr.
     bindE (lc_get_timestamp_at_height ce (invoke_env e lc_addr) lc_addr (pk_source_client packet) proof_height x)
       (\<lambda>(proof_ts, x1).
     bindE (ensure (\<not> proof_ts \<le> pk_timeout_timestamp packet) (RouterFault TimeoutNotYetElapsed)) (\<lambda>_.
     bindE (counterparty_packet_receipt_path (cp_commitment_prefix cp) (pk_dest_client packet)
              (pk_sequence packet)) (\<lambda>cp_path.
     bindE (verify_non_membership ce e (pk_source_client packet) proof_height proof_bytes cp_path s x1) (\<lambda>x2.
     bindE (dispatch_timeout_callbacks ce e packet s x2) (\<lambda>x3.
     bindE (delete_packet_commitment (pk_source_client packet) (pk_sequence packet) s) (\<lambda>s1.
     Inr (publish (TimeoutPacket (pk_source_client packet) (pk_sequence packet) packet) s1, x3)))))))))"

section \<open>What a successful call has checked and done\<close>

definition last_seq :: "router_state \<Rightarrow> bytes \<Rightarrow> u64" where
  "last_seq s c = (case r_next_seq_send s c of None \<Rightarrow> 0 | Some n \<Rightarrow> n)"

definition sent_packet :: "bytes \<Rightarrow> u64 \<Rightarrow> counterparty \<Rightarrow> u64 \<Rightarrow> payload list \<Rightarrow> packet" where
  "sent_packet c n cp t ps = \<lparr>pk_sequence = n, pk_source_client = c, pk_dest_client = cp_client_id cp,
     pk_timeout_timestamp = t, pk_payloads = ps\<rparr>"

lemma foldE_guard_eq_Inr:
  "foldE (\<lambda>a _. f a) xs () = Inr u \<longleftrightarrow> (\<forall>a \<in> set xs. f a = Inr ())"
  by (induction xs) (auto simp: bindE_simps)

lemma sender_loop_ok:
  "foldE (\<lambda>payload _. bindE (ok_or er (port_app (pl_source_port payload) s)) (require_auth e)) ps () = Inr u
   \<longleftrightarrow> (\<forall>p \<in> set ps. \<exists>app. r_port s (pl_source_port p) = Some app
          \<and> (app \<in> set (auths e) \<or> invoker e = Some app))"
  unfolding foldE_guard_eq_Inr by (simp add: bindE_simps port_app_def)

lemma send_packet_eq_Inr:
  "send_packet sha e c t ps s = Inr (n, s') \<longleftrightarrow>
     (\<exists>cp h. ps \<noteq> [] \<and> r_counterparty s c = Some cp \<and> ledger_timestamp e < t
        \<and> (\<forall>p \<in> set ps. \<exists>app. r_port s (pl_source_port p) = Some app
              \<and> (app \<in> set (auths e) \<or> invoker e = Some app))
        \<and> unat (last_seq s c) + 1 < 2 ^ 64 \<and> n = last_seq s c + 1
        \<and> commit_v2_packet sha (sent_packet c n cp t ps) = Inr h \<and> length c \<le> 119
        \<and> s' = publish (SendPacket c n (sent_packet c n cp t ps))
                 (set_provable (c @ PACKET_COMMITMENT_DISCRIMINATOR # to_be_bytes n) h
                   (s\<lparr>r_next_seq_send := (r_next_seq_send s)(c \<mapsto> n)\<rparr>)))"
  by (auto simp: send_packet_def bindE_simps sender_loop_ok client_counterparty_def last_seq_def
      set_packet_commitment_eq_Inr sent_packet_def Let_def not_le)

lemma verify_membership_eq_Inr:
  "verify_membership ce e c h pf path v s x = Inr x' \<longleftrightarrow>
     (\<exists>lc. r_client_lc_addr s c = Some lc
        \<and> lc_verify_membership ce (invoke_env e lc) lc c h pf path v x = Inr (True, x'))"
  by (auto simp: verify_membership_def bindE_simps client_lc_address_def split: prod.splits)

lemma verify_non_membership_eq_Inr:
  "verify_non_membership ce e c h pf path s x = Inr x' \<longleftrightarrow>
     (\<exists>lc. r_client_lc_addr s c = Some lc
        \<and> lc_verify_non_membership ce (invoke_env e lc) lc c h pf path x = Inr (True, x'))"
  by (auto simp: verify_non_membership_def bindE_simps client_lc_address_def split: prod.splits)

lemma counterparty_v2_path_eq_Inr:
  "counterparty_v2_path pre c d n = Inr p \<longleftrightarrow> length c \<le> 119 \<and> p = concat pre @ c @ d # to_be_bytes n"
  by (auto simp: counterparty_v2_path_def bindE_simps)

lemmas counterparty_path_defs =
  counterparty_packet_commitment_path_def counterparty_packet_receipt_path_def
  counterparty_ack_commitment_path_def counterparty_v2_path_eq_Inr

text \<open>The state a received packet leaves.\<close>

definition received_state :: "(bytes \<Rightarrow> bytes) \<Rightarrow> packet \<Rightarrow> bytes list \<Rightarrow> router_state \<Rightarrow> router_state" where
  "received_state sha p acks s =
     (let c = pk_dest_client p; n = pk_sequence p in
      publish (WriteAck c n acks) (publish (RecvPacket c n p)
        (set_provable (c @ ACK_COMMITMENT_DISCRIMINATOR # to_be_bytes n) (commit_v2_acknowledgement sha acks)
          (set_provable (c @ PACKET_RECEIPT_DISCRIMINATOR # to_be_bytes n) [RECEIPT_SENTINEL] s))))"

lemma recv_packet_eq_Inr:
  "recv_packet sha ce e p pf h s x = Inr (s', x') \<longleftrightarrow>
     (\<exists>cp hash x1 s1 acks. r_counterparty s (pk_dest_client p) = Some cp
        \<and> cp_client_id cp = pk_source_client p \<and> ledger_timestamp e < pk_timeout_timestamp p
        \<and> length (pk_dest_client p) \<le> 119 \<and> length (pk_source_client p) \<le> 119
        \<and> receipt_at s (pk_dest_client p) (pk_sequence p) = None
        \<and> commit_v2_packet sha p = Inr hash
        \<and> verify_membership ce e (pk_dest_client p) h pf
            (concat (cp_commitment_prefix cp) @ pk_source_client p @ 1 # to_be_bytes (pk_sequence p)) hash s x = Inr x1
        \<and> set_packet_receipt (pk_dest_client p) (pk_sequence p) s = Inr s1
        \<and> dispatch_recv_callbacks sha ce e p s1 x1 = Inr (acks, x')
        \<and> s' = received_state sha p acks s)"
  by (auto simp: recv_packet_def bindE_simps client_counterparty_def has_packet_receipt_eq_Inr
      counterparty_path_defs set_packet_receipt_eq_Inr set_ack_commitment_eq_Inr received_state_def
      Let_def not_le split: prod.splits)

lemma write_acknowledgement_eq_Inr:
  "write_acknowledgement sha c n acks s = Inr s' \<longleftrightarrow>
     length c \<le> 119 \<and> receipt_at s c n \<noteq> None \<and> ack_at s c n = None
     \<and> s' = publish (WriteAck c n acks)
              (set_provable (c @ ACK_COMMITMENT_DISCRIMINATOR # to_be_bytes n) (commit_v2_acknowledgement sha acks) s)"
  by (auto simp: write_acknowledgement_def bindE_simps has_packet_receipt_eq_Inr acknowledgement_eq_Inr
      set_ack_commitment_eq_Inr Let_def)

lemma check_in_flight_eq_Inr:
  "check_in_flight sha p s = Inr cp \<longleftrightarrow>
     (\<exists>h. length (pk_source_client p) \<le> 119 \<and> length h = 32
        \<and> commitment_at s (pk_source_client p) (pk_sequence p) = Some h
        \<and> commit_v2_packet sha p = Inr h
        \<and> r_counterparty s (pk_source_client p) = Some cp \<and> cp_client_id cp = pk_dest_client p)"
  by (auto simp: check_in_flight_def bindE_simps packet_commitment_eq_Inr client_counterparty_def)

text \<open>The state a settled packet leaves.\<close>

definition settled_state :: "router_event \<Rightarrow> packet \<Rightarrow> router_state \<Rightarrow> router_state" where
  "settled_state ev p s =
     publish ev (s\<lparr>r_store := (r_store s)(pk_source_client p @ PACKET_COMMITMENT_DISCRIMINATOR
                                          # to_be_bytes (pk_sequence p) := None)\<rparr>)"

lemma acknowledge_packet_eq_Inr:
  "acknowledge_packet sha ce e p acks pf h s x = Inr (s', x') \<longleftrightarrow>
     (\<exists>cp x1. check_in_flight sha p s = Inr cp \<and> length (pk_dest_client p) \<le> 119
        \<and> verify_membership ce e (pk_source_client p) h pf
            (concat (cp_commitment_prefix cp) @ pk_dest_client p @ 3 # to_be_bytes (pk_sequence p))
            (commit_v2_acknowledgement sha acks) s x = Inr x1
        \<and> dispatch_ack_callbacks sha ce e p acks s x1 = Inr x'
        \<and> s' = settled_state (AckPacket (pk_source_client p) (pk_sequence p) p acks) p s)"
  by (auto simp: acknowledge_packet_def bindE_simps counterparty_path_defs check_in_flight_eq_Inr
      delete_packet_commitment_eq_Inr settled_state_def Let_def)

lemma timeout_packet_eq_Inr:
  "timeout_packet sha ce e p pf h s x = Inr (s', x') \<longleftrightarrow>
     (\<exists>cp lc ts x1 x2. check_in_flight sha p s = Inr cp \<and> length (pk_dest_client p) \<le> 119
        \<and> r_client_lc_addr s (pk_source_client p) = Some lc
        \<and> lc_get_timestamp_at_height ce (invoke_env e lc) lc (pk_source_client p) h x = Inr (ts, x1)
        \<and> pk_timeout_timestamp p < ts
        \<and> verify_non_membership ce e (pk_source_client p) h pf
            (concat (cp_commitment_prefix cp) @ pk_dest_client p @ 2 # to_be_bytes (pk_sequence p)) s x1 = Inr x2
        \<and> dispatch_timeout_callbacks ce e p s x2 = Inr x'
        \<and> s' = settled_state (TimeoutPacket (pk_source_client p) (pk_sequence p) p) p s)"
  by (auto simp: timeout_packet_def bindE_simps counterparty_path_defs check_in_flight_eq_Inr
      delete_packet_commitment_eq_Inr settled_state_def client_lc_address_def not_le split: prod.splits)

lemmas packet_eq_Inr =
  send_packet_eq_Inr recv_packet_eq_Inr write_acknowledgement_eq_Inr acknowledge_packet_eq_Inr
  timeout_packet_eq_Inr

text \<open>The three views of the state a packet operation leaves.\<close>

lemma received_views:
  "commitment_at (received_state sha p acks s) = commitment_at s"
  "receipt_at (received_state sha p acks s) =
     (receipt_at s)(pk_dest_client p := (receipt_at s (pk_dest_client p))(pk_sequence p \<mapsto> [RECEIPT_SENTINEL]))"
  "ack_at (received_state sha p acks s) =
     (ack_at s)(pk_dest_client p := (ack_at s (pk_dest_client p))
       (pk_sequence p \<mapsto> commit_v2_acknowledgement sha acks))"
  by (simp_all add: received_state_def Let_def views_of_write discriminator_defs)

lemma settled_views:
  "commitment_at (settled_state ev p s) =
     (commitment_at s)(pk_source_client p := (commitment_at s (pk_source_client p))(pk_sequence p := None))"
  "receipt_at (settled_state ev p s) = receipt_at s"
  "ack_at (settled_state ev p s) = ack_at s"
  by (simp_all add: settled_state_def views_of_delete)

lemma packet_state_frame [simp]:
  "same_registry s (received_state sha p acks s)" "same_registry s (settled_state ev p s)"
  "r_next_seq_send (received_state sha p acks s) = r_next_seq_send s"
  "r_next_seq_send (settled_state ev p s) = r_next_seq_send s"
  "r_events (settled_state ev p s) = r_events s @ [ev]"
  "r_events (received_state sha p acks s) = r_events s
     @ [RecvPacket (pk_dest_client p) (pk_sequence p) p, WriteAck (pk_dest_client p) (pk_sequence p) acks]"
  by (simp_all add: received_state_def settled_state_def Let_def set_provable_def same_registry_def)

end
