(* ===== verification/Router.thy ===== *)
theory Router
  imports Packet_Handler
begin

text \<open>
  The router contract as a whole, \<open>contracts/soroban/ibc-router/src/lib.rs\<close>: its constructor and entry
  points as one dispatch function over a datatype of calls, the step relation of a router that
  serves calls in any order, from anyone, between arbitrary activity of other contracts, and the
  invariants of its runs.
\<close>

section \<open>Entry points\<close>

datatype router_call =
    RegisterClientType bytes address
  | CreateClient bytes bytes bytes u64
  | RegisterCounterparty bytes bytes "bytes list"
  | UpdateClient bytes bytes
  | RegisterPort bytes address
  | SetPacketCommitment bytes u64 bytes
  | DeletePacketCommitment bytes u64
  | SetPacketReceipt bytes u64
  | SetAckCommitment bytes u64 bytes
  | DoSendPacket bytes u64 "payload list"
  | DoRecvPacket packet bytes u64
  | WriteAcknowledgement bytes u64 "bytes list"
  | AcknowledgePacket packet "bytes list" bytes u64
  | DoTimeoutPacket packet bytes u64

datatype router_ret = RetUnit | RetU64 u64 | RetString bytes

definition router_constructor :: "address \<Rightarrow> router_state" where
  "router_constructor admin = empty_router\<lparr>r_admin := Some admin\<rparr>"

definition ret_unit :: "'x \<Rightarrow> fault + router_state \<Rightarrow> fault + (router_ret \<times> router_state \<times> 'x)" where
  "ret_unit x m = bindE m (\<lambda>s. Inr (RetUnit, s, x))"

text \<open>An argument declared \<open>BytesN<32>\<close> is rejected by the host unless it has 32 bytes.\<close>

definition bytes32_arg :: "bytes \<Rightarrow> fault + unit" where
  "bytes32_arg b = ensure (length b = 32) (Trap ConversionFailed)"

fun router_exec ::
  "(bytes \<Rightarrow> bytes) \<Rightarrow> 'x callees \<Rightarrow> env \<Rightarrow> router_call \<Rightarrow> router_state \<Rightarrow> 'x
   \<Rightarrow> fault + (router_ret \<times> router_state \<times> 'x)" where
  "router_exec sha ce e (RegisterClientType t a) s x = ret_unit x (register_client_type e t a s)"
| "router_exec sha ce e (CreateClient t cs cons h) s x =
     bindE (create_client ce e t cs cons h s x) (\<lambda>(c, s1, x1). Inr (RetString c, s1, x1))"
| "router_exec sha ce e (RegisterCounterparty c cc prefix) s x = ret_unit x (register_counterparty c cc prefix s)"
| "router_exec sha ce e (UpdateClient c msg) s x =
     bindE (update_client ce e c msg s x) (\<lambda>(h, s1, x1). Inr (RetU64 h, s1, x1))"
| "router_exec sha ce e (RegisterPort port app) s x = ret_unit x (register_port e port app s)"
| "router_exec sha ce e (SetPacketCommitment c n v) s x =
     bindE (bytes32_arg v) (\<lambda>_. ret_unit x (set_packet_commitment c n v s))"
| "router_exec sha ce e (DeletePacketCommitment c n) s x = ret_unit x (delete_packet_commitment c n s)"
| "router_exec sha ce e (SetPacketReceipt c n) s x = ret_unit x (set_packet_receipt c n s)"
| "router_exec sha ce e (SetAckCommitment c n v) s x =
     bindE (bytes32_arg v) (\<lambda>_. ret_unit x (set_ack_commitment c n v s))"
| "router_exec sha ce e (DoSendPacket c t ps) s x =
     bindE (send_packet sha e c t ps s) (\<lambda>(n, s1). Inr (RetU64 n, s1, x))"
| "router_exec sha ce e (DoRecvPacket p pf h) s x =
     bindE (recv_packet sha ce e p pf h s x) (\<lambda>(s1, x1). Inr (RetUnit, s1, x1))"
| "router_exec sha ce e (WriteAcknowledgement c n acks) s x = ret_unit x (write_acknowledgement sha c n acks s)"
| "router_exec sha ce e (AcknowledgePacket p acks pf h) s x =
     bindE (acknowledge_packet sha ce e p acks pf h s x) (\<lambda>(s1, x1). Inr (RetUnit, s1, x1))"
| "router_exec sha ce e (DoTimeoutPacket p pf h) s x =
     bindE (timeout_packet sha ce e p pf h s x) (\<lambda>(s1, x1). Inr (RetUnit, s1, x1))"

text \<open>The entry points that only read.\<close>

datatype router_query =
    GetLcAddress bytes
  | GetCounterparty bytes
  | GetClientLcAddress bytes
  | GetFrozen bytes
  | GetPortApp bytes
  | GetPacketCommitment bytes u64
  | HasPacketReceipt bytes u64
  | GetAcknowledgement bytes u64

datatype router_answer =
    AnsAddress "address option"
  | AnsCounterparty "counterparty option"
  | AnsBool bool
  | AnsBytes32 "bytes option"

fun router_view :: "router_query \<Rightarrow> router_state \<Rightarrow> fault + router_answer" where
  "router_view (GetLcAddress t) s = Inr (AnsAddress (lc_address t s))"
| "router_view (GetCounterparty c) s = Inr (AnsCounterparty (client_counterparty c s))"
| "router_view (GetClientLcAddress c) s = Inr (AnsAddress (client_lc_address c s))"
| "router_view (GetFrozen c) s = Inr (AnsBool (frozen c s))"
| "router_view (GetPortApp p) s = Inr (AnsAddress (port_app p s))"
| "router_view (GetPacketCommitment c n) s = bindE (packet_commitment c n s) (\<lambda>v. Inr (AnsBytes32 v))"
| "router_view (HasPacketReceipt c n) s = bindE (has_packet_receipt c n s) (\<lambda>b. Inr (AnsBool b))"
| "router_view (GetAcknowledgement c n) s = bindE (acknowledgement c n s) (\<lambda>v. Inr (AnsBytes32 v))"

text \<open>The entry points that write the provable store with no check at all.\<close>

fun raw_store_call :: "router_call \<Rightarrow> bool" where
  "raw_store_call (SetPacketCommitment c n v) = True"
| "raw_store_call (DeletePacketCommitment c n) = True"
| "raw_store_call (SetPacketReceipt c n) = True"
| "raw_store_call (SetAckCommitment c n v) = True"
| "raw_store_call _ = False"

section \<open>Runs\<close>

text \<open>
  A step is a call that succeeds, in any environment, or anything that happens outside the router.
  A call that fails leaves no trace. The predicate \<open>allowed\<close> restricts the calls of a run.
\<close>

inductive router_step ::
  "(bytes \<Rightarrow> bytes) \<Rightarrow> 'x callees \<Rightarrow> (router_call \<Rightarrow> bool) \<Rightarrow> router_state \<times> 'x \<Rightarrow> router_state \<times> 'x \<Rightarrow> bool"
  for sha ce allowed where
  invoke: "allowed call \<Longrightarrow> router_exec sha ce e call s x = Inr (r, s', x')
    \<Longrightarrow> router_step sha ce allowed (s, x) (s', x')"
| outside: "router_step sha ce allowed (s, x) (s, x')"

inductive_cases router_stepE: "router_step sha ce allowed (s, x) (s', x')"

abbreviation router_run ::
  "(bytes \<Rightarrow> bytes) \<Rightarrow> 'x callees \<Rightarrow> (router_call \<Rightarrow> bool) \<Rightarrow> router_state \<times> 'x \<Rightarrow> router_state \<times> 'x \<Rightarrow> bool" where
  "router_run sha ce allowed \<equiv> (router_step sha ce allowed)\<^sup>*\<^sup>*"

text \<open>A property of the router state that every allowed call keeps holds at the end of every run.\<close>

lemma router_run_invariant:
  assumes "router_run sha ce allowed (s, x) (s', x')" and "P s"
    and keep: "\<And>e call s x r s' x'. allowed call \<Longrightarrow> router_exec sha ce e call s x = Inr (r, s', x')
                 \<Longrightarrow> P s \<Longrightarrow> P s'"
  shows "P s'"
  using assms(1, 2)
proof (induction "(s', x')" arbitrary: s' x' rule: rtranclp_induct)
  case base
  then show ?case by simp
next
  case (step y)
  then obtain t z where y: "y = (t, z)" and "P t"
    by (cases y) auto
  with step.hyps(2) show ?case
    by (auto elim!: router_stepE intro: keep)
qed

lemma ret_unit_eq_Inr: "ret_unit x m = Inr (r, s', x') \<longleftrightarrow> m = Inr s' \<and> r = RetUnit \<and> x' = x"
  by (auto simp: ret_unit_def bindE_simps)

text \<open>The registry operations, from the result back to the checks.\<close>

lemma register_client_type_eq_Inr:
  "register_client_type e t a s = Inr s' \<longleftrightarrow>
     (\<exists>admin. r_admin s = Some admin \<and> (admin \<in> set (auths e) \<or> invoker e = Some admin)
        \<and> validate_client_type t = Inr ()
        \<and> s' = s\<lparr>r_client_type_addr := (r_client_type_addr s)(t \<mapsto> a)\<rparr>)"
  by (auto simp: register_client_type_def bindE_simps)

lemma register_port_eq_Inr:
  "register_port e pt a s = Inr s' \<longleftrightarrow>
     (\<exists>admin. r_admin s = Some admin \<and> (admin \<in> set (auths e) \<or> invoker e = Some admin)
        \<and> validate_port_id pt = Inr () \<and> r_port s pt = None
        \<and> s' = s\<lparr>r_port := (r_port s)(pt \<mapsto> a)\<rparr>)"
  by (auto simp: register_port_def bindE_simps)

lemma register_counterparty_eq_Inr:
  "register_counterparty c cc pre s = Inr s' \<longleftrightarrow>
     validate_counterparty_client_id cc = Inr () \<and> r_client_type s c \<noteq> None \<and> r_counterparty s c = None
     \<and> s' = s\<lparr>r_counterparty := (r_counterparty s)(c \<mapsto>
                 \<lparr>cp_client_id = cc, cp_commitment_prefix = pre\<rparr>)\<rparr>"
  by (auto simp: register_counterparty_def bindE_simps Let_def)

lemma create_client_eq_Inr:
  "create_client ce e t cs cons h s x = Inr (c, s', x') \<longleftrightarrow>
     (\<exists>lc s1. r_client_type_addr s t = Some lc \<and> mint_client_id t s = Inr (c, s1)
        \<and> lc_initialise ce (invoke_env e lc) lc c cs cons h x = Inr ((), x')
        \<and> s' = s1\<lparr>r_client_type := (r_client_type s1)(c \<mapsto> t),
                   r_client_lc_addr := (r_client_lc_addr s1)(c \<mapsto> lc)\<rparr>)"
  by (auto simp: create_client_def bindE_simps split: prod.splits)

lemma update_client_eq_Inr:
  "update_client ce e c msg s x = Inr (h, s', x') \<longleftrightarrow>
     (\<exists>lc x1. \<not> frozen c s \<and> r_client_lc_addr s c = Some lc
        \<and> ((lc_check_for_misbehaviour ce (invoke_env e lc) lc c msg x = Inr (True, x1)
            \<and> lc_update_state_on_misbehaviour ce (invoke_env e lc) lc c msg x1 = Inr ((), x')
            \<and> h = 0 \<and> s' = s\<lparr>r_frozen := (r_frozen s)(c \<mapsto> True)\<rparr>)
          \<or> (lc_check_for_misbehaviour ce (invoke_env e lc) lc c msg x = Inr (False, x1)
            \<and> lc_update_state ce (invoke_env e lc) lc c msg x1 = Inr (h, x') \<and> s' = s)))"
  by (auto simp: update_client_def bindE_simps split: prod.splits if_splits)

lemmas registry_eq_Inr =
  register_client_type_eq_Inr register_port_eq_Inr register_counterparty_eq_Inr create_client_eq_Inr
  mint_client_id_eq_Inr update_client_eq_Inr

lemmas exec_simps = ret_unit_eq_Inr bytes32_arg_def registry_eq_Inr packet_eq_Inr store_eq_Inr

section \<open>Which part of the state a call touches\<close>

fun registry_call :: "router_call \<Rightarrow> bool" where
  "registry_call (RegisterClientType t a) = True"
| "registry_call (CreateClient t cs cons h) = True"
| "registry_call (RegisterCounterparty c cc pre) = True"
| "registry_call (UpdateClient c msg) = True"
| "registry_call (RegisterPort pt a) = True"
| "registry_call _ = False"

lemma registry_call_frame:
  assumes "registry_call call" and "router_exec sha ce e call s x = Inr (r, s', x')"
  shows "r_store s' = r_store s \<and> r_events s' = r_events s \<and> r_next_seq_send s' = r_next_seq_send s"
  using assms by (cases call) (auto simp: exec_simps bindE_simps)

lemma registry_call_views:
  assumes "registry_call call" and "router_exec sha ce e call s x = Inr (r, s', x')"
  shows "commitment_at s' = commitment_at s \<and> receipt_at s' = receipt_at s \<and> ack_at s' = ack_at s
    \<and> r_events s' = r_events s \<and> last_seq s' = last_seq s"
  using registry_call_frame [OF assms] by (simp add: view_defs last_seq_def fun_eq_iff)

lemma packet_call_frame:
  assumes "\<not> registry_call call" and "router_exec sha ce e call s x = Inr (r, s', x')"
  shows "same_registry s s'"
  using assms by (cases call) (auto simp: exec_simps bindE_simps same_registry_def set_provable_def
      received_state_def settled_state_def Let_def)

section \<open>The client registry\<close>

definition registry_wf :: "router_state \<Rightarrow> bool" where
  "registry_wf s \<longleftrightarrow>
     (\<forall>c t. r_client_type s c = Some t \<longrightarrow> (\<exists>k < next_id s t. c = minted_id t k))
     \<and> dom (r_client_lc_addr s) = dom (r_client_type s)
     \<and> dom (r_counterparty s) \<subseteq> dom (r_client_type s)
     \<and> dom (r_frozen s) \<subseteq> dom (r_client_type s)"

lemma registry_wf_minted:
  "registry_wf s \<Longrightarrow> r_client_type s c = Some t \<Longrightarrow> \<exists>k < next_id s t. c = minted_id t k"
  by (simp add: registry_wf_def)

lemma registry_wf_freeze:
  assumes "registry_wf s" and "r_client_lc_addr s c = Some lc"
  shows "registry_wf (s\<lparr>r_frozen := (r_frozen s)(c \<mapsto> True)\<rparr>)"
proof -
  have "c \<in> dom (r_client_type s)"
    using assms unfolding registry_wf_def by blast
  with assms(1) show ?thesis
    by (simp add: registry_wf_def next_id_def)
qed

lemma registry_wf_constructor: "registry_wf (router_constructor a)"
  by (simp add: registry_wf_def router_constructor_def empty_router_def)

lemma registry_wf_frame [simp]:
  "registry_wf (s\<lparr>r_client_type_addr := m\<rparr>) = registry_wf s"
  "registry_wf (s\<lparr>r_port := m'\<rparr>) = registry_wf s"
  by (simp_all add: registry_wf_def next_id_def)

lemma registry_wf_counterparty:
  assumes "registry_wf s" and "r_client_type s c \<noteq> None"
  shows "registry_wf (s\<lparr>r_counterparty := (r_counterparty s)(c \<mapsto> cp)\<rparr>)"
proof -
  have "c \<in> dom (r_client_type s)" using assms(2) by blast
  with assms(1) show ?thesis by (simp add: registry_wf_def next_id_def)
qed

lemma registry_wf_same: "same_registry s s' \<Longrightarrow> registry_wf s \<Longrightarrow> registry_wf s'"
  by (simp add: same_registry_def registry_wf_def next_id_def)

lemma next_id_minted:
  assumes "r_next_client_id s' = (r_next_client_id s)(t \<mapsto> of_nat (next_id s t + 1))"
    and "next_id s t + 1 < 2 ^ 32"
  shows "next_id s' t' = (if t' = t then next_id s t + 1 else next_id s t')"
proof -
  have "unat (of_nat (next_id s t + 1) :: u32) = next_id s t + 1"
    using assms(2) by (simp add: unat_of_nat take_bit_nat_eq_self del: of_nat_add of_nat_Suc)
  then show ?thesis
    using assms(1) by (simp add: next_id_def [of s'] next_id_def [of s t'] del: of_nat_add of_nat_Suc)
qed

lemma minted_fresh:
  assumes "registry_wf s"
  shows "r_client_type s (minted_id t (next_id s t)) = None"
    and "r_client_lc_addr s (minted_id t (next_id s t)) = None"
    and "r_counterparty s (minted_id t (next_id s t)) = None"
    and "r_frozen s (minted_id t (next_id s t)) = None"
proof -
  show none: "r_client_type s (minted_id t (next_id s t)) = None"
  proof (rule ccontr)
    assume "r_client_type s (minted_id t (next_id s t)) \<noteq> None"
    then obtain u k where "k < next_id s u" "minted_id t (next_id s t) = minted_id u k"
      using assms unfolding registry_wf_def by blast
    then show False by (auto simp: minted_id_inj)
  qed
  then have "minted_id t (next_id s t) \<notin> dom (r_client_type s)" by auto
  with assms show "r_client_lc_addr s (minted_id t (next_id s t)) = None"
    "r_counterparty s (minted_id t (next_id s t)) = None"
    "r_frozen s (minted_id t (next_id s t)) = None"
    unfolding registry_wf_def by blast+
qed

lemma create_client_registry:
  assumes "create_client ce e t cs cons h s x = Inr (c, s', x')"
  shows "\<exists>lc. next_id s t + 1 < 2 ^ 32 \<and> c = minted_id t (next_id s t) \<and> r_client_type_addr s t = Some lc
    \<and> r_client_type s' = (r_client_type s)(c \<mapsto> t) \<and> r_client_lc_addr s' = (r_client_lc_addr s)(c \<mapsto> lc)
    \<and> r_counterparty s' = r_counterparty s \<and> r_frozen s' = r_frozen s \<and> r_port s' = r_port s
    \<and> r_admin s' = r_admin s \<and> r_client_type_addr s' = r_client_type_addr s
    \<and> (\<forall>t'. next_id s' t' = (if t' = t then next_id s t + 1 else next_id s t'))"
proof -
  from assms obtain lc s1 where lc: "r_client_type_addr s t = Some lc"
    and mint: "mint_client_id t s = Inr (c, s1)"
    and s': "s' = s1\<lparr>r_client_type := (r_client_type s1)(c \<mapsto> t),
                     r_client_lc_addr := (r_client_lc_addr s1)(c \<mapsto> lc)\<rparr>"
    by (auto simp: create_client_eq_Inr)
  from mint have s1: "s1 = s\<lparr>r_next_client_id := (r_next_client_id s)(t \<mapsto> of_nat (next_id s t + 1))\<rparr>"
    and bound: "next_id s t + 1 < 2 ^ 32" and c: "c = minted_id t (next_id s t)"
    unfolding mint_client_id_eq_Inr by simp_all
  have "next_id s' t' = (if t' = t then next_id s t + 1 else next_id s t')" for t'
    by (rule next_id_minted [OF _ bound]) (simp add: s' s1)
  with lc bound c show ?thesis by (simp add: s' s1)
qed

lemma registry_wf_create:
  assumes "create_client ce e t cs cons h s x = Inr (c, s', x')" and "registry_wf s"
  shows "registry_wf s'"
proof -
  obtain lc where c: "c = minted_id t (next_id s t)"
    and ty: "r_client_type s' = (r_client_type s)(c \<mapsto> t)"
    and rest: "r_client_lc_addr s' = (r_client_lc_addr s)(c \<mapsto> lc)"
      "r_counterparty s' = r_counterparty s" "r_frozen s' = r_frozen s"
    and nx: "\<And>t'. next_id s' t' = (if t' = t then next_id s t + 1 else next_id s t')"
    using create_client_registry [OF assms(1)] by auto
  have "\<exists>k < next_id s' u. d = minted_id u k" if "r_client_type s' d = Some u" for d u
  proof (cases "d = c")
    case True
    then show ?thesis using that c ty nx [of t] by (intro exI [of _ "next_id s t"]) auto
  next
    case False
    with that ty have "r_client_type s d = Some u" by simp
    then obtain k where "k < next_id s u" "d = minted_id u k"
      using registry_wf_minted [OF assms(2)] by blast
    then show ?thesis using nx [of u] by (intro exI [of _ k]) auto
  qed
  then have "\<forall>d u. r_client_type s' d = Some u \<longrightarrow> (\<exists>k < next_id s' u. d = minted_id u k)"
    by blast
  moreover have "dom (r_client_lc_addr s) = dom (r_client_type s)"
    "dom (r_counterparty s) \<subseteq> dom (r_client_type s)" "dom (r_frozen s) \<subseteq> dom (r_client_type s)"
    using assms(2) unfolding registry_wf_def by blast+
  ultimately show ?thesis
    unfolding registry_wf_def rest ty by (simp add: subset_insertI2)
qed

lemma registry_wf_exec:
  assumes "router_exec sha ce e call s x = Inr (r, s', x')" and "registry_wf s"
  shows "registry_wf s'"
proof (cases "registry_call call")
  case False
  show ?thesis by (rule registry_wf_same [OF packet_call_frame [OF False assms(1)] assms(2)])
next
  case True
  show ?thesis
  proof (cases call)
    case (CreateClient t cs cons h)
    with assms show ?thesis by (auto simp: bindE_simps intro: registry_wf_create)
  next
    case (UpdateClient c msg)
    with assms show ?thesis
      by (auto simp: bindE_simps update_client_eq_Inr intro: registry_wf_freeze)
  next
    case (RegisterCounterparty c cc pre)
    with assms show ?thesis
      by (auto simp: ret_unit_eq_Inr register_counterparty_eq_Inr intro!: registry_wf_counterparty)
  qed (use True assms in \<open>auto simp: exec_simps\<close>)
qed

text \<open>What the registry has once, it keeps: clients, counterparties, ports and freezes.\<close>

definition registry_kept :: "router_state \<Rightarrow> router_state \<Rightarrow> bool" where
  "registry_kept s s' \<longleftrightarrow>
     r_admin s' = r_admin s \<and> r_client_type s \<subseteq>\<^sub>m r_client_type s'
     \<and> r_client_lc_addr s \<subseteq>\<^sub>m r_client_lc_addr s' \<and> r_counterparty s \<subseteq>\<^sub>m r_counterparty s'
     \<and> r_port s \<subseteq>\<^sub>m r_port s' \<and> (\<forall>c. frozen c s \<longrightarrow> frozen c s')"

lemma registry_kept_refl [simp]: "registry_kept s s"
  by (simp add: registry_kept_def)

lemma registry_kept_trans: "registry_kept s t \<Longrightarrow> registry_kept t u \<Longrightarrow> registry_kept s u"
  unfolding registry_kept_def by (auto intro: map_le_trans)

lemma registry_kept_same: "same_registry s s' \<Longrightarrow> registry_kept s s'"
  by (simp add: same_registry_def registry_kept_def frozen_def)

lemma map_le_fresh: "m k = None \<Longrightarrow> m \<subseteq>\<^sub>m m(k \<mapsto> v)"
  by (auto simp: map_le_def)

lemma registry_kept_exec:
  assumes "router_exec sha ce e call s x = Inr (r, s', x')" and wf: "registry_wf s"
  shows "registry_kept s s'"
proof (cases "registry_call call")
  case False
  show ?thesis by (rule registry_kept_same [OF packet_call_frame [OF False assms(1)]])
next
  case True
  show ?thesis
  proof (cases call)
    case (CreateClient t cs cons h)
    with assms obtain c where "create_client ce e t cs cons h s x = Inr (c, s', x')"
      by (auto simp: bindE_simps)
    from create_client_registry [OF this] minted_fresh [OF wf, of t] show ?thesis
      by (auto simp: registry_kept_def frozen_def intro!: map_le_fresh)
  qed (use True assms in \<open>auto simp: exec_simps bindE_simps registry_kept_def frozen_def
        intro!: map_le_fresh split: option.splits if_splits\<close>)
qed

end
