(* ===== verification/Router_Runs.thy ===== *)
theory Router_Runs
  imports Router
begin

text \<open>
  What holds after any sequence of router calls: sequence numbers, exactly-once receipt,
  at-most-once settlement, the life cycle of commitments and acknowledgements. The theorems on
  runs hold for every order of calls by any callers, with every behaviour of the invoked
  contracts; those on commitments exclude the four unchecked store entry points
  (\<open>raw_store_call\<close>), with which they fail.
\<close>

section \<open>A ledger of calls\<close>

text \<open>Calls served in the order the ledger has them; a call that fails is rolled back.\<close>

fun router_serve ::
  "(bytes \<Rightarrow> bytes) \<Rightarrow> 'x callees \<Rightarrow> (env \<times> router_call) list \<Rightarrow> router_state \<times> 'x \<Rightarrow> router_state \<times> 'x" where
  "router_serve sha ce [] sx = sx"
| "router_serve sha ce ((e, call) # calls) (s, x) =
     (case router_exec sha ce e call s x of
        Inl _ \<Rightarrow> router_serve sha ce calls (s, x)
      | Inr (_, s', x') \<Rightarrow> router_serve sha ce calls (s', x'))"

lemma router_serve_run:
  "\<forall>(e, call) \<in> set calls. allowed call \<Longrightarrow> router_run sha ce allowed sx (router_serve sha ce calls sx)"
proof (induction sha ce calls sx rule: router_serve.induct)
  case (2 sha ce e call calls s x)
  show ?case
  proof (cases "router_exec sha ce e call s x")
    case (Inr q)
    obtain r s' x' where q: "q = (r, s', x')" by (cases q)
    have "router_step sha ce allowed (s, x) (s', x')"
      using 2(3) Inr q by (auto intro: router_step.invoke)
    with 2 Inr q show ?thesis by (auto intro: converse_rtranclp_into_rtranclp)
  qed (use 2 in auto)
qed simp

section \<open>What the event log counts\<close>

fun send_seq_of :: "bytes \<Rightarrow> router_event \<Rightarrow> u64 list" where
  "send_seq_of c (SendPacket d n p) = (if d = c then [n] else [])"
| "send_seq_of c _ = []"

definition sent_seqs :: "router_state \<Rightarrow> bytes \<Rightarrow> u64 list" where
  "sent_seqs s c = concat (map (send_seq_of c) (r_events s))"

fun is_recv :: "bytes \<Rightarrow> u64 \<Rightarrow> router_event \<Rightarrow> bool" where
  "is_recv c n (RecvPacket d m p) = (d = c \<and> m = n)"
| "is_recv c n _ = False"

fun is_settle :: "bytes \<Rightarrow> u64 \<Rightarrow> router_event \<Rightarrow> bool" where
  "is_settle c n (AckPacket d m p acks) = (d = c \<and> m = n)"
| "is_settle c n (TimeoutPacket d m p) = (d = c \<and> m = n)"
| "is_settle c n _ = False"

definition recv_count :: "router_state \<Rightarrow> bytes \<Rightarrow> u64 \<Rightarrow> nat" where
  "recv_count s c n = length (filter (is_recv c n) (r_events s))"

definition settle_count :: "router_state \<Rightarrow> bytes \<Rightarrow> u64 \<Rightarrow> nat" where
  "settle_count s c n = length (filter (is_settle c n) (r_events s))"

definition send_count :: "router_state \<Rightarrow> bytes \<Rightarrow> u64 \<Rightarrow> nat" where
  "send_count s c n = count_list (sent_seqs s c) n"

definition in_flight :: "router_state \<Rightarrow> bytes \<Rightarrow> u64 \<Rightarrow> nat" where
  "in_flight s c n = (if commitment_at s c n = None then 0 else 1)"

lemmas count_defs = recv_count_def settle_count_def send_count_def sent_seqs_def in_flight_def

lemma events_frame:
  assumes "r_events s' = r_events s"
  shows "sent_seqs s' = sent_seqs s" "recv_count s' = recv_count s" "settle_count s' = settle_count s"
    "send_count s' = send_count s"
  using assms by (simp_all add: count_defs fun_eq_iff)

section \<open>The events and entries of each packet operation\<close>

lemma send_packet_effect:
  assumes "send_packet sha e c t ps s = Inr (n, s')"
  shows "\<exists>cp h. r_counterparty s c = Some cp \<and> commit_v2_packet sha (sent_packet c n cp t ps) = Inr h
    \<and> unat n = unat (last_seq s c) + 1 \<and> last_seq s' = (last_seq s)(c := n)
    \<and> commitment_at s' = (commitment_at s)(c := (commitment_at s c)(n \<mapsto> h))
    \<and> receipt_at s' = receipt_at s \<and> ack_at s' = ack_at s
    \<and> r_events s' = r_events s @ [SendPacket c n (sent_packet c n cp t ps)]"
proof -
  have "unat (last_seq s c + 1) = unat (last_seq s c) + 1" if "unat (last_seq s c) + 1 < 2 ^ 64"
    using that by (simp add: unat_word_ariths)
  with assms show ?thesis
    by (auto simp: send_packet_eq_Inr last_seq_def fun_eq_iff views_of_write view_defs)
qed

lemma raw_store_effect:
  assumes "raw_store_call call" and "router_exec sha ce e call s x = Inr (r, s', x')"
  shows "r_events s' = r_events s \<and> last_seq s' = last_seq s
    \<and> (\<forall>c n. receipt_at s c n \<noteq> None \<longrightarrow> receipt_at s' c n \<noteq> None)"
  using assms
  by (cases call) (auto simp: bytes32_arg_def ret_unit_eq_Inr bindE_simps store_eq_Inr last_seq_def
      views_of_write views_of_delete)

lemma write_acknowledgement_effect:
  assumes "write_acknowledgement sha c n acks s = Inr s'"
  shows "r_events s' = r_events s @ [WriteAck c n acks] \<and> last_seq s' = last_seq s
    \<and> receipt_at s' = receipt_at s \<and> commitment_at s' = commitment_at s"
  using assms
  by (auto simp: write_acknowledgement_eq_Inr last_seq_def views_of_write)

lemma recv_packet_effect:
  assumes "recv_packet sha ce e p pf h s x = Inr (s', x')"
  shows "\<exists>acks. receipt_at s (pk_dest_client p) (pk_sequence p) = None
    \<and> s' = received_state sha p acks s"
  using assms by (auto simp: recv_packet_eq_Inr)

lemma last_seq_packet [simp]:
  "last_seq (received_state sha p acks s) = last_seq s" "last_seq (settled_state ev p s) = last_seq s"
  by (simp_all add: last_seq_def fun_eq_iff)

section \<open>Sequence numbers\<close>

definition seq_inv :: "router_state \<Rightarrow> bool" where
  "seq_inv s \<longleftrightarrow> (\<forall>c. sent_seqs s c = map of_nat [1 ..< unat (last_seq s c) + 1])"

lemma seq_inv_send:
  assumes "send_packet sha e c t ps s = Inr (n, s')" and "seq_inv s"
  shows "seq_inv s'"
proof -
  from send_packet_effect [OF assms(1)]
  obtain p where n: "unat n = unat (last_seq s c) + 1" and l: "last_seq s' = (last_seq s)(c := n)"
    and ev: "r_events s' = r_events s @ [SendPacket c n p]"
    by blast
  have "(of_nat (unat (last_seq s c) + 1) :: u64) = n"
    by (simp only: n [symmetric]) simp
  then show ?thesis
    using assms(2) by (simp add: seq_inv_def sent_seqs_def ev l n)
qed

lemma seq_inv_frame: "sent_seqs s' = sent_seqs s \<Longrightarrow> last_seq s' = last_seq s \<Longrightarrow> seq_inv s \<Longrightarrow> seq_inv s'"
  by (simp add: seq_inv_def)

lemma other_call_seqs:
  assumes "router_exec sha ce e call s x = Inr (r, s', x')" and "\<And>c t ps. call \<noteq> DoSendPacket c t ps"
  shows "sent_seqs s' = sent_seqs s" and "last_seq s' = last_seq s"
proof -
  have "sent_seqs s' = sent_seqs s \<and> last_seq s' = last_seq s"
  proof (cases "registry_call call \<or> raw_store_call call")
    case True
    then have ev: "r_events s' = r_events s" and "last_seq s' = last_seq s"
      using registry_call_views [OF _ assms(1)] raw_store_effect [OF _ assms(1)] by auto
    then show ?thesis by (simp add: events_frame [OF ev])
  next
    case False
    with assms show ?thesis
      by (cases call) (auto simp: bindE_simps ret_unit_eq_Inr acknowledge_packet_eq_Inr timeout_packet_eq_Inr
          sent_seqs_def fun_eq_iff dest!: recv_packet_effect write_acknowledgement_effect)
  qed
  then show "sent_seqs s' = sent_seqs s" "last_seq s' = last_seq s" by simp_all
qed

lemma seq_inv_exec:
  assumes "router_exec sha ce e call s x = Inr (r, s', x')" and "seq_inv s"
  shows "seq_inv s'"
proof (cases "\<exists>c t ps. call = DoSendPacket c t ps")
  case True
  with assms show ?thesis by (auto simp: bindE_simps intro: seq_inv_send)
next
  case False
  with other_call_seqs [OF assms(1)] assms(2) seq_inv_frame show ?thesis by blast
qed

lemma seq_inv_constructor: "seq_inv (router_constructor a)"
  by (simp add: seq_inv_def router_constructor_def empty_router_def sent_seqs_def last_seq_def)

section \<open>Receipts\<close>

definition recv_inv :: "router_state \<Rightarrow> bool" where
  "recv_inv s \<longleftrightarrow> (\<forall>c n. recv_count s c n \<le> 1 \<and> (receipt_at s c n = None \<longrightarrow> recv_count s c n = 0))"

lemma recv_inv_constructor: "recv_inv (router_constructor a)"
  by (simp add: recv_inv_def router_constructor_def empty_router_def recv_count_def)

lemma recv_count_received:
  "recv_count (received_state sha p acks s) c n =
     recv_count s c n + (if c = pk_dest_client p \<and> n = pk_sequence p then 1 else 0)"
  by (auto simp: recv_count_def)

lemma recv_inv_recv:
  assumes "receipt_at s (pk_dest_client p) (pk_sequence p) = None" and "recv_inv s"
  shows "recv_inv (received_state sha p acks s)"
proof -
  have "recv_count s (pk_dest_client p) (pk_sequence p) = 0"
    using assms by (simp add: recv_inv_def)
  with assms(2) show ?thesis
    by (simp add: recv_inv_def recv_count_received received_views)
qed

lemma recv_inv_frame:
  assumes "recv_inv s" and "recv_count s' = recv_count s"
    and "\<And>c n. receipt_at s c n \<noteq> None \<Longrightarrow> receipt_at s' c n \<noteq> None"
  shows "recv_inv s'"
proof -
  have "receipt_at s c n = None" if "receipt_at s' c n = None" for c n
    using assms(3) that by blast
  with assms(1) show ?thesis by (simp add: recv_inv_def assms(2))
qed

text \<open>A call other than a receipt publishes no receipt event and removes no receipt.\<close>

lemma other_call_receipts:
  assumes "router_exec sha ce e call s x = Inr (r, s', x')" and "\<And>p pf h. call \<noteq> DoRecvPacket p pf h"
  shows "recv_count s' = recv_count s" and "receipt_at s c n \<noteq> None \<Longrightarrow> receipt_at s' c n \<noteq> None"
proof -
  have "recv_count s' = recv_count s \<and> (\<forall>c n. receipt_at s c n \<noteq> None \<longrightarrow> receipt_at s' c n \<noteq> None)"
  proof (cases "registry_call call \<or> raw_store_call call")
    case True
    then have ev: "r_events s' = r_events s"
      and "\<forall>c n. receipt_at s c n \<noteq> None \<longrightarrow> receipt_at s' c n \<noteq> None"
      using registry_call_views [OF _ assms(1)] raw_store_effect [OF _ assms(1)] by auto
    then show ?thesis by (simp add: events_frame [OF ev])
  next
    case False
    with assms show ?thesis
      by (cases call) (auto simp: bindE_simps ret_unit_eq_Inr acknowledge_packet_eq_Inr timeout_packet_eq_Inr
          recv_count_def fun_eq_iff settled_views dest!: send_packet_effect write_acknowledgement_effect)
  qed
  then show "recv_count s' = recv_count s" "receipt_at s c n \<noteq> None \<Longrightarrow> receipt_at s' c n \<noteq> None"
    by simp_all
qed

lemma recv_inv_exec:
  assumes "router_exec sha ce e call s x = Inr (r, s', x')" and "recv_inv s"
  shows "recv_inv s'"
proof (cases "\<exists>p pf h. call = DoRecvPacket p pf h")
  case True
  with assms show ?thesis by (auto simp: bindE_simps intro: recv_inv_recv dest!: recv_packet_effect)
next
  case False
  then show ?thesis
    using recv_inv_frame [OF assms(2)] other_call_receipts [OF assms(1)] by blast
qed

lemma receipt_kept_exec:
  assumes "router_exec sha ce e call s x = Inr (r, s', x')" and "receipt_at s c n \<noteq> None"
  shows "receipt_at s' c n \<noteq> None"
proof (cases "\<exists>p pf h. call = DoRecvPacket p pf h")
  case True
  with assms show ?thesis by (auto simp: bindE_simps received_views dest!: recv_packet_effect)
next
  case False
  then show ?thesis using other_call_receipts(2) [OF assms(1)] assms(2) by blast
qed

section \<open>Commitments and settlement\<close>

definition settle_inv :: "router_state \<Rightarrow> bool" where
  "settle_inv s \<longleftrightarrow> (\<forall>c n. settle_count s c n + in_flight s c n = send_count s c n)"

text \<open>The next sequence number has never been sent.\<close>

lemma next_seq_unsent:
  assumes "seq_inv s" and "unat n = unat (last_seq s c) + 1"
  shows "send_count s c n = 0"
proof -
  have "n \<noteq> of_nat m" if "m < unat n" for m :: nat
  proof -
    have "unat n < 2 ^ 64" using unsigned_less [of n] by simp
    with that have "m < 2 ^ 64" by simp
    then have "unat (of_nat m :: u64) = m" by (simp add: unat_of_nat take_bit_nat_eq_self)
    with that show ?thesis by auto
  qed
  then have "n \<notin> of_nat ` {1 ..< unat n}" by (metis atLeastLessThan_iff imageE)
  then have "n \<notin> set (sent_seqs s c)"
    using assms by (simp add: seq_inv_def del: upt_Suc)
  then show ?thesis by (simp add: send_count_def count_list_0_iff)
qed

lemma settle_counts:
  "settle_count (settled_state (AckPacket (pk_source_client p) (pk_sequence p) p acks) p s) c n =
     settle_count s c n + (if c = pk_source_client p \<and> n = pk_sequence p then 1 else 0)"
  "settle_count (settled_state (TimeoutPacket (pk_source_client p) (pk_sequence p) p) p s) c n =
     settle_count s c n + (if c = pk_source_client p \<and> n = pk_sequence p then 1 else 0)"
  by (auto simp: settle_count_def)

lemma settle_inv_settle:
  assumes "settle_inv s" and "commitment_at s (pk_source_client p) (pk_sequence p) = Some h"
    and "ev = AckPacket (pk_source_client p) (pk_sequence p) p acks
       \<or> ev = TimeoutPacket (pk_source_client p) (pk_sequence p) p"
  shows "settle_inv (settled_state ev p s)"
proof -
  have "send_count (settled_state ev p s) = send_count s"
    using assms(3) by (auto simp: count_defs fun_eq_iff)
  moreover have "settle_count (settled_state ev p s) c n + in_flight (settled_state ev p s) c n =
      settle_count s c n + in_flight s c n" for c n
    using assms(2, 3) by (auto simp: settle_counts in_flight_def settled_views)
  ultimately show ?thesis using assms(1) by (simp add: settle_inv_def)
qed

lemma settle_inv_send:
  assumes "send_packet sha e c t ps s = Inr (n, s')" and "settle_inv s" and "seq_inv s"
  shows "settle_inv s'"
proof -
  from send_packet_effect [OF assms(1)]
  obtain h p where n: "unat n = unat (last_seq s c) + 1"
    and com: "commitment_at s' = (commitment_at s)(c := (commitment_at s c)(n \<mapsto> h))"
    and ev: "r_events s' = r_events s @ [SendPacket c n p]"
    by blast
  have "settle_count s c n + in_flight s c n = 0 \<and> send_count s c n = 0"
    using assms(2) next_seq_unsent [OF assms(3) n] by (simp add: settle_inv_def)
  moreover have "settle_count s' = settle_count s"
    by (simp add: settle_count_def ev fun_eq_iff)
  moreover have "send_count s' d m = send_count s d m + (if d = c \<and> m = n then 1 else 0)" for d m
    by (auto simp: send_count_def sent_seqs_def ev)
  moreover have "in_flight s' d m = (if d = c \<and> m = n then 1 else in_flight s d m)" for d m
    by (simp add: in_flight_def com)
  ultimately show ?thesis
    using assms(2) by (simp add: settle_inv_def)
qed

text \<open>The calls that neither send nor settle, the unchecked store writes apart.\<close>

fun lifecycle_call :: "router_call \<Rightarrow> bool" where
  "lifecycle_call (DoSendPacket c t ps) = True"
| "lifecycle_call (AcknowledgePacket p acks pf h) = True"
| "lifecycle_call (DoTimeoutPacket p pf h) = True"
| "lifecycle_call _ = False"

lemma other_call_commitments:
  assumes "router_exec sha ce e call s x = Inr (r, s', x')" and "\<not> raw_store_call call" and "\<not> lifecycle_call call"
  shows "commitment_at s' = commitment_at s" and "\<exists>evs. r_events s' = r_events s @ evs"
    and "settle_count s' = settle_count s" and "send_count s' = send_count s"
proof -
  have "commitment_at s' = commitment_at s \<and> (\<exists>evs. r_events s' = r_events s @ evs)
    \<and> settle_count s' = settle_count s \<and> send_count s' = send_count s"
  proof (cases "registry_call call")
    case True
    then show ?thesis using registry_call_views [OF _ assms(1)] by (simp add: count_defs fun_eq_iff)
  next
    case False
    with assms show ?thesis
      by (cases call) (auto simp: bindE_simps ret_unit_eq_Inr count_defs fun_eq_iff received_views
          dest!: recv_packet_effect write_acknowledgement_effect)
  qed
  then show "commitment_at s' = commitment_at s" "\<exists>evs. r_events s' = r_events s @ evs"
    "settle_count s' = settle_count s" "send_count s' = send_count s" by blast+
qed

lemma lifecycle_cases:
  assumes "router_exec sha ce e call s x = Inr (r, s', x')" and "\<not> raw_store_call call"
  obtains (send) c t ps n where "send_packet sha e c t ps s = Inr (n, s')"
  | (settle) p cp ev acks where "check_in_flight sha p s = Inr cp" "s' = settled_state ev p s"
      "ev = AckPacket (pk_source_client p) (pk_sequence p) p acks
       \<or> ev = TimeoutPacket (pk_source_client p) (pk_sequence p) p"
  | (other) "\<not> lifecycle_call call"
  using assms
  by (cases call) (auto simp: bindE_simps acknowledge_packet_eq_Inr timeout_packet_eq_Inr)

lemma settle_inv_exec:
  assumes "router_exec sha ce e call s x = Inr (r, s', x')" and "\<not> raw_store_call call"
    and "settle_inv s" and "seq_inv s"
  shows "settle_inv s'"
  using assms(1, 2)
proof (cases rule: lifecycle_cases)
  case send
  with settle_inv_send assms(3, 4) show ?thesis by blast
next
  case (settle p cp ev acks)
  then obtain h where "commitment_at s (pk_source_client p) (pk_sequence p) = Some h"
    by (auto simp: check_in_flight_eq_Inr)
  from settle_inv_settle [OF assms(3) this settle(3)] settle(2) show ?thesis by simp
next
  case other
  from other_call_commitments [OF assms(1, 2) other] assms(3) show ?thesis
    by (simp add: settle_inv_def in_flight_def)
qed

text \<open>
  Every commitment in the store is the commitment of a packet the log says was sent, or was written
  by a direct call of \<open>set_packet_commitment\<close>, which asks for no authorisation.
\<close>

definition backed :: "(router_call \<Rightarrow> bool) \<Rightarrow> (bytes \<Rightarrow> bytes) \<Rightarrow> router_state \<Rightarrow> bytes \<Rightarrow> u64 \<Rightarrow> bytes \<Rightarrow> bool" where
  "backed allowed sha s c n h \<longleftrightarrow>
     (\<exists>p. SendPacket c n p \<in> set (r_events s) \<and> commit_v2_packet sha p = Inr h
        \<and> pk_source_client p = c \<and> pk_sequence p = n) \<or> allowed (SetPacketCommitment c n h)"

definition commit_inv :: "(router_call \<Rightarrow> bool) \<Rightarrow> (bytes \<Rightarrow> bytes) \<Rightarrow> router_state \<Rightarrow> bool" where
  "commit_inv allowed sha s \<longleftrightarrow> (\<forall>c n h. commitment_at s c n = Some h \<longrightarrow> backed allowed sha s c n h)"

lemma backed_mono:
  "backed allowed sha s c n h \<Longrightarrow> set (r_events s) \<subseteq> set (r_events s') \<Longrightarrow> backed allowed sha s' c n h"
  unfolding backed_def by blast

text \<open>It is enough to look at the commitments that a call adds.\<close>

lemma commit_inv_step:
  assumes "commit_inv allowed sha s" and "set (r_events s) \<subseteq> set (r_events s')"
    and "\<And>c n h. commitment_at s' c n = Some h \<Longrightarrow> commitment_at s c n = Some h \<or> backed allowed sha s' c n h"
  shows "commit_inv allowed sha s'"
  using assms backed_mono [OF _ assms(2)] unfolding commit_inv_def by metis

lemma commit_inv_send:
  assumes "send_packet sha e c t ps s = Inr (n, s')" and "commit_inv allowed sha s"
  shows "commit_inv allowed sha s'"
proof -
  from send_packet_effect [OF assms(1)]
  obtain cp h where "commit_v2_packet sha (sent_packet c n cp t ps) = Inr h"
    and com: "commitment_at s' = (commitment_at s)(c := (commitment_at s c)(n \<mapsto> h))"
    and ev: "r_events s' = r_events s @ [SendPacket c n (sent_packet c n cp t ps)]"
    by blast
  moreover have "pk_source_client (sent_packet c n cp t ps) = c" "pk_sequence (sent_packet c n cp t ps) = n"
    by (simp_all add: sent_packet_def)
  ultimately have "backed allowed sha s' c n h" by (auto simp: backed_def)
  then show ?thesis
    by (intro commit_inv_step [OF assms(2)]) (auto simp: com ev split: if_splits)
qed

lemma commit_inv_raw:
  assumes "router_exec sha ce e call s x = Inr (r, s', x')" and "raw_store_call call" and "allowed call"
    and "commit_inv allowed sha s"
  shows "commit_inv allowed sha s'"
proof (rule commit_inv_step [OF assms(4)])
  show "set (r_events s) \<subseteq> set (r_events s')" using raw_store_effect [OF assms(2,1)] by simp
  show "commitment_at s c n = Some h \<or> backed allowed sha s' c n h" if "commitment_at s' c n = Some h" for c n h
    using assms(1-3) that
    by (cases call) (auto simp: backed_def bytes32_arg_def ret_unit_eq_Inr bindE_simps store_eq_Inr
        views_of_write views_of_delete split: if_splits)
qed

lemma commit_inv_exec:
  assumes "router_exec sha ce e call s x = Inr (r, s', x')" and "allowed call" and "commit_inv allowed sha s"
  shows "commit_inv allowed sha s'"
proof (cases "raw_store_call call")
  case True
  then show ?thesis by (rule commit_inv_raw [OF assms(1) _ assms(2,3)])
next
  case False
  with assms(1) show ?thesis
  proof (cases rule: lifecycle_cases)
    case send
    with commit_inv_send assms(3) show ?thesis by blast
  next
    case (settle p cp ev acks)
    then show ?thesis
      by (intro commit_inv_step [OF assms(3)]) (auto simp: settled_views split: if_splits)
  next
    case other
    from other_call_commitments(2) [OF assms(1) False other]
    obtain evs where ev: "r_events s' = r_events s @ evs" by blast
    show ?thesis
      using other_call_commitments(1) [OF assms(1) False other] by (intro commit_inv_step [OF assms(3)]) (simp_all add: ev)
  qed
qed

lemma commit_inv_run:
  assumes "router_run sha ce allowed (router_constructor a, x0) (s, x)"
  shows "commit_inv allowed sha s"
proof (rule router_run_invariant [OF assms, where P = "commit_inv allowed sha"])
  show "commit_inv allowed sha (router_constructor a)"
    by (simp add: commit_inv_def router_constructor_def empty_router_def view_defs)
qed (rule commit_inv_exec)

section \<open>Acknowledgements\<close>

definition ack_inv :: "router_state \<Rightarrow> bool" where
  "ack_inv s \<longleftrightarrow> (\<forall>c n. ack_at s c n = None \<longleftrightarrow> receipt_at s c n = None)"

lemma ack_inv_exec:
  assumes "router_exec sha ce e call s x = Inr (r, s', x')" and "\<not> raw_store_call call" and "ack_inv s"
  shows "ack_inv s'"
proof (cases "registry_call call")
  case True
  with registry_call_views [OF _ assms(1)] assms(3) show ?thesis by (simp add: ack_inv_def)
next
  case False
  show ?thesis
  proof (cases call)
    case (WriteAcknowledgement c n acks)
    with assms have "receipt_at s c n \<noteq> None" "ack_at s c n = None"
      by (auto simp: ret_unit_eq_Inr write_acknowledgement_eq_Inr)
    with assms(3) show ?thesis by (simp add: ack_inv_def)
  qed (use False assms in \<open>auto simp: bindE_simps acknowledge_packet_eq_Inr timeout_packet_eq_Inr ack_inv_def
        received_views settled_views dest!: send_packet_effect recv_packet_effect\<close>)
qed

text \<open>
  With direct calls of the store entry points a receipt may lack its acknowledgement, at the slots
  written by \<open>set_packet_receipt\<close> only.
\<close>

definition ack_written_inv :: "(router_call \<Rightarrow> bool) \<Rightarrow> router_state \<Rightarrow> bool" where
  "ack_written_inv allowed s \<longleftrightarrow>
     (\<forall>c n. receipt_at s c n \<noteq> None \<longrightarrow> ack_at s c n \<noteq> None \<or> allowed (SetPacketReceipt c n))"

lemma ack_written_step:
  assumes "ack_written_inv allowed s"
    and "\<And>c n. receipt_at s' c n \<noteq> None \<Longrightarrow>
      (receipt_at s c n \<noteq> None \<and> (ack_at s c n \<noteq> None \<longrightarrow> ack_at s' c n \<noteq> None)) \<or> ack_at s' c n \<noteq> None \<or> allowed (SetPacketReceipt c n)"
  shows "ack_written_inv allowed s'"
  using assms unfolding ack_written_inv_def by blast

lemma ack_written_exec:
  assumes "router_exec sha ce e call s x = Inr (r, s', x')" and "allowed call" and "ack_written_inv allowed s"
  shows "ack_written_inv allowed s'"
proof (cases "registry_call call")
  case True
  with registry_call_views [OF _ assms(1)] assms(3) show ?thesis by (simp add: ack_written_inv_def)
next
  case False
  show ?thesis
  proof (rule ack_written_step [OF assms(3)])
    fix c n
    assume "receipt_at s' c n \<noteq> None"
    with False assms(1,2) show "(receipt_at s c n \<noteq> None \<and> (ack_at s c n \<noteq> None \<longrightarrow> ack_at s' c n \<noteq> None))
      \<or> ack_at s' c n \<noteq> None \<or> allowed (SetPacketReceipt c n)"
      by (cases call) (auto simp: bindE_simps ret_unit_eq_Inr bytes32_arg_def store_eq_Inr views_of_write views_of_delete
          acknowledge_packet_eq_Inr timeout_packet_eq_Inr write_acknowledgement_eq_Inr
          received_views settled_views dest!: send_packet_effect recv_packet_effect split: if_splits)
  qed
qed

lemma ack_written_run:
  assumes "router_run sha ce allowed (router_constructor a, x0) (s, x)"
  shows "ack_written_inv allowed s"
proof (rule router_run_invariant [OF assms, where P = "ack_written_inv allowed"])
  show "ack_written_inv allowed (router_constructor a)"
    by (simp add: ack_written_inv_def router_constructor_def empty_router_def view_defs)
qed (rule ack_written_exec)

text \<open>The invariants of a run of checked calls, together.\<close>

definition protocol_inv :: "router_state \<Rightarrow> bool" where
  "protocol_inv s \<longleftrightarrow> seq_inv s \<and> settle_inv s \<and> ack_inv s"

definition checked_call :: "router_call \<Rightarrow> bool" where
  "checked_call call \<longleftrightarrow> \<not> raw_store_call call"

lemma protocol_inv_constructor: "protocol_inv (router_constructor a)"
  unfolding protocol_inv_def
  by (intro conjI seq_inv_constructor)
     (simp_all add: settle_inv_def ack_inv_def router_constructor_def empty_router_def view_defs count_defs)

lemma protocol_inv_run:
  assumes "router_run sha ce allowed (router_constructor a, x) (s', x')" and "\<And>call. allowed call \<Longrightarrow> checked_call call"
  shows "protocol_inv s'"
  by (rule router_run_invariant [OF assms(1), where P = protocol_inv, OF protocol_inv_constructor])
     (use assms(2) in \<open>auto simp: protocol_inv_def checked_call_def intro: seq_inv_exec settle_inv_exec ack_inv_exec\<close>)

lemma registry_wf_run:
  "router_run sha ce allowed (s, x) (s', x') \<Longrightarrow> registry_wf s \<Longrightarrow> registry_wf s'"
  by (erule router_run_invariant) (auto intro: registry_wf_exec)

lemma registry_kept_run:
  assumes "router_run sha ce allowed (s, x) (s', x')" and "registry_wf s"
  shows "registry_wf s' \<and> registry_kept s s'"
  by (rule router_run_invariant [OF assms(1), where P = "\<lambda>t. registry_wf t \<and> registry_kept s t"])
     (use assms(2) in \<open>auto intro: registry_wf_exec registry_kept_trans registry_kept_exec\<close>)

section \<open>Every minted identifier is registered\<close>

definition registry_full :: "router_state \<Rightarrow> bool" where
  "registry_full s \<longleftrightarrow> (\<forall>t k. k < next_id s t \<longrightarrow> r_client_type s (minted_id t k) = Some t)"

lemma registry_full_create:
  assumes "create_client ce e t cs cons h s x = Inr (c, s', x')" and "registry_full s"
  shows "registry_full s'"
proof -
  obtain c: "c = minted_id t (next_id s t)" and ty: "r_client_type s' = (r_client_type s)(c \<mapsto> t)"
    and nx: "\<And>t'. next_id s' t' = (if t' = t then next_id s t + 1 else next_id s t')"
    using create_client_registry [OF assms(1)] by auto
  have "r_client_type s' (minted_id u k) = Some u" if "k < next_id s' u" for u k
  proof (cases "minted_id u k = c")
    case True
    then show ?thesis by (simp add: c ty minted_id_inj)
  next
    case False
    with that have "k < next_id s u" by (auto simp: c nx minted_id_inj less_Suc_eq split: if_splits)
    with False assms(2) show ?thesis by (simp add: ty registry_full_def)
  qed
  then show ?thesis by (simp add: registry_full_def)
qed

lemma registry_full_exec:
  assumes "router_exec sha ce e call s x = Inr (r, s', x')" and "registry_full s"
  shows "registry_full s'"
proof (cases "registry_call call")
  case False
  from packet_call_frame [OF False assms(1)] assms(2) show ?thesis
    by (simp add: same_registry_def registry_full_def next_id_def)
next
  case True
  show ?thesis
  proof (cases call)
    case (CreateClient t cs cons h)
    with assms show ?thesis by (auto simp: bindE_simps intro: registry_full_create)
  qed (use True assms in \<open>auto simp: exec_simps bindE_simps registry_full_def next_id_def\<close>)
qed

lemma registry_full_run:
  "router_run sha ce allowed (router_constructor a, x) (s', x') \<Longrightarrow> registry_full s'"
proof (erule router_run_invariant [where P = registry_full])
  show "registry_full (router_constructor a)"
    by (simp add: registry_full_def next_id_def router_constructor_def empty_router_def)
qed (rule registry_full_exec)

text \<open>The registered clients of a type are the identifiers minted for it.\<close>

lemma registered_clients:
  assumes "registry_wf s" and "registry_full s"
  shows "{c. r_client_type s c = Some t} = minted_id t ` {..<next_id s t}"
  using registry_wf_minted [OF assms(1)] assms(2) by (fastforce simp: registry_full_def)

end
