(* ===== verification/Router_Properties.thy ===== *)
theory Router_Properties
  imports Router_Runs
begin

text \<open>
  The properties of the router contract, each stated over its runs or over one call, and their
  application to a small concrete ledger: a client is created, a counterparty and a port are
  registered, packets are sent, received, acknowledged and timed out.
\<close>

section \<open>A sample ledger\<close>

text \<open>A light client that accepts every proof and reports time 5000, an application that answers \<open>[1]\<close>.\<close>

definition sample_callees :: "unit callees" where
  "sample_callees = \<lparr>
     lc_initialise = (\<lambda>e a c cs cons h x. Inr ((), x)),
     lc_check_for_misbehaviour = (\<lambda>e a c msg x. Inr (msg = [66], x)),
     lc_update_state_on_misbehaviour = (\<lambda>e a c msg x. Inr ((), x)),
     lc_update_state = (\<lambda>e a c msg x. Inr (7, x)),
     lc_verify_membership = (\<lambda>e a c h pf path v x. Inr (True, x)),
     lc_verify_non_membership = (\<lambda>e a c h pf path x. Inr (True, x)),
     lc_get_timestamp_at_height = (\<lambda>e a c h x. Inr (5000, x)),
     app_on_recv_packet = (\<lambda>e a cb x. Inr ([1], x)),
     app_on_acknowledgement_packet = (\<lambda>e a cb x. Inr ((), x)),
     app_on_timeout_packet = (\<lambda>e a cb x. Inr ((), x))\<rparr>"

definition sample_signers :: env where
  "sample_signers = sample_env\<lparr>auths := [5, 20]\<rparr>"

definition sample_type :: bytes where
  "sample_type = asc ''07-tendermint''"

definition sample_client :: bytes where
  "sample_client = asc ''07-tendermint-0''"

definition sample_peer :: bytes where
  "sample_peer = asc ''08-wasm-0''"

definition sample_port :: bytes where
  "sample_port = asc ''transfer''"

lemma sample_lengths [simp]:
  "length sample_type = 13" "length sample_client = 15" "length sample_peer = 9" "length sample_port = 8"
  by (simp_all add: sample_type_def sample_client_def sample_peer_def sample_port_def)

lemma sample_valid:
  "validate_client_type sample_type = Inr ()" "validate_counterparty_client_id sample_peer = Inr ()"
  "validate_port_id sample_port = Inr ()"
  unfolding sample_type_def sample_peer_def sample_port_def by code_simp+

lemma sample_minted: "sample_type @ [45, 48] = sample_client"
  unfolding sample_type_def sample_client_def by code_simp

text \<open>The router after the setup calls, and after it has received and sent a packet.\<close>

definition sample_setup :: "router_call list" where
  "sample_setup =
     [RegisterClientType sample_type 10, CreateClient sample_type [] [] 3,
      RegisterCounterparty sample_client sample_peer [[9]], RegisterPort sample_port 20]"

definition sample_ready :: router_state where
  "sample_ready = (router_constructor 5)\<lparr>
     r_client_type_addr := [sample_type \<mapsto> 10], r_next_client_id := [sample_type \<mapsto> 1],
     r_client_type := [sample_client \<mapsto> sample_type], r_client_lc_addr := [sample_client \<mapsto> 10],
     r_counterparty := [sample_client \<mapsto> \<lparr>cp_client_id = sample_peer, cp_commitment_prefix = [[9]]\<rparr>],
     r_port := [sample_port \<mapsto> 20]\<rparr>"

lemma sample_setup_served:
  "router_serve sha sample_callees (map (Pair sample_signers) sample_setup) (router_constructor 5, ())
     = (sample_ready, ())"
  by (simp add: sample_setup_def ret_unit_def register_client_type_def create_client_def
      register_counterparty_def register_port_def router_constructor_def empty_router_def sample_signers_def
      sample_env_def require_auth_def sample_valid mint_client_id_def write_u32_def CLIENT_ID_BUF_def
      add_u32_def sample_callees_def sample_ready_def sample_minted)

lemma sample_setup_run: "router_run sha sample_callees checked_call (router_constructor 5, ()) (sample_ready, ())"
proof -
  have "router_run sha sample_callees checked_call (router_constructor 5, ())
     (router_serve sha sample_callees (map (Pair sample_signers) sample_setup) (router_constructor 5, ()))"
    by (rule router_serve_run) (simp add: sample_setup_def checked_call_def)
  then show ?thesis by (simp only: sample_setup_served)
qed

definition sample_in :: packet where
  "sample_in = \<lparr>pk_sequence = 1, pk_source_client = sample_peer, pk_dest_client = sample_client,
     pk_timeout_timestamp = 1000, pk_payloads = [sample_payload]\<rparr>"

lemma sample_payload_ports [simp]:
  "pl_source_port sample_payload = sample_port" "pl_dest_port sample_payload = sample_port"
  by (simp_all add: sample_payload_def sample_port_def)

lemma sample_commits:
  assumes "length (pk_dest_client p) \<le> 256" "pk_payloads p = [sample_payload]"
  shows "commit_v2_packet sha p = Inr (sha (packet_preimages sha p ! 3))"
  using assms
  by (simp add: commit_v2_packet_def commit_payload_def sha256_string_def sha256_bytes_def packet_preimages_def
      payload_hash_def payload_preimages_def sample_payload_def Let_def)

lemma sample_recv:
  "recv_packet sha sample_callees sample_signers sample_in [] 3 sample_ready ()
     = Inr (received_state sha sample_in [[1]] sample_ready, ())"
  by (auto simp: recv_packet_eq_Inr verify_membership_eq_Inr sample_commits sample_in_def sample_ready_def
      router_constructor_def empty_router_def sample_signers_def sample_env_def sample_callees_def
      set_packet_receipt_eq_Inr dispatch_recv_callbacks_def recv_step_def port_app_def view_defs set_provable_def)

definition sample_out :: packet where
  "sample_out = \<lparr>pk_sequence = 1, pk_source_client = sample_client, pk_dest_client = sample_peer,
     pk_timeout_timestamp = 1000, pk_payloads = [sample_payload]\<rparr>"

definition sample_sent :: "(bytes \<Rightarrow> bytes) \<Rightarrow> router_state" where
  "sample_sent sha = publish (SendPacket sample_client 1 sample_out)
     (set_provable (sample_client @ PACKET_COMMITMENT_DISCRIMINATOR # to_be_bytes 1)
        (sha (packet_preimages sha sample_out ! 3))
        (sample_ready\<lparr>r_next_seq_send := [sample_client \<mapsto> 1]\<rparr>))"

lemma sample_send:
  "send_packet sha sample_signers sample_client 1000 [sample_payload] sample_ready = Inr (1, sample_sent sha)"
  by (auto simp: send_packet_eq_Inr sample_commits sent_packet_def last_seq_def sample_ready_def sample_sent_def
      sample_out_def router_constructor_def empty_router_def sample_signers_def sample_env_def)

lemma sample_sent_run:
  "router_run sha sample_callees checked_call (router_constructor 5, ()) (sample_sent sha, ())"
proof -
  have "router_exec sha sample_callees sample_signers (DoSendPacket sample_client 1000 [sample_payload])
      sample_ready () = Inr (RetU64 1, sample_sent sha, ())"
    by (simp add: sample_send)
  then have "router_step sha sample_callees checked_call (sample_ready, ()) (sample_sent sha, ())"
    by (rule router_step.invoke [rotated]) (simp add: checked_call_def)
  with sample_setup_run show ?thesis by (rule rtranclp.rtrancl_into_rtrancl)
qed

lemma sample_in_flight:
  "(\<And>x. length (sha x) = 32) \<Longrightarrow>
   check_in_flight sha sample_out (sample_sent sha) = Inr \<lparr>cp_client_id = sample_peer, cp_commitment_prefix = [[9]]\<rparr>"
  by (auto simp: check_in_flight_eq_Inr sample_commits sample_out_def sample_sent_def commitment_at_def
      set_provable_def publish_def sample_ready_def)

lemma sample_fields [simp]:
  "pk_payloads sample_out = [sample_payload]" "pk_source_client sample_out = sample_client"
  "pk_dest_client sample_out = sample_peer" "pk_sequence sample_out = 1" "pk_timeout_timestamp sample_out = 1000"
  "r_port (sample_sent sha) = [sample_port \<mapsto> 20]" "r_client_lc_addr (sample_sent sha) = [sample_client \<mapsto> 10]"
  by (simp_all add: sample_out_def sample_sent_def publish_def set_provable_def sample_ready_def)

lemma sample_acknowledge:
  "(\<And>x. length (sha x) = 32) \<Longrightarrow>
   acknowledge_packet sha sample_callees sample_signers sample_out [[1]] [] 3 (sample_sent sha) ()
     = Inr (settled_state (AckPacket sample_client 1 sample_out [[1]]) sample_out (sample_sent sha), ())"
  by (simp add: acknowledge_packet_eq_Inr sample_in_flight verify_membership_eq_Inr dispatch_ack_callbacks_def
      ack_step_def port_app_def sample_callees_def Let_def)

lemma sample_timeout:
  "(\<And>x. length (sha x) = 32) \<Longrightarrow>
   timeout_packet sha sample_callees sample_signers sample_out [] 3 (sample_sent sha) ()
     = Inr (settled_state (TimeoutPacket sample_client 1 sample_out) sample_out (sample_sent sha), ())"
  by (simp add: timeout_packet_eq_Inr sample_in_flight verify_non_membership_eq_Inr dispatch_timeout_callbacks_def
      timeout_step_def port_app_def sample_callees_def Let_def)

section \<open>Receiving\<close>

text \<open>
  C1 (exactly-once receipt). From deployment on, whatever calls anyone makes in whatever order and
  however the light clients and applications behave, the router reports the receipt of the packet
  with a given destination client and sequence at most once.
\<close>

theorem recv_at_most_once:
  assumes "router_run sha ce (\<lambda>_. True) (router_constructor admin, x0) (s, x)"
  shows "recv_count s c n \<le> 1"
proof -
  have "recv_inv s"
    by (rule router_run_invariant [OF assms, where P = recv_inv, OF recv_inv_constructor]) (rule recv_inv_exec)
  then show ?thesis by (simp add: recv_inv_def)
qed

lemma run_any: "router_run sha ce allowed sx sx' \<Longrightarrow> router_run sha ce (\<lambda>_. True) sx sx'"
proof (erule rtranclp_mono [THEN predicate2D, rotated])
  show "router_step sha ce allowed \<le> router_step sha ce (\<lambda>_. True)"
    by (auto elim!: router_step.cases intro: router_step.intros)
qed

lemma sample_received_checked:
  "router_run sha sample_callees checked_call (router_constructor 5, ())
     (received_state sha sample_in [[1]] sample_ready, ())"
proof -
  have "router_exec sha sample_callees sample_signers (DoRecvPacket sample_in [] 3) sample_ready ()
      = Inr (RetUnit, received_state sha sample_in [[1]] sample_ready, ())"
    by (simp add: sample_recv)
  then have "router_step sha sample_callees checked_call (sample_ready, ())
      (received_state sha sample_in [[1]] sample_ready, ())"
    by (rule router_step.invoke [rotated]) (simp add: checked_call_def)
  with sample_setup_run show ?thesis by (rule rtranclp.rtrancl_into_rtrancl)
qed

lemmas sample_received_run = run_any [OF sample_received_checked]

theorem recv_at_most_once_witness:
  "recv_count (received_state sample_sha sample_in [[1]] sample_ready) sample_client 1 \<le> 1"
  by (rule recv_at_most_once [OF sample_received_run])

text \<open>
  No replay. Once a packet has been received, every later attempt to receive a packet with
  the same destination client and sequence, after any further calls, is refused by one of the
  checks that precede the proof and the application callbacks.
\<close>

lemma recv_no_replay:
  assumes "recv_packet sha ce e p pf h s x = Inr (s1, x1)"
    and "router_run sha ce (\<lambda>_. True) (s1, x1) (s2, x2)"
    and "pk_dest_client q = pk_dest_client p" and "pk_sequence q = pk_sequence p"
  shows "\<exists>err \<in> {CounterpartyNotRegistered, PacketCounterpartyMismatch, TimeoutAlreadyElapsed, ReceiptAlreadyExists}.
           recv_packet sha ce e' q pf' h' s2 x2 = Inl (RouterFault err)"
proof -
  have "receipt_at s1 (pk_dest_client p) (pk_sequence p) \<noteq> None" and len: "length (pk_dest_client p) \<le> 119"
    using assms(1) by (auto simp: recv_packet_eq_Inr received_views)
  then have "receipt_at s2 (pk_dest_client p) (pk_sequence p) \<noteq> None"
    by (intro router_run_invariant [OF assms(2), where P = "\<lambda>s. receipt_at s (pk_dest_client p) (pk_sequence p) \<noteq> None"])
       (auto dest: receipt_kept_exec)
  with len have "has_packet_receipt (pk_dest_client q) (pk_sequence q) s2 = Inr True"
    by (simp add: has_packet_receipt_eq_Inr assms(3, 4))
  then show ?thesis
    by (cases "client_counterparty (pk_dest_client q) s2") (auto simp: recv_packet_def ensure_def)
qed

lemma recv_no_replay_witness:
  "\<exists>err \<in> {CounterpartyNotRegistered, PacketCounterpartyMismatch, TimeoutAlreadyElapsed, ReceiptAlreadyExists}.
     recv_packet sample_sha sample_callees sample_signers sample_in [] 3
       (received_state sample_sha sample_in [[1]] sample_ready) () = Inl (RouterFault err)"
  by (rule recv_no_replay [OF sample_recv rtranclp.rtrancl_refl refl refl])

text \<open>
  The acknowledgements of the applications: the payloads are handed over in order, each to the
  application registered for its port, and each application answers in the world the one before it
  has left.
\<close>

inductive app_acks for ce e p s where
  none: "app_acks ce e p s [] x [] x"
| payload: "r_port s (pl_dest_port pl) = Some app
    \<Longrightarrow> app_on_recv_packet ce (invoke_env e app) app
          \<lparr>rc_source_client = pk_source_client p, rc_dest_client = pk_dest_client p, rc_sequence = pk_sequence p, rc_payload = pl\<rparr> x
        = Inr (ack, x1)
    \<Longrightarrow> app_acks ce e p s pls x1 acks x2 \<Longrightarrow> app_acks ce e p s (pl # pls) x (ack # acks) x2"

inductive_simps app_acks_simps [simp]:
  "app_acks ce e p s [] x acks x'" "app_acks ce e p s (pl # pls) x acks x'"

lemma recv_step_eq_Inr:
  "recv_step ce e p s pl (acks, x) = Inr (acks', x1) \<longleftrightarrow>
     (\<exists>app ack. r_port s (pl_dest_port pl) = Some app
        \<and> app_on_recv_packet ce (invoke_env e app) app
            \<lparr>rc_source_client = pk_source_client p, rc_dest_client = pk_dest_client p, rc_sequence = pk_sequence p, rc_payload = pl\<rparr> x
          = Inr (ack, x1) \<and> acks' = acks @ [ack])"
  by (auto simp: recv_step_def bindE_simps port_app_def Let_def split: prod.splits)

lemma recv_loop_acks:
  assumes "r_port s1 = r_port s"
  shows "foldE (recv_step ce e p s1) pls (acks, x) = Inr (acks', x')
     \<longleftrightarrow> (\<exists>new. app_acks ce e p s pls x new x' \<and> acks' = acks @ new)"
proof (induction pls arbitrary: acks x)
  case Nil
  then show ?case by auto
next
  case (Cons pl pls)
  have "foldE (recv_step ce e p s1) (pl # pls) (acks, x) = Inr (acks', x')
    \<longleftrightarrow> (\<exists>acks1 x1. recv_step ce e p s1 pl (acks, x) = Inr (acks1, x1)
          \<and> (\<exists>new. app_acks ce e p s pls x1 new x' \<and> acks' = acks1 @ new))"
    by (simp add: bindE_simps Cons.IH)
  also have "\<dots> \<longleftrightarrow> (\<exists>new. app_acks ce e p s (pl # pls) x new x' \<and> acks' = acks @ new)"
    unfolding recv_step_eq_Inr assms app_acks_simps(2) by (intro iffI; elim exE conjE) auto
  finally show ?case .
qed

lemma dispatch_recv_acks:
  assumes "dispatch_recv_callbacks sha ce e p s1 x = Inr (acks, x')" and "r_port s1 = r_port s"
  shows "\<exists>answers. app_acks ce e p s (pk_payloads p) x answers x'
    \<and> acks = (if answers = [] then [error_ack_hash sha] else answers)"
proof -
  obtain acks0 where loop: "foldE (recv_step ce e p s1) (pk_payloads p) ([], x) = Inr (acks0, x')"
    and acks: "acks = (if acks0 = [] then [error_ack_hash sha] else acks0)"
    using assms(1) by (auto simp: dispatch_recv_callbacks_def bindE_simps)
  from loop have "app_acks ce e p s (pk_payloads p) x acks0 x'"
    unfolding recv_loop_acks [OF assms(2)] by simp
  with acks show ?thesis by blast
qed

text \<open>
  C4 (what a receipt rests on). A packet is received only if its source is the counterparty
  registered for the destination client, its timeout lies in the future, no receipt exists, and
  the destination client's light client accepted a proof that the counterparty stores the packet's
  commitment under its path. Then every payload has been handed to the application of its port, in
  order, and the receipt and the commitment to exactly their answers are stored and published (to the
  error acknowledgement when there is no payload); nothing else of the provable store has changed.
\<close>

theorem recv_packet_sound:
  assumes "recv_packet sha ce e p pf h s x = Inr (s', x')"
  shows "\<exists>cp hash lc x1 answers acks.
    r_counterparty s (pk_dest_client p) = Some cp \<and> cp_client_id cp = pk_source_client p
    \<and> ledger_timestamp e < pk_timeout_timestamp p
    \<and> receipt_at s (pk_dest_client p) (pk_sequence p) = None
    \<and> commit_v2_packet sha p = Inr hash \<and> r_client_lc_addr s (pk_dest_client p) = Some lc
    \<and> lc_verify_membership ce (invoke_env e lc) lc (pk_dest_client p) h pf
        (concat (cp_commitment_prefix cp) @ pk_source_client p @ 1 # to_be_bytes (pk_sequence p)) hash x
      = Inr (True, x1)
    \<and> app_acks ce e p s (pk_payloads p) x1 answers x'
    \<and> acks = (if pk_payloads p = [] then [error_ack_hash sha] else answers)
    \<and> receipt_at s' (pk_dest_client p) (pk_sequence p) = Some [RECEIPT_SENTINEL]
    \<and> ack_at s' (pk_dest_client p) (pk_sequence p) = Some (commit_v2_acknowledgement sha acks)
    \<and> r_events s' = r_events s @ [RecvPacket (pk_dest_client p) (pk_sequence p) p, WriteAck (pk_dest_client p) (pk_sequence p) acks]
    \<and> commitment_at s' = commitment_at s
    \<and> (\<forall>c n. (c, n) \<noteq> (pk_dest_client p, pk_sequence p) \<longrightarrow>
          receipt_at s' c n = receipt_at s c n \<and> ack_at s' c n = ack_at s c n)"
proof -
  obtain cp hash x1 s1 acks where r: "r_counterparty s (pk_dest_client p) = Some cp" "cp_client_id cp = pk_source_client p"
    "ledger_timestamp e < pk_timeout_timestamp p" "receipt_at s (pk_dest_client p) (pk_sequence p) = None"
    "commit_v2_packet sha p = Inr hash"
    and v: "verify_membership ce e (pk_dest_client p) h pf
        (concat (cp_commitment_prefix cp) @ pk_source_client p @ 1 # to_be_bytes (pk_sequence p)) hash s x = Inr x1"
    and s1: "set_packet_receipt (pk_dest_client p) (pk_sequence p) s = Inr s1"
    and d: "dispatch_recv_callbacks sha ce e p s1 x1 = Inr (acks, x')" and s': "s' = received_state sha p acks s"
    using assms by (auto simp: recv_packet_eq_Inr)
  have "r_port s1 = r_port s" using s1 by (auto simp: set_packet_receipt_eq_Inr set_provable_def)
  from dispatch_recv_acks [OF d this] obtain answers where a: "app_acks ce e p s (pk_payloads p) x1 answers x'"
    "acks = (if answers = [] then [error_ack_hash sha] else answers)" by blast
  then have "acks = (if pk_payloads p = [] then [error_ack_hash sha] else answers)"
    by (cases "pk_payloads p") auto
  moreover obtain lc where "r_client_lc_addr s (pk_dest_client p) = Some lc"
    "lc_verify_membership ce (invoke_env e lc) lc (pk_dest_client p) h pf
        (concat (cp_commitment_prefix cp) @ pk_source_client p @ 1 # to_be_bytes (pk_sequence p)) hash x = Inr (True, x1)"
    using v by (auto simp: verify_membership_eq_Inr)
  moreover have "r_events s' = r_events s
      @ [RecvPacket (pk_dest_client p) (pk_sequence p) p, WriteAck (pk_dest_client p) (pk_sequence p) acks]"
    by (simp add: s')
  ultimately show ?thesis
    using r a(1) by (intro exI conjI allI impI) (auto simp: s' received_views)
qed

theorem recv_packet_sound_witness:
  "receipt_at (received_state sample_sha sample_in [[1]] sample_ready) sample_client 1 = Some [RECEIPT_SENTINEL]
   \<and> ack_at (received_state sample_sha sample_in [[1]] sample_ready) sample_client 1
       = Some (commit_v2_acknowledgement sample_sha [[1]])"
  using recv_packet_sound [OF sample_recv [of sample_sha]]
  by (auto simp: sample_in_def sample_callees_def)

section \<open>Sending and settling\<close>

text \<open>
  C3 (sequence numbers). After any run, the sequence numbers a client has sent under are exactly
  1, 2, ..., up to the last one, in this order: none is skipped, reused or out of order.
\<close>

theorem sent_sequences_consecutive:
  assumes "router_run sha ce (\<lambda>_. True) (router_constructor admin, x0) (s, x)"
  shows "sent_seqs s c = map of_nat [1 ..< unat (last_seq s c) + 1]"
proof -
  have "seq_inv s"
    by (rule router_run_invariant [OF assms, where P = seq_inv, OF seq_inv_constructor]) (rule seq_inv_exec)
  then show ?thesis by (simp add: seq_inv_def)
qed

theorem sent_sequences_consecutive_witness:
  "sent_seqs (sample_sent sample_sha) sample_client
     = map of_nat [1 ..< unat (last_seq (sample_sent sample_sha) sample_client) + 1]"
  by (rule sent_sequences_consecutive [OF run_any [OF sample_sent_run]])

lemma send_count_le_1:
  assumes "seq_inv s"
  shows "send_count s c n \<le> 1"
proof -
  let ?k = "unat (last_seq s c)"
  have k: "?k < 2 ^ 64" using unsigned_less [of "last_seq s c"] by simp
  have "inj_on (of_nat :: nat \<Rightarrow> u64) {1 ..< ?k + 1}"
  proof (rule inj_onI)
    fix i j assume "i \<in> {1 ..< ?k + 1}" "j \<in> {1 ..< ?k + 1}" and eq: "(of_nat i :: u64) = of_nat j"
    then have "i < 2 ^ 64" "j < 2 ^ 64" using k by auto
    then show "i = j" using arg_cong [OF eq, of unat] by (simp add: unat_of_nat take_bit_nat_eq_self)
  qed
  then have "distinct (sent_seqs s c)"
    using assms by (simp add: seq_inv_def distinct_map del: upt_Suc)
  then show ?thesis unfolding send_count_def by (rule count_list_distinct)
qed

text \<open>
  C2 (at-most-once settlement). In a run of checked calls, every packet sent is either still in
  flight, with its commitment stored, or has been acknowledged or timed out exactly once; a packet
  never sent is neither.
\<close>

theorem settled_at_most_once:
  assumes "router_run sha ce checked_call (router_constructor admin, x0) (s, x)"
  shows "settle_count s c n + in_flight s c n = send_count s c n \<and> send_count s c n \<le> 1"
  using protocol_inv_run [OF assms] send_count_le_1 by (simp add: protocol_inv_def settle_inv_def)

theorem settled_at_most_once_witness:
  "settle_count (sample_sent sample_sha) sample_client 1 + in_flight (sample_sent sample_sha) sample_client 1
     = send_count (sample_sent sample_sha) sample_client 1 \<and> send_count (sample_sent sample_sha) sample_client 1 \<le> 1"
  by (rule settled_at_most_once [OF sample_sent_run])

text \<open>
  C5 (only sent packets settle). After any run, a packet can be acknowledged or timed out only if this
  very packet was sent, in every field, or its commitment was written by a direct call of the
  unauthorised \<open>set_packet_commitment\<close> for its client and sequence; unless SHA-256 collides on one of
  the strings hashed for it and for the packet sent under its sequence. So in a run without such a
  call only packets that were sent are settled.
\<close>

theorem settles_only_sent:
  assumes "router_run sha ce allowed (router_constructor admin, x0) (s, x)"
    and "acknowledge_packet sha ce e p acks pf h s x = Inr (s', x') \<or> timeout_packet sha ce e p pf h s x = Inr (s', x')"
    and "\<And>y. length (sha y) = 32"
    and "\<And>q. SendPacket (pk_source_client p) (pk_sequence p) q \<in> set (r_events s) \<Longrightarrow>
           inj_on sha (set (packet_preimages sha p) \<union> set (packet_preimages sha q))"
  shows "SendPacket (pk_source_client p) (pk_sequence p) p \<in> set (r_events s)
    \<or> (\<exists>hash. commit_v2_packet sha p = Inr hash \<and> allowed (SetPacketCommitment (pk_source_client p) (pk_sequence p) hash))"
proof -
  from assms(2) obtain hash where com: "commitment_at s (pk_source_client p) (pk_sequence p) = Some hash"
    and p: "commit_v2_packet sha p = Inr hash"
    by (auto simp: acknowledge_packet_eq_Inr timeout_packet_eq_Inr check_in_flight_eq_Inr)
  show ?thesis
  proof (cases "allowed (SetPacketCommitment (pk_source_client p) (pk_sequence p) hash)")
    case True
    with p show ?thesis by blast
  next
    case False
    with com commit_inv_run [OF assms(1)] obtain q
      where q: "SendPacket (pk_source_client p) (pk_sequence p) q \<in> set (r_events s)"
        "commit_v2_packet sha q = Inr hash" "pk_source_client q = pk_source_client p" "pk_sequence q = pk_sequence p"
      unfolding commit_inv_def backed_def by blast
    have "sha (packet_preimages sha p ! 3) = sha (packet_preimages sha q ! 3)"
      using p q(2) commit_v2_packet_last by metis
    from packet_hash_inj [OF assms(3) assms(4) [OF q(1)] this] q have "q = p" by simp
    with q(1) show ?thesis by simp
  qed
qed

lemma sample_out_collision_free: "inj_on sample_sha (set (packet_preimages sample_sha sample_out))"
  unfolding sample_out_def sample_client_def sample_peer_def by (rule inj_on_distinct) code_simp

theorem settles_only_sent_witness:
  "SendPacket sample_client 1 sample_out \<in> set (r_events (sample_sent sample_sha))"
proof -
  have "SendPacket (pk_source_client sample_out) (pk_sequence sample_out) sample_out
      \<in> set (r_events (sample_sent sample_sha))
      \<or> (\<exists>hash. commit_v2_packet sample_sha sample_out = Inr hash
          \<and> checked_call (SetPacketCommitment (pk_source_client sample_out) (pk_sequence sample_out) hash))"
    by (rule settles_only_sent [OF sample_sent_run disjI1 [OF sample_acknowledge]])
       (auto simp: sample_out_collision_free sample_sent_def set_provable_def sample_ready_def
          router_constructor_def empty_router_def)
  then show ?thesis by (simp add: checked_call_def)
qed

text \<open>
  C6 (what a timeout rests on). A packet times out only if its commitment is stored, its
  destination is the registered counterparty, the light client reports a time after the packet's
  timeout at the proof height and accepts a proof that the counterparty holds no receipt for it.
  The packet's commitment is then gone and the rest of the provable store is untouched.
\<close>

theorem timeout_packet_sound:
  assumes "timeout_packet sha ce e p pf h s x = Inr (s', x')"
  shows "\<exists>cp lc ts x1 x2.
    commitment_at s (pk_source_client p) (pk_sequence p) \<noteq> None
    \<and> r_counterparty s (pk_source_client p) = Some cp \<and> cp_client_id cp = pk_dest_client p
    \<and> r_client_lc_addr s (pk_source_client p) = Some lc
    \<and> lc_get_timestamp_at_height ce (invoke_env e lc) lc (pk_source_client p) h x = Inr (ts, x1)
    \<and> pk_timeout_timestamp p < ts
    \<and> lc_verify_non_membership ce (invoke_env e lc) lc (pk_source_client p) h pf
        (concat (cp_commitment_prefix cp) @ pk_dest_client p @ 2 # to_be_bytes (pk_sequence p)) x1 = Inr (True, x2)
    \<and> commitment_at s' (pk_source_client p) (pk_sequence p) = None
    \<and> (\<forall>c n. (c, n) \<noteq> (pk_source_client p, pk_sequence p) \<longrightarrow> commitment_at s' c n = commitment_at s c n)
    \<and> receipt_at s' = receipt_at s \<and> ack_at s' = ack_at s"
  using assms
  by (fastforce simp: timeout_packet_eq_Inr verify_non_membership_eq_Inr check_in_flight_eq_Inr settled_views)

theorem timeout_packet_sound_witness:
  "commitment_at (settled_state (TimeoutPacket sample_client 1 sample_out) sample_out (sample_sent sample_sha))
     sample_client 1 = None"
  using timeout_packet_sound [OF sample_timeout [of sample_sha, OF length_sample_sha]] by auto

text \<open>
  C14 (acknowledgements are written synchronously). After any run, \<open>write_acknowledgement\<close> succeeds for
  a client and sequence only if their receipt was written by a direct call of the unauthorised
  \<open>set_packet_receipt\<close>: every receipt of a packet writes its acknowledgement itself. In a run of checked
  calls the two are written together, so \<open>write_acknowledgement\<close> fails for every packet.
\<close>

theorem write_acknowledgement_needs_raw_receipt:
  assumes "router_run sha ce allowed (router_constructor admin, x0) (s, x)"
  shows "(write_acknowledgement sha c n acks s = Inr s' \<longrightarrow> allowed (SetPacketReceipt c n))
    \<and> ((\<forall>call. allowed call \<longrightarrow> checked_call call) \<longrightarrow>
         (ack_at s c n \<noteq> None \<longleftrightarrow> receipt_at s c n \<noteq> None) \<and> (\<exists>f. write_acknowledgement sha c n acks s = Inl f))"
proof -
  have raw: "allowed (SetPacketReceipt c n)" if "write_acknowledgement sha c n acks s = Inr t" for t
    using that ack_written_run [OF assms, unfolded ack_written_inv_def, rule_format, of c n]
    by (auto simp: write_acknowledgement_eq_Inr)
  have "(ack_at s c n \<noteq> None \<longleftrightarrow> receipt_at s c n \<noteq> None) \<and> (\<exists>f. write_acknowledgement sha c n acks s = Inl f)"
    if checked: "\<forall>call. allowed call \<longrightarrow> checked_call call"
  proof
    have "protocol_inv s" by (rule protocol_inv_run [OF assms]) (use checked in blast)
    then show "ack_at s c n \<noteq> None \<longleftrightarrow> receipt_at s c n \<noteq> None" by (simp add: protocol_inv_def ack_inv_def)
    have "\<not> checked_call (SetPacketReceipt c n)" by (simp add: checked_call_def)
    with checked raw show "\<exists>f. write_acknowledgement sha c n acks s = Inl f"
      by (cases "write_acknowledgement sha c n acks s") auto
  qed
  with raw show ?thesis by blast
qed

theorem write_acknowledgement_needs_raw_receipt_witness:
  "ack_at (received_state sample_sha sample_in [[1]] sample_ready) sample_client 1 \<noteq> None
   \<and> (\<exists>f. write_acknowledgement sample_sha sample_client 1 [[1]] (received_state sample_sha sample_in [[1]] sample_ready) = Inl f)"
  using write_acknowledgement_needs_raw_receipt [OF sample_received_checked [of sample_sha],
    where c = sample_client and n = 1 and acks = "[[1]]"]
  by (simp add: received_views sample_in_def)

section \<open>The registry\<close>

text \<open>
  C12 (fresh client identifiers). After any run, creating a client returns an identifier that no
  client, counterparty or freeze was recorded under before: the client type, a dash and the decimal
  count of clients of that type, which also fixes the type. The new client is bound to the light
  client registered for its type, and no other client changes.
\<close>

theorem create_client_fresh:
  assumes "router_run sha ce (\<lambda>_. True) (router_constructor admin, x0) (s, x)"
    and "create_client ce e t cs cons h s x = Inr (c, s', x')"
  shows "c = t @ 45 # decimal (next_id s t) \<and> length c \<le> 64
    \<and> r_client_type s c = None \<and> r_client_lc_addr s c = None \<and> r_counterparty s c = None \<and> \<not> frozen c s
    \<and> r_client_type s' = (r_client_type s)(c \<mapsto> t)
    \<and> r_client_lc_addr s' = (r_client_lc_addr s)(c := lc_address t s)
    \<and> next_id s' t = next_id s t + 1"
proof -
  have wf: "registry_wf s"
    by (rule registry_wf_run [OF assms(1) registry_wf_constructor])
  have "length (minted_id t (next_id s t)) \<le> 64"
    using assms(2) by (auto simp: create_client_eq_Inr mint_client_id_eq_Inr minted_id_def)
  with create_client_registry [OF assms(2)] minted_fresh [OF wf, of t] show ?thesis
    by (auto simp: minted_id_def frozen_def lc_address_def)
qed

theorem create_client_fresh_witness:
  "\<exists>c s'. create_client sample_callees sample_signers sample_type [] [] 3 sample_ready () = Inr (c, s', ())
     \<and> r_client_type sample_ready c = None"
proof -
  obtain c s' x' where "create_client sample_callees sample_signers sample_type [] [] 3 sample_ready () = Inr (c, s', x')"
    by (simp add: create_client_def mint_client_id_def sample_ready_def router_constructor_def empty_router_def
        add_u32_def CLIENT_ID_BUF_def write_u32_decimal decimal_def digits_rev.simps sample_callees_def)
  with create_client_fresh [OF run_any [OF sample_setup_run] this] show ?thesis by auto
qed

text \<open>
  C13 (the registry is append-only). After any further run, every client keeps its type and light
  client, every client its counterparty and every port its application; a frozen client stays
  frozen and every update of it is refused.
\<close>

theorem registry_append_only:
  assumes "router_run sha ce (\<lambda>_. True) (router_constructor admin, x0) (s, x)"
    and "router_run sha ce (\<lambda>_. True) (s, x) (s', x')"
  shows "r_client_type s \<subseteq>\<^sub>m r_client_type s' \<and> r_client_lc_addr s \<subseteq>\<^sub>m r_client_lc_addr s'
    \<and> r_counterparty s \<subseteq>\<^sub>m r_counterparty s' \<and> r_port s \<subseteq>\<^sub>m r_port s'
    \<and> (frozen c s \<longrightarrow> frozen c s' \<and> update_client ce e c msg s' x' = Inl (RouterFault ClientFrozen))"
  using registry_kept_run [OF assms(2) registry_wf_run [OF assms(1) registry_wf_constructor]]
  by (simp add: registry_kept_def update_client_def)

text \<open>A client is frozen, and then a second client of its type is created.\<close>

definition sample_frozen :: router_state where
  "sample_frozen = sample_ready\<lparr>r_frozen := [sample_client \<mapsto> True]\<rparr>"

definition sample_second :: bytes where
  "sample_second = asc ''07-tendermint-1''"

definition sample_later :: router_state where
  "sample_later = sample_frozen\<lparr>r_next_client_id := [sample_type \<mapsto> 2],
     r_client_type := [sample_client \<mapsto> sample_type, sample_second \<mapsto> sample_type],
     r_client_lc_addr := [sample_client \<mapsto> 10, sample_second \<mapsto> 10]\<rparr>"

lemma sample_frozen_run: "router_run sha sample_callees (\<lambda>_. True) (router_constructor 5, ()) (sample_frozen, ())"
proof -
  have "router_exec sha sample_callees sample_signers (UpdateClient sample_client [66]) sample_ready ()
      = Inr (RetU64 0, sample_frozen, ())"
    by (simp add: update_client_def frozen_def sample_ready_def sample_frozen_def router_constructor_def empty_router_def
        sample_callees_def)
  then have "router_step sha sample_callees (\<lambda>_. True) (sample_ready, ()) (sample_frozen, ())"
    by (rule router_step.invoke [rotated]) simp
  with run_any [OF sample_setup_run] show ?thesis by (rule rtranclp.rtrancl_into_rtrancl)
qed

lemma sample_later_run: "router_run sha sample_callees (\<lambda>_. True) (sample_frozen, ()) (sample_later, ())"
proof -
  have "sample_type @ [45, 49] = sample_second" unfolding sample_type_def sample_second_def by code_simp
  then have "router_exec sha sample_callees sample_signers (CreateClient sample_type [] [] 3) sample_frozen ()
      = Inr (RetString sample_second, sample_later, ())"
    by (simp add: create_client_def mint_client_id_def add_u32_def CLIENT_ID_BUF_def write_u32_decimal decimal_def
        digits_rev.simps sample_callees_def sample_frozen_def sample_later_def sample_ready_def router_constructor_def
        empty_router_def)
  then have "router_step sha sample_callees (\<lambda>_. True) (sample_frozen, ()) (sample_later, ())"
    by (rule router_step.invoke [rotated]) simp
  then show ?thesis by (rule r_into_rtranclp)
qed

theorem registry_append_only_witness:
  "r_client_type sample_frozen \<subseteq>\<^sub>m r_client_type sample_later \<and> r_client_type sample_later sample_second = Some sample_type
   \<and> frozen sample_client sample_later
   \<and> update_client sample_callees sample_signers sample_client [] sample_later () = Inl (RouterFault ClientFrozen)"
proof -
  have "frozen sample_client sample_frozen" by (simp add: frozen_def sample_frozen_def)
  moreover have "r_client_type sample_later sample_second = Some sample_type" by (simp add: sample_later_def)
  ultimately show ?thesis
    using registry_append_only [OF sample_frozen_run [of sample_sha] sample_later_run, of sample_client sample_signers "[]"]
    by simp
qed

section \<open>The unchecked store entry points\<close>

text \<open>
  Anyone can make the router commit to a packet nobody sent: \<open>set_packet_commitment\<close> asks for no
  authorisation, and the forged commitment is then accepted by \<open>acknowledge_packet\<close> and
  \<open>timeout_packet\<close> like a genuine one.
\<close>

lemma forged_commitment_accepted:
  assumes "length c \<le> 119" and "length hash = 32"
  shows "\<exists>s'. router_exec sha ce e (SetPacketCommitment c n hash) s x = Inr (RetUnit, s', x)
    \<and> commitment_at s' c n = Some hash \<and> r_events s' = r_events s"
  using assms by (simp add: bytes32_arg_def ret_unit_def set_packet_commitment_def path_defs v2_path_key_def
      commitment_at_def)

end
