(* ===== verification/Light_Client_Spec.thy ===== *)
theory Light_Client_Spec
  imports Soroban_Host
begin

text \<open>
  What the router relies on of a light-client contract, as locales: \<open>light_client\<close> for every light
  client of the repository and \<open>guarded_client\<close> for those that stop at a freeze. The operations
  are the entry points the router invokes to move a client forward; \<open>is_frozen_at\<close> and
  \<open>latest_at\<close> observe the state. Each contract's theory interprets the locale it satisfies.
\<close>

datatype client_message = Update bytes | Misbehave bytes

locale light_client =
  fixes upd :: "bytes \<Rightarrow> bytes \<Rightarrow> 'l \<Rightarrow> fault + (u64 \<times> 'l)"
    and misb :: "bytes \<Rightarrow> bytes \<Rightarrow> 'l \<Rightarrow> fault + 'l"
    and is_frozen_at :: "'l \<Rightarrow> bytes \<Rightarrow> bool"
    and latest_at :: "'l \<Rightarrow> bytes \<Rightarrow> u64"
    and observe :: "'l \<Rightarrow> bytes \<Rightarrow> 'o"
  assumes misb_freezes: "misb c m l = Inr l' \<Longrightarrow> is_frozen_at l' c"
    and misb_latest: "misb c m l = Inr l' \<Longrightarrow> latest_at l' c = latest_at l c"
    and upd_frozen: "upd c m l = Inr (h, l') \<Longrightarrow> is_frozen_at l' c = is_frozen_at l c"
    and upd_latest: "upd c m l = Inr (h, l') \<Longrightarrow> latest_at l c \<le> latest_at l' c"
    and upd_frame: "upd c m l = Inr (h, l') \<Longrightarrow> d \<noteq> c \<Longrightarrow> observe l' d = observe l d"
    and misb_frame: "misb c m l = Inr l' \<Longrightarrow> d \<noteq> c \<Longrightarrow> observe l' d = observe l d"
    and observe_frozen: "observe l c = observe l' c \<Longrightarrow> is_frozen_at l c = is_frozen_at l' c"
    and observe_latest: "observe l c = observe l' c \<Longrightarrow> latest_at l c = latest_at l' c"
begin

text \<open>Messages handled one after the other; one that fails is rolled back.\<close>

fun handle_all :: "(bytes \<times> client_message) list \<Rightarrow> 'l \<Rightarrow> 'l" where
  "handle_all [] l = l"
| "handle_all ((c, Update m) # ms) l =
     handle_all ms (case upd c m l of Inl _ \<Rightarrow> l | Inr (_, l') \<Rightarrow> l')"
| "handle_all ((c, Misbehave m) # ms) l =
     handle_all ms (case misb c m l of Inl _ \<Rightarrow> l | Inr l' \<Rightarrow> l')"

lemma upd_keeps_frozen: "upd c m l = Inr (h, l') \<Longrightarrow> is_frozen_at l d \<Longrightarrow> is_frozen_at l' d"
  by (cases "d = c") (auto simp: upd_frozen dest: observe_frozen [OF upd_frame])

lemma misb_keeps_frozen: "misb c m l = Inr l' \<Longrightarrow> is_frozen_at l d \<Longrightarrow> is_frozen_at l' d"
  by (cases "d = c") (auto simp: misb_freezes dest: observe_frozen [OF misb_frame])

lemma upd_keeps_latest: "upd c m l = Inr (h, l') \<Longrightarrow> latest_at l d \<le> latest_at l' d"
  by (cases "d = c") (auto simp: upd_latest dest: observe_latest [OF upd_frame])

lemma misb_keeps_latest: "misb c m l = Inr l' \<Longrightarrow> latest_at l d \<le> latest_at l' d"
  by (cases "d = c") (auto simp: misb_latest dest: observe_latest [OF misb_frame])

text \<open>A freeze is permanent and heights never go back, whatever messages arrive.\<close>

lemma handle_all_monotone:
  "(is_frozen_at l d \<longrightarrow> is_frozen_at (handle_all ms l) d) \<and> latest_at l d \<le> latest_at (handle_all ms l) d"
proof (induction ms l rule: handle_all.induct)
  case (2 c m ms l)
  then show ?case
    by (cases "upd c m l") (auto dest: upd_keeps_frozen upd_keeps_latest intro: order_trans)
next
  case (3 c m ms l)
  then show ?case
    by (cases "misb c m l") (auto dest: misb_keeps_frozen misb_keeps_latest intro: order_trans)
qed auto

text \<open>Clients of one contract do not interfere.\<close>

lemma handle_all_frame:
  "\<forall>(c, m) \<in> set ms. c \<noteq> d \<Longrightarrow> observe (handle_all ms l) d = observe l d"
proof (induction ms l rule: handle_all.induct)
  case (2 c m ms l)
  then show ?case by (cases "upd c m l") (auto dest: upd_frame)
next
  case (3 c m ms l)
  then show ?case by (cases "misb c m l") (auto dest: misb_frame)
qed auto

end

text \<open>A client that refuses updates once it is frozen.\<close>

locale guarded_client = light_client +
  assumes frozen_rejects: "is_frozen_at l c \<Longrightarrow> \<exists>f. upd c m l = Inl f"
begin

lemma handle_all_frozen_latest:
  "is_frozen_at l d \<Longrightarrow> latest_at (handle_all ms l) d = latest_at l d"
proof (induction ms l rule: handle_all.induct)
  case (2 c m ms l)
  have "latest_at l' d = latest_at l d" if "upd c m l = Inr (h, l')" for h l'
    using that 2(2) frozen_rejects [of l c m] upd_frame [OF that, of d]
    by (cases "d = c") (auto intro: observe_latest)
  with 2 show ?case by (cases "upd c m l") (auto dest: upd_keeps_frozen)
next
  case (3 c m ms l)
  have "latest_at l' d = latest_at l d" if "misb c m l = Inr l'" for l'
    using that misb_frame [OF that, of d] by (cases "d = c") (auto simp: misb_latest intro: observe_latest)
  with 3 show ?case by (cases "misb c m l") (auto dest: misb_keeps_frozen)
qed simp

end

end
