(* ===== verification/Tendermint_LC.thy ===== *)
theory Tendermint_LC
  imports Light_Client_Spec
begin

text \<open>
  The Tendermint light client, \<open>contracts/soroban/light-clients/tendermint/src/lib.rs\<close>. XDR decoding and
  encoding of its types belong to the Soroban SDK and are the fields of the parameter \<open>tm_codec\<close>.
  The contract checks no header signature and no Merkle proof; what its \<open>verify_*\<close> entry points
  do check is what is modelled.
\<close>

section \<open>Data\<close>

record trust_threshold =
  tt_numerator :: u32
  tt_denominator :: u32

record tm_height =
  th_revision_number :: u64
  th_revision_height :: u64

record tm_client_state =
  tmc_chain_id :: bytes
  tmc_trust_level :: trust_threshold
  tmc_trusting_period_secs :: u64
  tmc_unbonding_period_secs :: u64
  tmc_max_clock_drift_secs :: u64
  tmc_latest_height :: tm_height
  tmc_is_frozen :: bool
  tmc_frozen_height :: tm_height
  tmc_proof_specs :: bytes

record tm_consensus_state =
  tms_timestamp_secs :: u64
  tms_next_validators_hash :: bytes
  tms_root :: bytes

record tm_header =
  tmh_trusted_height :: tm_height
  tmh_target_height :: tm_height
  tmh_timestamp_secs :: u64
  tmh_next_validators_hash :: bytes
  tmh_app_hash :: bytes
  tmh_signed_header_bytes :: bytes
  tmh_validator_set_bytes :: bytes

record tm_state =
  tm_client :: "bytes \<rightharpoonup> tm_client_state"
  tm_consensus :: "bytes \<times> u64 \<rightharpoonup> tm_consensus_state"
  tm_frozen_flag :: "bytes \<rightharpoonup> bool"

record tm_codec =
  dec_tm_client_state :: "bytes \<Rightarrow> tm_client_state option"
  dec_tm_consensus_state :: "bytes \<Rightarrow> tm_consensus_state option"
  dec_tm_header :: "bytes \<Rightarrow> tm_header option"
  enc_tm_client_state :: "tm_client_state \<Rightarrow> bytes"
  enc_tm_consensus_state :: "tm_consensus_state \<Rightarrow> bytes"

section \<open>Operations\<close>

definition tm_load_client_state :: "bytes \<Rightarrow> tm_state \<Rightarrow> fault + tm_client_state" where
  "tm_load_client_state client_id l = ok_or (TendermintFault TmClientNotInitialised) (tm_client l client_id)"

definition tm_load_consensus_state :: "bytes \<Rightarrow> u64 \<Rightarrow> tm_state \<Rightarrow> fault + tm_consensus_state" where
  "tm_load_consensus_state client_id height l =
     ok_or (TendermintFault TmConsensusStateMissing) (tm_consensus l (client_id, height))"

definition tm_decode_header :: "tm_codec \<Rightarrow> bytes \<Rightarrow> fault + tm_header" where
  "tm_decode_header cd bs = ok_or (TendermintFault TmInvalidHeader) (dec_tm_header cd bs)"

definition tm_initialise :: "tm_codec \<Rightarrow> bytes \<Rightarrow> bytes \<Rightarrow> bytes \<Rightarrow> u64 \<Rightarrow> tm_state \<Rightarrow> fault + tm_state" where
  "tm_initialise cd client_id client_state consensus_state height l =
     bindE (ok_or (TendermintFault TmInvalidClientState) (dec_tm_client_state cd client_state)) (\<lambda>cs.
     bindE (ok_or (TendermintFault TmInvalidConsensusState) (dec_tm_consensus_state cd consensus_state)) (\<lambda>cons.
     Inr (l\<lparr>tm_client := (tm_client l)(client_id \<mapsto> cs),
            tm_consensus := (tm_consensus l)((client_id, height) \<mapsto> cons)\<rparr>)))"

definition tm_latest_height :: "bytes \<Rightarrow> tm_state \<Rightarrow> fault + u64" where
  "tm_latest_height client_id l =
     bindE (tm_load_client_state client_id l) (\<lambda>cs. Inr (th_revision_height (tmc_latest_height cs)))"

definition tm_client_state_xdr :: "tm_codec \<Rightarrow> bytes \<Rightarrow> tm_state \<Rightarrow> fault + bytes" where
  "tm_client_state_xdr cd client_id l =
     bindE (tm_load_client_state client_id l) (\<lambda>cs. Inr (enc_tm_client_state cd cs))"

definition tm_consensus_state_xdr :: "tm_codec \<Rightarrow> bytes \<Rightarrow> u64 \<Rightarrow> tm_state \<Rightarrow> fault + bytes" where
  "tm_consensus_state_xdr cd client_id height l =
     bindE (tm_load_consensus_state client_id height l) (\<lambda>cons. Inr (enc_tm_consensus_state cd cons))"

definition tm_verify_client_message :: "bytes \<Rightarrow> bytes \<Rightarrow> bytes \<times> u64" where
  "tm_verify_client_message client_id client_message = ([], 0)"

definition tm_check_for_misbehaviour :: "tm_codec \<Rightarrow> bytes \<Rightarrow> bytes \<Rightarrow> tm_state \<Rightarrow> fault + bool" where
  "tm_check_for_misbehaviour cd client_id client_message l =
     bindE (tm_load_client_state client_id l) (\<lambda>cs.
     if tmc_is_frozen cs then Inr False
     else bindE (tm_decode_header cd client_message) (\<lambda>header.
       Inr (case tm_consensus l (client_id, th_revision_height (tmh_target_height header)) of
              Some existing \<Rightarrow> tms_root existing \<noteq> tmh_app_hash header
            | None \<Rightarrow> False)))"

definition tm_update_state :: "tm_codec \<Rightarrow> bytes \<Rightarrow> bytes \<Rightarrow> tm_state \<Rightarrow> fault + (u64 \<times> tm_state)" where
  "tm_update_state cd client_id client_message l =
     bindE (tm_load_client_state client_id l) (\<lambda>cs.
     bindE (ensure (\<not> tmc_is_frozen cs) (TendermintFault TmClientFrozen)) (\<lambda>_.
     bindE (tm_decode_header cd client_message) (\<lambda>header.
     let target = th_revision_height (tmh_target_height header) in
     bindE (ensure (\<not> target \<le> th_revision_height (tmc_latest_height cs))
              (TendermintFault TmHeaderHeightNotAfterTrusted)) (\<lambda>_.
     let new_consensus = \<lparr>tms_timestamp_secs = tmh_timestamp_secs header,
           tms_next_validators_hash = tmh_next_validators_hash header, tms_root = tmh_app_hash header\<rparr> in
     Inr (target,
          l\<lparr>tm_consensus := (tm_consensus l)((client_id, target) \<mapsto> new_consensus),
            tm_client := (tm_client l)(client_id \<mapsto> cs\<lparr>tmc_latest_height := tmh_target_height header\<rparr>)\<rparr>)))))"

definition tm_update_state_on_misbehaviour :: "bytes \<Rightarrow> bytes \<Rightarrow> tm_state \<Rightarrow> fault + tm_state" where
  "tm_update_state_on_misbehaviour client_id client_message l =
     bindE (tm_load_client_state client_id l) (\<lambda>cs.
     let cs1 = cs\<lparr>tmc_is_frozen := True, tmc_frozen_height := tmc_latest_height cs\<rparr> in
     Inr (l\<lparr>tm_client := (tm_client l)(client_id \<mapsto> cs1),
            tm_frozen_flag := (tm_frozen_flag l)(client_id \<mapsto> True)\<rparr>))"

definition tm_frozen :: "bytes \<Rightarrow> tm_state \<Rightarrow> bool" where
  "tm_frozen client_id l = (case tm_frozen_flag l client_id of None \<Rightarrow> False | Some b \<Rightarrow> b)"

definition tm_verify_membership ::
  "bytes \<Rightarrow> u64 \<Rightarrow> bytes \<Rightarrow> bytes \<Rightarrow> bytes \<Rightarrow> tm_state \<Rightarrow> fault + bool" where
  "tm_verify_membership client_id height proof_bytes path val l =
     (if tm_consensus l (client_id, height) = None then Inr False
      else bindE (tm_load_client_state client_id l) (\<lambda>cs. Inr (\<not> tmc_is_frozen cs)))"

definition tm_verify_non_membership :: "bytes \<Rightarrow> u64 \<Rightarrow> bytes \<Rightarrow> bytes \<Rightarrow> tm_state \<Rightarrow> fault + bool" where
  "tm_verify_non_membership client_id height proof_bytes path l =
     (if tm_consensus l (client_id, height) = None then Inr False
      else bindE (tm_load_client_state client_id l) (\<lambda>cs. Inr (\<not> tmc_is_frozen cs)))"

definition tm_get_timestamp_at_height :: "bytes \<Rightarrow> u64 \<Rightarrow> tm_state \<Rightarrow> u64" where
  "tm_get_timestamp_at_height client_id height l =
     (case tm_consensus l (client_id, height) of None \<Rightarrow> 0 | Some c \<Rightarrow> tms_timestamp_secs c)"

section \<open>The light-client contract\<close>

definition tm_is_frozen_at :: "tm_state \<Rightarrow> bytes \<Rightarrow> bool" where
  "tm_is_frozen_at l c = (case tm_client l c of None \<Rightarrow> False | Some cs \<Rightarrow> tmc_is_frozen cs)"

definition tm_latest_at :: "tm_state \<Rightarrow> bytes \<Rightarrow> u64" where
  "tm_latest_at l c = (case tm_client l c of None \<Rightarrow> 0 | Some cs \<Rightarrow> th_revision_height (tmc_latest_height cs))"

definition tm_observe :: "tm_state \<Rightarrow> bytes \<Rightarrow> tm_client_state option \<times> (u64 \<Rightarrow> tm_consensus_state option) \<times> bool option" where
  "tm_observe l c = (tm_client l c, \<lambda>h. tm_consensus l (c, h), tm_frozen_flag l c)"

lemma tm_update_state_eq_Inr:
  "tm_update_state cd c m l = Inr (h, l') \<longleftrightarrow>
     (\<exists>cs header. tm_client l c = Some cs \<and> \<not> tmc_is_frozen cs \<and> dec_tm_header cd m = Some header
        \<and> h = th_revision_height (tmh_target_height header)
        \<and> th_revision_height (tmc_latest_height cs) < h
        \<and> l' = l\<lparr>tm_consensus := (tm_consensus l)((c, h) \<mapsto>
                     \<lparr>tms_timestamp_secs = tmh_timestamp_secs header,
                      tms_next_validators_hash = tmh_next_validators_hash header, tms_root = tmh_app_hash header\<rparr>),
                 tm_client := (tm_client l)(c \<mapsto> cs\<lparr>tmc_latest_height := tmh_target_height header\<rparr>)\<rparr>)"
  by (auto simp: tm_update_state_def tm_load_client_state_def tm_decode_header_def bindE_simps Let_def not_le)

lemma tm_misbehaviour_eq_Inr:
  "tm_update_state_on_misbehaviour c m l = Inr l' \<longleftrightarrow>
     (\<exists>cs. tm_client l c = Some cs
        \<and> l' = l\<lparr>tm_client := (tm_client l)(c \<mapsto> cs\<lparr>tmc_is_frozen := True,
                   tmc_frozen_height := tmc_latest_height cs\<rparr>),
                 tm_frozen_flag := (tm_frozen_flag l)(c \<mapsto> True)\<rparr>)"
  by (auto simp: tm_update_state_on_misbehaviour_def tm_load_client_state_def bindE_simps Let_def)

interpretation tm: guarded_client "tm_update_state cd" tm_update_state_on_misbehaviour
  tm_is_frozen_at tm_latest_at tm_observe for cd
proof (unfold_locales, goal_cases)
  case (9 l c m)
  then show ?case
    by (cases "tm_client l c")
       (auto simp: tm_is_frozen_at_def tm_update_state_def tm_load_client_state_def)
qed (auto simp: tm_update_state_eq_Inr tm_misbehaviour_eq_Inr tm_is_frozen_at_def tm_latest_at_def tm_observe_def
      fun_eq_iff)

section \<open>Stored consensus states\<close>

text \<open>No consensus state of a client lies above its latest height.\<close>

definition tm_wf_at :: "tm_state \<Rightarrow> bytes \<Rightarrow> bool" where
  "tm_wf_at l c \<longleftrightarrow> (\<forall>h. tm_consensus l (c, h) \<noteq> None \<longrightarrow> tm_client l c \<noteq> None \<and> h \<le> tm_latest_at l c)"

text \<open>What a later state keeps of a client.\<close>

definition tm_kept_at :: "bytes \<Rightarrow> tm_state \<Rightarrow> tm_state \<Rightarrow> bool" where
  "tm_kept_at c l l' \<longleftrightarrow>
     (tm_client l c \<noteq> None \<longrightarrow> tm_client l' c \<noteq> None)
   \<and> (\<forall>h v. tm_consensus l (c, h) = Some v \<longrightarrow> tm_consensus l' (c, h) = Some v)
   \<and> tm_latest_at l c \<le> tm_latest_at l' c
   \<and> (tm_is_frozen_at l c \<longrightarrow> tm_is_frozen_at l' c \<and> tm_latest_at l' c = tm_latest_at l c
        \<and> (\<forall>h. tm_consensus l' (c, h) = tm_consensus l (c, h)))"

lemma tm_kept_refl: "tm_kept_at c l l"
  by (simp add: tm_kept_at_def)

lemma tm_kept_trans: "tm_kept_at c l l' \<Longrightarrow> tm_kept_at c l' l'' \<Longrightarrow> tm_kept_at c l l''"
  unfolding tm_kept_at_def by (auto intro: order_trans)

text \<open>A step that changes nothing that is observed of the client.\<close>

lemma tm_observe_same:
  assumes "tm_observe l' c = tm_observe l c"
  shows "tm_wf_at l' c = tm_wf_at l c" and "tm_kept_at c l l'"
proof -
  have cons: "\<And>h. tm_consensus l' (c, h) = tm_consensus l (c, h)" and cl: "tm_client l' c = tm_client l c"
    using assms by (auto simp: tm_observe_def fun_eq_iff)
  then have "tm_latest_at l' c = tm_latest_at l c" "tm_is_frozen_at l' c = tm_is_frozen_at l c"
    by (simp_all add: tm_latest_at_def tm_is_frozen_at_def)
  with cons cl show "tm_wf_at l' c = tm_wf_at l c" "tm_kept_at c l l'"
    by (simp_all add: tm_wf_at_def tm_kept_at_def)
qed

lemma tm_update_kept:
  assumes "tm_update_state cd c m l = Inr (h, l')" and "tm_wf_at l d"
  shows "tm_wf_at l' d \<and> tm_kept_at d l l'"
proof (cases "d = c")
  case False
  with tm.upd_frame [OF assms(1)] tm_observe_same [of l' d l] assms(2) show ?thesis by blast
next
  case True
  have h: "tm_latest_at l c < h" "tm_latest_at l' c = h" "tm_client l' c \<noteq> None" "\<not> tm_is_frozen_at l c"
    and cons: "\<And>k. k \<noteq> h \<Longrightarrow> tm_consensus l' (c, k) = tm_consensus l (c, k)"
    using assms(1) by (auto simp: tm_update_state_eq_Inr tm_latest_at_def tm_is_frozen_at_def)
  have below: "tm_consensus l (c, k) = None" if "\<not> k \<le> tm_latest_at l c" for k
    using assms(2) that True unfolding tm_wf_at_def by blast
  then have fresh: "tm_consensus l (c, h) = None" using h(1) by simp
  have "k \<le> h" if "tm_consensus l' (c, k) \<noteq> None" for k
  proof (cases "k = h")
    case False
    with that cons below have "k \<le> tm_latest_at l c" by metis
    with h(1) show ?thesis by simp
  qed simp
  then have "tm_wf_at l' c" using h by (simp add: tm_wf_at_def)
  moreover have "tm_consensus l' (c, k) = Some v" if "tm_consensus l (c, k) = Some v" for k v
    using that fresh cons by (cases "k = h") auto
  then have "tm_kept_at c l l'" using h by (simp add: tm_kept_at_def)
  ultimately show ?thesis using True by simp
qed

lemma tm_misbehaviour_kept:
  assumes "tm_update_state_on_misbehaviour c m l = Inr l'" and "tm_wf_at l d"
  shows "tm_wf_at l' d \<and> tm_kept_at d l l'"
proof (cases "d = c")
  case False
  with tm.misb_frame [OF assms(1)] tm_observe_same [of l' d l] assms(2) show ?thesis by blast
next
  case True
  have "tm_consensus l' = tm_consensus l" "tm_latest_at l' c = tm_latest_at l c" "tm_client l' c \<noteq> None"
    "tm_is_frozen_at l' c"
    using assms(1) tm.misb_latest [OF assms(1)] tm.misb_freezes [OF assms(1)] by (auto simp: tm_misbehaviour_eq_Inr)
  with assms(2) True show ?thesis by (auto simp: tm_wf_at_def tm_kept_at_def)
qed

section \<open>Calls of the contract\<close>

text \<open>Every entry point that changes the state, called by anyone; a call that fails is rolled back.\<close>

datatype tm_call = TmInitialise bytes bytes bytes u64 | TmMessage bytes client_message

fun tm_initialises :: "bytes \<Rightarrow> tm_call \<Rightarrow> bool" where
  "tm_initialises d (TmInitialise c cs cons h) = (c = d)"
| "tm_initialises d (TmMessage c m) = False"

fun tm_exec :: "tm_codec \<Rightarrow> tm_call \<Rightarrow> tm_state \<Rightarrow> tm_state" where
  "tm_exec cd (TmInitialise c cs cons h) l = (case tm_initialise cd c cs cons h l of Inl _ \<Rightarrow> l | Inr l' \<Rightarrow> l')"
| "tm_exec cd (TmMessage c m) l = tm.handle_all cd [(c, m)] l"

lemma tm_initialise_frame: "tm_initialise cd c cs cons h l = Inr l' \<Longrightarrow> d \<noteq> c \<Longrightarrow> tm_observe l' d = tm_observe l d"
  by (auto simp: tm_initialise_def bindE_simps tm_observe_def)

lemma tm_exec_kept:
  assumes "\<not> tm_initialises d call" and "tm_wf_at l d"
  shows "tm_wf_at (tm_exec cd call l) d \<and> tm_kept_at d l (tm_exec cd call l)"
proof (cases call)
  case (TmInitialise c cs cons h)
  with assms show ?thesis
    by (auto simp: tm_kept_refl tm_observe_same [OF tm_initialise_frame] split: sum.splits)
next
  case (TmMessage c m)
  show ?thesis
  proof (cases m)
    case (Update u)
    with TmMessage assms(2) tm_update_kept show ?thesis
      by (cases "tm_update_state cd c u l") (auto simp: tm_kept_refl)
  next
    case (Misbehave u)
    with TmMessage assms(2) tm_misbehaviour_kept show ?thesis
      by (cases "tm_update_state_on_misbehaviour c u l") (auto simp: tm_kept_refl)
  qed
qed

lemma tm_calls_kept:
  assumes "\<forall>call \<in> set calls. \<not> tm_initialises d call" and "tm_wf_at l d"
  shows "tm_wf_at (fold (tm_exec cd) calls l) d \<and> tm_kept_at d l (fold (tm_exec cd) calls l)"
  using assms
proof (induction calls arbitrary: l)
  case Nil
  then show ?case by (simp add: tm_kept_refl)
next
  case (Cons call calls)
  then have "tm_wf_at (tm_exec cd call l) d \<and> tm_kept_at d l (tm_exec cd call l)"
    by (intro tm_exec_kept) auto
  with Cons show ?case by (auto intro: tm_kept_trans)
qed

lemma tm_initialise_wf_at:
  assumes "tm_initialise cd c cs_bytes cons_bytes h l = Inr l'" and "\<forall>k. tm_consensus l (c, k) = None"
    and "\<forall>cs. dec_tm_client_state cd cs_bytes = Some cs \<longrightarrow> h \<le> th_revision_height (tmc_latest_height cs)"
  shows "tm_wf_at l' c"
  using assms by (auto simp: tm_initialise_def bindE_simps tm_wf_at_def tm_latest_at_def split: if_splits)

section \<open>Properties\<close>


definition sample_tm_client :: tm_client_state where
  "sample_tm_client = \<lparr>tmc_chain_id = [], tmc_trust_level = \<lparr>tt_numerator = 1, tt_denominator = 3\<rparr>,
     tmc_trusting_period_secs = 10, tmc_unbonding_period_secs = 20, tmc_max_clock_drift_secs = 1,
     tmc_latest_height = \<lparr>th_revision_number = 0, th_revision_height = 4\<rparr>, tmc_is_frozen = False,
     tmc_frozen_height = \<lparr>th_revision_number = 0, th_revision_height = 0\<rparr>, tmc_proof_specs = []\<rparr>"

definition sample_tm_consensus :: tm_consensus_state where
  "sample_tm_consensus = \<lparr>tms_timestamp_secs = 50, tms_next_validators_hash = [], tms_root = [1]\<rparr>"

definition sample_tm_header :: tm_header where
  "sample_tm_header = \<lparr>tmh_trusted_height = \<lparr>th_revision_number = 0, th_revision_height = 4\<rparr>,
     tmh_target_height = \<lparr>th_revision_number = 0, th_revision_height = 6\<rparr>, tmh_timestamp_secs = 60,
     tmh_next_validators_hash = [], tmh_app_hash = [2], tmh_signed_header_bytes = [], tmh_validator_set_bytes = []\<rparr>"

definition sample_tm_codec :: tm_codec where
  "sample_tm_codec = \<lparr>dec_tm_client_state = (\<lambda>b. if b = [1] then Some sample_tm_client else None),
     dec_tm_consensus_state = (\<lambda>b. if b = [2] then Some sample_tm_consensus else None),
     dec_tm_header = (\<lambda>b. if b = [3] then Some sample_tm_header else None),
     enc_tm_client_state = (\<lambda>_. [1]), enc_tm_consensus_state = (\<lambda>_. [2])\<rparr>"

definition sample_tm :: tm_state where
  "sample_tm = \<lparr>tm_client = [[7] \<mapsto> sample_tm_client], tm_consensus = [([7], 4) \<mapsto> sample_tm_consensus],
     tm_frozen_flag = Map.empty\<rparr>"

lemma sample_tm_initialised:
  "tm_initialise sample_tm_codec [7] [1] [2] 4 \<lparr>tm_client = Map.empty, tm_consensus = Map.empty, tm_frozen_flag = Map.empty\<rparr>
     = Inr sample_tm"
  by (simp add: tm_initialise_def sample_tm_codec_def sample_tm_def)


text \<open>
  Nothing keeps the entry point \<open>initialise\<close> from being called again, by anyone: the second call
  replaces the client state, a freeze included, and a stored consensus state.
\<close>

lemma tm_initialise_overwrites:
  assumes "dec_tm_client_state cd cs_bytes = Some cs" "dec_tm_consensus_state cd cons_bytes = Some cons"
  shows "\<exists>l'. tm_initialise cd c cs_bytes cons_bytes h l = Inr l' \<and> tm_client l' c = Some cs \<and> tm_consensus l' (c, h) = Some cons"
  using assms by (simp add: tm_initialise_def)



end
