(* ===== verification/Attestation_LC.thy ===== *)
theory Attestation_LC
  imports Light_Client_Spec
begin

text \<open>
  The attestation light client, \<open>contracts/soroban/light-clients/attestation/src/lib.rs\<close>: a fixed set of
  attestors signs state and packet attestations, and a quorum of valid signatures makes the client
  accept them. XDR coding (\<open>att_codec\<close>) and the host's Ed25519 verification (\<open>ed\<close>, true when
  the host accepts the signature; it aborts the call otherwise) are parameters.
\<close>

section \<open>Data\<close>

record attestor_client_state =
  atc_attestor_keys :: "bytes list"
  atc_min_required_sigs :: u32
  atc_latest_height :: u64
  atc_frozen :: bool

record state_attestation =
  sa_height :: u64
  sa_timestamp :: u64

record packet_compact =
  pc_path :: bytes
  pc_value :: bytes

record packet_attestation =
  pa_height :: u64
  pa_packets :: "packet_compact list"

record attestation_proof =
  ap_attestation_data :: bytes
  ap_signatures :: "bytes list"
  ap_signer_indices :: "u32 list"

record att_state =
  att_client :: "bytes \<rightharpoonup> attestor_client_state"
  att_consensus :: "bytes \<times> u64 \<rightharpoonup> u64"
  att_frozen_flag :: "bytes \<rightharpoonup> bool"

record att_codec =
  dec_att_client_state :: "bytes \<Rightarrow> attestor_client_state option"
  dec_state_attestation :: "bytes \<Rightarrow> state_attestation option"
  dec_packet_attestation :: "bytes \<Rightarrow> packet_attestation option"
  dec_attestation_proof :: "bytes \<Rightarrow> attestation_proof option"
  enc_att_client_state :: "attestor_client_state \<Rightarrow> bytes"
  enc_state_attestation :: "state_attestation \<Rightarrow> bytes"

type_synonym ed25519 = "bytes \<Rightarrow> bytes \<Rightarrow> bytes \<Rightarrow> bool"

section \<open>Operations\<close>

definition att_load_client_state :: "bytes \<Rightarrow> att_state \<Rightarrow> fault + attestor_client_state" where
  "att_load_client_state client_id l = ok_or (AttestationFault AttClientNotInitialised) (att_client l client_id)"

definition att_decode_proof :: "att_codec \<Rightarrow> bytes \<Rightarrow> fault + attestation_proof" where
  "att_decode_proof cd bs = ok_or (AttestationFault AttInvalidProof) (dec_attestation_proof cd bs)"

definition att_decode_attestation :: "att_codec \<Rightarrow> bytes \<Rightarrow> fault + state_attestation" where
  "att_decode_attestation cd bs = ok_or (AttestationFault AttInvalidProof) (dec_state_attestation cd bs)"

definition att_decode_packet_attestation :: "att_codec \<Rightarrow> bytes \<Rightarrow> fault + packet_attestation" where
  "att_decode_packet_attestation cd bs = ok_or (AttestationFault AttInvalidProof) (dec_packet_attestation cd bs)"

definition att_decode_initial_timestamp :: "att_codec \<Rightarrow> bytes \<Rightarrow> u64" where
  "att_decode_initial_timestamp cd bs = (case dec_state_attestation cd bs of None \<Rightarrow> 0 | Some sa \<Rightarrow> sa_timestamp sa)"

definition att_initialise :: "att_codec \<Rightarrow> bytes \<Rightarrow> bytes \<Rightarrow> bytes \<Rightarrow> u64 \<Rightarrow> att_state \<Rightarrow> fault + att_state" where
  "att_initialise cd client_id client_state consensus_state height l =
     bindE (ok_or (AttestationFault AttInvalidClientState) (dec_att_client_state cd client_state)) (\<lambda>cs.
     Inr (l\<lparr>att_client := (att_client l)(client_id \<mapsto> cs),
            att_consensus := (att_consensus l)((client_id, height) \<mapsto>
              att_decode_initial_timestamp cd consensus_state)\<rparr>))"

definition att_latest_height :: "bytes \<Rightarrow> att_state \<Rightarrow> fault + u64" where
  "att_latest_height client_id l = bindE (att_load_client_state client_id l) (\<lambda>cs. Inr (atc_latest_height cs))"

definition att_client_state_xdr :: "att_codec \<Rightarrow> bytes \<Rightarrow> att_state \<Rightarrow> fault + bytes" where
  "att_client_state_xdr cd client_id l =
     bindE (att_load_client_state client_id l) (\<lambda>cs. Inr (enc_att_client_state cd cs))"

definition att_consensus_state_xdr :: "att_codec \<Rightarrow> bytes \<Rightarrow> u64 \<Rightarrow> att_state \<Rightarrow> fault + bytes" where
  "att_consensus_state_xdr cd client_id height l =
     bindE (ok_or (AttestationFault AttConsensusStateMissing) (att_consensus l (client_id, height))) (\<lambda>ts.
     Inr (enc_state_attestation cd \<lparr>sa_height = height, sa_timestamp = ts\<rparr>))"

definition att_verify_client_message :: "bytes \<Rightarrow> bytes \<Rightarrow> bytes \<times> u64" where
  "att_verify_client_message client_id client_message = ([], 0)"

text \<open>One round of the signature loop; \<open>seen\<close> is the 64-slot array of signers already counted.\<close>

definition check_signer ::
  "ed25519 \<Rightarrow> attestor_client_state \<Rightarrow> bytes \<Rightarrow> u32 \<times> bytes \<Rightarrow> bool list \<Rightarrow> fault + bool list" where
  "check_signer ed cs att_data = (\<lambda>(idx, signature) seen.
     bindE (ensure (\<not> unat idx \<ge> length (atc_attestor_keys cs)) (AttestationFault AttSignerIndexOutOfRange)) (\<lambda>_.
     let slot = unat idx in
     bindE (ensure (\<not> (slot \<ge> length seen \<or> seen ! slot)) (AttestationFault AttDuplicateSigner)) (\<lambda>_.
     bindE (ensure (ed (atc_attestor_keys cs ! slot) att_data signature) (Trap SignatureRejected)) (\<lambda>_.
     Inr (seen[slot := True])))))"

definition verify_quorum :: "ed25519 \<Rightarrow> attestor_client_state \<Rightarrow> attestation_proof \<Rightarrow> fault + unit" where
  "verify_quorum ed cs p =
     bindE (ensure (length (ap_signatures p) = length (ap_signer_indices p)) (AttestationFault AttInvalidProof)) (\<lambda>_.
     bindE (ensure (\<not> length (ap_signatures p) < unat (atc_min_required_sigs cs)) (AttestationFault AttQuorumNotMet)) (\<lambda>_.
     bindE (foldE (check_signer ed cs (ap_attestation_data p)) (zip (ap_signer_indices p) (ap_signatures p))
              (replicate 64 False)) (\<lambda>_.
     Inr ())))"

definition att_check_for_misbehaviour ::
  "att_codec \<Rightarrow> ed25519 \<Rightarrow> bytes \<Rightarrow> bytes \<Rightarrow> att_state \<Rightarrow> fault + bool" where
  "att_check_for_misbehaviour cd ed client_id client_message l =
     bindE (att_load_client_state client_id l) (\<lambda>cs.
     if atc_frozen cs then Inr False
     else bindE (att_decode_proof cd client_message) (\<lambda>p.
          bindE (verify_quorum ed cs p) (\<lambda>_.
          bindE (att_decode_attestation cd (ap_attestation_data p)) (\<lambda>att.
          Inr (case att_consensus l (client_id, sa_height att) of
                 Some existing \<Rightarrow> existing \<noteq> sa_timestamp att
               | None \<Rightarrow> False)))))"

definition att_update_state ::
  "att_codec \<Rightarrow> ed25519 \<Rightarrow> bytes \<Rightarrow> bytes \<Rightarrow> att_state \<Rightarrow> fault + (u64 \<times> att_state)" where
  "att_update_state cd ed client_id client_message l =
     bindE (att_load_client_state client_id l) (\<lambda>cs.
     bindE (ensure (\<not> atc_frozen cs) (AttestationFault AttClientFrozen)) (\<lambda>_.
     bindE (att_decode_proof cd client_message) (\<lambda>p.
     bindE (verify_quorum ed cs p) (\<lambda>_.
     bindE (att_decode_attestation cd (ap_attestation_data p)) (\<lambda>att.
     let l1 = l\<lparr>att_consensus := (att_consensus l)((client_id, sa_height att) \<mapsto> sa_timestamp att)\<rparr>;
         l2 = (if sa_height att > atc_latest_height cs
               then l1\<lparr>att_client := (att_client l1)(client_id \<mapsto> cs\<lparr>atc_latest_height := sa_height att\<rparr>)\<rparr>
               else l1) in
     Inr (sa_height att, l2))))))"

definition att_update_state_on_misbehaviour :: "bytes \<Rightarrow> bytes \<Rightarrow> att_state \<Rightarrow> fault + att_state" where
  "att_update_state_on_misbehaviour client_id client_message l =
     bindE (att_load_client_state client_id l) (\<lambda>cs.
     Inr (l\<lparr>att_client := (att_client l)(client_id \<mapsto> cs\<lparr>atc_frozen := True\<rparr>),
            att_frozen_flag := (att_frozen_flag l)(client_id \<mapsto> True)\<rparr>))"

definition att_frozen :: "bytes \<Rightarrow> att_state \<Rightarrow> bool" where
  "att_frozen client_id l = (case att_frozen_flag l client_id of None \<Rightarrow> False | Some b \<Rightarrow> b)"

text \<open>The checks both verification entry points make before they look for the packet.\<close>

definition attested_packets ::
  "att_codec \<Rightarrow> ed25519 \<Rightarrow> bytes \<Rightarrow> u64 \<Rightarrow> bytes \<Rightarrow> att_state \<Rightarrow> fault + packet_compact list" where
  "attested_packets cd ed client_id height proof_bytes l =
     bindE (att_load_client_state client_id l) (\<lambda>cs.
     if att_consensus l (client_id, height) = None then Inr []
     else bindE (att_decode_proof cd proof_bytes) (\<lambda>p.
          bindE (verify_quorum ed cs p) (\<lambda>_.
          bindE (att_decode_packet_attestation cd (ap_attestation_data p)) (\<lambda>att.
          Inr (if pa_height att \<noteq> height then [] else pa_packets att)))))"

definition att_verify_membership ::
  "att_codec \<Rightarrow> ed25519 \<Rightarrow> bytes \<Rightarrow> u64 \<Rightarrow> bytes \<Rightarrow> bytes \<Rightarrow> bytes \<Rightarrow> att_state \<Rightarrow> fault + bool" where
  "att_verify_membership cd ed client_id height proof_bytes path val l =
     bindE (attested_packets cd ed client_id height proof_bytes l) (\<lambda>packets.
     Inr (list_ex (\<lambda>pkt. pc_path pkt = path \<and> pc_value pkt = val) packets))"

definition att_verify_non_membership ::
  "att_codec \<Rightarrow> ed25519 \<Rightarrow> bytes \<Rightarrow> u64 \<Rightarrow> bytes \<Rightarrow> bytes \<Rightarrow> att_state \<Rightarrow> fault + bool" where
  "att_verify_non_membership cd ed client_id height proof_bytes path l =
     bindE (attested_packets cd ed client_id height proof_bytes l) (\<lambda>packets.
     Inr (list_ex (\<lambda>pkt. pc_path pkt = path \<and> pc_value pkt = []) packets))"

definition att_get_timestamp_at_height :: "bytes \<Rightarrow> u64 \<Rightarrow> att_state \<Rightarrow> u64" where
  "att_get_timestamp_at_height client_id height l =
     (case att_consensus l (client_id, height) of None \<Rightarrow> 0 | Some ts \<Rightarrow> ts)"

section \<open>The light-client contract\<close>

definition att_is_frozen_at :: "att_state \<Rightarrow> bytes \<Rightarrow> bool" where
  "att_is_frozen_at l c = (case att_client l c of None \<Rightarrow> False | Some cs \<Rightarrow> atc_frozen cs)"

definition att_latest_at :: "att_state \<Rightarrow> bytes \<Rightarrow> u64" where
  "att_latest_at l c = (case att_client l c of None \<Rightarrow> 0 | Some cs \<Rightarrow> atc_latest_height cs)"

definition att_observe :: "att_state \<Rightarrow> bytes \<Rightarrow> attestor_client_state option \<times> (u64 \<Rightarrow> u64 option) \<times> bool option" where
  "att_observe l c = (att_client l c, \<lambda>h. att_consensus l (c, h), att_frozen_flag l c)"

lemma raise_latest:
  assumes "att_client l c = Some cs"
  shows "(if atc_latest_height cs < h
          then l\<lparr>att_consensus := m, att_client := (att_client l)(c \<mapsto> cs\<lparr>atc_latest_height := h\<rparr>)\<rparr>
          else l\<lparr>att_consensus := m\<rparr>) =
    l\<lparr>att_consensus := m, att_client := (att_client l)(c \<mapsto> cs\<lparr>atc_latest_height := max (atc_latest_height cs) h\<rparr>)\<rparr>"
proof (cases "atc_latest_height cs < h")
  case False
  then have "(att_client l)(c \<mapsto> cs\<lparr>atc_latest_height := max (atc_latest_height cs) h\<rparr>) = att_client l"
    using assms by (auto simp: fun_eq_iff max_def)
  with False show ?thesis by simp
qed (simp add: max_def)

lemma att_update_state_eq_Inr:
  "att_update_state cd ed c m l = Inr (h, l') \<longleftrightarrow>
     (\<exists>cs p att. att_client l c = Some cs \<and> \<not> atc_frozen cs \<and> dec_attestation_proof cd m = Some p
        \<and> verify_quorum ed cs p = Inr () \<and> dec_state_attestation cd (ap_attestation_data p) = Some att
        \<and> h = sa_height att
        \<and> l' = l\<lparr>att_consensus := (att_consensus l)((c, h) \<mapsto> sa_timestamp att),
                 att_client := (att_client l)(c \<mapsto> cs\<lparr>atc_latest_height := max (atc_latest_height cs) h\<rparr>)\<rparr>)"
proof (cases "att_client l c")
  case (Some cs)
  then show ?thesis
    by (auto simp: att_update_state_def att_load_client_state_def att_decode_proof_def att_decode_attestation_def
        bindE_simps Let_def simp flip: raise_latest [OF Some] split del: if_split cong: if_cong)
qed (simp add: att_update_state_def att_load_client_state_def)

lemma att_misbehaviour_eq_Inr:
  "att_update_state_on_misbehaviour c m l = Inr l' \<longleftrightarrow>
     (\<exists>cs. att_client l c = Some cs
        \<and> l' = l\<lparr>att_client := (att_client l)(c \<mapsto> cs\<lparr>atc_frozen := True\<rparr>),
                 att_frozen_flag := (att_frozen_flag l)(c \<mapsto> True)\<rparr>)"
  by (auto simp: att_update_state_on_misbehaviour_def att_load_client_state_def bindE_simps)

interpretation att: guarded_client "att_update_state cd ed" att_update_state_on_misbehaviour
  att_is_frozen_at att_latest_at att_observe for cd ed
proof (unfold_locales, goal_cases)
  case (9 l c m)
  then show ?case
    by (cases "att_client l c")
       (auto simp: att_is_frozen_at_def att_update_state_def att_load_client_state_def)
qed (auto simp: att_update_state_eq_Inr att_misbehaviour_eq_Inr att_is_frozen_at_def att_latest_at_def att_observe_def
      fun_eq_iff)

section \<open>The quorum\<close>

lemma check_signer_eq_Inr:
  "check_signer ed cs d (i, sg) seen = Inr seen' \<longleftrightarrow>
     unat i < length (atc_attestor_keys cs) \<and> unat i < length seen \<and> \<not> seen ! unat i
     \<and> ed (atc_attestor_keys cs ! unat i) d sg \<and> seen' = seen[unat i := True]"
  by (auto simp: check_signer_def bindE_simps Let_def)

definition signer_ok :: "ed25519 \<Rightarrow> attestor_client_state \<Rightarrow> bytes \<Rightarrow> bool list \<Rightarrow> u32 \<times> bytes \<Rightarrow> bool" where
  "signer_ok ed cs d seen = (\<lambda>(i, sg). unat i < length (atc_attestor_keys cs) \<and> unat i < length seen
     \<and> \<not> seen ! unat i \<and> ed (atc_attestor_keys cs ! unat i) d sg)"

lemma signer_ok_update:
  assumes "unat i < length seen"
  shows "signer_ok ed cs d (seen[unat i := True]) (j, sg) \<longleftrightarrow> signer_ok ed cs d seen (j, sg) \<and> j \<noteq> i"
proof (cases "j = i")
  case False
  then have "unat j \<noteq> unat i" by (simp add: word_unat_eq_iff)
  with False show ?thesis by (simp add: signer_ok_def)
qed (use assms in \<open>simp add: signer_ok_def\<close>)

lemma signer_loop:
  "(\<exists>seen'. foldE (check_signer ed cs d) zs seen = Inr seen') \<longleftrightarrow>
     distinct (map fst zs) \<and> (\<forall>z \<in> set zs. signer_ok ed cs d seen z)"
proof (induction zs arbitrary: seen)
  case (Cons z zs)
  obtain i sg where z: "z = (i, sg)" by (cases z)
  have "(\<exists>seen'. foldE (check_signer ed cs d) (z # zs) seen = Inr seen') \<longleftrightarrow>
      signer_ok ed cs d seen z \<and> (\<exists>seen'. foldE (check_signer ed cs d) zs (seen[unat i := True]) = Inr seen')"
    by (auto simp: z bindE_simps check_signer_eq_Inr signer_ok_def)
  also have "\<dots> \<longleftrightarrow> signer_ok ed cs d seen z \<and> distinct (map fst zs)
      \<and> (\<forall>y \<in> set zs. signer_ok ed cs d seen y \<and> fst y \<noteq> i)"
  proof (cases "unat i < length seen")
    case True
    have "signer_ok ed cs d (seen[unat i := True]) y \<longleftrightarrow> signer_ok ed cs d seen y \<and> fst y \<noteq> i" for y
      using signer_ok_update [OF True, of ed cs d "fst y" "snd y"] by simp
    then show ?thesis by (simp add: Cons)
  qed (simp add: z signer_ok_def)
  also have "\<dots> \<longleftrightarrow> distinct (map fst (z # zs)) \<and> (\<forall>y \<in> set (z # zs). signer_ok ed cs d seen y)"
    by (auto simp: z)
  finally show ?case .
qed simp

lemma verify_quorum_iff:
  "verify_quorum ed cs p = Inr () \<longleftrightarrow>
     length (ap_signatures p) = length (ap_signer_indices p)
     \<and> unat (atc_min_required_sigs cs) \<le> length (ap_signatures p)
     \<and> distinct (ap_signer_indices p)
     \<and> (\<forall>(i, sg) \<in> set (zip (ap_signer_indices p) (ap_signatures p)).
          unat i < length (atc_attestor_keys cs) \<and> unat i < 64
          \<and> ed (atc_attestor_keys cs ! unat i) (ap_attestation_data p) sg)"
proof -
  have "verify_quorum ed cs p = Inr () \<longleftrightarrow>
     length (ap_signatures p) = length (ap_signer_indices p)
     \<and> unat (atc_min_required_sigs cs) \<le> length (ap_signatures p)
     \<and> (\<exists>seen'. foldE (check_signer ed cs (ap_attestation_data p)) (zip (ap_signer_indices p) (ap_signatures p))
              (replicate 64 False) = Inr seen')"
    by (auto simp: verify_quorum_def bindE_simps not_less)
  then show ?thesis
    unfolding signer_loop by (auto simp: signer_ok_def)
qed

section \<open>Properties\<close>

text \<open>
  C25 (attestation client: a quorum is a quorum). A proof passes the quorum check exactly when it
  carries as many signatures as signer indices, at least the required number of them, no signer
  twice, and each signature is one of the named attestor's on the attested bytes; only the first 64
  attestors can sign.
\<close>

theorem verify_quorum_exact:
  "verify_quorum ed cs p = Inr () \<longleftrightarrow>
     length (ap_signatures p) = length (ap_signer_indices p)
     \<and> unat (atc_min_required_sigs cs) \<le> length (ap_signatures p)
     \<and> distinct (ap_signer_indices p)
     \<and> (\<forall>k < length (ap_signatures p).
          unat (ap_signer_indices p ! k) < min 64 (length (atc_attestor_keys cs))
          \<and> ed (atc_attestor_keys cs ! unat (ap_signer_indices p ! k)) (ap_attestation_data p) (ap_signatures p ! k))"
  unfolding verify_quorum_iff by (auto simp: all_set_conv_all_nth)

lemma sample_quorum:
  "verify_quorum (\<lambda>k d sg. sg = k @ d)
     \<lparr>atc_attestor_keys = [[1], [2], [3]], atc_min_required_sigs = 2, atc_latest_height = 5, atc_frozen = False\<rparr>
     \<lparr>ap_attestation_data = [9], ap_signatures = [[3, 9], [1, 9]], ap_signer_indices = [2, 0]\<rparr> = Inr ()"
  by code_simp

theorem verify_quorum_exact_witness: "distinct [2, 0 :: u32]"
  using verify_quorum_exact [THEN iffD1, OF sample_quorum] by simp

definition sample_att_codec :: att_codec where
  "sample_att_codec = \<lparr>dec_att_client_state = (\<lambda>_. None), dec_state_attestation = (\<lambda>_. Some \<lparr>sa_height = 6, sa_timestamp = 60\<rparr>),
     dec_packet_attestation = (\<lambda>_. Some \<lparr>pa_height = 5, pa_packets = [\<lparr>pc_path = [4], pc_value = [6]\<rparr>]\<rparr>),
     dec_attestation_proof = (\<lambda>_. Some \<lparr>ap_attestation_data = [9], ap_signatures = [[3, 9], [1, 9]],
       ap_signer_indices = [2, 0]\<rparr>), enc_att_client_state = (\<lambda>_. []), enc_state_attestation = (\<lambda>_. [])\<rparr>"

definition sample_att :: att_state where
  "sample_att = \<lparr>att_client = [[7] \<mapsto> \<lparr>atc_attestor_keys = [[1], [2], [3]], atc_min_required_sigs = 2,
       atc_latest_height = 5, atc_frozen = False\<rparr>],
     att_consensus = [([7], 5) \<mapsto> 50], att_frozen_flag = Map.empty\<rparr>"

text \<open>
  C26 (attestation client: what membership rests on). A (path, value) pair is accepted at a height
  only if the client holds a timestamp for that height and at least the required number of
  distinct attestors signed one attestation for that height that lists this pair.
\<close>

theorem att_verify_membership_sound:
  assumes "att_verify_membership cd ed c h pf path v l = Inr True"
  shows "\<exists>cs p att. att_client l c = Some cs \<and> att_consensus l (c, h) \<noteq> None
    \<and> dec_attestation_proof cd pf = Some p \<and> dec_packet_attestation cd (ap_attestation_data p) = Some att
    \<and> pa_height att = h \<and> \<lparr>pc_path = path, pc_value = v\<rparr> \<in> set (pa_packets att)
    \<and> unat (atc_min_required_sigs cs) \<le>
        card {k. k < length (atc_attestor_keys cs)
                 \<and> (\<exists>sg \<in> set (ap_signatures p). ed (atc_attestor_keys cs ! k) (ap_attestation_data p) sg)}"
proof -
  from assms obtain cs p att where cs: "att_client l c = Some cs" "att_consensus l (c, h) \<noteq> None"
    and p: "dec_attestation_proof cd pf = Some p" "verify_quorum ed cs p = Inr ()"
    and att: "dec_packet_attestation cd (ap_attestation_data p) = Some att" "pa_height att = h"
      "\<exists>pkt \<in> set (pa_packets att). pc_path pkt = path \<and> pc_value pkt = v"
    by (auto simp: att_verify_membership_def attested_packets_def att_load_client_state_def att_decode_proof_def
        att_decode_packet_attestation_def bindE_simps list_ex_iff split: if_splits)
  let ?S = "{k. k < length (atc_attestor_keys cs)
    \<and> (\<exists>sg \<in> set (ap_signatures p). ed (atc_attestor_keys cs ! k) (ap_attestation_data p) sg)}"
  have q: "length (ap_signatures p) = length (ap_signer_indices p)"
    "unat (atc_min_required_sigs cs) \<le> length (ap_signatures p)" "distinct (ap_signer_indices p)"
    "\<forall>(i, sg) \<in> set (zip (ap_signer_indices p) (ap_signatures p)). unat i < length (atc_attestor_keys cs)
       \<and> ed (atc_attestor_keys cs ! unat i) (ap_attestation_data p) sg"
    using p(2) unfolding verify_quorum_iff by auto
  have "unat i \<in> ?S" if "i \<in> set (ap_signer_indices p)" for i
  proof -
    from that obtain k where "k < length (ap_signer_indices p)" "i = ap_signer_indices p ! k"
      by (metis in_set_conv_nth)
    then have "(i, ap_signatures p ! k) \<in> set (zip (ap_signer_indices p) (ap_signatures p))"
      "ap_signatures p ! k \<in> set (ap_signatures p)"
      using q(1) by (auto simp: set_zip)
    with q(4) show ?thesis by auto
  qed
  then have "card (unat ` set (ap_signer_indices p)) \<le> card ?S"
    by (intro card_mono) auto
  also have "card (unat ` set (ap_signer_indices p)) = length (ap_signatures p)"
    using q(1, 3) by (subst card_image) (auto intro!: inj_onI simp: word_unat_eq_iff distinct_card)
  finally have "unat (atc_min_required_sigs cs) \<le> card ?S" using q(2) by simp
  moreover have "\<lparr>pc_path = path, pc_value = v\<rparr> \<in> set (pa_packets att)"
    using att(3) by (metis (full_types) packet_compact.surjective old.unit.exhaust)
  ultimately show ?thesis using cs p(1) att(1, 2) by blast
qed

lemma sample_att_member:
  "att_verify_membership sample_att_codec (\<lambda>k d sg. sg = k @ d) [7] 5 [] [4] [6] sample_att = Inr True"
  by code_simp

theorem att_verify_membership_sound_witness:
  "\<exists>cs. att_client sample_att [7] = Some cs \<and> att_consensus sample_att ([7], 5) \<noteq> None"
  using att_verify_membership_sound [OF sample_att_member] by blast

text \<open>
  Timestamps of the attestation client are permanent on the router's path. The router applies a
  message only after \<open>check_for_misbehaviour\<close> has answered false. Applied in this order, an update
  changes no timestamp the client already holds, records one for the attested height and never
  lowers the latest height.
\<close>

lemma att_checked_update_keeps_history:
  assumes "att_check_for_misbehaviour cd ed c m l = Inr False"
    and "att_update_state cd ed c m l = Inr (h, l')"
  shows "att_consensus l \<subseteq>\<^sub>m att_consensus l' \<and> att_consensus l' (c, h) \<noteq> None
    \<and> att_latest_at l' c = max (att_latest_at l c) h \<and> \<not> att_is_frozen_at l' c
    \<and> (\<forall>d. d \<noteq> c \<longrightarrow> att_observe l' d = att_observe l d)"
proof -
  from assms(2) obtain cs p at where u: "att_client l c = Some cs" "\<not> atc_frozen cs"
    "dec_attestation_proof cd m = Some p" "verify_quorum ed cs p = Inr ()"
    "dec_state_attestation cd (ap_attestation_data p) = Some at" "h = sa_height at"
    "l' = l\<lparr>att_consensus := (att_consensus l)((c, h) \<mapsto> sa_timestamp at),
            att_client := (att_client l)(c \<mapsto> cs\<lparr>atc_latest_height := max (atc_latest_height cs) h\<rparr>)\<rparr>"
    unfolding att_update_state_eq_Inr by blast
  have "att_consensus l (c, h) = None \<or> att_consensus l (c, h) = Some (sa_timestamp at)"
    using assms(1) u by (auto simp: att_check_for_misbehaviour_def att_load_client_state_def att_decode_proof_def
        att_decode_attestation_def split: option.splits)
  then have "att_consensus l \<subseteq>\<^sub>m att_consensus l'" by (auto simp: u map_le_def)
  moreover have "\<forall>d. d \<noteq> c \<longrightarrow> att_observe l' d = att_observe l d"
    using att.upd_frame [OF assms(2)] by blast
  ultimately show ?thesis using u(1, 2) by (simp add: u(7) att_latest_at_def att_is_frozen_at_def)
qed

lemma att_checked_update_keeps_history_witness:
  "\<exists>l'. att_update_state sample_att_codec (\<lambda>k d sg. sg = k @ d) [7] [] sample_att = Inr (6, l')
     \<and> att_consensus sample_att \<subseteq>\<^sub>m att_consensus l'"
proof -
  have chk: "att_check_for_misbehaviour sample_att_codec (\<lambda>k d sg. sg = k @ d) [7] [] sample_att = Inr False"
    by code_simp
  obtain l' where upd: "att_update_state sample_att_codec (\<lambda>k d sg. sg = k @ d) [7] [] sample_att = Inr (6, l')"
    using sample_quorum by (simp add: att_update_state_def att_load_client_state_def att_decode_proof_def
        att_decode_attestation_def sample_att_codec_def sample_att_def)
  from att_checked_update_keeps_history [OF chk upd] upd show ?thesis by blast
qed

end
