(* ===== verification/Mock_LC.thy ===== *)
theory Mock_LC
  imports Light_Client_Spec
begin

text \<open>
  The mock light client, \<open>contracts/soroban/light-clients/mock/src/lib.rs\<close>, which accepts every message and
  every proof and counts its updates. It satisfies \<open>light_client\<close> but not \<open>guarded_client\<close>:
  its updates ignore the freeze.
\<close>

record mock_state =
  mock_client_states :: "bytes \<rightharpoonup> bytes"
  mock_consensus_states :: "bytes \<times> u64 \<rightharpoonup> bytes"
  mock_latest :: "bytes \<rightharpoonup> u64"
  mock_frozen_flag :: "bytes \<rightharpoonup> bool"

definition mock_initialise :: "bytes \<Rightarrow> bytes \<Rightarrow> bytes \<Rightarrow> u64 \<Rightarrow> mock_state \<Rightarrow> mock_state" where
  "mock_initialise client_id client_state consensus_state height l =
     l\<lparr>mock_client_states := (mock_client_states l)(client_id \<mapsto> client_state),
       mock_consensus_states := (mock_consensus_states l)((client_id, height) \<mapsto> consensus_state),
       mock_latest := (mock_latest l)(client_id \<mapsto> height)\<rparr>"

definition mock_latest_height :: "bytes \<Rightarrow> mock_state \<Rightarrow> u64" where
  "mock_latest_height client_id l = (case mock_latest l client_id of None \<Rightarrow> 0 | Some h \<Rightarrow> h)"

definition mock_client_state_bytes :: "bytes \<Rightarrow> mock_state \<Rightarrow> bytes" where
  "mock_client_state_bytes client_id l = (case mock_client_states l client_id of None \<Rightarrow> [] | Some b \<Rightarrow> b)"

definition mock_consensus_state_bytes :: "bytes \<Rightarrow> u64 \<Rightarrow> mock_state \<Rightarrow> bytes" where
  "mock_consensus_state_bytes client_id height l =
     (case mock_consensus_states l (client_id, height) of None \<Rightarrow> [] | Some b \<Rightarrow> b)"

definition mock_verify_client_message :: "bytes \<Rightarrow> bytes \<Rightarrow> bytes \<times> u64" where
  "mock_verify_client_message client_id client_message = ([], 0)"

definition mock_check_for_misbehaviour :: "bytes \<Rightarrow> bytes \<Rightarrow> bool" where
  "mock_check_for_misbehaviour client_id client_message = False"

definition mock_update_state :: "bytes \<Rightarrow> bytes \<Rightarrow> mock_state \<Rightarrow> fault + (u64 \<times> mock_state)" where
  "mock_update_state client_id client_message l =
     bindE (add_u64 (case mock_latest l client_id of None \<Rightarrow> 0 | Some h \<Rightarrow> h) 1) (\<lambda>next.
     Inr (next, l\<lparr>mock_latest := (mock_latest l)(client_id \<mapsto> next),
                  mock_consensus_states := (mock_consensus_states l)((client_id, next) \<mapsto> [])\<rparr>))"

definition mock_update_state_on_misbehaviour :: "bytes \<Rightarrow> bytes \<Rightarrow> mock_state \<Rightarrow> mock_state" where
  "mock_update_state_on_misbehaviour client_id client_message l =
     l\<lparr>mock_frozen_flag := (mock_frozen_flag l)(client_id \<mapsto> True)\<rparr>"

definition mock_frozen :: "bytes \<Rightarrow> mock_state \<Rightarrow> bool" where
  "mock_frozen client_id l = (case mock_frozen_flag l client_id of None \<Rightarrow> False | Some b \<Rightarrow> b)"

definition mock_verify_membership :: "bytes \<Rightarrow> u64 \<Rightarrow> bytes \<Rightarrow> bytes \<Rightarrow> bytes \<Rightarrow> bool" where
  "mock_verify_membership client_id height proof_bytes path val = True"

definition mock_verify_non_membership :: "bytes \<Rightarrow> u64 \<Rightarrow> bytes \<Rightarrow> bytes \<Rightarrow> bool" where
  "mock_verify_non_membership client_id height proof_bytes path = True"

definition mock_get_timestamp_at_height :: "bytes \<Rightarrow> u64 \<Rightarrow> u64" where
  "mock_get_timestamp_at_height client_id height = 0"

definition mock_client_type :: bytes where
  "mock_client_type = asc ''mock''"

definition mock_observe :: "mock_state \<Rightarrow> bytes \<Rightarrow> bytes option \<times> (u64 \<Rightarrow> bytes option) \<times> u64 option \<times> bool option" where
  "mock_observe l c = (mock_client_states l c, \<lambda>h. mock_consensus_states l (c, h), mock_latest l c, mock_frozen_flag l c)"

lemma mock_update_step: "add_u64 a 1 = Inr b \<Longrightarrow> a \<le> b"
  using unat_add_u64 [of a 1 b] by (simp add: word_le_nat_alt)

interpretation mock: light_client mock_update_state "\<lambda>c m l. Inr (mock_update_state_on_misbehaviour c m l)"
  "\<lambda>l c. mock_frozen c l" "\<lambda>l c. mock_latest_height c l" mock_observe
proof (unfold_locales, goal_cases)
  case (4 c m l h l')
  then show ?case
    by (auto simp: mock_update_state_def bindE_eq_Inr mock_latest_height_def dest!: mock_update_step)
qed (auto simp: mock_update_state_def mock_update_state_on_misbehaviour_def bindE_simps mock_frozen_def
      mock_latest_height_def mock_observe_def fun_eq_iff)

section \<open>Properties\<close>

text \<open>
  Every successful update raises the client's height by exactly one without
  wrap-around, other clients are untouched, and over any sequence of messages heights never
  decrease and a freeze is never lifted (although updates of a frozen mock client still succeed).
\<close>

theorem mock_update_counts:
  assumes "mock_update_state c m l = Inr (h, l')"
  shows "unat h = unat (mock_latest_height c l) + 1 \<and> mock_latest_height c l' = h
    \<and> (\<forall>d. d \<noteq> c \<longrightarrow> mock_observe l' d = mock_observe l d)
    \<and> mock_latest_height d l \<le> mock_latest_height d (mock.handle_all ms l)
    \<and> (mock_frozen d l \<longrightarrow> mock_frozen d (mock.handle_all ms l))"
proof -
  have "add_u64 (mock_latest_height c l) 1 = Inr h" "mock_latest_height c l' = h"
    using assms by (auto simp: mock_update_state_def mock_latest_height_def bindE_eq_Inr)
  with unat_add_u64 [OF this(1)] mock.upd_frame [OF assms] mock.handle_all_monotone [of d l ms]
  show ?thesis by simp
qed

theorem mock_update_counts_witness:
  "mock_latest_height [1] (mock_initialise [1] [] [] 4 \<lparr>mock_client_states = Map.empty,
     mock_consensus_states = Map.empty, mock_latest = Map.empty, mock_frozen_flag = Map.empty\<rparr>) = 4
   \<and> unat (5 :: u64) = unat (4 :: u64) + 1"
proof -
  let ?l = "mock_initialise [1] [] [] 4 \<lparr>mock_client_states = Map.empty,
     mock_consensus_states = Map.empty, mock_latest = Map.empty, mock_frozen_flag = Map.empty\<rparr>"
  have h: "mock_latest_height [1] ?l = 4"
    by (simp add: mock_initialise_def mock_latest_height_def)
  obtain l' where "mock_update_state [1] [] ?l = Inr (5, l')"
    by (simp add: mock_update_state_def mock_initialise_def add_u64_def)
  from mock_update_counts [OF this] h show ?thesis by simp
qed

end
