(* ===== verification/Transfer_Codec.thy ===== *)
theory Transfer_Codec
  imports Ics24_Host
begin

text \<open>
  The encodings of the ICS-20 transfer application, \<open>contracts/soroban/ibc-transfer/src/lib.rs\<close>: the
  hand-written JSON packet data with its decimal amount, and the hexadecimal rendering of
  addresses. The XDR forms of an address and of the packet data belong to the Soroban SDK and are
  the fields of the parameter \<open>transfer_codec\<close>.
\<close>

section \<open>Data\<close>

record token =
  tk_denom :: bytes
  tk_amount :: i128

record ftpd =
  fp_token :: token
  fp_sender :: bytes
  fp_receiver :: bytes
  fp_memo :: bytes

record transfer_codec =
  dec_ftpd :: "bytes \<Rightarrow> ftpd option"
  address_xdr :: "address \<Rightarrow> bytes"
  address_of_xdr :: "bytes \<Rightarrow> address option"

section \<open>Hexadecimal addresses\<close>

definition nibble_to_hex :: "u8 \<Rightarrow> u8" where
  "nibble_to_hex n = (if n < 10 then 48 + n else 97 + (n - 10))"

definition hex_to_nibble :: "u8 \<Rightarrow> fault + u8" where
  "hex_to_nibble c =
     (if 48 \<le> c \<and> c \<le> 57 then Inr (c - 48)
      else if 97 \<le> c \<and> c \<le> 102 then Inr (c - 97 + 10)
      else if 65 \<le> c \<and> c \<le> 70 then Inr (c - 65 + 10)
      else Inl (TransferFault InvalidPacketData))"

definition hex_of_bytes :: "bytes \<Rightarrow> bytes" where
  "hex_of_bytes bs = concat (map (\<lambda>b. [nibble_to_hex (drop_bit 4 b), nibble_to_hex (b AND 0x0f)]) bs)"

fun bytes_of_hex :: "bytes \<Rightarrow> fault + bytes" where
  "bytes_of_hex (h1 # h2 # hs) =
     bindE (hex_to_nibble h1) (\<lambda>hi.
     bindE (hex_to_nibble h2) (\<lambda>lo.
     bindE (bytes_of_hex hs) (\<lambda>rest.
     Inr ((push_bit 4 hi OR lo) # rest))))"
| "bytes_of_hex _ = Inr []"

definition address_to_string :: "transfer_codec \<Rightarrow> address \<Rightarrow> fault + bytes" where
  "address_to_string cd addr =
     (let xdr = address_xdr cd addr in
      bindE (ensure (length xdr \<le> 256) (Trap SliceOutOfBounds)) (\<lambda>_. Inr (hex_of_bytes xdr)))"

definition string_to_address :: "transfer_codec \<Rightarrow> bytes \<Rightarrow> fault + address" where
  "string_to_address cd s =
     bindE (ensure (\<not> (length s mod 2 \<noteq> 0 \<or> length s > 512)) (TransferFault InvalidPacketData)) (\<lambda>_.
     bindE (bytes_of_hex s) (\<lambda>bs.
     ok_or (TransferFault InvalidPacketData) (address_of_xdr cd bs)))"

section \<open>JSON packet data\<close>

definition append_string :: "bytes \<Rightarrow> bytes \<Rightarrow> fault + bytes" where
  "append_string buf s = bindE (ensure (length s \<le> 512) (Trap SliceOutOfBounds)) (\<lambda>_. Inr (buf @ s))"

text \<open>The digit loop fills a 40-byte array from the end; its index underflows if it runs out.\<close>

function i128_digits :: "i128 \<Rightarrow> bytes" where
  "i128_digits n = (if n > 0 then (48 + of_int (n mod 10)) # i128_digits (n div 10) else [])"
  by auto
termination
  by (relation "measure nat") (auto simp: nat_less_iff)

declare i128_digits.simps [simp del]

definition append_decimal :: "bytes \<Rightarrow> i128 \<Rightarrow> fault + bytes" where
  "append_decimal buf n =
     (if n \<le> 0 then Inr (buf @ asc ''0'')
      else let digits = i128_digits n in
           bindE (ensure (length digits \<le> 40) (Trap ArithmeticOverflow)) (\<lambda>_. Inr (buf @ rev digits)))"

text \<open>The double quote is byte 34, so the literals are written with it spelled out.\<close>

definition json_lit :: "bytes list \<Rightarrow> bytes" where
  "json_lit parts = concat (map (\<lambda>p. if p = [] then [34] else p) parts)"

definition encode_ics20_json :: "ftpd \<Rightarrow> fault + bytes" where
  "encode_ics20_json p =
     bindE (append_string (json_lit [asc ''{'', [], asc ''denom'', [], asc '':'', []]) (tk_denom (fp_token p))) (\<lambda>b1.
     bindE (append_decimal (b1 @ json_lit [[], asc '','', [], asc ''amount'', [], asc '':'', []])
              (tk_amount (fp_token p))) (\<lambda>b2.
     bindE (append_string (b2 @ json_lit [[], asc '','', [], asc ''sender'', [], asc '':'', []]) (fp_sender p)) (\<lambda>b3.
     bindE (append_string (b3 @ json_lit [[], asc '','', [], asc ''receiver'', [], asc '':'', []]) (fp_receiver p)) (\<lambda>b4.
     bindE (append_string (b4 @ json_lit [[], asc '','', [], asc ''memo'', [], asc '':'', []]) (fp_memo p)) (\<lambda>b5.
     Inr (b5 @ json_lit [[], asc ''}'']))))))"

section \<open>Hexadecimal round trip\<close>

lemma nibble_round: "n < 16 \<Longrightarrow> hex_to_nibble (nibble_to_hex n) = Inr n"
proof -
  assume n: "n < 16"
  have "\<forall>k < 16. hex_to_nibble (nibble_to_hex (of_nat k)) = Inr (of_nat k)" by code_simp
  moreover have "unat n < 16" using n by (simp add: word_less_nat_alt)
  ultimately have "hex_to_nibble (nibble_to_hex (of_nat (unat n))) = Inr (of_nat (unat n))" by blast
  then show ?thesis by simp
qed

lemma nibble_bounds: "drop_bit 4 (b :: u8) < 16" "b AND 0x0f < (16 :: u8)"
proof -
  have "unat b < 2 ^ 8" using unsigned_less [of b] by simp
  then show "drop_bit 4 b < 16" by (simp add: word_less_nat_alt drop_bit_eq_div unat_div less_mult_imp_div_less)
  have "b AND 0x0f \<le> 0x0f" by (rule word_and_le1)
  then show "b AND 0x0f < 16" by (rule order_le_less_trans) simp
qed

lemma nibbles_join: "push_bit 4 (drop_bit 4 b) OR (b AND 0x0f) = (b :: u8)"
proof -
  have "b AND 0x0f = take_bit 4 b"
    by (simp add: take_bit_eq_mask mask_eq_exp_minus_1)
  moreover have "push_bit 4 (drop_bit 4 b) OR take_bit 4 b = b"
    by (rule bit_word_eqI) (auto simp: bit_simps)
  ultimately show ?thesis by simp
qed

lemma hex_round: "bytes_of_hex (hex_of_bytes bs) = Inr bs"
proof (induction bs)
  case (Cons b bs)
  then show ?case
    by (simp add: hex_of_bytes_def nibble_round nibble_bounds nibbles_join)
qed (simp add: hex_of_bytes_def)

lemma length_hex_of_bytes [simp, codec_simps]: "length (hex_of_bytes bs) = 2 * length bs"
  by (induction bs) (simp_all add: hex_of_bytes_def)

lemma address_round:
  assumes "address_of_xdr cd (address_xdr cd a) = Some a" and "length (address_xdr cd a) \<le> 256"
  shows "\<exists>s. address_to_string cd a = Inr s \<and> string_to_address cd s = Inr a"
  using assms by (simp add: address_to_string_def string_to_address_def Let_def hex_round)

section \<open>Decimal amounts\<close>

lemma i128_digits_rev: "0 \<le> n \<Longrightarrow> i128_digits n = digits_rev (nat n)"
proof (induction n rule: i128_digits.induct)
  case (1 n)
  show ?case
  proof (cases "n > 0")
    case True
    have "(of_int (n mod 10) :: u8) = of_nat (nat n mod 10)"
      using True by (simp add: nat_mod_distrib flip: of_nat_nat)
    with True 1 show ?thesis
      by (subst i128_digits.simps, subst digits_rev.simps) (simp add: nat_div_distrib)
  qed (use 1 in \<open>simp add: i128_digits.simps digits_rev.simps\<close>)
qed

text \<open>Forty digits are enough for every 128-bit amount.\<close>

lemma append_decimal_ok:
  assumes "in_i128 n"
  shows "append_decimal buf n = Inr (buf @ decimal (nat n))"
proof (cases "n \<le> 0")
  case False
  have "n < 10 ^ 39" using assms by (simp add: in_i128_def)
  then have "nat n < 10 ^ 39" using False by (simp add: nat_less_iff)
  from length_digits_rev [OF this] False show ?thesis
    by (simp add: append_decimal_def i128_digits_rev decimal_def Let_def)
qed (simp add: append_decimal_def decimal_def asc_def)

section \<open>The JSON form is unambiguous for quote-free fields\<close>

definition quote_free :: "bytes \<Rightarrow> bool" where
  "quote_free bs \<longleftrightarrow> 34 \<notin> set bs"

lemma split_at_quote:
  assumes "quote_free a" "quote_free b"
  shows "a @ 34 # xs = b @ 34 # ys \<longleftrightarrow> a = b \<and> xs = ys"
  using assms
proof (induction a arbitrary: b)
  case Nil
  then show ?case by (cases b) (auto simp: quote_free_def)
next
  case (Cons x a)
  then show ?case by (cases b) (auto simp: quote_free_def)
qed

lemma decimal_quote_free: "quote_free (decimal n)"
  using decimal_digits [of 34 n] by (auto simp: quote_free_def is_digit_def word_le_nat_alt)

lemma encode_ics20_json_eq_Inr:
  assumes "in_i128 (tk_amount (fp_token p))"
  shows "encode_ics20_json p = Inr bs \<longleftrightarrow>
    length (tk_denom (fp_token p)) \<le> 512 \<and> length (fp_sender p) \<le> 512 \<and> length (fp_receiver p) \<le> 512
    \<and> length (fp_memo p) \<le> 512
    \<and> bs = asc ''{'' @ 34 # asc ''denom'' @ 34 # asc '':'' @ 34 # tk_denom (fp_token p) @ 34 # asc '','' @ 34 #
        asc ''amount'' @ 34 # asc '':'' @ 34 # decimal (nat (tk_amount (fp_token p))) @ 34 # asc '','' @ 34 #
        asc ''sender'' @ 34 # asc '':'' @ 34 # fp_sender p @ 34 # asc '','' @ 34 #
        asc ''receiver'' @ 34 # asc '':'' @ 34 # fp_receiver p @ 34 # asc '','' @ 34 #
        asc ''memo'' @ 34 # asc '':'' @ 34 # fp_memo p @ 34 # asc ''}''"
  by (auto simp: encode_ics20_json_def append_string_def append_decimal_ok [OF assms] bindE_simps json_lit_def asc_def)

text \<open>Packet data with a non-negative amount and no double quote in any of its strings.\<close>

definition json_safe :: "ftpd \<Rightarrow> bool" where
  "json_safe p \<longleftrightarrow> in_i128 (tk_amount (fp_token p)) \<and> 0 \<le> tk_amount (fp_token p)
     \<and> quote_free (tk_denom (fp_token p)) \<and> quote_free (fp_sender p) \<and> quote_free (fp_receiver p)
     \<and> quote_free (fp_memo p)"

lemma encode_ics20_json_inj:
  assumes "encode_ics20_json p = Inr bs" and "encode_ics20_json q = Inr bs" and "json_safe p" and "json_safe q"
  shows "p = q"
proof -
  note safe = assms(3, 4) [unfolded json_safe_def]
  have ranges: "in_i128 (tk_amount (fp_token p))" "in_i128 (tk_amount (fp_token q))" using safe by simp_all
  have "tk_denom (fp_token p) = tk_denom (fp_token q)
      \<and> decimal (nat (tk_amount (fp_token p))) = decimal (nat (tk_amount (fp_token q)))
      \<and> fp_sender p = fp_sender q \<and> fp_receiver p = fp_receiver q \<and> fp_memo p = fp_memo q"
    using assms(1, 2) safe
    unfolding encode_ics20_json_eq_Inr [OF ranges(1)] encode_ics20_json_eq_Inr [OF ranges(2)]
    by (simp add: split_at_quote decimal_quote_free)
  moreover from this have "tk_amount (fp_token p) = tk_amount (fp_token q)"
    using safe by (simp add: eq_nat_nat_iff)
  ultimately show ?thesis
    by (intro ftpd.equality token.equality) simp_all
qed

text \<open>A quote in a field makes two different packets encode alike.\<close>

lemma json_quote_ambiguous:
  assumes "p = \<lparr>fp_token = \<lparr>tk_denom = d, tk_amount = 1\<rparr>, fp_sender = s,
      fp_receiver = asc ''a'' @ 34 # asc '','' @ 34 # asc ''memo'' @ 34 # asc '':'' @ 34 # asc ''b'', fp_memo = asc ''c''\<rparr>"
    and "q = \<lparr>fp_token = \<lparr>tk_denom = d, tk_amount = 1\<rparr>, fp_sender = s, fp_receiver = asc ''a'',
      fp_memo = asc ''b'' @ 34 # asc '','' @ 34 # asc ''memo'' @ 34 # asc '':'' @ 34 # asc ''c''\<rparr>"
  shows "p \<noteq> q \<and> encode_ics20_json p = encode_ics20_json q"
proof
  show "p \<noteq> q" by (simp add: assms asc_def)
  have "append_decimal buf 1 = Inr (buf @ decimal 1)" for buf
    using append_decimal_ok [of 1 buf] by (simp add: in_i128_def)
  then show "encode_ics20_json p = encode_ics20_json q"
    by (simp add: assms encode_ics20_json_def append_string_def ensure_def json_lit_def asc_def)
qed

section \<open>Properties\<close>

text \<open>
  Every address is recovered from the string that
  \<open>address_to_string\<close> writes into a packet, when its XDR form decodes back and fits the buffer.
\<close>

lemma transfer_address_roundtrip:
  assumes "address_of_xdr cd (address_xdr cd a) = Some a" and "length (address_xdr cd a) \<le> 256"
  shows "\<exists>s. address_to_string cd a = Inr s \<and> string_to_address cd s = Inr a
    \<and> length s = 2 * length (address_xdr cd a)"
  using address_round [OF assms] assms(2) by (simp add: address_to_string_def Let_def)

definition sample_transfer_codec :: transfer_codec where
  "sample_transfer_codec = \<lparr>dec_ftpd = (\<lambda>bs. if take 3 bs = [0, 0, 0] then
       Some \<lparr>fp_token = \<lparr>tk_denom = asc ''uxlm'', tk_amount = 40\<rparr>, fp_sender = hex_of_bytes (to_be_bytes 30),
         fp_receiver = hex_of_bytes (to_be_bytes 31), fp_memo = []\<rparr> else None),
     address_xdr = (\<lambda>a. to_be_bytes (of_nat a)),
     address_of_xdr = (\<lambda>bs. if length bs = 8 then Some (unat (from_be_bytes bs)) else None)\<rparr>"

lemma sample_address_xdr:
  assumes "a < 2 ^ 64"
  shows "address_of_xdr sample_transfer_codec (address_xdr sample_transfer_codec a) = Some a"
    and "length (address_xdr sample_transfer_codec a) \<le> 256"
proof -
  have "unat (of_nat a :: u64) = a" using assms by (simp add: unat_of_nat take_bit_nat_eq_self)
  then show "address_of_xdr sample_transfer_codec (address_xdr sample_transfer_codec a) = Some a"
    by (simp add: sample_transfer_codec_def)
qed (simp add: sample_transfer_codec_def)

lemma transfer_address_roundtrip_witness:
  "\<exists>s. address_to_string sample_transfer_codec 30 = Inr s \<and> string_to_address sample_transfer_codec s = Inr 30"
  using transfer_address_roundtrip [OF sample_address_xdr, of 30] by auto

definition sample_ftpd :: ftpd where
  "sample_ftpd = \<lparr>fp_token = \<lparr>tk_denom = asc ''uxlm'', tk_amount = 40\<rparr>, fp_sender = asc ''00'',
     fp_receiver = asc ''cosmos1'', fp_memo = []\<rparr>"

end
