(* ===== verification/Ibc_Transfer.thy ===== *)
theory Ibc_Transfer
  imports Transfer_Codec
begin

text \<open>
  The ICS-20 transfer application, \<open>contracts/soroban/ibc-transfer/src/lib.rs\<close>: balances, escrow on send,
  credit on receive, refund on failure and timeout, and the daily rate limit. The router it sends
  through is the parameter \<open>send\<close>, with the router's state as the type variable \<open>'r\<close>.
\<close>

section \<open>State\<close>

definition PORT :: bytes where
  "PORT = asc ''transfer''"

definition VERSION :: bytes where
  "VERSION = asc ''ics20-1''"

definition ENCODING :: bytes where
  "ENCODING = asc ''application/json''"

definition SUCCESS_ACK_BYTE :: u8 where
  "SUCCESS_ACK_BYTE = 0x01"

definition SECS_PER_DAY :: u64 where
  "SECS_PER_DAY = 86400"

record transfer_state =
  t_router :: "address option"
  t_admin :: "address option"
  t_balance :: "address \<times> bytes \<rightharpoonup> i128"
  t_daily_cap :: "bytes \<rightharpoonup> i128"
  t_usage :: "bytes \<times> u64 \<rightharpoonup> i128"

type_synonym 'r send_entry = "env \<Rightarrow> address \<Rightarrow> bytes \<Rightarrow> u64 \<Rightarrow> payload list \<Rightarrow> 'r \<Rightarrow> fault + (u64 \<times> 'r)"

definition get_or_0 :: "('k \<rightharpoonup> i128) \<Rightarrow> 'k \<Rightarrow> i128" where
  "get_or_0 m k = (case m k of None \<Rightarrow> 0 | Some v \<Rightarrow> v)"

section \<open>Operations\<close>

definition transfer_constructor :: "address \<Rightarrow> address \<Rightarrow> transfer_state" where
  "transfer_constructor router admin = \<lparr>t_router = Some router, t_admin = Some admin, t_balance = Map.empty,
     t_daily_cap = Map.empty, t_usage = Map.empty\<rparr>"

definition current_day :: "env \<Rightarrow> u64" where
  "current_day e = ledger_timestamp e div SECS_PER_DAY"

definition set_rate_limit :: "env \<Rightarrow> bytes \<Rightarrow> i128 \<Rightarrow> transfer_state \<Rightarrow> fault + transfer_state" where
  "set_rate_limit e denom cap t =
     bindE (ok_or (TransferFault TransferAdminNotSet) (t_admin t)) (\<lambda>admin.
     bindE (require_auth e admin) (\<lambda>_.
     bindE (ensure (\<not> cap < 0) (TransferFault AmountMustBePositive)) (\<lambda>_.
     Inr (t\<lparr>t_daily_cap := (t_daily_cap t)(denom \<mapsto> cap)\<rparr>))))"

definition daily_cap :: "bytes \<Rightarrow> transfer_state \<Rightarrow> i128 option" where
  "daily_cap denom t = t_daily_cap t denom"

definition daily_usage :: "env \<Rightarrow> bytes \<Rightarrow> transfer_state \<Rightarrow> i128" where
  "daily_usage e denom t = get_or_0 (t_usage t) (denom, current_day e)"

definition balance_of :: "address \<Rightarrow> bytes \<Rightarrow> transfer_state \<Rightarrow> i128" where
  "balance_of who denom t = get_or_0 (t_balance t) (who, denom)"

definition mint :: "address \<Rightarrow> bytes \<Rightarrow> i128 \<Rightarrow> transfer_state \<Rightarrow> fault + transfer_state" where
  "mint dest denom amount t =
     bindE (ensure (\<not> amount \<le> 0) (TransferFault AmountMustBePositive)) (\<lambda>_.
     bindE (add_i128 (get_or_0 (t_balance t) (dest, denom)) amount) (\<lambda>new.
     Inr (t\<lparr>t_balance := (t_balance t)((dest, denom) \<mapsto> new)\<rparr>)))"

definition debit :: "address \<Rightarrow> bytes \<Rightarrow> i128 \<Rightarrow> transfer_state \<Rightarrow> fault + transfer_state" where
  "debit who denom amount t =
     (let cur = get_or_0 (t_balance t) (who, denom) in
      bindE (ensure (\<not> cur < amount) (TransferFault InsufficientBalance)) (\<lambda>_.
      bindE (sub_i128 cur amount) (\<lambda>new.
      Inr (t\<lparr>t_balance := (t_balance t)((who, denom) \<mapsto> new)\<rparr>))))"

definition credit :: "address \<Rightarrow> bytes \<Rightarrow> i128 \<Rightarrow> transfer_state \<Rightarrow> fault + transfer_state" where
  "credit who denom amount t =
     bindE (add_i128 (get_or_0 (t_balance t) (who, denom)) amount) (\<lambda>new.
     Inr (t\<lparr>t_balance := (t_balance t)((who, denom) \<mapsto> new)\<rparr>))"

definition enforce_rate_limit :: "env \<Rightarrow> bytes \<Rightarrow> i128 \<Rightarrow> transfer_state \<Rightarrow> fault + transfer_state" where
  "enforce_rate_limit e denom amount t =
     (case t_daily_cap t denom of
        None \<Rightarrow> Inr t
      | Some cap \<Rightarrow>
          let key = (denom, current_day e) in
          bindE (add_i128 (get_or_0 (t_usage t) key) amount) (\<lambda>used.
          bindE (ensure (\<not> used > cap) (TransferFault DailyLimitExceeded)) (\<lambda>_.
          Inr (t\<lparr>t_usage := (t_usage t)(key \<mapsto> used)\<rparr>))))"

definition transfer_payload :: "bytes \<Rightarrow> payload" where
  "transfer_payload val = \<lparr>pl_source_port = PORT, pl_dest_port = PORT, pl_version = VERSION,
     pl_encoding = ENCODING, pl_value = val\<rparr>"

definition initiate_transfer ::
  "transfer_codec \<Rightarrow> 'r send_entry \<Rightarrow> env \<Rightarrow> address \<Rightarrow> bytes \<Rightarrow> bytes \<Rightarrow> i128 \<Rightarrow> bytes \<Rightarrow> u64 \<Rightarrow> bytes
   \<Rightarrow> transfer_state \<Rightarrow> 'r \<Rightarrow> fault + (u64 \<times> transfer_state \<times> 'r)" where
  "initiate_transfer cd send e sender source_client_id denom amount receiver timeout_timestamp memo t r =
     bindE (require_auth e sender) (\<lambda>_.
     bindE (ensure (\<not> amount \<le> 0) (TransferFault AmountMustBePositive)) (\<lambda>_.
     bindE (enforce_rate_limit e denom amount t) (\<lambda>t1.
     bindE (debit sender denom amount t1) (\<lambda>t2.
     bindE (credit (current_contract e) denom amount t2) (\<lambda>t3.
     bindE (address_to_string cd sender) (\<lambda>sender_string.
     bindE (encode_ics20_json \<lparr>fp_token = \<lparr>tk_denom = denom, tk_amount = amount\<rparr>, fp_sender = sender_string,
              fp_receiver = receiver, fp_memo = memo\<rparr>) (\<lambda>val.
     bindE (ok_or (TransferFault RouterNotSet) (t_router t3)) (\<lambda>router_addr.
     bindE (send (invoke_env e router_addr) router_addr source_client_id timeout_timestamp [transfer_payload val] r)
       (\<lambda>(sequence, r1).
     Inr (sequence, t3, r1))))))))))"

definition require_router :: "env \<Rightarrow> transfer_state \<Rightarrow> fault + unit" where
  "require_router e t = bindE (ok_or (TransferFault RouterNotSet) (t_router t)) (require_auth e)"

definition is_success_ack :: "bytes \<Rightarrow> bool" where
  "is_success_ack ack \<longleftrightarrow>
     (length ack = 1 \<and> ack ! 0 = SUCCESS_ACK_BYTE)
     \<or> (let prefix = [123, 34] @ asc ''result'' @ [34] in
        length prefix \<le> length ack \<and> take (length prefix) ack = prefix)"

definition decode_packet :: "transfer_codec \<Rightarrow> bytes \<Rightarrow> fault + ftpd" where
  "decode_packet cd val = ok_or (TransferFault InvalidPacketData) (dec_ftpd cd val)"

definition refund :: "transfer_codec \<Rightarrow> env \<Rightarrow> ftpd \<Rightarrow> transfer_state \<Rightarrow> fault + transfer_state" where
  "refund cd e p t =
     bindE (string_to_address cd (fp_sender p)) (\<lambda>sender_addr.
     bindE (debit (current_contract e) (tk_denom (fp_token p)) (tk_amount (fp_token p)) t) (\<lambda>t1.
     credit sender_addr (tk_denom (fp_token p)) (tk_amount (fp_token p)) t1))"

definition on_recv_packet :: "transfer_codec \<Rightarrow> env \<Rightarrow> recv_callback \<Rightarrow> transfer_state \<Rightarrow> fault + (bytes \<times> transfer_state)" where
  "on_recv_packet cd e callback t =
     bindE (require_router e t) (\<lambda>_.
     bindE (ensure (pl_dest_port (rc_payload callback) = PORT) (TransferFault UnknownDestPort)) (\<lambda>_.
     bindE (decode_packet cd (pl_value (rc_payload callback))) (\<lambda>p.
     bindE (string_to_address cd (fp_receiver p)) (\<lambda>receiver_addr.
     bindE (credit receiver_addr (tk_denom (fp_token p)) (tk_amount (fp_token p)) t) (\<lambda>t1.
     Inr ([SUCCESS_ACK_BYTE], t1))))))"

definition on_acknowledgement_packet :: "transfer_codec \<Rightarrow> env \<Rightarrow> ack_callback \<Rightarrow> transfer_state \<Rightarrow> fault + transfer_state" where
  "on_acknowledgement_packet cd e callback t =
     bindE (require_router e t) (\<lambda>_.
     bindE (ensure (pl_source_port (ac_payload callback) = PORT) (TransferFault UnknownSourcePort)) (\<lambda>_.
     if is_success_ack (ac_acknowledgement callback) then Inr t
     else bindE (decode_packet cd (pl_value (ac_payload callback))) (\<lambda>p. refund cd e p t)))"

definition on_timeout_packet :: "transfer_codec \<Rightarrow> env \<Rightarrow> timeout_callback \<Rightarrow> transfer_state \<Rightarrow> fault + transfer_state" where
  "on_timeout_packet cd e callback t =
     bindE (require_router e t) (\<lambda>_.
     bindE (ensure (pl_source_port (tc_payload callback) = PORT) (TransferFault UnknownSourcePort)) (\<lambda>_.
     bindE (decode_packet cd (pl_value (tc_payload callback))) (\<lambda>p. refund cd e p t)))"

section \<open>Accounts\<close>

text \<open>
  What the transfer logic relies on of its account book: a withdrawal needs the funds and lowers
  one balance, a deposit raises one. A move between two accounts then conserves every sum of
  balances that covers both, and moving back undoes it.
\<close>

locale account_book =
  fixes withdraw :: "'a \<Rightarrow> 'd \<Rightarrow> int \<Rightarrow> 's \<Rightarrow> fault + 's"
    and deposit :: "'a \<Rightarrow> 'd \<Rightarrow> int \<Rightarrow> 's \<Rightarrow> fault + 's"
    and bal :: "'a \<Rightarrow> 'd \<Rightarrow> 's \<Rightarrow> int"
  assumes withdraw_funds: "withdraw a d n s = Inr s' \<Longrightarrow> n \<le> bal a d s"
    and withdraw_bal: "withdraw a d n s = Inr s' \<Longrightarrow>
      bal b d' s' = (if b = a \<and> d' = d then bal a d s - n else bal b d' s)"
    and deposit_bal: "deposit a d n s = Inr s' \<Longrightarrow>
      bal b d' s' = (if b = a \<and> d' = d then bal a d s + n else bal b d' s)"
begin

definition move :: "'a \<Rightarrow> 'a \<Rightarrow> 'd \<Rightarrow> int \<Rightarrow> 's \<Rightarrow> fault + 's" where
  "move a b d n s = bindE (withdraw a d n s) (deposit b d n)"

lemma move_bal:
  "move a b d n s = Inr s' \<Longrightarrow>
   bal c d' s' = bal c d' s - (if c = a \<and> d' = d then n else 0) + (if c = b \<and> d' = d then n else 0)"
  by (auto simp: move_def bindE_simps withdraw_bal deposit_bal)

lemma move_funds: "move a b d n s = Inr s' \<Longrightarrow> n \<le> bal a d s"
  by (auto simp: move_def bindE_simps dest: withdraw_funds)

lemma move_supply:
  assumes "move a b d n s = Inr s'" and "finite A" "a \<in> A" "b \<in> A"
  shows "(\<Sum>c \<in> A. bal c d' s') = (\<Sum>c \<in> A. bal c d' s)"
proof -
  have "(\<Sum>c \<in> A. bal c d' s') = (\<Sum>c \<in> A. bal c d' s) - (\<Sum>c \<in> A. if c = a then (if d' = d then n else 0) else 0)
      + (\<Sum>c \<in> A. if c = b then (if d' = d then n else 0) else 0)"
    unfolding sum_subtractf [symmetric] sum.distrib [symmetric]
    by (rule sum.cong) (auto simp: move_bal [OF assms(1)])
  then show ?thesis using assms(2-4) by simp
qed

lemma move_back:
  "move a b d n s = Inr s1 \<Longrightarrow> move b a d n s1 = Inr s2 \<Longrightarrow> bal c d' s2 = bal c d' s"
  by (simp add: move_bal)

end

lemma debit_eq_Inr:
  "debit who denom n t = Inr t' \<longleftrightarrow>
     n \<le> balance_of who denom t \<and> in_i128 (balance_of who denom t - n)
     \<and> t' = t\<lparr>t_balance := (t_balance t)((who, denom) \<mapsto> balance_of who denom t - n)\<rparr>"
  by (auto simp: debit_def Let_def bindE_simps balance_of_def)

lemma credit_eq_Inr:
  "credit who denom n t = Inr t' \<longleftrightarrow> in_i128 (balance_of who denom t + n)
     \<and> t' = t\<lparr>t_balance := (t_balance t)((who, denom) \<mapsto> balance_of who denom t + n)\<rparr>"
  by (auto simp: credit_def bindE_simps balance_of_def)

lemma balance_of_upd [simp]:
  "balance_of a d (t\<lparr>t_balance := (t_balance t)((b, d') \<mapsto> v)\<rparr>) = (if a = b \<and> d = d' then v else balance_of a d t)"
  by (auto simp: balance_of_def get_or_0_def)

interpretation accounts: account_book debit credit balance_of
  by unfold_locales (auto simp: debit_eq_Inr credit_eq_Inr)

text \<open>Balances are non-negative 128-bit integers.\<close>

definition balances_wf :: "transfer_state \<Rightarrow> bool" where
  "balances_wf t \<longleftrightarrow> (\<forall>a d. 0 \<le> balance_of a d t \<and> in_i128 (balance_of a d t))"

lemma balances_wfD: "balances_wf t \<Longrightarrow> 0 \<le> balance_of a d t \<and> in_i128 (balance_of a d t)"
  by (simp add: balances_wf_def)

lemma balances_wf_debit: "debit a d n t = Inr t' \<Longrightarrow> balances_wf t \<Longrightarrow> balances_wf t'"
  by (simp add: debit_eq_Inr balances_wf_def)

lemma balances_wf_credit: "credit a d n t = Inr t' \<Longrightarrow> balances_wf t \<Longrightarrow> 0 \<le> n \<Longrightarrow> balances_wf t'"
  by (simp add: credit_eq_Inr balances_wf_def)

lemma balances_wf_move:
  "accounts.move a b d n t = Inr t' \<Longrightarrow> balances_wf t \<Longrightarrow> 0 \<le> n \<Longrightarrow> balances_wf t'"
  by (auto simp: accounts.move_def bindE_simps intro: balances_wf_debit balances_wf_credit)

text \<open>Moving funds back always succeeds.\<close>

lemma move_back_succeeds:
  assumes "accounts.move a b d n t = Inr t1" and "balances_wf t" and "0 \<le> n"
  shows "\<exists>t2. accounts.move b a d n t1 = Inr t2"
proof -
  have wf1: "balances_wf t1" by (rule balances_wf_move [OF assms])
  have b1: "balance_of b d t1 = (if a = b then balance_of a d t else balance_of b d t + n)"
    and a1: "balance_of a d t1 = (if a = b then balance_of a d t else balance_of a d t - n)"
    using accounts.move_bal [OF assms(1)] by auto
  have "n \<le> balance_of b d t1"
    using assms(2) accounts.move_funds [OF assms(1)] b1 by (auto simp: balances_wf_def)
  moreover have "in_i128 (balance_of b d t1 - n)"
    using balances_wfD [OF wf1, of b d] assms(3) calculation by (auto simp: in_i128_def)
  moreover have "in_i128 (if a = b then balance_of a d t1 else balance_of a d t1 + n)"
    using a1 assms(2) wf1 by (auto simp: balances_wf_def)
  ultimately show ?thesis
    by (auto simp: accounts.move_def debit_eq_Inr credit_eq_Inr bindE_simps split: if_splits)
qed

section \<open>The operations in terms of moves\<close>

lemma enforce_rate_limit_eq_Inr:
  "enforce_rate_limit e d n t = Inr t' \<longleftrightarrow>
     (case t_daily_cap t d of
        None \<Rightarrow> t' = t
      | Some cap \<Rightarrow> daily_usage e d t + n \<le> cap \<and> in_i128 (daily_usage e d t + n)
          \<and> t' = t\<lparr>t_usage := (t_usage t)((d, current_day e) \<mapsto> daily_usage e d t + n)\<rparr>)"
  by (auto simp: enforce_rate_limit_def Let_def bindE_simps daily_usage_def split: option.splits)

lemma enforce_rate_limit_frame:
  assumes "enforce_rate_limit e d n t = Inr t'"
  shows "t_balance t' = t_balance t" "t_router t' = t_router t" "t_daily_cap t' = t_daily_cap t"
  using assms by (auto simp: enforce_rate_limit_eq_Inr split: option.splits)

lemma initiate_transfer_eq_Inr:
  "initiate_transfer cd send e sender c d n rcv tmo memo t r = Inr (q, t', r') \<longleftrightarrow>
     (\<exists>t1 ss val router. (sender \<in> set (auths e) \<or> invoker e = Some sender) \<and> 0 < n
        \<and> enforce_rate_limit e d n t = Inr t1 \<and> accounts.move sender (current_contract e) d n t1 = Inr t'
        \<and> address_to_string cd sender = Inr ss
        \<and> encode_ics20_json \<lparr>fp_token = \<lparr>tk_denom = d, tk_amount = n\<rparr>, fp_sender = ss, fp_receiver = rcv, fp_memo = memo\<rparr> = Inr val
        \<and> t_router t' = Some router
        \<and> send (invoke_env e router) router c tmo [transfer_payload val] r = Inr (q, r'))"
  by (auto simp: initiate_transfer_def accounts.move_def bindE_simps not_le split: prod.splits)

lemma refund_move:
  "refund cd e p t = bindE (string_to_address cd (fp_sender p)) (\<lambda>a.
     accounts.move (current_contract e) a (tk_denom (fp_token p)) (tk_amount (fp_token p)) t)"
  by (simp add: refund_def accounts.move_def)

lemma move_frame:
  assumes "accounts.move a b d n t = Inr t'"
  shows "t_router t' = t_router t" "t_usage t' = t_usage t" "t_daily_cap t' = t_daily_cap t" "t_admin t' = t_admin t"
  using assms by (auto simp: accounts.move_def bindE_simps debit_eq_Inr credit_eq_Inr)

end
