(* ===== verification/Transfer_Properties.thy ===== *)
theory Transfer_Properties
  imports Ibc_Transfer
begin

text \<open>
  The properties of the transfer application: what a transfer moves and when it may, conservation of
  the supply, refunds, the daily limit, who may call the packet callbacks, and the mismatch of its
  packet encodings.
\<close>

section \<open>A sample ledger\<close>

text \<open>The application at address 2, its router at 9; account 30 holds 100 uxlm; at most 60 a day.\<close>

definition sample_transfer :: transfer_state where
  "sample_transfer = \<lparr>t_router = Some 9, t_admin = Some 5, t_balance = [(30, asc ''uxlm'') \<mapsto> 100],
     t_daily_cap = [asc ''uxlm'' \<mapsto> 60], t_usage = Map.empty\<rparr>"

definition sample_sender_env :: env where
  "sample_sender_env = sample_env\<lparr>auths := [30]\<rparr>"

definition sample_send :: "unit send_entry" where
  "sample_send e a c tmo ps r = Inr (1, r)"

definition sample_after :: transfer_state where
  "sample_after = sample_transfer\<lparr>t_usage := [(asc ''uxlm'', 0) \<mapsto> 40],
     t_balance := [(30, asc ''uxlm'') \<mapsto> 60, (2, asc ''uxlm'') \<mapsto> 40]\<rparr>"

lemma sample_balances: "balances_wf sample_transfer"
  by (simp add: balances_wf_def balance_of_def get_or_0_def sample_transfer_def in_i128_def)

lemma sample_move:
  "accounts.move 30 2 (asc ''uxlm'') 40 (sample_transfer\<lparr>t_usage := [(asc ''uxlm'', 0) \<mapsto> 40]\<rparr>) = Inr sample_after"
  by (auto simp: accounts.move_def bindE_simps debit_eq_Inr credit_eq_Inr sample_transfer_def sample_after_def
      balance_of_def get_or_0_def in_i128_def)

lemma sample_initiate_to:
  assumes "length rcv \<le> 16"
  shows "initiate_transfer sample_transfer_codec sample_send sample_sender_env 30 (asc ''07-tendermint-0'') (asc ''uxlm'')
     40 rcv 1000 [] sample_transfer () = Inr (1, sample_after, ())"
proof -
  have day: "current_day sample_sender_env = 0" by code_simp
  have rate: "enforce_rate_limit sample_sender_env (asc ''uxlm'') 40 sample_transfer
      = Inr (sample_transfer\<lparr>t_usage := [(asc ''uxlm'', 0) \<mapsto> 40]\<rparr>)"
    by (simp add: enforce_rate_limit_eq_Inr daily_usage_def day get_or_0_def sample_transfer_def in_i128_def)
  obtain ss where ss: "address_to_string sample_transfer_codec 30 = Inr ss" "length ss = 16"
    by (simp add: address_to_string_def sample_transfer_codec_def Let_def)
  then have "\<exists>val. encode_ics20_json \<lparr>fp_token = \<lparr>tk_denom = asc ''uxlm'', tk_amount = 40\<rparr>, fp_sender = ss,
      fp_receiver = rcv, fp_memo = []\<rparr> = Inr val"
    using assms by (simp add: encode_ics20_json_def append_string_def append_decimal_ok in_i128_def)
  with rate sample_move ss show ?thesis
    by (auto simp: initiate_transfer_eq_Inr sample_send_def sample_sender_env_def sample_env_def
        sample_after_def sample_transfer_def)
qed

lemmas sample_initiate = sample_initiate_to [of "asc ''cosmos1''", simplified]

section \<open>Properties\<close>



text \<open>
  Refunding the packet data of a completed transfer, with the sender's address as
  \<open>address_to_string\<close> wrote it, always succeeds and undoes the transfer.
\<close>

lemma refund_undoes:
  assumes "initiate_transfer cd send e sender c d n rcv tmo memo t r = Inr (q, t1, r')"
    and "balances_wf t"
    and "address_of_xdr cd (address_xdr cd sender) = Some sender"
    and "address_to_string cd sender = Inr ss"
    and "p = \<lparr>fp_token = \<lparr>tk_denom = d, tk_amount = n\<rparr>, fp_sender = ss, fp_receiver = rcv, fp_memo = memo\<rparr>"
    and "current_contract e' = current_contract e"
  shows "\<exists>t2. refund cd e' p t1 = Inr t2 \<and> (\<forall>a d'. balance_of a d' t2 = balance_of a d' t)"
proof -
  from assms(1) obtain t0 where "0 < n" and rate: "enforce_rate_limit e d n t = Inr t0"
    and mv: "accounts.move sender (current_contract e) d n t0 = Inr t1"
    by (auto simp: initiate_transfer_eq_Inr)
  have same: "balance_of a d' t0 = balance_of a d' t" for a d'
    using enforce_rate_limit_frame(1) [OF rate] by (simp add: balance_of_def)
  then have "balances_wf t0" using assms(2) by (simp add: balances_wf_def)
  with \<open>0 < n\<close> obtain t2 where undo: "accounts.move (current_contract e) sender d n t1 = Inr t2"
    using move_back_succeeds [OF mv] by auto
  have "string_to_address cd ss = Inr sender"
    using assms(3, 4) address_round [of cd sender]
    by (auto simp: address_to_string_def Let_def bindE_simps)
  then have "refund cd e' p t1 = Inr t2" by (simp add: refund_move assms(5, 6) undo)
  then show ?thesis using accounts.move_back [OF mv undo] same by auto
qed

lemma initiate_keeps_router:
  "initiate_transfer cd send e sender c d n rcv tmo memo t r = Inr (q, t1, r') \<Longrightarrow> t_router t1 = t_router t"
  unfolding initiate_transfer_eq_Inr using move_frame(1) enforce_rate_limit_frame(2) by fastforce



section \<open>The daily limit over a day\<close>

text \<open>
  Sequences of successful calls of the application's entry points, each in any environment and with
  the router in any state; a failed call changes nothing.
\<close>

datatype transfer_call =
    CallMint address bytes i128
  | CallSetRateLimit bytes i128
  | CallInitiate address bytes bytes i128 bytes u64 bytes
  | CallRecv recv_callback
  | CallAck ack_callback
  | CallTimeout timeout_callback

fun transfer_exec ::
  "transfer_codec \<Rightarrow> 'r send_entry \<Rightarrow> env \<Rightarrow> transfer_call \<Rightarrow> transfer_state \<Rightarrow> 'r \<Rightarrow> fault + transfer_state" where
  "transfer_exec cd send e (CallMint dest d n) t r = mint dest d n t"
| "transfer_exec cd send e (CallSetRateLimit d cap) t r = set_rate_limit e d cap t"
| "transfer_exec cd send e (CallInitiate sender c d n rcv tmo memo) t r =
     bindE (initiate_transfer cd send e sender c d n rcv tmo memo t r) (\<lambda>(_, t1, _). Inr t1)"
| "transfer_exec cd send e (CallRecv cb) t r = bindE (on_recv_packet cd e cb t) (\<lambda>(_, t1). Inr t1)"
| "transfer_exec cd send e (CallAck cb) t r = on_acknowledgement_packet cd e cb t"
| "transfer_exec cd send e (CallTimeout cb) t r = on_timeout_packet cd e cb t"

inductive transfer_run ::
  "transfer_codec \<Rightarrow> 'r send_entry \<Rightarrow> transfer_state \<Rightarrow> (env \<times> transfer_call) list \<Rightarrow> transfer_state \<Rightarrow> bool"
  for cd send where
  run_stop: "transfer_run cd send t [] t"
| run_call: "transfer_exec cd send e call t r = Inr t1 \<Longrightarrow> transfer_run cd send t1 log t2
    \<Longrightarrow> transfer_run cd send t ((e, call) # log) t2"

text \<open>What the calls of a log transfer of a denomination on a day.\<close>

fun sent_by :: "bytes \<Rightarrow> u64 \<Rightarrow> env \<times> transfer_call \<Rightarrow> int" where
  "sent_by d day (e, CallInitiate sender c d' n rcv tmo memo) = (if d' = d \<and> current_day e = day then n else 0)"
| "sent_by d day _ = 0"

definition day_total :: "bytes \<Rightarrow> u64 \<Rightarrow> (env \<times> transfer_call) list \<Rightarrow> int" where
  "day_total d day log = (\<Sum>call \<leftarrow> log. sent_by d day call)"

text \<open>Recorded uses and caps are never negative.\<close>

definition limits_wf :: "transfer_state \<Rightarrow> bool" where
  "limits_wf t \<longleftrightarrow> (\<forall>k. 0 \<le> get_or_0 (t_usage t) k) \<and> (\<forall>d cap. t_daily_cap t d = Some cap \<longrightarrow> 0 \<le> cap)"

definition capped :: "bytes \<Rightarrow> int \<Rightarrow> transfer_state \<Rightarrow> bool" where
  "capped d cap t \<longleftrightarrow> (\<exists>cap'. t_daily_cap t d = Some cap' \<and> cap' \<le> cap)"

text \<open>A transfer records its amount against the day exactly when its denomination has a cap.\<close>

lemma initiate_usage:
  assumes "initiate_transfer cd send e sender c d n rcv tmo memo t r = Inr (q, t', r')"
  shows "0 < n" and "t_daily_cap t' = t_daily_cap t"
    and "t_usage t' = (if t_daily_cap t d = None then t_usage t
           else (t_usage t)((d, current_day e) \<mapsto> get_or_0 (t_usage t) (d, current_day e) + n))"
    and "t_daily_cap t d = Some cap \<Longrightarrow> get_or_0 (t_usage t) (d, current_day e) + n \<le> cap"
proof -
  from assms obtain t1 where "0 < n" and rate: "enforce_rate_limit e d n t = Inr t1"
    and mv: "accounts.move sender (current_contract e) d n t1 = Inr t'"
    by (auto simp: initiate_transfer_eq_Inr)
  with move_frame(2, 3) [OF mv] enforce_rate_limit_frame(3) [OF rate]
  show "0 < n" "t_daily_cap t' = t_daily_cap t"
    "t_usage t' = (if t_daily_cap t d = None then t_usage t
       else (t_usage t)((d, current_day e) \<mapsto> get_or_0 (t_usage t) (d, current_day e) + n))"
    "t_daily_cap t d = Some cap \<Longrightarrow> get_or_0 (t_usage t) (d, current_day e) + n \<le> cap"
    by (auto simp: enforce_rate_limit_eq_Inr daily_usage_def split: option.splits)
qed

text \<open>The other entry points leave the recorded uses alone; only \<open>set_rate_limit\<close> sets a cap.\<close>

lemma refund_limits: "refund cd e p t = Inr t' \<Longrightarrow> t_usage t' = t_usage t \<and> t_daily_cap t' = t_daily_cap t"
  by (auto simp: refund_move bindE_simps dest: move_frame)

lemma callback_limits:
  "on_recv_packet cd e rcb t = Inr (ack, t') \<Longrightarrow> t_usage t' = t_usage t \<and> t_daily_cap t' = t_daily_cap t"
  "on_acknowledgement_packet cd e acb t = Inr t' \<Longrightarrow> t_usage t' = t_usage t \<and> t_daily_cap t' = t_daily_cap t"
  "on_timeout_packet cd e tcb t = Inr t' \<Longrightarrow> t_usage t' = t_usage t \<and> t_daily_cap t' = t_daily_cap t"
  by (auto simp: on_recv_packet_def on_acknowledgement_packet_def on_timeout_packet_def bindE_simps credit_eq_Inr
      dest: refund_limits split: if_splits)

lemma exec_other_limits:
  assumes "transfer_exec cd send e call t r = Inr t'" and "\<forall>a c d n rcv tmo m. call \<noteq> CallInitiate a c d n rcv tmo m"
  shows "t_usage t' = t_usage t"
    and "t_daily_cap t' = t_daily_cap t \<or> (\<exists>d cap. call = CallSetRateLimit d cap \<and> 0 \<le> cap \<and> t_daily_cap t' = (t_daily_cap t)(d \<mapsto> cap))"
  using assms by (cases call; auto simp: mint_def set_rate_limit_def bindE_simps dest: callback_limits)+

lemma exec_limits:
  assumes "transfer_exec cd send e call t r = Inr t'" and "limits_wf t"
  shows "limits_wf t' \<and> 0 \<le> sent_by d day (e, call)"
proof (cases "\<exists>a c d n rcv tmo m. call = CallInitiate a c d n rcv tmo m")
  case True
  then obtain a c d' n rcv tmo m q r' where call: "call = CallInitiate a c d' n rcv tmo m"
    and "initiate_transfer cd send e a c d' n rcv tmo m t r = Inr (q, t', r')"
    using assms(1) by (auto simp: bindE_simps)
  from initiate_usage(1-3) [OF this(2)] assms(2) show ?thesis
    by (auto simp: limits_wf_def call get_or_0_def intro!: add_nonneg_nonneg split: option.splits)
next
  case False
  with exec_other_limits [OF assms(1)] assms(2) show ?thesis
    by (cases call) (auto simp: limits_wf_def split: if_splits)
qed

lemma exec_usage:
  assumes "transfer_exec cd send e call t r = Inr t'" and "capped d cap t"
    and "\<forall>cap'. call = CallSetRateLimit d cap' \<longrightarrow> cap' \<le> cap"
  shows "get_or_0 (t_usage t') (d, day) = get_or_0 (t_usage t) (d, day) + sent_by d day (e, call)
    \<and> capped d cap t'
    \<and> (sent_by d day (e, call) \<noteq> 0 \<longrightarrow> get_or_0 (t_usage t') (d, day) \<le> cap)"
proof (cases "\<exists>a c d n rcv tmo m. call = CallInitiate a c d n rcv tmo m")
  case True
  then obtain a c d' n rcv tmo m q r' where call: "call = CallInitiate a c d' n rcv tmo m"
    and "initiate_transfer cd send e a c d' n rcv tmo m t r = Inr (q, t', r')"
    using assms(1) by (auto simp: bindE_simps)
  from initiate_usage(1-3) [OF this(2)] initiate_usage(4) [OF this(2)] assms(2) show ?thesis
    by (fastforce simp: call get_or_0_def capped_def)
next
  case False
  with exec_other_limits [OF assms(1)] have "t_usage t' = t_usage t"
    and "t_daily_cap t' = t_daily_cap t \<or> (\<exists>d cap. call = CallSetRateLimit d cap \<and> t_daily_cap t' = (t_daily_cap t)(d \<mapsto> cap))"
    by auto
  moreover have "sent_by d day (e, call) = 0" using False by (cases call) auto
  ultimately show ?thesis using assms(2, 3) by (auto simp: capped_def split: if_splits)
qed

lemma run_limits:
  assumes "transfer_run cd send t log t'" and "limits_wf t"
  shows "limits_wf t' \<and> 0 \<le> day_total d day log"
  using assms
proof (induction rule: transfer_run.induct)
  case (run_call e call t r t1 log t2)
  with exec_limits [OF run_call.hyps(1) run_call.prems, of d day] show ?case by (simp add: day_total_def)
qed (simp add: day_total_def)

lemma run_usage:
  assumes "transfer_run cd send t log t'" and "limits_wf t" and "capped d cap t"
    and "\<forall>e cap'. (e, CallSetRateLimit d cap') \<in> set log \<longrightarrow> cap' \<le> cap"
  shows "get_or_0 (t_usage t') (d, day) = get_or_0 (t_usage t) (d, day) + day_total d day log
    \<and> (day_total d day log \<noteq> 0 \<longrightarrow> get_or_0 (t_usage t') (d, day) \<le> cap)"
  using assms
proof (induction rule: transfer_run.induct)
  case (run_call e call t r t1 log t2)
  from run_call.prems have "\<forall>cap'. call = CallSetRateLimit d cap' \<longrightarrow> cap' \<le> cap" by auto
  note step = exec_usage [OF run_call.hyps(1) run_call.prems(2) this, of day]
  have "limits_wf t1" using exec_limits [OF run_call.hyps(1) run_call.prems(1)] by simp
  with run_call.IH step run_call.prems(3)
  have "get_or_0 (t_usage t2) (d, day) = get_or_0 (t_usage t1) (d, day) + day_total d day log"
    "day_total d day log \<noteq> 0 \<longrightarrow> get_or_0 (t_usage t2) (d, day) \<le> cap" by auto
  with step show ?case by (cases "day_total d day log = 0") (auto simp: day_total_def)
qed (simp add: day_total_def)

text \<open>
  C29 (the daily limit). Take any calls of the application since its deployment after which a
  denomination has a cap, and any further calls in which no higher cap is set for it. What those
  further calls transfer of the denomination on any one day is at most the cap, is added in full to
  the day's recorded use, and, when it is anything at all, leaves that use within the cap, so that
  it is bounded together with the transfers recorded before. (Transfers made while the denomination
  had no cap are not recorded and do not count.)
\<close>

theorem daily_limit_enforced:
  assumes "transfer_run cd send (transfer_constructor router admin) before t" and "daily_cap d t = Some cap"
    and "transfer_run cd send t log t'"
    and "\<forall>e cap'. (e, CallSetRateLimit d cap') \<in> set log \<longrightarrow> cap' \<le> cap"
  shows "day_total d (current_day e) log \<le> cap
    \<and> daily_usage e d t' = daily_usage e d t + day_total d (current_day e) log \<and> 0 \<le> daily_usage e d t
    \<and> (day_total d (current_day e) log \<noteq> 0 \<longrightarrow> daily_usage e d t' \<le> cap)"
proof -
  have "limits_wf (transfer_constructor router admin)"
    by (simp add: limits_wf_def transfer_constructor_def get_or_0_def)
  then have wf: "limits_wf t" using run_limits [OF assms(1)] by blast
  then have "0 \<le> daily_usage e d t" "0 \<le> cap"
    using assms(2) by (auto simp: limits_wf_def daily_usage_def daily_cap_def)
  moreover have "capped d cap t" using assms(2) by (simp add: capped_def daily_cap_def)
  note run_usage [OF assms(3) wf this assms(4), of "current_day e"]
  ultimately show ?thesis by (auto simp: daily_usage_def)
qed

lemma sample_capped:
  "transfer_run sample_transfer_codec sample_send (transfer_constructor 9 5)
     [(sample_env, CallMint 30 (asc ''uxlm'') 100), (sample_env\<lparr>auths := [5]\<rparr>, CallSetRateLimit (asc ''uxlm'') 60)] sample_transfer"
proof -
  have "mint 30 (asc ''uxlm'') 100 (transfer_constructor 9 5) = Inr (sample_transfer\<lparr>t_daily_cap := Map.empty\<rparr>)"
    by (simp add: mint_def transfer_constructor_def sample_transfer_def get_or_0_def in_i128_def add_i128_def)
  moreover have "set_rate_limit (sample_env\<lparr>auths := [5]\<rparr>) (asc ''uxlm'') 60 (sample_transfer\<lparr>t_daily_cap := Map.empty\<rparr>)
      = Inr sample_transfer"
    by (simp add: set_rate_limit_def sample_transfer_def require_auth_def)
  ultimately show ?thesis by (intro run_call [OF _ run_call [OF _ run_stop]]) simp_all
qed

lemma sample_day:
  "transfer_run sample_transfer_codec sample_send sample_transfer
     [(sample_sender_env, CallInitiate 30 (asc ''07-tendermint-0'') (asc ''uxlm'') 40 (asc ''cosmos1'') 1000 [])] sample_after"
  by (rule run_call [OF _ run_stop]) (simp add: sample_initiate)

theorem daily_limit_enforced_witness:
  "day_total (asc ''uxlm'') 0 [(sample_sender_env, CallInitiate 30 (asc ''07-tendermint-0'') (asc ''uxlm'') 40 (asc ''cosmos1'') 1000 [])] = 40
   \<and> daily_usage sample_sender_env (asc ''uxlm'') sample_after = 40 \<and> (40::int) \<le> 60"
proof -
  have day: "current_day sample_sender_env = 0" by code_simp
  have cap: "daily_cap (asc ''uxlm'') sample_transfer = Some 60" "daily_usage sample_sender_env (asc ''uxlm'') sample_transfer = 0"
    by (simp_all add: daily_cap_def daily_usage_def sample_transfer_def get_or_0_def)
  from daily_limit_enforced [OF sample_capped cap(1) sample_day, of sample_sender_env] show ?thesis
    by (simp add: day cap day_total_def)
qed

text \<open>
  Unless the router itself makes the call (or has signed it), none
  of the three packet callbacks succeeds, whatever it is given.
\<close>

lemma callbacks_need_router:
  assumes "\<forall>router. t_router t = Some router \<longrightarrow> router \<notin> set (auths e) \<and> invoker e \<noteq> Some router"
  shows "(\<exists>f. on_recv_packet cd e rcb t = Inl f) \<and> (\<exists>f. on_acknowledgement_packet cd e acb t = Inl f)
    \<and> (\<exists>f. on_timeout_packet cd e tcb t = Inl f)"
proof -
  have "\<exists>f. require_router e t = Inl f"
    using assms by (cases "t_router t") (auto simp: require_router_def require_auth_def)
  then show ?thesis
    by (auto simp: on_recv_packet_def on_acknowledgement_packet_def on_timeout_packet_def)
qed

lemma callbacks_need_router_witness:
  "\<exists>f. on_timeout_packet sample_transfer_codec sample_sender_env
         \<lparr>tc_source_client = [], tc_dest_client = [], tc_sequence = 1, tc_payload = transfer_payload []\<rparr> sample_transfer = Inl f"
  using callbacks_need_router [of sample_transfer sample_sender_env]
  by (simp add: sample_transfer_def sample_sender_env_def sample_env_def)

text \<open>
  C30 (the application cannot read its own packets). Transfers are encoded as JSON, but the
  acknowledgement and timeout callbacks decode XDR, whose encoding of a structure begins with the
  zero byte of a small big-endian discriminant. So whatever was sent, the callback for a timeout
  and for an error acknowledgement of the application's own packet fails with
  \<open>InvalidPacketData\<close> when the router calls it, and no refund is ever paid.
\<close>

theorem own_packets_never_refunded:
  assumes "encode_ics20_json p = Inr val"
    and "\<And>bs q. dec_ftpd cd bs = Some q \<Longrightarrow> take 1 bs = [0]"
    and "require_router e t = Inr ()"
    and "tc_payload tcb = transfer_payload val" and "ac_payload acb = transfer_payload val"
    and "\<not> is_success_ack (ac_acknowledgement acb)"
  shows "on_timeout_packet cd e tcb t = Inl (TransferFault InvalidPacketData)
    \<and> on_acknowledgement_packet cd e acb t = Inl (TransferFault InvalidPacketData)"
proof -
  have "take 1 val = [123]"
    using assms(1) by (auto simp: encode_ics20_json_def append_string_def append_decimal_def bindE_simps json_lit_def
        asc_def Let_def split: if_splits)
  then have "dec_ftpd cd val = None"
    using assms(2) [of val] by (cases "dec_ftpd cd val") auto
  then show ?thesis
    using assms(3-6)
    by (simp add: on_timeout_packet_def on_acknowledgement_packet_def decode_packet_def transfer_payload_def)
qed

theorem own_packets_never_refunded_witness:
  "\<exists>val. encode_ics20_json sample_ftpd = Inr val
     \<and> on_timeout_packet sample_transfer_codec (sample_env\<lparr>invoker := Some 9\<rparr>)
         \<lparr>tc_source_client = [], tc_dest_client = [], tc_sequence = 1, tc_payload = transfer_payload val\<rparr> sample_transfer
       = Inl (TransferFault InvalidPacketData)"
proof -
  obtain val where val: "encode_ics20_json sample_ftpd = Inr val"
    by (simp add: encode_ics20_json_def sample_ftpd_def append_string_def append_decimal_ok in_i128_def)
  have xdr: "take 1 bs = [0]" if "dec_ftpd sample_transfer_codec bs = Some q" for bs q
    using that by (cases bs) (auto simp: sample_transfer_codec_def split: if_splits)
  have auth: "require_router (sample_env\<lparr>invoker := Some 9\<rparr>) sample_transfer = Inr ()"
    by (simp add: require_router_def sample_transfer_def require_auth_def)
  from own_packets_never_refunded [OF val xdr auth,
      where tcb = "\<lparr>tc_source_client = [], tc_dest_client = [], tc_sequence = 1, tc_payload = transfer_payload val\<rparr>"
        and acb = "\<lparr>ac_source_client = [], ac_dest_client = [], ac_sequence = 1, ac_payload = transfer_payload val, ac_acknowledgement = []\<rparr>"]
    val show ?thesis by (auto simp: is_success_ack_def Let_def)
qed

text \<open>A received packet is credited without a check of its amount: a negative one debits the receiver.\<close>

lemma recv_credits_any_amount:
  assumes "require_router e t = Inr ()" and "pl_dest_port (rc_payload cb) = PORT"
    and "dec_ftpd cd (pl_value (rc_payload cb)) = Some p" and "string_to_address cd (fp_receiver p) = Inr a"
    and "in_i128 (balance_of a (tk_denom (fp_token p)) t + tk_amount (fp_token p))"
  shows "\<exists>t'. on_recv_packet cd e cb t = Inr ([SUCCESS_ACK_BYTE], t')
    \<and> balance_of a (tk_denom (fp_token p)) t' = balance_of a (tk_denom (fp_token p)) t + tk_amount (fp_token p)"
  using assms by (simp add: on_recv_packet_def decode_packet_def credit_def balance_of_def add_i128_def get_or_0_def)

end
