(* ===== verification/World.thy ===== *)
theory World
  imports Router_Properties Tendermint_LC Attestation_LC Mock_LC Transfer_Properties
begin

text \<open>
  The contracts deployed together: the router, the transfer application and one contract of each
  kind of light client, at fixed addresses. The router's calls into other contracts, a parameter of
  its model, are resolved here to the models of those contracts. A step of the world is any
  transaction anyone sends to any of these contracts.
\<close>

section \<open>Deployment\<close>

record deployment =
  d_router :: address
  d_transfer :: address
  d_tendermint :: address
  d_attestation :: address
  d_mock :: address

record codecs =
  tm_cd :: tm_codec
  att_cd :: att_codec
  transfer_cd :: transfer_codec
  att_ed :: ed25519

record world =
  w_transfer :: transfer_state
  w_tm :: tm_state
  w_att :: att_state
  w_mock :: mock_state

text \<open>A call of a light client at an address, by the contract deployed there.\<close>

definition at_lc ::
  "deployment \<Rightarrow> address \<Rightarrow> (world \<Rightarrow> fault + 'a) \<Rightarrow> (world \<Rightarrow> fault + 'a) \<Rightarrow> (world \<Rightarrow> fault + 'a) \<Rightarrow> world \<Rightarrow> fault + 'a" where
  "at_lc dep a f_tm f_att f_mock w =
     (if a = d_tendermint dep then f_tm w
      else if a = d_attestation dep then f_att w
      else if a = d_mock dep then f_mock w
      else Inl (Trap NoSuchContract))"

definition put_tm :: "world \<Rightarrow> tm_state \<Rightarrow> world" where
  "put_tm w l = w\<lparr>w_tm := l\<rparr>"

definition put_att :: "world \<Rightarrow> att_state \<Rightarrow> world" where
  "put_att w l = w\<lparr>w_att := l\<rparr>"

definition put_mock :: "world \<Rightarrow> mock_state \<Rightarrow> world" where
  "put_mock w l = w\<lparr>w_mock := l\<rparr>"

definition at_app :: "deployment \<Rightarrow> address \<Rightarrow> (world \<Rightarrow> fault + 'a) \<Rightarrow> world \<Rightarrow> fault + 'a" where
  "at_app dep a f w = (if a = d_transfer dep then f w else Inl (Trap NoSuchContract))"

definition world_callees :: "deployment \<Rightarrow> codecs \<Rightarrow> world callees" where
  "world_callees dep cd = \<lparr>
     lc_initialise = (\<lambda>e a c cs cons h w. at_lc dep a
       (\<lambda>w. bindE (tm_initialise (tm_cd cd) c cs cons h (w_tm w)) (\<lambda>l. Inr ((), put_tm w l)))
       (\<lambda>w. bindE (att_initialise (att_cd cd) c cs cons h (w_att w)) (\<lambda>l. Inr ((), put_att w l)))
       (\<lambda>w. Inr ((), put_mock w (mock_initialise c cs cons h (w_mock w)))) w),
     lc_check_for_misbehaviour = (\<lambda>e a c m w. at_lc dep a
       (\<lambda>w. bindE (tm_check_for_misbehaviour (tm_cd cd) c m (w_tm w)) (\<lambda>b. Inr (b, w)))
       (\<lambda>w. bindE (att_check_for_misbehaviour (att_cd cd) (att_ed cd) c m (w_att w)) (\<lambda>b. Inr (b, w)))
       (\<lambda>w. Inr (mock_check_for_misbehaviour c m, w)) w),
     lc_update_state_on_misbehaviour = (\<lambda>e a c m w. at_lc dep a
       (\<lambda>w. bindE (tm_update_state_on_misbehaviour c m (w_tm w)) (\<lambda>l. Inr ((), put_tm w l)))
       (\<lambda>w. bindE (att_update_state_on_misbehaviour c m (w_att w)) (\<lambda>l. Inr ((), put_att w l)))
       (\<lambda>w. Inr ((), put_mock w (mock_update_state_on_misbehaviour c m (w_mock w)))) w),
     lc_update_state = (\<lambda>e a c m w. at_lc dep a
       (\<lambda>w. bindE (tm_update_state (tm_cd cd) c m (w_tm w)) (\<lambda>(h, l). Inr (h, put_tm w l)))
       (\<lambda>w. bindE (att_update_state (att_cd cd) (att_ed cd) c m (w_att w)) (\<lambda>(h, l). Inr (h, put_att w l)))
       (\<lambda>w. bindE (mock_update_state c m (w_mock w)) (\<lambda>(h, l). Inr (h, put_mock w l))) w),
     lc_verify_membership = (\<lambda>e a c h pf path v w. at_lc dep a
       (\<lambda>w. bindE (tm_verify_membership c h pf path v (w_tm w)) (\<lambda>b. Inr (b, w)))
       (\<lambda>w. bindE (att_verify_membership (att_cd cd) (att_ed cd) c h pf path v (w_att w)) (\<lambda>b. Inr (b, w)))
       (\<lambda>w. Inr (mock_verify_membership c h pf path v, w)) w),
     lc_verify_non_membership = (\<lambda>e a c h pf path w. at_lc dep a
       (\<lambda>w. bindE (tm_verify_non_membership c h pf path (w_tm w)) (\<lambda>b. Inr (b, w)))
       (\<lambda>w. bindE (att_verify_non_membership (att_cd cd) (att_ed cd) c h pf path (w_att w)) (\<lambda>b. Inr (b, w)))
       (\<lambda>w. Inr (mock_verify_non_membership c h pf path, w)) w),
     lc_get_timestamp_at_height = (\<lambda>e a c h w. at_lc dep a
       (\<lambda>w. Inr (tm_get_timestamp_at_height c h (w_tm w), w))
       (\<lambda>w. Inr (att_get_timestamp_at_height c h (w_att w), w))
       (\<lambda>w. Inr (mock_get_timestamp_at_height c h, w)) w),
     app_on_recv_packet = (\<lambda>e a cb w. at_app dep a
       (\<lambda>w. bindE (on_recv_packet (transfer_cd cd) e cb (w_transfer w)) (\<lambda>(ack, t). Inr (ack, w\<lparr>w_transfer := t\<rparr>))) w),
     app_on_acknowledgement_packet = (\<lambda>e a cb w. at_app dep a
       (\<lambda>w. bindE (on_acknowledgement_packet (transfer_cd cd) e cb (w_transfer w)) (\<lambda>t. Inr ((), w\<lparr>w_transfer := t\<rparr>))) w),
     app_on_timeout_packet = (\<lambda>e a cb w. at_app dep a
       (\<lambda>w. bindE (on_timeout_packet (transfer_cd cd) e cb (w_transfer w)) (\<lambda>t. Inr ((), w\<lparr>w_transfer := t\<rparr>))) w)\<rparr>"

text \<open>The router's \<open>send_packet\<close> as the transfer application calls it.\<close>

definition world_send :: "(bytes \<Rightarrow> bytes) \<Rightarrow> deployment \<Rightarrow> router_state send_entry" where
  "world_send sha dep e a c tmo ps s =
     (if a = d_router dep then send_packet sha e c tmo ps s else Inl (Trap NoSuchContract))"

section \<open>Transactions\<close>

datatype world_call =
    ToRouter router_call
  | Mint address bytes i128
  | SetRateLimit bytes i128
  | InitiateTransfer address bytes bytes i128 bytes u64 bytes
  | DirectRecv recv_callback
  | DirectAck ack_callback
  | DirectTimeout timeout_callback
  | DirectLcUpdate address bytes bytes
  | DirectLcMisbehaviour address bytes bytes
  | DirectLcInitialise address bytes bytes bytes u64

definition with_transfer :: "router_state \<Rightarrow> world \<Rightarrow> fault + transfer_state \<Rightarrow> fault + (router_state \<times> world)" where
  "with_transfer s w m = bindE m (\<lambda>t. Inr (s, w\<lparr>w_transfer := t\<rparr>))"

definition with_world :: "router_state \<Rightarrow> fault + ('a \<times> world) \<Rightarrow> fault + (router_state \<times> world)" where
  "with_world s m = bindE m (\<lambda>(_, w). Inr (s, w))"

fun world_exec ::
  "(bytes \<Rightarrow> bytes) \<Rightarrow> deployment \<Rightarrow> codecs \<Rightarrow> env \<Rightarrow> world_call \<Rightarrow> router_state \<Rightarrow> world \<Rightarrow> fault + (router_state \<times> world)" where
  "world_exec sha dep cd e (ToRouter call) s w =
     bindE (router_exec sha (world_callees dep cd) (e\<lparr>current_contract := d_router dep\<rparr>) call s w) (\<lambda>(_, s', w'). Inr (s', w'))"
| "world_exec sha dep cd e (Mint to d n) s w = with_transfer s w (mint to d n (w_transfer w))"
| "world_exec sha dep cd e (SetRateLimit d n) s w =
     with_transfer s w (set_rate_limit (e\<lparr>current_contract := d_transfer dep\<rparr>) d n (w_transfer w))"
| "world_exec sha dep cd e (InitiateTransfer sender c d n receiver tmo memo) s w =
     bindE (initiate_transfer (transfer_cd cd) (world_send sha dep) (e\<lparr>current_contract := d_transfer dep\<rparr>)
              sender c d n receiver tmo memo (w_transfer w) s) (\<lambda>(_, t, s').
     Inr (s', w\<lparr>w_transfer := t\<rparr>))"
| "world_exec sha dep cd e (DirectRecv cb) s w =
     bindE (on_recv_packet (transfer_cd cd) (e\<lparr>current_contract := d_transfer dep\<rparr>) cb (w_transfer w)) (\<lambda>(_, t).
     Inr (s, w\<lparr>w_transfer := t\<rparr>))"
| "world_exec sha dep cd e (DirectAck cb) s w =
     with_transfer s w (on_acknowledgement_packet (transfer_cd cd) (e\<lparr>current_contract := d_transfer dep\<rparr>) cb (w_transfer w))"
| "world_exec sha dep cd e (DirectTimeout cb) s w =
     with_transfer s w (on_timeout_packet (transfer_cd cd) (e\<lparr>current_contract := d_transfer dep\<rparr>) cb (w_transfer w))"
| "world_exec sha dep cd e (DirectLcUpdate a c m) s w = with_world s (lc_update_state (world_callees dep cd) e a c m w)"
| "world_exec sha dep cd e (DirectLcMisbehaviour a c m) s w =
     with_world s (lc_update_state_on_misbehaviour (world_callees dep cd) e a c m w)"
| "world_exec sha dep cd e (DirectLcInitialise a c cs cons h) s w =
     with_world s (lc_initialise (world_callees dep cd) e a c cs cons h w)"

text \<open>
  A transaction's top frame has no invoker, and no contract signs: only accounts do.
\<close>

definition transaction_env :: "deployment \<Rightarrow> env \<Rightarrow> bool" where
  "transaction_env dep e \<longleftrightarrow> invoker e = None \<and> d_router dep \<notin> set (auths e)"

inductive world_step ::
  "(bytes \<Rightarrow> bytes) \<Rightarrow> deployment \<Rightarrow> codecs \<Rightarrow> (world_call \<Rightarrow> bool) \<Rightarrow> router_state \<times> world \<Rightarrow> router_state \<times> world \<Rightarrow> bool"
  for sha dep cd allowed where
  transact: "allowed call \<Longrightarrow> transaction_env dep e \<Longrightarrow> world_exec sha dep cd e call s w = Inr (s', w')
    \<Longrightarrow> world_step sha dep cd allowed (s, w) (s', w')"

abbreviation world_run ::
  "(bytes \<Rightarrow> bytes) \<Rightarrow> deployment \<Rightarrow> codecs \<Rightarrow> (world_call \<Rightarrow> bool) \<Rightarrow> router_state \<times> world \<Rightarrow> router_state \<times> world \<Rightarrow> bool" where
  "world_run sha dep cd allowed \<equiv> (world_step sha dep cd allowed)\<^sup>*\<^sup>*"

definition fresh_world :: "deployment \<Rightarrow> address \<Rightarrow> address \<Rightarrow> router_state \<times> world" where
  "fresh_world dep admin tadmin =
     (router_constructor admin,
      \<lparr>w_transfer = transfer_constructor (d_router dep) tadmin,
       w_tm = \<lparr>tm_client = Map.empty, tm_consensus = Map.empty, tm_frozen_flag = Map.empty\<rparr>,
       w_att = \<lparr>att_client = Map.empty, att_consensus = Map.empty, att_frozen_flag = Map.empty\<rparr>,
       w_mock = \<lparr>mock_client_states = Map.empty, mock_consensus_states = Map.empty, mock_latest = Map.empty,
                 mock_frozen_flag = Map.empty\<rparr>\<rparr>)"

section \<open>Light-client calls leave the transfer application alone\<close>

lemma put_transfer [simp]:
  "w_transfer (put_tm w l) = w_transfer w" "w_transfer (put_att w l') = w_transfer w" "w_transfer (put_mock w l'') = w_transfer w"
  by (simp_all add: put_tm_def put_att_def put_mock_def)

lemma at_lc_Inr:
  assumes "at_lc dep a f g h w = Inr r"
  obtains "f w = Inr r" | "g w = Inr r" | "h w = Inr r"
  using assms by (auto simp: at_lc_def split: if_splits)

lemma lc_calls_keep_transfer:
  "lc_initialise (world_callees dep cd) e a c cs cons h w = Inr (u, w') \<Longrightarrow> w_transfer w' = w_transfer w"
  "lc_check_for_misbehaviour (world_callees dep cd) e a c m w = Inr (b, w') \<Longrightarrow> w_transfer w' = w_transfer w"
  "lc_update_state_on_misbehaviour (world_callees dep cd) e a c m w = Inr (u, w') \<Longrightarrow> w_transfer w' = w_transfer w"
  "lc_update_state (world_callees dep cd) e a c m w = Inr (n, w') \<Longrightarrow> w_transfer w' = w_transfer w"
  "lc_verify_membership (world_callees dep cd) e a c h pf path v w = Inr (b, w') \<Longrightarrow> w_transfer w' = w_transfer w"
  "lc_verify_non_membership (world_callees dep cd) e a c h pf path w = Inr (b, w') \<Longrightarrow> w_transfer w' = w_transfer w"
  "lc_get_timestamp_at_height (world_callees dep cd) e a c h w = Inr (n, w') \<Longrightarrow> w_transfer w' = w_transfer w"
  by (auto simp: world_callees_def at_lc_def bindE_simps split: if_splits)

section \<open>What the composition exposes\<close>

text \<open>
  Behind a Tendermint client the router's receipt does not depend on the proof: no proof byte is
  read, so whoever can name a stored height can deliver any packet.
\<close>

lemma tm_proof_ignored:
  assumes "r_client_lc_addr s (pk_dest_client p) = Some (d_tendermint dep)"
  shows "recv_packet sha (world_callees dep cd) e p pf h s w = recv_packet sha (world_callees dep cd) e p pf' h s w"
proof -
  have "verify_membership (world_callees dep cd) e (pk_dest_client p) h pf path v s w
      = verify_membership (world_callees dep cd) e (pk_dest_client p) h pf' path v s w" for path v
    by (simp add: verify_membership_def client_lc_address_def assms world_callees_def at_lc_def tm_verify_membership_def)
  then show ?thesis by (simp add: recv_packet_def)
qed

text \<open>
  The light clients do not ask who calls: a transaction of anyone that names a Tendermint client
  freezes it, with no evidence, and every later receipt through that client fails.
\<close>

lemma anyone_freezes_tendermint:
  assumes "tm_client (w_tm w) c \<noteq> None"
  shows "\<exists>w'. world_exec sha dep cd e (DirectLcMisbehaviour (d_tendermint dep) c m) s w = Inr (s, w')
    \<and> (\<forall>p e pf h. pk_dest_client p = c \<longrightarrow> r_client_lc_addr s c = Some (d_tendermint dep)
         \<longrightarrow> (\<exists>f. recv_packet sha (world_callees dep cd) e p pf h s w' = Inl f))"
proof -
  obtain cs where cs: "tm_client (w_tm w) c = Some cs" using assms by auto
  define w' where "w' = put_tm w ((w_tm w)\<lparr>tm_client := (tm_client (w_tm w))(c \<mapsto>
      cs\<lparr>tmc_is_frozen := True, tmc_frozen_height := tmc_latest_height cs\<rparr>),
      tm_frozen_flag := (tm_frozen_flag (w_tm w))(c \<mapsto> True)\<rparr>)"
  have "world_exec sha dep cd e (DirectLcMisbehaviour (d_tendermint dep) c m) s w = Inr (s, w')"
    by (simp add: with_world_def world_callees_def at_lc_def tm_update_state_on_misbehaviour_def
        tm_load_client_state_def cs w'_def Let_def)
  moreover have "recv_packet sha (world_callees dep cd) e p pf h s w' \<noteq> Inr r"
    if "pk_dest_client p = c" "r_client_lc_addr s c = Some (d_tendermint dep)" for p e pf h r
    using that
    by (cases r) (auto simp: recv_packet_eq_Inr verify_membership_eq_Inr world_callees_def at_lc_def bindE_simps
        tm_verify_membership_def tm_load_client_state_def w'_def put_tm_def split: if_splits)
  ultimately show ?thesis by (metis sumE)
qed

end
