(* ===== verification/World_Supply.thy ===== *)
theory World_Supply
  imports World
begin

text \<open>
  Where tokens come from: over the runs of the deployed contracts in which nobody mints, the supply
  of each denomination in the transfer application is what the packets the router has reported as
  received carried.
\<close>

section \<open>Supply\<close>

definition denom_supply :: "transfer_state \<Rightarrow> bytes \<Rightarrow> int" where
  "denom_supply t d = (\<Sum>k \<in> dom (t_balance t). if snd k = d then get_or_0 (t_balance t) k else 0)"

lemma supply_upd:
  assumes "finite (dom (t_balance t))"
  shows "denom_supply (t\<lparr>t_balance := (t_balance t)((a, d') \<mapsto> v)\<rparr>) d
    = denom_supply t d + (if d' = d then v - balance_of a d' t else 0)"
proof -
  let ?h = "\<lambda>m k. if snd k = d then get_or_0 m k else 0"
  let ?m = "t_balance t" and ?k = "(a, d')"
  have "sum (?h ?m) (insert ?k (dom ?m)) = sum (?h ?m) (dom ?m)"
    using assms by (intro sum.mono_neutral_right) (auto simp: get_or_0_def domIff)
  moreover have "sum (?h (?m(?k \<mapsto> v))) (insert ?k (dom ?m) - {?k}) = sum (?h ?m) (insert ?k (dom ?m) - {?k})"
    by (rule sum.cong) (auto simp: get_or_0_def)
  ultimately show ?thesis
    using assms sum.remove [of "insert ?k (dom ?m)" ?k "?h (?m(?k \<mapsto> v))"] sum.remove [of "insert ?k (dom ?m)" ?k "?h ?m"]
    by (auto simp: denom_supply_def balance_of_def get_or_0_def cong: if_cong)
qed

text \<open>
  The account book is sound and belongs to the router; a step \<open>adds\<close> an amount per denomination when
  it keeps the book so and raises the supply by exactly that.
\<close>

definition book_ok :: "deployment \<Rightarrow> transfer_state \<Rightarrow> bool" where
  "book_ok dep t \<longleftrightarrow> t_router t = Some (d_router dep) \<and> finite (dom (t_balance t))"

definition adds :: "deployment \<Rightarrow> (bytes \<Rightarrow> int) \<Rightarrow> transfer_state \<Rightarrow> transfer_state \<Rightarrow> bool" where
  "adds dep g t t' \<longleftrightarrow> (book_ok dep t \<longrightarrow> book_ok dep t' \<and> (\<forall>d. denom_supply t' d = denom_supply t d + g d))"

lemma adds_refl [simp]: "adds dep (\<lambda>d. 0) t t"
  by (simp add: adds_def)

lemma adds_trans: "adds dep g t t1 \<Longrightarrow> adds dep h t1 t2 \<Longrightarrow> adds dep (\<lambda>d. g d + h d) t t2"
  by (simp add: adds_def)

lemma adds_cong: "adds dep g t t' \<Longrightarrow> (\<And>d. g d = h d) \<Longrightarrow> adds dep h t t'"
  by (simp add: adds_def)

definition amount_of :: "ftpd \<Rightarrow> bytes \<Rightarrow> int" where
  "amount_of p d = (if tk_denom (fp_token p) = d then tk_amount (fp_token p) else 0)"

lemma adds_credit: "credit a d' n t = Inr t' \<Longrightarrow> adds dep (\<lambda>d. if d' = d then n else 0) t t'"
  by (auto simp: adds_def book_ok_def credit_eq_Inr supply_upd)

lemma adds_debit: "debit a d' n t = Inr t' \<Longrightarrow> adds dep (\<lambda>d. if d' = d then - n else 0) t t'"
  by (auto simp: adds_def book_ok_def debit_eq_Inr supply_upd)

lemma adds_move:
  assumes "accounts.move a b d n t = Inr t'"
  shows "adds dep (\<lambda>d. 0) t t'"
proof -
  obtain t1 where "debit a d n t = Inr t1" and "credit b d n t1 = Inr t'"
    using assms by (auto simp: accounts.move_def bindE_simps)
  from adds_trans [OF adds_debit [OF this(1)] adds_credit [OF this(2)]] show ?thesis
    by (rule adds_cong) simp
qed

lemma adds_frame: "t_balance t' = t_balance t \<Longrightarrow> t_router t' = t_router t \<Longrightarrow> adds dep (\<lambda>d. 0) t t'"
  by (simp only: adds_def book_ok_def denom_supply_def) simp

section \<open>The transfer operations\<close>

definition payload_amount :: "transfer_codec \<Rightarrow> payload \<Rightarrow> bytes \<Rightarrow> int" where
  "payload_amount cd pl d = (case dec_ftpd cd (pl_value pl) of None \<Rightarrow> 0 | Some p \<Rightarrow> amount_of p d)"

lemma adds_on_recv:
  assumes "on_recv_packet cd e cb t = Inr (ack, t')"
  shows "adds dep (payload_amount cd (rc_payload cb)) t t'"
proof -
  obtain p a where p: "dec_ftpd cd (pl_value (rc_payload cb)) = Some p"
    and "credit a (tk_denom (fp_token p)) (tk_amount (fp_token p)) t = Inr t'"
    using assms by (auto simp: on_recv_packet_def bindE_simps decode_packet_def)
  from adds_credit [OF this(2)] show ?thesis
    by (rule adds_cong) (simp add: payload_amount_def amount_of_def p)
qed

lemma adds_refund: "refund cd e p t = Inr t' \<Longrightarrow> adds dep (\<lambda>d. 0) t t'"
  by (auto simp: refund_move bindE_simps adds_move)

lemma adds_on_ack: "on_acknowledgement_packet cd e cb t = Inr t' \<Longrightarrow> adds dep (\<lambda>d. 0) t t'"
  by (auto simp: on_acknowledgement_packet_def bindE_simps adds_refund split: if_splits)

lemma adds_on_timeout: "on_timeout_packet cd e cb t = Inr t' \<Longrightarrow> adds dep (\<lambda>d. 0) t t'"
  by (auto simp: on_timeout_packet_def bindE_simps adds_refund)

lemma adds_initiate:
  assumes "initiate_transfer cd send e sender c d n rcv tmo memo t r = Inr (q, t', r')"
  shows "adds dep (\<lambda>d. 0) t t'"
proof -
  obtain t1 where "enforce_rate_limit e d n t = Inr t1" and mv: "accounts.move sender (current_contract e) d n t1 = Inr t'"
    using assms by (auto simp: initiate_transfer_eq_Inr)
  from enforce_rate_limit_frame [OF this(1)] have "adds dep (\<lambda>d. 0) t t1"
    by (intro adds_frame)
  from adds_trans [OF this adds_move [OF mv]] show ?thesis by simp
qed

lemma adds_set_rate_limit: "set_rate_limit e d n t = Inr t' \<Longrightarrow> adds dep (\<lambda>d. 0) t t'"
  by (auto simp: set_rate_limit_def bindE_simps intro: adds_frame)

section \<open>Callbacks the router dispatches\<close>

lemma recv_step_world:
  assumes "recv_step (world_callees dep cd) e p s pl (acks, w) = Inr (acks', w')"
  shows "adds dep (payload_amount (transfer_cd cd) pl) (w_transfer w) (w_transfer w')"
  using assms
  by (auto simp: recv_step_def Let_def bindE_simps world_callees_def at_app_def split: if_splits prod.splits
      dest: adds_on_recv)

lemma recv_loop_world:
  assumes "foldE (recv_step (world_callees dep cd) e p s) pls (acks, w) = Inr (acks', w')"
  shows "adds dep (\<lambda>d. \<Sum>pl \<leftarrow> pls. payload_amount (transfer_cd cd) pl d) (w_transfer w) (w_transfer w')"
  using assms
proof (induction pls arbitrary: acks w)
  case (Cons pl pls)
  then obtain acks1 w1 where "recv_step (world_callees dep cd) e p s pl (acks, w) = Inr (acks1, w1)"
    and "foldE (recv_step (world_callees dep cd) e p s) pls (acks1, w1) = Inr (acks', w')"
    by (auto simp: bindE_simps)
  from adds_trans [OF recv_step_world [OF this(1)] Cons.IH [OF this(2)]] show ?case by simp
qed simp

lemma ack_step_world:
  "ack_step sha (world_callees dep cd) e p acks s ipl w = Inr w' \<Longrightarrow> adds dep (\<lambda>d. 0) (w_transfer w) (w_transfer w')"
  by (auto simp: ack_step_def Let_def bindE_simps world_callees_def at_app_def split: if_splits prod.splits
      dest: adds_on_ack)

lemma timeout_step_world:
  "timeout_step (world_callees dep cd) e p s pl w = Inr w' \<Longrightarrow> adds dep (\<lambda>d. 0) (w_transfer w) (w_transfer w')"
  by (auto simp: timeout_step_def Let_def bindE_simps world_callees_def at_app_def split: if_splits prod.splits
      dest: adds_on_timeout)

lemma settle_loop_world:
  assumes "foldE f xs w = Inr w'" and "\<And>x w w'. f x w = Inr w' \<Longrightarrow> adds dep (\<lambda>d. 0) (w_transfer w) (w_transfer w')"
  shows "adds dep (\<lambda>d. 0) (w_transfer w) (w_transfer w')"
  using assms(1)
proof (induction xs arbitrary: w)
  case (Cons x xs)
  then obtain w1 where "f x w = Inr w1" and "foldE f xs w1 = Inr w'" by (auto simp: bindE_simps)
  from adds_trans [OF assms(2) [OF this(1)] Cons.IH [OF this(2)]] show ?case by simp
qed simp

section \<open>Calls of the router\<close>

fun event_amount :: "transfer_codec \<Rightarrow> bytes \<Rightarrow> router_event \<Rightarrow> int" where
  "event_amount cd d (RecvPacket c n p) = (\<Sum>pl \<leftarrow> pk_payloads p. payload_amount cd pl d)"
| "event_amount cd d _ = 0"

definition received_total :: "transfer_codec \<Rightarrow> router_state \<Rightarrow> bytes \<Rightarrow> int" where
  "received_total cd s d = (\<Sum>ev \<leftarrow> r_events s. event_amount cd d ev)"

lemma received_total_frame: "r_events s' = r_events s \<Longrightarrow> received_total cd s' d = received_total cd s d"
  by (simp add: received_total_def)

lemma verify_keeps_transfer:
  "verify_membership (world_callees dep cd) e c h pf path v s w = Inr w' \<Longrightarrow> w_transfer w' = w_transfer w"
  "verify_non_membership (world_callees dep cd) e c h pf path s w = Inr w' \<Longrightarrow> w_transfer w' = w_transfer w"
  by (auto simp: verify_membership_eq_Inr verify_non_membership_eq_Inr dest: lc_calls_keep_transfer)

definition accounted :: "deployment \<Rightarrow> codecs \<Rightarrow> router_state \<times> world \<Rightarrow> router_state \<times> world \<Rightarrow> bool" where
  "accounted dep cd sw sw' \<longleftrightarrow>
     adds dep (\<lambda>d. received_total (transfer_cd cd) (fst sw') d - received_total (transfer_cd cd) (fst sw) d)
       (w_transfer (snd sw)) (w_transfer (snd sw'))"

lemma accountedI:
  assumes "adds dep g (w_transfer w) (w_transfer w')"
    and "\<And>d. received_total (transfer_cd cd) s' d = received_total (transfer_cd cd) s d + g d"
  shows "accounted dep cd (s, w) (s', w')"
  using assms by (simp add: accounted_def adds_def)

lemma accounted_recv:
  assumes "recv_packet sha (world_callees dep cd) e p pf h s w = Inr (s', w')"
  shows "accounted dep cd (s, w) (s', w')"
proof -
  obtain hash w1 s1 acks path where ver: "verify_membership (world_callees dep cd) e (pk_dest_client p) h pf path hash s w = Inr w1"
    and "dispatch_recv_callbacks sha (world_callees dep cd) e p s1 w1 = Inr (acks, w')"
    and s': "s' = received_state sha p acks s"
    using assms unfolding recv_packet_eq_Inr by blast
  then obtain acks' where "foldE (recv_step (world_callees dep cd) e p s1) (pk_payloads p) ([], w1) = Inr (acks', w')"
    by (auto simp: dispatch_recv_callbacks_def bindE_simps)
  from recv_loop_world [OF this] verify_keeps_transfer(1) [OF ver] show ?thesis
    by (rule_tac accountedI) (auto simp: s' received_total_def)
qed

lemma accounted_ack:
  assumes "acknowledge_packet sha (world_callees dep cd) e p acks pf h s w = Inr (s', w')"
  shows "accounted dep cd (s, w) (s', w')"
proof -
  obtain path v w1 where ver: "verify_membership (world_callees dep cd) e (pk_source_client p) h pf path v s w = Inr w1"
    and loop: "dispatch_ack_callbacks sha (world_callees dep cd) e p acks s w1 = Inr w'"
    and s': "s' = settled_state (AckPacket (pk_source_client p) (pk_sequence p) p acks) p s"
    using assms unfolding acknowledge_packet_eq_Inr by blast
  have "adds dep (\<lambda>d. 0) (w_transfer w1) (w_transfer w')"
    by (rule settle_loop_world [OF loop [unfolded dispatch_ack_callbacks_def]]) (rule ack_step_world)
  with verify_keeps_transfer(1) [OF ver] show ?thesis
    by (rule_tac accountedI) (auto simp: s' received_total_def)
qed

lemma accounted_timeout:
  assumes "timeout_packet sha (world_callees dep cd) e p pf h s w = Inr (s', w')"
  shows "accounted dep cd (s, w) (s', w')"
proof -
  obtain lc ts path w1 w2 where
    ts: "lc_get_timestamp_at_height (world_callees dep cd) (invoke_env e lc) lc (pk_source_client p) h w = Inr (ts, w1)"
    and ver: "verify_non_membership (world_callees dep cd) e (pk_source_client p) h pf path s w1 = Inr w2"
    and loop: "dispatch_timeout_callbacks (world_callees dep cd) e p s w2 = Inr w'"
    and s': "s' = settled_state (TimeoutPacket (pk_source_client p) (pk_sequence p) p) p s"
    using assms unfolding timeout_packet_eq_Inr by blast
  have "adds dep (\<lambda>d. 0) (w_transfer w2) (w_transfer w')"
    by (rule settle_loop_world [OF loop [unfolded dispatch_timeout_callbacks_def]]) (rule timeout_step_world)
  with verify_keeps_transfer(2) [OF ver] lc_calls_keep_transfer(7) [OF ts] show ?thesis
    by (rule_tac accountedI) (auto simp: s' received_total_def)
qed

lemma accounted_still:
  "w_transfer w' = w_transfer w \<Longrightarrow> r_events s' = r_events s \<Longrightarrow> accounted dep cd (s, w) (s', w')"
  by (rule accountedI [where g = "\<lambda>d. 0"]) (auto simp: received_total_def)

lemma accounted_registry:
  assumes "registry_call call" and "router_exec sha (world_callees dep cd) e call s w = Inr (r, s', w')"
  shows "accounted dep cd (s, w) (s', w')"
proof (rule accounted_still)
  show "r_events s' = r_events s" using registry_call_frame [OF assms] by simp
  show "w_transfer w' = w_transfer w"
    using assms by (cases call) (auto simp: ret_unit_eq_Inr create_client_eq_Inr update_client_eq_Inr bindE_simps
        dest!: lc_calls_keep_transfer)
qed

lemma accounted_packet:
  assumes "\<not> registry_call call" and "router_exec sha (world_callees dep cd) e call s w = Inr (r, s', w')"
  shows "accounted dep cd (s, w) (s', w')"
proof (cases call)
  case (DoSendPacket c t ps)
  with assms obtain n where "send_packet sha e c t ps s = Inr (n, s')" and "w' = w" by (auto simp: bindE_simps)
  with send_packet_effect [OF this(1)] show ?thesis
    by (intro accountedI [where g = "\<lambda>d. 0"]) (auto simp: received_total_def)
next
  case (WriteAcknowledgement c n acks)
  with assms have "write_acknowledgement sha c n acks s = Inr s'" and "w' = w" by (auto simp: ret_unit_eq_Inr)
  with write_acknowledgement_effect [OF this(1)] show ?thesis
    by (intro accountedI [where g = "\<lambda>d. 0"]) (auto simp: received_total_def)
qed (use assms in \<open>auto simp: bindE_simps ret_unit_eq_Inr bytes32_arg_def store_eq_Inr
      intro: accounted_recv accounted_ack accounted_timeout accounted_still\<close>)

lemma accounted_router:
  "router_exec sha (world_callees dep cd) e call s w = Inr (r, s', w') \<Longrightarrow> accounted dep cd (s, w) (s', w')"
  by (cases "registry_call call") (auto intro: accounted_registry accounted_packet)

section \<open>Transactions\<close>

fun mints :: "world_call \<Rightarrow> bool" where
  "mints (Mint dest d n) = True"
| "mints _ = False"

text \<open>Nobody but the router gets through the callbacks of the application.\<close>

lemma direct_callback_fails:
  assumes "transaction_env dep e" and "book_ok dep t"
  shows "require_router (e\<lparr>current_contract := a\<rparr>) t \<noteq> Inr u"
  using assms by (simp add: transaction_env_def book_ok_def require_router_def require_auth_def)

lemma accounted_transfer:
  "adds dep (\<lambda>d. 0) (w_transfer w) t \<Longrightarrow> accounted dep cd (s, w) (s, w\<lparr>w_transfer := t\<rparr>)"
  by (rule accountedI) simp_all

lemma accounted_initiate:
  assumes "world_exec sha dep cd e (InitiateTransfer sender c d n rcv tmo memo) s w = Inr (s', w')"
  shows "accounted dep cd (s, w) (s', w')"
proof -
  obtain q t e' where init: "initiate_transfer (transfer_cd cd) (world_send sha dep) e' sender c d n rcv tmo memo
      (w_transfer w) s = Inr (q, t, s')" and w': "w' = w\<lparr>w_transfer := t\<rparr>"
    using assms by (auto simp: bindE_simps)
  then obtain e2 a tmo ps where "world_send sha dep e2 a c tmo ps s = Inr (q, s')"
    by (auto simp: initiate_transfer_eq_Inr)
  then have "send_packet sha e2 c tmo ps s = Inr (q, s')" by (simp add: world_send_def split: if_splits)
  from send_packet_effect [OF this] adds_initiate [OF init] show ?thesis
    by (intro accountedI [where g = "\<lambda>d. 0"]) (auto simp: received_total_def w')
qed

lemma accounted_exec:
  assumes "world_exec sha dep cd e call s w = Inr (s', w')" and "transaction_env dep e" and "\<not> mints call"
    and "book_ok dep (w_transfer w)"
  shows "accounted dep cd (s, w) (s', w')"
proof (cases call)
  case (InitiateTransfer sender c d n rcv tmo memo)
  with assms(1) show ?thesis by (auto intro: accounted_initiate)
qed (use assms direct_callback_fails [OF assms(2, 4)] in
    \<open>auto simp: bindE_simps with_transfer_def with_world_def on_recv_packet_def on_acknowledgement_packet_def
       on_timeout_packet_def intro: accounted_router accounted_transfer adds_set_rate_limit accounted_still
       dest: lc_calls_keep_transfer\<close>)

definition backed :: "deployment \<Rightarrow> codecs \<Rightarrow> router_state \<times> world \<Rightarrow> bool" where
  "backed dep cd = (\<lambda>(s, w). book_ok dep (w_transfer w)
     \<and> (\<forall>d. denom_supply (w_transfer w) d = received_total (transfer_cd cd) s d))"

lemma backed_fresh: "backed dep cd (fresh_world dep admin tadmin)"
  by (simp add: backed_def fresh_world_def book_ok_def transfer_constructor_def denom_supply_def received_total_def
      router_constructor_def empty_router_def)

lemma backed_step: "world_step sha dep cd (\<lambda>call. \<not> mints call) sw sw' \<Longrightarrow> backed dep cd sw \<Longrightarrow> backed dep cd sw'"
  by (induction rule: world_step.induct) (auto simp: backed_def accounted_def adds_def dest!: accounted_exec)

lemma backed_run: "world_run sha dep cd (\<lambda>call. \<not> mints call) sw sw' \<Longrightarrow> backed dep cd sw \<Longrightarrow> backed dep cd sw'"
  by (induction rule: rtranclp_induct) (auto intro: backed_step)

section \<open>Property\<close>

text \<open>
  C8 (every token came in a packet). Over every sequence of transactions to the deployed contracts,
  by anyone, in which nobody mints, the total of a denomination over all accounts and the escrow of
  the transfer application equals what the packets reported as received carried of it: sending,
  acknowledging, timing out and calling the callbacks directly create and destroy nothing.
\<close>

theorem supply_is_received:
  assumes "world_run sha dep cd (\<lambda>call. \<not> mints call) (fresh_world dep admin tadmin) (s, w)"
  shows "denom_supply (w_transfer w) d = received_total (transfer_cd cd) s d"
  using backed_run [OF assms backed_fresh] by (simp add: backed_def)

text \<open>A run by evaluation: the setup of a router with a mock client, then one packet of 40 tokens.\<close>

fun world_serve ::
  "(bytes \<Rightarrow> bytes) \<Rightarrow> deployment \<Rightarrow> codecs \<Rightarrow> (env \<times> world_call) list \<Rightarrow> router_state \<times> world \<Rightarrow> fault + (router_state \<times> world)" where
  "world_serve sha dep cd [] sw = Inr sw"
| "world_serve sha dep cd ((e, call) # calls) (s, w) = bindE (world_exec sha dep cd e call s w) (world_serve sha dep cd calls)"

lemma world_serve_run:
  assumes "world_serve sha dep cd calls sw = Inr sw'" and "\<forall>(e, call) \<in> set calls. allowed call \<and> transaction_env dep e"
  shows "world_run sha dep cd allowed sw sw'"
  using assms
proof (induction sha dep cd calls sw rule: world_serve.induct)
  case (2 sha dep cd e call calls s w)
  from "2.prems"(1) obtain s1 w1 where one: "world_exec sha dep cd e call s w = Inr (s1, w1)"
    and rest: "world_serve sha dep cd calls (s1, w1) = Inr sw'" by (auto simp: bindE_simps)
  have "world_step sha dep cd allowed (s, w) (s1, w1)"
    using "2.prems"(2) one by (auto intro: world_step.transact)
  moreover have "world_run sha dep cd allowed (s1, w1) sw'" using "2.IH" [OF one rest] "2.prems"(2) by simp
  ultimately show ?case by (rule converse_rtranclp_into_rtranclp)
qed simp

definition sample_deployment :: deployment where
  "sample_deployment = \<lparr>d_router = 9, d_transfer = 20, d_tendermint = 11, d_attestation = 12, d_mock = 10\<rparr>"

definition sample_codecs :: codecs where
  "sample_codecs = \<lparr>tm_cd = sample_tm_codec, att_cd = sample_att_codec, transfer_cd = sample_transfer_codec,
     att_ed = (\<lambda>k d sg. sg = k @ d)\<rparr>"

definition sample_world :: world where
  "sample_world = (let w = snd (fresh_world sample_deployment 5 5) in
     w\<lparr>w_mock := mock_initialise sample_client [] [] 3 (w_mock w)\<rparr>)"

definition sample_incoming :: packet where
  "sample_incoming = sample_in\<lparr>pk_payloads := [sample_payload\<lparr>pl_value := [0, 0, 0]\<rparr>]\<rparr>"

definition sample_paid :: world where
  "sample_paid = sample_world\<lparr>w_transfer := (w_transfer sample_world)\<lparr>t_balance := [(31, asc ''uxlm'') \<mapsto> 40]\<rparr>\<rparr>"

definition sample_admin_env :: env where
  "sample_admin_env = sample_env\<lparr>auths := [5]\<rparr>"

lemmas sample_world_defs = sample_world_def fresh_world_def sample_deployment_def sample_codecs_def world_callees_def
  at_lc_def at_app_def put_mock_def transfer_constructor_def

lemma sample_world_setup:
  "world_serve sha sample_deployment sample_codecs (map (\<lambda>c. (sample_admin_env, ToRouter c)) sample_setup)
     (fresh_world sample_deployment 5 5) = Inr (sample_ready, sample_world)"
  by (simp add: sample_setup_def ret_unit_def register_client_type_def create_client_def
      register_counterparty_def register_port_def router_constructor_def empty_router_def sample_admin_env_def
      sample_env_def require_auth_def sample_valid mint_client_id_def write_u32_def CLIENT_ID_BUF_def
      add_u32_def sample_ready_def sample_minted sample_world_defs)

lemma sample_receiver: "string_to_address sample_transfer_codec (hex_of_bytes (to_be_bytes 31)) = Inr 31"
  by (simp add: string_to_address_def hex_round sample_transfer_codec_def)

lemma sample_decode:
  "dec_ftpd sample_transfer_codec [0, 0, 0] = Some \<lparr>fp_token = \<lparr>tk_denom = asc ''uxlm'', tk_amount = 40\<rparr>,
     fp_sender = hex_of_bytes (to_be_bytes 30), fp_receiver = hex_of_bytes (to_be_bytes 31), fp_memo = []\<rparr>"
  by (simp add: sample_transfer_codec_def)

lemma sample_on_recv:
  "rc_payload cb = sample_payload\<lparr>pl_value := [0, 0, 0]\<rparr> \<Longrightarrow> invoker e = Some 9 \<Longrightarrow>
   on_recv_packet sample_transfer_codec e cb (w_transfer sample_world) = Inr ([1], w_transfer sample_paid)"
  by (auto simp: on_recv_packet_def bindE_simps require_router_def decode_packet_def sample_paid_def credit_eq_Inr
      sample_receiver PORT_def SUCCESS_ACK_BYTE_def sample_payload_def sample_world_defs balance_of_def get_or_0_def
      in_i128_def sample_decode)

lemma sample_world_recv:
  "world_exec sha sample_deployment sample_codecs sample_admin_env (ToRouter (DoRecvPacket sample_incoming [] 3))
     sample_ready sample_world = Inr (received_state sha sample_incoming [[1]] sample_ready, sample_paid)"
proof -
  have "commit_v2_packet sha sample_incoming \<noteq> Inl f" for f
    by (simp add: commit_v2_packet_def commit_payload_def sha256_string_def sha256_bytes_def sample_payload_def
        sample_incoming_def sample_in_def Let_def)
  then obtain h where "commit_v2_packet sha sample_incoming = Inr h"
    by (cases "commit_v2_packet sha sample_incoming") auto
  then have "recv_packet sha (world_callees sample_deployment sample_codecs) (sample_admin_env\<lparr>current_contract := 9\<rparr>)
      sample_incoming [] 3 sample_ready sample_world = Inr (received_state sha sample_incoming [[1]] sample_ready, sample_paid)"
    using sample_on_recv
    by (auto simp: recv_packet_eq_Inr verify_membership_eq_Inr sample_incoming_def sample_in_def sample_ready_def
      router_constructor_def empty_router_def sample_admin_env_def sample_env_def sample_codecs_def sample_deployment_def
      world_callees_def at_lc_def at_app_def mock_verify_membership_def invoke_env_def sample_paid_def
      set_packet_receipt_eq_Inr dispatch_recv_callbacks_def recv_step_def port_app_def view_defs set_provable_def)
  then show ?thesis by (simp add: sample_deployment_def)
qed

lemma sample_world_run:
  "world_run sha sample_deployment sample_codecs (\<lambda>call. \<not> mints call) (fresh_world sample_deployment 5 5)
     (received_state sha sample_incoming [[1]] sample_ready, sample_paid)"
proof -
  have env: "transaction_env sample_deployment sample_admin_env"
    by (simp add: transaction_env_def sample_deployment_def sample_admin_env_def sample_env_def)
  have "world_run sha sample_deployment sample_codecs (\<lambda>call. \<not> mints call) (fresh_world sample_deployment 5 5)
      (sample_ready, sample_world)"
    by (rule world_serve_run [OF sample_world_setup]) (auto simp: env)
  moreover have "world_step sha sample_deployment sample_codecs (\<lambda>call. \<not> mints call) (sample_ready, sample_world)
      (received_state sha sample_incoming [[1]] sample_ready, sample_paid)"
    by (rule world_step.transact [OF _ env sample_world_recv]) simp
  ultimately show ?thesis by (rule rtranclp.rtrancl_into_rtrancl)
qed

theorem supply_is_received_witness:
  "denom_supply (w_transfer sample_paid) (asc ''uxlm'')
     = received_total sample_transfer_codec (received_state sample_sha sample_incoming [[1]] sample_ready) (asc ''uxlm'')
   \<and> balance_of 31 (asc ''uxlm'') (w_transfer sample_paid) = 40"
  using supply_is_received [OF sample_world_run [of sample_sha], of "asc ''uxlm''"]
  by (simp add: sample_codecs_def sample_paid_def balance_of_def get_or_0_def)

end
