(* ===== verification/Core_Commitment.thy ===== *)
theory Core_Commitment
  imports Ics24_Host
begin

text \<open>
  The off-chain commitment functions of the gateway, \<open>crates/core/src/ibc/commitment.rs\<close>, and their
  agreement with the router contract's: whenever the contract does not trap, both sides compute the
  same paths and commitments.
\<close>

definition CORE_RECEIPT_SENTINEL :: bytes where
  "CORE_RECEIPT_SENTINEL = [0x01]"

definition core_sha256 :: "(bytes \<Rightarrow> bytes) \<Rightarrow> bytes \<Rightarrow> bytes" where
  "core_sha256 sha d = sha d"

definition core_error_ack_hash :: "(bytes \<Rightarrow> bytes) \<Rightarrow> bytes" where
  "core_error_ack_hash sha = core_sha256 sha (asc ''UNIVERSAL_ERROR_ACKNOWLEDGEMENT'')"

definition core_v2_path :: "bytes \<Rightarrow> u8 \<Rightarrow> u64 \<Rightarrow> bytes" where
  "core_v2_path client_id discriminator sequence = client_id @ [discriminator] @ to_be_bytes sequence"

definition core_packet_commitment_path :: "bytes \<Rightarrow> u64 \<Rightarrow> bytes" where
  "core_packet_commitment_path source_client_id sequence = core_v2_path source_client_id 0x01 sequence"

definition core_packet_receipt_path :: "bytes \<Rightarrow> u64 \<Rightarrow> bytes" where
  "core_packet_receipt_path dest_client_id sequence = core_v2_path dest_client_id 0x02 sequence"

definition core_ack_commitment_path :: "bytes \<Rightarrow> u64 \<Rightarrow> bytes" where
  "core_ack_commitment_path dest_client_id sequence = core_v2_path dest_client_id 0x03 sequence"

definition core_commit_payload :: "(bytes \<Rightarrow> bytes) \<Rightarrow> bytes \<Rightarrow> bytes \<Rightarrow> bytes \<Rightarrow> bytes \<Rightarrow> bytes \<Rightarrow> bytes" where
  "core_commit_payload sha source_port dest_port version encoding app_data =
     core_sha256 sha (core_sha256 sha source_port @ core_sha256 sha dest_port @ core_sha256 sha version
       @ core_sha256 sha encoding @ core_sha256 sha app_data)"

definition core_commit_v2_packet :: "(bytes \<Rightarrow> bytes) \<Rightarrow> bytes \<Rightarrow> u64 \<Rightarrow> bytes list \<Rightarrow> bytes" where
  "core_commit_v2_packet sha dest_client_id timeout_timestamp payload_hashes =
     (let app_bytes = concat payload_hashes; timeout_be = to_be_bytes timeout_timestamp in
      core_sha256 sha ([0x02] @ core_sha256 sha dest_client_id @ core_sha256 sha timeout_be
        @ core_sha256 sha app_bytes))"

definition core_commit_v2_acknowledgement :: "(bytes \<Rightarrow> bytes) \<Rightarrow> bytes list \<Rightarrow> bytes" where
  "core_commit_v2_acknowledgement sha app_acks =
     core_sha256 sha ([0x02] @ concat (map (core_sha256 sha) app_acks))"

text \<open>
  C11 (contract and gateway agree). For every client identifier that fits the contract's path buffer
  the three paths of the contract and of the gateway are the same bytes; for every packet whose
  strings fit the contract's hashing buffer the packet commitments are equal; and the
  acknowledgement and error-acknowledgement hashes are always equal.
\<close>

theorem core_commitments_agree:
  assumes "length c \<le> 119" and "length (pk_dest_client p) \<le> 256"
    and "\<forall>pl \<in> set (pk_payloads p). length (pl_source_port pl) \<le> 256 \<and> length (pl_dest_port pl) \<le> 256
           \<and> length (pl_version pl) \<le> 256 \<and> length (pl_encoding pl) \<le> 256"
  shows "packet_commitment_path c n = Inr (core_packet_commitment_path c n)
    \<and> packet_receipt_path c n = Inr (core_packet_receipt_path c n)
    \<and> ack_commitment_path c n = Inr (core_ack_commitment_path c n)
    \<and> commit_v2_packet sha p = Inr (core_commit_v2_packet sha (pk_dest_client p) (pk_timeout_timestamp p)
        (map (\<lambda>pl. core_commit_payload sha (pl_source_port pl) (pl_dest_port pl) (pl_version pl)
                     (pl_encoding pl) (pl_value pl)) (pk_payloads p)))
    \<and> commit_v2_acknowledgement sha acks = core_commit_v2_acknowledgement sha acks
    \<and> error_ack_hash sha = core_error_ack_hash sha"
proof -
  have "mapE (commit_payload sha) (pk_payloads p) = Inr (map (\<lambda>pl. core_commit_payload sha (pl_source_port pl)
      (pl_dest_port pl) (pl_version pl) (pl_encoding pl) (pl_value pl)) (pk_payloads p))"
    by (rule mapE_all_Inr)
       (use assms(3) in \<open>simp add: commit_payload_def sha256_string_def sha256_bytes_def core_commit_payload_def core_sha256_def\<close>)
  then show ?thesis
    using assms(1, 2)
    by (simp add: path_defs discriminator_defs v2_path_key_def core_packet_commitment_path_def
        core_packet_receipt_path_def core_ack_commitment_path_def core_v2_path_def commit_v2_packet_def
        sha256_string_def sha256_bytes_def [abs_def] core_commit_v2_packet_def core_sha256_def [abs_def] Let_def
        COMMITMENT_VERSION_PREFIX_def commit_v2_acknowledgement_def core_commit_v2_acknowledgement_def
        error_ack_hash_def core_error_ack_hash_def ERROR_ACK_PREIMAGE_def)
qed

theorem core_commitments_agree_witness:
  "packet_commitment_path (asc ''07-tendermint-0'') 5 = Inr (core_packet_commitment_path (asc ''07-tendermint-0'') 5)"
  using core_commitments_agree [of "asc ''07-tendermint-0''" sample_packet 5 sample_sha "[]"]
  by (simp add: sample_packet_def sample_payload_def)

end
