(* ===== verification/Core_Smt.thy ===== *)
theory Core_Smt
  imports Sample_Values "HOL-Library.AList"
begin

text \<open>
  The sparse Merkle tree of the gateway, \<open>crates/core/src/ibc/smt.rs\<close>: 64 levels, one leaf slot per
  64-bit index, the index of a key being the first eight bytes of its SHA-256 digest. A
  \<open>BTreeMap\<close> is an association list read through \<open>map_of\<close>; the order of its entries never
  matters. The tree is compared with \<open>merkle_node\<close>, the textbook recursion over all \<open>2^64\<close> slots.
\<close>

section \<open>Hashes and indices\<close>

definition TREE_DEPTH :: nat where
  "TREE_DEPTH = 64"

definition HASH_SIZE :: nat where
  "HASH_SIZE = 32"

definition EMPTY :: bytes where
  "EMPTY = replicate HASH_SIZE 0"

definition smt_sha256 :: "(bytes \<Rightarrow> bytes) \<Rightarrow> bytes \<Rightarrow> bytes" where
  "smt_sha256 sha d = sha d"

definition key_index_from_hash :: "bytes \<Rightarrow> u64" where
  "key_index_from_hash key_hash = from_be_bytes (take 8 key_hash)"

definition key_index :: "(bytes \<Rightarrow> bytes) \<Rightarrow> bytes \<Rightarrow> u64" where
  "key_index sha key = key_index_from_hash (smt_sha256 sha key)"

definition leaf_hash :: "(bytes \<Rightarrow> bytes) \<Rightarrow> bytes \<Rightarrow> bytes \<Rightarrow> bytes" where
  "leaf_hash sha key_hash value_hash = sha ([0x00] @ key_hash @ value_hash)"

definition inner_hash :: "(bytes \<Rightarrow> bytes) \<Rightarrow> bytes \<Rightarrow> bytes \<Rightarrow> bytes" where
  "inner_hash sha left right =
     (if left = EMPTY \<and> right = EMPTY then EMPTY else sha ([0x01] @ left @ right))"

fun fold_siblings :: "(bytes \<Rightarrow> bytes) \<Rightarrow> u64 \<Rightarrow> bytes \<Rightarrow> bytes list \<Rightarrow> bytes" where
  "fold_siblings sha sub_idx current [] = current"
| "fold_siblings sha sub_idx current (sibling # siblings) =
     fold_siblings sha (drop_bit 1 sub_idx)
       (if sub_idx AND 1 = 0 then inner_hash sha current sibling else inner_hash sha sibling current) siblings"

section \<open>The tree\<close>

record smt =
  smt_leaves :: "(u64 \<times> bytes \<times> bytes) list"

record membership_proof =
  mp_key_hash :: bytes
  mp_value_hash :: bytes
  mp_siblings :: "bytes list"

record non_membership_proof =
  np_key_hash :: bytes
  np_siblings :: "bytes list"

type_synonym level = "(u64 \<times> bytes) list"

definition smt_new :: smt where
  "smt_new = \<lparr>smt_leaves = []\<rparr>"

definition smt_remove :: "(bytes \<Rightarrow> bytes) \<Rightarrow> bytes \<Rightarrow> smt \<Rightarrow> smt" where
  "smt_remove sha key t = t\<lparr>smt_leaves := AList.delete (key_index sha key) (smt_leaves t)\<rparr>"

definition smt_insert :: "(bytes \<Rightarrow> bytes) \<Rightarrow> bytes \<Rightarrow> bytes \<Rightarrow> smt \<Rightarrow> smt" where
  "smt_insert sha key val t =
     (if val = [] then smt_remove sha key t
      else let key_hash = smt_sha256 sha key; value_hash = smt_sha256 sha val;
               idx = key_index_from_hash key_hash in
           t\<lparr>smt_leaves := AList.update idx (key_hash, value_hash) (smt_leaves t)\<rparr>)"

definition smt_update :: "(bytes \<Rightarrow> bytes) \<Rightarrow> bytes \<Rightarrow> bytes \<Rightarrow> smt \<Rightarrow> smt" where
  "smt_update sha key val t = smt_insert sha key val t"

text \<open>\<open>level.get(&i).unwrap_or(&EMPTY)\<close>\<close>

definition get_or_empty :: "level \<Rightarrow> u64 \<Rightarrow> bytes" where
  "get_or_empty lv i = (case map_of lv i of None \<Rightarrow> EMPTY | Some h \<Rightarrow> h)"

text \<open>Level 0 from the leaves, and level \<open>h\<close> from level \<open>h - 1\<close>: the parents that are not empty.\<close>

definition leaf_level :: "(bytes \<Rightarrow> bytes) \<Rightarrow> smt \<Rightarrow> level" where
  "leaf_level sha t = map (\<lambda>(idx, kh, vh). (idx, leaf_hash sha kh vh)) (smt_leaves t)"

definition parent_entry :: "(bytes \<Rightarrow> bytes) \<Rightarrow> level \<Rightarrow> u64 \<Rightarrow> level" where
  "parent_entry sha lv pidx =
     (let left_idx = push_bit 1 pidx; right_idx = left_idx OR 1;
          p = inner_hash sha (get_or_empty lv left_idx) (get_or_empty lv right_idx) in
      if p \<noteq> EMPTY then [(pidx, p)] else [])"

definition next_level :: "(bytes \<Rightarrow> bytes) \<Rightarrow> level \<Rightarrow> level" where
  "next_level sha lv = concat (map (parent_entry sha lv) (remdups (map (\<lambda>e. drop_bit 1 (fst e)) lv)))"

fun levels_above :: "(bytes \<Rightarrow> bytes) \<Rightarrow> nat \<Rightarrow> level \<Rightarrow> level list" where
  "levels_above sha 0 lv = [lv]"
| "levels_above sha (Suc n) lv = lv # levels_above sha n (next_level sha lv)"

definition materialize_levels :: "(bytes \<Rightarrow> bytes) \<Rightarrow> smt \<Rightarrow> level list" where
  "materialize_levels sha t = levels_above sha TREE_DEPTH (leaf_level sha t)"

definition smt_root :: "(bytes \<Rightarrow> bytes) \<Rightarrow> smt \<Rightarrow> bytes" where
  "smt_root sha t =
     (if smt_leaves t = [] then EMPTY else get_or_empty (materialize_levels sha t ! TREE_DEPTH) 0)"

fun sibling_walk :: "u64 \<Rightarrow> level list \<Rightarrow> bytes list" where
  "sibling_walk i [] = []"
| "sibling_walk i (lv # lvs) = get_or_empty lv (i XOR 1) # sibling_walk (drop_bit 1 i) lvs"

definition siblings_for :: "(bytes \<Rightarrow> bytes) \<Rightarrow> u64 \<Rightarrow> smt \<Rightarrow> bytes list" where
  "siblings_for sha idx t = sibling_walk idx (take TREE_DEPTH (materialize_levels sha t))"

section \<open>Proofs\<close>

definition generate_membership_proof :: "(bytes \<Rightarrow> bytes) \<Rightarrow> bytes \<Rightarrow> smt \<Rightarrow> membership_proof option" where
  "generate_membership_proof sha key t =
     (let key_hash = smt_sha256 sha key; idx = key_index_from_hash key_hash in
      case map_of (smt_leaves t) idx of
        None \<Rightarrow> None
      | Some (stored_kh, stored_vh) \<Rightarrow>
          if stored_kh \<noteq> key_hash then None
          else Some \<lparr>mp_key_hash = key_hash, mp_value_hash = stored_vh, mp_siblings = siblings_for sha idx t\<rparr>)"

definition generate_non_membership_proof :: "(bytes \<Rightarrow> bytes) \<Rightarrow> bytes \<Rightarrow> smt \<Rightarrow> non_membership_proof option" where
  "generate_non_membership_proof sha key t =
     (let key_hash = smt_sha256 sha key; idx = key_index_from_hash key_hash in
      case map_of (smt_leaves t) idx of
        Some _ \<Rightarrow> None
      | None \<Rightarrow> Some \<lparr>np_key_hash = key_hash, np_siblings = siblings_for sha idx t\<rparr>)"

definition smt_verify_membership ::
  "(bytes \<Rightarrow> bytes) \<Rightarrow> bytes \<Rightarrow> membership_proof \<Rightarrow> bytes \<Rightarrow> bytes \<Rightarrow> bool" where
  "smt_verify_membership sha root p key val =
     (if val = [] then False
      else let key_hash = smt_sha256 sha key in
      if key_hash \<noteq> mp_key_hash p then False
      else let value_hash = smt_sha256 sha val in
      if value_hash \<noteq> mp_value_hash p then False
      else if length (mp_siblings p) \<noteq> TREE_DEPTH then False
      else fold_siblings sha (key_index_from_hash key_hash) (leaf_hash sha key_hash value_hash) (mp_siblings p) = root)"

definition smt_verify_non_membership ::
  "(bytes \<Rightarrow> bytes) \<Rightarrow> bytes \<Rightarrow> non_membership_proof \<Rightarrow> bytes \<Rightarrow> bool" where
  "smt_verify_non_membership sha root p key =
     (let key_hash = smt_sha256 sha key in
      if key_hash \<noteq> np_key_hash p then False
      else if length (np_siblings p) \<noteq> TREE_DEPTH then False
      else fold_siblings sha (key_index_from_hash key_hash) EMPTY (np_siblings p) = root)"

section \<open>The reference tree\<close>

text \<open>The node at height \<open>h\<close> and position \<open>i\<close> over the leaf values \<open>f\<close>.\<close>

fun merkle_node :: "(bytes \<Rightarrow> bytes) \<Rightarrow> (u64 \<Rightarrow> bytes) \<Rightarrow> nat \<Rightarrow> nat \<Rightarrow> bytes" where
  "merkle_node sha f 0 i = f (of_nat i)"
| "merkle_node sha f (Suc h) i = inner_hash sha (merkle_node sha f h (2 * i)) (merkle_node sha f h (2 * i + 1))"

definition leaf_value :: "(bytes \<Rightarrow> bytes) \<Rightarrow> smt \<Rightarrow> u64 \<Rightarrow> bytes" where
  "leaf_value sha t i = (case map_of (smt_leaves t) i of None \<Rightarrow> EMPTY | Some (kh, vh) \<Rightarrow> leaf_hash sha kh vh)"

end
