(* ===== verification/Proof_Wire.thy ===== *)
theory Proof_Wire
  imports Core_Smt
begin

text \<open>
  The ICS-23 proof messages exchanged between the gateway and the CosmWasm light client, as the
  gateway builds them (\<open>crates/core/src/ibc/proof.rs\<close>) and as the light client declares them
  (\<open>contracts/cosmwasm/light-client/src/merkle.rs\<close>). The protobuf encoding of a message (the crate
  \<open>prost\<close>) is a parameter of the functions that serialise and parse.
\<close>

section \<open>Messages\<close>

type_synonym i32 = "32 word"

record leaf_op =
  lo_hash :: i32
  lo_prehash_key :: i32
  lo_prehash_value :: i32
  lo_length :: i32
  lo_prefix :: bytes

record inner_op =
  io_hash :: i32
  io_prefix :: bytes
  io_suffix :: bytes

record existence_proof =
  ep_key :: bytes
  ep_value :: bytes
  ep_leaf :: "leaf_op option"
  ep_path :: "inner_op list"

record non_existence_proof =
  ne_key :: bytes
  ne_left :: "existence_proof option"
  ne_right :: "existence_proof option"

datatype ics23_proof = Exist existence_proof | Nonexist non_existence_proof

record commitment_proof =
  cmp_proof :: "ics23_proof option"

record merkle_proof =
  mk_proofs :: "commitment_proof list"

text \<open>\<open>HashOp::NoHash\<close> and \<open>HashOp::Sha256\<close>\<close>

definition HashOp_NoHash :: i32 where
  "HashOp_NoHash = 0"

definition HashOp_Sha256 :: i32 where
  "HashOp_Sha256 = 1"

section \<open>What the gateway builds\<close>

definition sibling_to_inner_op :: "bytes \<Rightarrow> inner_op" where
  "sibling_to_inner_op sibling = \<lparr>io_hash = HashOp_Sha256, io_prefix = [0x01], io_suffix = sibling\<rparr>"

definition inner_op_with_parity :: "bytes \<Rightarrow> bool \<Rightarrow> inner_op" where
  "inner_op_with_parity sibling is_left_child =
     (if is_left_child then \<lparr>io_hash = HashOp_Sha256, io_prefix = [0x01], io_suffix = sibling\<rparr>
      else \<lparr>io_hash = HashOp_Sha256, io_prefix = 0x01 # sibling, io_suffix = []\<rparr>)"

definition plain_leaf_op :: leaf_op where
  "plain_leaf_op = \<lparr>lo_hash = HashOp_Sha256, lo_prehash_key = HashOp_NoHash, lo_prehash_value = HashOp_NoHash,
     lo_length = 0, lo_prefix = []\<rparr>"

definition build_existence_proof :: "bytes \<Rightarrow> bytes \<Rightarrow> bytes list \<Rightarrow> existence_proof" where
  "build_existence_proof key val siblings =
     \<lparr>ep_key = key, ep_value = val, ep_leaf = Some plain_leaf_op, ep_path = map sibling_to_inner_op siblings\<rparr>"

fun indexed_path :: "u64 \<Rightarrow> bytes list \<Rightarrow> inner_op list" where
  "indexed_path sub_idx [] = []"
| "indexed_path sub_idx (sibling # siblings) =
     inner_op_with_parity sibling (sub_idx AND 1 = 0) # indexed_path (drop_bit 1 sub_idx) siblings"

definition build_existence_proof_with_index :: "bytes \<Rightarrow> bytes \<Rightarrow> bytes list \<Rightarrow> u64 \<Rightarrow> existence_proof" where
  "build_existence_proof_with_index key val siblings index =
     \<lparr>ep_key = key, ep_value = val, ep_leaf = Some plain_leaf_op, ep_path = indexed_path index siblings\<rparr>"

definition exist_message :: "existence_proof \<Rightarrow> merkle_proof" where
  "exist_message ep = \<lparr>mk_proofs = [\<lparr>cmp_proof = Some (Exist ep)\<rparr>]\<rparr>"

definition nonexist_message :: "bytes \<Rightarrow> existence_proof \<Rightarrow> merkle_proof" where
  "nonexist_message key inner =
     \<lparr>mk_proofs = [\<lparr>cmp_proof = Some (Nonexist \<lparr>ne_key = key, ne_left = Some inner, ne_right = None\<rparr>)\<rparr>]\<rparr>"

definition serialize_membership_proof ::
  "(merkle_proof \<Rightarrow> bytes) \<Rightarrow> membership_proof \<Rightarrow> bytes \<Rightarrow> bytes \<Rightarrow> bytes" where
  "serialize_membership_proof enc p key val = enc (exist_message (build_existence_proof key val (mp_siblings p)))"

definition serialize_non_membership_proof ::
  "(merkle_proof \<Rightarrow> bytes) \<Rightarrow> non_membership_proof \<Rightarrow> bytes \<Rightarrow> bytes" where
  "serialize_non_membership_proof enc p key =
     enc (nonexist_message key (build_existence_proof key [] (np_siblings p)))"

definition serialize_membership_proof_with_index ::
  "(merkle_proof \<Rightarrow> bytes) \<Rightarrow> membership_proof \<Rightarrow> bytes \<Rightarrow> bytes \<Rightarrow> u64 \<Rightarrow> bytes" where
  "serialize_membership_proof_with_index enc p key val index =
     enc (exist_message (build_existence_proof_with_index key val (mp_siblings p) index))"

definition serialize_non_membership_proof_with_index ::
  "(merkle_proof \<Rightarrow> bytes) \<Rightarrow> non_membership_proof \<Rightarrow> bytes \<Rightarrow> u64 \<Rightarrow> bytes" where
  "serialize_non_membership_proof_with_index enc p key index =
     enc (nonexist_message key (build_existence_proof_with_index key [] (np_siblings p) index))"

end
