(* ===== verification/Wasm_Types.thy ===== *)
theory Wasm_Types
  imports Proof_Wire
begin

text \<open>
  The data of the CosmWasm light client for Stellar: wire types (\<open>src/types.rs\<close>), messages
  (\<open>src/msg.rs\<close>) and errors (\<open>src/error.rs\<close>) of \<open>contracts/cosmwasm/light-client\<close>. The protobuf
  codec of the wire types is the parameter \<open>wasm_codec\<close>; \<open>wasm_codec_ok\<close> says that decoding
  undoes encoding of messages whose string fields are UTF-8, as every Rust \<open>String\<close> is.
\<close>

section \<open>Wire types\<close>

record wasm_height =
  wh_revision_number :: u64
  wh_revision_height :: u64

record scp_envelope =
  env_node_id :: bytes
  env_statement_xdr :: bytes
  env_signature :: bytes

record wasm_client_state =
  wc_chain_id :: bytes
  wc_latest_height :: "wasm_height option"
  wc_frozen_height :: "wasm_height option"
  wc_trusted_validators :: "bytes list"
  wc_proof_specs :: "bytes list"
  wc_network_id :: bytes

record wasm_consensus_state =
  ws_timestamp :: u64
  ws_ledger_hash :: bytes
  ws_root :: bytes

record stellar_header =
  sh_ledger_seq :: u64
  sh_ledger_header_xdr :: bytes
  sh_ibc_state_root :: bytes
  sh_scp_envelopes :: "scp_envelope list"
  sh_trusted_height :: "wasm_height option"
  sh_timestamp :: u64
  sh_ledger_hash :: bytes
  sh_previous_ledger_hash :: bytes

record proto_any =
  any_type_url :: bytes
  any_value :: bytes

record wasm_client_wrapper =
  wcw_data :: bytes
  wcw_checksum :: bytes
  wcw_latest_height :: "wasm_height option"

record wasm_consensus_wrapper =
  wsw_data :: bytes

record wasm_codec =
  enc_client_state :: "wasm_client_state \<Rightarrow> bytes"
  dec_client_state :: "bytes \<Rightarrow> wasm_client_state option"
  enc_consensus_state :: "wasm_consensus_state \<Rightarrow> bytes"
  dec_consensus_state :: "bytes \<Rightarrow> wasm_consensus_state option"
  enc_client_wrapper :: "wasm_client_wrapper \<Rightarrow> bytes"
  dec_client_wrapper :: "bytes \<Rightarrow> wasm_client_wrapper option"
  enc_consensus_wrapper :: "wasm_consensus_wrapper \<Rightarrow> bytes"
  dec_consensus_wrapper :: "bytes \<Rightarrow> wasm_consensus_wrapper option"
  enc_any :: "proto_any \<Rightarrow> bytes"
  dec_any :: "bytes \<Rightarrow> proto_any option"
  dec_stellar_header :: "bytes \<Rightarrow> stellar_header option"
  dec_merkle_proof :: "bytes \<Rightarrow> merkle_proof option"

text \<open>
  Well-formed UTF-8, which the string fields of a decoded message are and which decoding of an encoded message relies on
  (RFC 3629: no overlong forms, no surrogates, at most U+10FFFF).
\<close>

definition is_continuation :: "u8 \<Rightarrow> bool" where
  "is_continuation b \<longleftrightarrow> 0x80 \<le> b \<and> b \<le> 0xBF"

definition second_of_three :: "u8 \<Rightarrow> u8 \<Rightarrow> bool" where
  "second_of_three a b \<longleftrightarrow>
     is_continuation b \<and> (a = 0xE0 \<longrightarrow> 0xA0 \<le> b) \<and> (a = 0xED \<longrightarrow> b \<le> 0x9F)"

definition second_of_four :: "u8 \<Rightarrow> u8 \<Rightarrow> bool" where
  "second_of_four a b \<longleftrightarrow>
     is_continuation b \<and> (a = 0xF0 \<longrightarrow> 0x90 \<le> b) \<and> (a = 0xF4 \<longrightarrow> b \<le> 0x8F)"

fun is_utf8 :: "bytes \<Rightarrow> bool" where
  "is_utf8 [] = True"
| "is_utf8 (a # r) =
     (if a < 0x80 then is_utf8 r
      else case r of [] \<Rightarrow> False | b # r' \<Rightarrow>
        if 0xC2 \<le> a \<and> a \<le> 0xDF then is_continuation b \<and> is_utf8 r'
        else case r' of [] \<Rightarrow> False | c # r'' \<Rightarrow>
          if 0xE0 \<le> a \<and> a \<le> 0xEF then second_of_three a b \<and> is_continuation c \<and> is_utf8 r''
          else case r'' of [] \<Rightarrow> False | d # r''' \<Rightarrow>
            0xF0 \<le> a \<and> a \<le> 0xF4 \<and> second_of_four a b \<and> is_continuation c \<and> is_continuation d \<and> is_utf8 r''')"

definition wasm_codec_ok :: "wasm_codec \<Rightarrow> bool" where
  "wasm_codec_ok cd \<longleftrightarrow>
     (\<forall>x. is_utf8 (wc_chain_id x) \<longrightarrow> dec_client_state cd (enc_client_state cd x) = Some x)
     \<and> (\<forall>b x. dec_client_state cd b = Some x \<longrightarrow> is_utf8 (wc_chain_id x))
     \<and> (\<forall>x. dec_consensus_state cd (enc_consensus_state cd x) = Some x)
     \<and> (\<forall>x. dec_client_wrapper cd (enc_client_wrapper cd x) = Some x)
     \<and> (\<forall>x. dec_consensus_wrapper cd (enc_consensus_wrapper cd x) = Some x)
     \<and> (\<forall>x. is_utf8 (any_type_url x) \<longrightarrow> dec_any cd (enc_any cd x) = Some x)"

section \<open>Errors\<close>

text \<open>The text of an \<open>InvalidWire\<close> error is its context; the library's own message is left out.\<close>

datatype contract_error =
    StdError
  | AlreadyInitialised
  | NotInitialised
  | Frozen u64
  | InvalidWire bytes
  | ConsensusStateMissing u64
  | ChainIdMismatch bytes bytes
  | NonAdvancingHeight u64 u64
  | ConsensusStateConflict u64
  | QuorumNotMet nat nat bool bool bytes bytes nat
  | NetworkIdMissing
  | ScpSignatureError bytes
  | MerkleVerificationFailed
  | MembershipMismatch bool bool nat u64 bytes bytes nat nat bytes bytes
  | UnknownSudo

section \<open>Messages\<close>

record instantiate_msg =
  im_client_state :: bytes
  im_consensus_state :: bytes
  im_checksum :: bytes

record verify_membership_msg =
  vm_height :: wasm_height
  vm_delay_time_period :: u64
  vm_delay_block_period :: u64
  vm_proof :: bytes
  vm_merkle_path :: "bytes list"
  vm_value :: bytes

record verify_non_membership_msg =
  vn_height :: wasm_height
  vn_delay_time_period :: u64
  vn_delay_block_period :: u64
  vn_proof :: bytes
  vn_merkle_path :: "bytes list"

datatype sudo_msg =
    UpdateState bytes
  | UpdateStateOnMisbehaviour bytes
  | CheckForMisbehaviour bytes
  | VerifyMembership verify_membership_msg
  | VerifyNonMembership verify_non_membership_msg

datatype query_msg =
    QueryClientState
  | QueryConsensusState wasm_height
  | QueryLatestHeight
  | QueryStatus
  | QueryTimestampAtHeight wasm_height
  | QueryVerifyClientMessage bytes
  | QueryCheckForMisbehaviour bytes

datatype client_status = Active | ClientStatusFrozen | Expired

text \<open>The data of a response before its JSON form, which is left to the host library.\<close>

datatype response_data =
    NoData
  | UpdatedHeights "wasm_height list"
  | FoundMisbehaviour bool
  | RawBytes bytes
  | LatestHeight wasm_height
  | Status client_status
  | TimestampAtHeight u64
  | EmptyObject

end
