(* ===== verification/Wasm_Store.thy ===== *)
theory Wasm_Store
  imports Wasm_Types
begin

text \<open>
  The storage of the CosmWasm light client, \<open>contracts/cosmwasm/light-client/src/store.rs\<close>: the client state
  and the consensus states, each wrapped in the message \<open>08-wasm\<close> expects and in an \<open>Any\<close>, under
  fixed keys of a byte-keyed store.
\<close>

type_synonym wasm_storage = "bytes \<rightharpoonup> bytes"

definition CLIENT_STATE_KEY :: bytes where
  "CLIENT_STATE_KEY = asc ''clientState''"

definition CHECKSUM_KEY :: bytes where
  "CHECKSUM_KEY = asc ''wasmChecksum''"

definition STELLAR_REVISION_NUMBER :: u64 where
  "STELLAR_REVISION_NUMBER = 0"

definition WASM_CLIENT_STATE_TYPE_URL :: bytes where
  "WASM_CLIENT_STATE_TYPE_URL = asc ''/ibc.lightclients.wasm.v1.ClientState''"

definition WASM_CONSENSUS_STATE_TYPE_URL :: bytes where
  "WASM_CONSENSUS_STATE_TYPE_URL = asc ''/ibc.lightclients.wasm.v1.ConsensusState''"

definition consensus_state_key :: "u64 \<Rightarrow> bytes" where
  "consensus_state_key height =
     asc ''consensusStates/'' @ decimal (unat STELLAR_REVISION_NUMBER) @ [45] @ decimal (unat height)"

definition set_checksum :: "bytes \<Rightarrow> wasm_storage \<Rightarrow> wasm_storage" where
  "set_checksum checksum st = (if checksum \<noteq> [] then st(CHECKSUM_KEY \<mapsto> checksum) else st)"

definition get_checksum :: "wasm_storage \<Rightarrow> bytes" where
  "get_checksum st = (case st CHECKSUM_KEY of None \<Rightarrow> [] | Some c \<Rightarrow> c)"

definition set_client_state :: "wasm_codec \<Rightarrow> wasm_client_state \<Rightarrow> wasm_storage \<Rightarrow> wasm_storage" where
  "set_client_state cd cs st =
     (let wasm = \<lparr>wcw_data = enc_client_state cd cs, wcw_checksum = get_checksum st,
                  wcw_latest_height = wc_latest_height cs\<rparr>;
          any = \<lparr>any_type_url = WASM_CLIENT_STATE_TYPE_URL, any_value = enc_client_wrapper cd wasm\<rparr> in
      st(CLIENT_STATE_KEY \<mapsto> enc_any cd any))"

definition get_client_state :: "wasm_codec \<Rightarrow> wasm_storage \<Rightarrow> wasm_client_state option" where
  "get_client_state cd st =
     Option.bind (st CLIENT_STATE_KEY) (\<lambda>raw.
     Option.bind (dec_any cd raw) (\<lambda>any.
     Option.bind (dec_client_wrapper cd (any_value any)) (\<lambda>wasm.
     dec_client_state cd (wcw_data wasm))))"

definition set_consensus_state :: "wasm_codec \<Rightarrow> u64 \<Rightarrow> wasm_consensus_state \<Rightarrow> wasm_storage \<Rightarrow> wasm_storage" where
  "set_consensus_state cd height cons st =
     (let wasm = \<lparr>wsw_data = enc_consensus_state cd cons\<rparr>;
          any = \<lparr>any_type_url = WASM_CONSENSUS_STATE_TYPE_URL, any_value = enc_consensus_wrapper cd wasm\<rparr> in
      st(consensus_state_key height \<mapsto> enc_any cd any))"

definition get_consensus_state :: "wasm_codec \<Rightarrow> u64 \<Rightarrow> wasm_storage \<Rightarrow> wasm_consensus_state option" where
  "get_consensus_state cd height st =
     Option.bind (st (consensus_state_key height)) (\<lambda>raw.
     Option.bind (dec_any cd raw) (\<lambda>any.
     Option.bind (dec_consensus_wrapper cd (any_value any)) (\<lambda>wasm.
     dec_consensus_state cd (wsw_data wasm))))"

section \<open>Distinct keys\<close>

lemma consensus_state_key_inj [simp]: "consensus_state_key h = consensus_state_key h' \<longleftrightarrow> h = h'"
  by (auto simp: consensus_state_key_def word_unat_eq_iff)

lemma consensus_key_head: "take 3 (consensus_state_key h) = asc ''con''"
  by (simp add: consensus_state_key_def asc_def)

lemma consensus_key_neq: "take 3 k \<noteq> asc ''con'' \<Longrightarrow> consensus_state_key h \<noteq> k"
  using consensus_key_head [of h] by auto

lemma consensus_key_distinct [simp]:
  "consensus_state_key h \<noteq> CLIENT_STATE_KEY" "consensus_state_key h \<noteq> CHECKSUM_KEY"
  by (rule consensus_key_neq, simp add: CLIENT_STATE_KEY_def CHECKSUM_KEY_def asc_def)+

lemmas consensus_key_distinct_sym [simp] = consensus_key_distinct [symmetric]

lemma fixed_keys_distinct [simp]: "CLIENT_STATE_KEY \<noteq> CHECKSUM_KEY" "CHECKSUM_KEY \<noteq> CLIENT_STATE_KEY"
  by (simp_all add: CLIENT_STATE_KEY_def CHECKSUM_KEY_def asc_def)

section \<open>Reading back\<close>

lemma type_urls_utf8 [simp]: "is_utf8 WASM_CLIENT_STATE_TYPE_URL" "is_utf8 WASM_CONSENSUS_STATE_TYPE_URL"
  by code_simp+

lemma get_client_utf8: "wasm_codec_ok cd \<Longrightarrow> get_client_state cd st = Some cs \<Longrightarrow> is_utf8 (wc_chain_id cs)"
  by (auto simp: get_client_state_def wasm_codec_ok_def bind_eq_Some_conv)

lemma get_set_client [simp]:
  "wasm_codec_ok cd \<Longrightarrow> is_utf8 (wc_chain_id cs) \<Longrightarrow> get_client_state cd (set_client_state cd cs st) = Some cs"
  by (simp add: get_client_state_def set_client_state_def Let_def wasm_codec_ok_def)

lemma get_set_consensus [simp]:
  "wasm_codec_ok cd \<Longrightarrow> get_consensus_state cd h (set_consensus_state cd h' cons st) =
     (if h = h' then Some cons else get_consensus_state cd h st)"
  by (simp add: get_consensus_state_def set_consensus_state_def Let_def wasm_codec_ok_def)

lemma get_client_frame [simp]:
  "get_client_state cd (set_consensus_state cd h cons st) = get_client_state cd st"
  "get_client_state cd (set_checksum c st) = get_client_state cd st"
  by (simp_all add: get_client_state_def set_consensus_state_def set_checksum_def Let_def)

lemma get_consensus_frame [simp]:
  "get_consensus_state cd h (set_client_state cd cs st) = get_consensus_state cd h st"
  "get_consensus_state cd h (set_checksum c st) = get_consensus_state cd h st"
  by (simp_all add: get_consensus_state_def set_client_state_def set_checksum_def Let_def)

lemma get_checksum_frame [simp]:
  "get_checksum (set_client_state cd cs st) = get_checksum st"
  "get_checksum (set_consensus_state cd h cons st) = get_checksum st"
  by (simp_all add: get_checksum_def set_client_state_def set_consensus_state_def Let_def)

end
