(* ===== verification/Core_Smt_Proofs.thy ===== *)
theory Core_Smt_Proofs
  imports Core_Smt
begin

text \<open>
  The sparse Merkle tree is right: its materialised levels are the reference tree, the proofs it
  generates verify against its root, and a proof that verifies tells the truth about the leaves
  unless SHA-256 collides on the strings hashed along one path.
\<close>

section \<open>Indices\<close>

lemma of_nat_halve: "i < 2 ^ 64 \<Longrightarrow> drop_bit 1 (of_nat i :: u64) = of_nat (i div 2)"
  by (rule word_unat_eq_iff [THEN iffD2])
     (simp add: drop_bit_eq_div unat_div unat_of_nat take_bit_nat_eq_self)

lemma of_nat_parity: "(of_nat i :: u64) AND 1 = 0 \<longleftrightarrow> even i"
  by (simp add: and_one_eq mod2_eq_if)

lemma of_nat_double: "push_bit 1 (of_nat i :: u64) = of_nat (2 * i)"
  by (simp add: push_bit_eq_mult)

lemma of_nat_double_plus: "(of_nat (2 * i) :: u64) OR 1 = of_nat (2 * i + 1)"
  by (simp add: or_one_eq)

lemma of_nat_flip: "i < 2 ^ 64 \<Longrightarrow> (of_nat i :: u64) XOR 1 = of_nat (if even i then i + 1 else i - 1)"
  by (auto simp: xor_one_eq elim!: oddE)

lemma halve_double: "i < 2 ^ 63 \<Longrightarrow> drop_bit 1 (of_nat (2 * i) :: u64) = of_nat i"
  by (subst of_nat_halve) simp_all

lemma halve_double_plus: "i < 2 ^ 63 \<Longrightarrow> drop_bit 1 (of_nat (2 * i + 1) :: u64) = of_nat i"
  by (subst of_nat_halve) simp_all

section \<open>The materialised levels are the reference tree\<close>

lemma map_of_concat_entries:
  assumes "distinct ps" and "\<And>q. g q = [] \<or> (\<exists>v. g q = [(q, v)])"
  shows "map_of (concat (map g ps)) p = (if p \<in> set ps then map_of (g p) p else None)"
  using assms(1)
proof (induction ps)
  case (Cons q ps)
  show ?case
  proof (cases "p = q")
    case True
    with Cons show ?thesis by (auto simp: map_add_def split: option.splits)
  next
    case False
    then have "map_of (g q) p = None" using assms(2) [of q] by auto
    with Cons False show ?thesis by (auto simp: map_add_def split: option.splits)
  qed
qed simp

lemma parent_entry_shape: "parent_entry sha lv q = [] \<or> (\<exists>v. parent_entry sha lv q = [(q, v)])"
  by (simp add: parent_entry_def Let_def)

lemma map_of_leaves:
  "map_of (map (\<lambda>(idx, kh, vh). (idx, leaf_hash sha kh vh)) ls) i =
     map_option (\<lambda>(kh, vh). leaf_hash sha kh vh) (map_of ls i)"
  by (induction ls) auto

lemma parent_entry_of_nat:
  "parent_entry sha lv (of_nat i) =
     (let p = inner_hash sha (get_or_empty lv (of_nat (2 * i))) (get_or_empty lv (of_nat (2 * i + 1))) in
      if p \<noteq> EMPTY then [(of_nat i, p)] else [])"
  unfolding parent_entry_def Let_def of_nat_double of_nat_double_plus ..

lemma get_leaf_level: "get_or_empty (leaf_level sha t) = leaf_value sha t"
proof -
  have "map_of (leaf_level sha t) i = map_option (\<lambda>(kh, vh). leaf_hash sha kh vh) (map_of (smt_leaves t) i)" for i
    unfolding leaf_level_def by (rule map_of_leaves)
  then show ?thesis
    by (auto simp: get_or_empty_def leaf_value_def fun_eq_iff split: option.splits)
qed

lemma inner_hash_empty [simp]: "inner_hash sha EMPTY EMPTY = EMPTY"
  by (simp add: inner_hash_def)

lemma get_next_level:
  assumes "i < 2 ^ 63"
  shows "get_or_empty (next_level sha lv) (of_nat i) =
    inner_hash sha (get_or_empty lv (of_nat (2 * i))) (get_or_empty lv (of_nat (2 * i + 1)))"
proof -
  let ?ps = "map (\<lambda>e. drop_bit 1 (fst e)) lv"
  have lookup: "map_of (next_level sha lv) (of_nat i) =
      (if of_nat i \<in> set ?ps then map_of (parent_entry sha lv (of_nat i)) (of_nat i) else None)"
    unfolding next_level_def by (subst map_of_concat_entries) (simp_all add: parent_entry_shape)
  show ?thesis
  proof (cases "of_nat i \<in> set ?ps")
    case True
    then show ?thesis
      by (simp add: get_or_empty_def [of "next_level sha lv"] lookup parent_entry_of_nat Let_def
          del: of_nat_mult of_nat_add)
  next
    case False
    have "map_of lv (of_nat (2 * i)) = None" "map_of lv (of_nat (2 * i + 1)) = None"
      using False halve_double [OF assms] halve_double_plus [OF assms]
      by (force simp: map_of_eq_None_iff simp del: of_nat_mult of_nat_add)+
    then show ?thesis
      using False by (simp add: get_or_empty_def lookup del: of_nat_mult of_nat_add)
  qed
qed

abbreviation level_at :: "(bytes \<Rightarrow> bytes) \<Rightarrow> level \<Rightarrow> nat \<Rightarrow> level" where
  "level_at sha lv h \<equiv> (next_level sha ^^ h) lv"

lemma levels_above_eq: "levels_above sha n lv = map (level_at sha lv) [0 ..< Suc n]"
proof (induction n arbitrary: lv)
  case (Suc n)
  have "levels_above sha (Suc n) lv = lv # map (\<lambda>h. level_at sha lv (Suc h)) [0 ..< Suc n]"
    by (simp add: Suc funpow_Suc_right del: funpow.simps upt_Suc)
  also have "\<dots> = map (level_at sha lv) [0 ..< Suc (Suc n)]"
    by (simp add: upt_conv_Cons [of 0] map_Suc_upt [symmetric] del: upt_Suc)
  finally show ?case .
qed simp

lemma level_is_merkle:
  assumes "h \<le> 64" and "i < 2 ^ (64 - h)"
  shows "get_or_empty (level_at sha lv h) (of_nat i) = merkle_node sha (get_or_empty lv) h i"
  using assms
proof (induction h arbitrary: i)
  case (Suc h)
  have dbl: "64 - h = Suc (64 - Suc h)" using Suc.prems by simp
  have "(2 :: nat) ^ (64 - Suc h) \<le> 2 ^ 63" by (intro power_increasing) auto
  with Suc.prems have "i < 2 ^ 63" by linarith
  from get_next_level [OF this, of sha "level_at sha lv h"]
  have "get_or_empty (level_at sha lv (Suc h)) (of_nat i) =
      inner_hash sha (get_or_empty (level_at sha lv h) (of_nat (2 * i)))
        (get_or_empty (level_at sha lv h) (of_nat (2 * i + 1)))"
    by (simp only: funpow.simps o_apply)
  also have "\<dots> = merkle_node sha (get_or_empty lv) (Suc h) i"
    using Suc.IH [of "2 * i"] Suc.IH [of "2 * i + 1"] Suc.prems dbl by (simp del: of_nat_mult of_nat_add of_nat_Suc)
  finally show ?case .
qed simp

section \<open>Generated proofs verify\<close>

text \<open>Walking up from height \<open>h\<close> with the siblings of the levels reaches the node \<open>k\<close> levels higher.\<close>

lemma walk_up:
  assumes "h + k \<le> 64" and "i < 2 ^ (64 - h)"
  shows "fold_siblings sha (of_nat i) (merkle_node sha (get_or_empty lv) h i)
           (sibling_walk (of_nat i) (map (level_at sha lv) [h ..< h + k]))
         = merkle_node sha (get_or_empty lv) (h + k) (i div 2 ^ k)"
  using assms
proof (induction k arbitrary: h i)
  case (Suc k)
  let ?m = "merkle_node sha (get_or_empty lv)"
  have i: "i < 2 ^ 64" and half: "i div 2 < 2 ^ (64 - Suc h)" and h: "Suc h + k \<le> 64"
  proof -
    have "(2 :: nat) ^ (64 - h) \<le> 2 ^ 64" by (intro power_increasing) auto
    with Suc.prems(2) show "i < 2 ^ 64" by linarith
    have "64 - h = Suc (64 - Suc h)" using Suc.prems(1) by simp
    with Suc.prems(2) show "i div 2 < 2 ^ (64 - Suc h)" by (simp add: less_mult_imp_div_less mult.commute)
  qed (use Suc.prems in simp)
  let ?s = "if even i then i + 1 else i - 1"
  have "64 - h = Suc (64 - Suc h)" using Suc.prems(1) by simp
  then have "(2 :: nat) ^ (64 - h) = 2 * 2 ^ (64 - Suc h)" by simp
  then have "?s < 2 ^ (64 - h)"
    using Suc.prems(2) half by (auto elim!: evenE oddE)
  then have sib: "get_or_empty (level_at sha lv h) (of_nat i XOR 1) = ?m h ?s"
    unfolding of_nat_flip [OF i] using Suc.prems(1) by (intro level_is_merkle) auto
  have node: "(if even i then inner_hash sha (?m h i) (?m h ?s) else inner_hash sha (?m h ?s) (?m h i)) = ?m (Suc h) (i div 2)"
    by (auto elim!: evenE oddE)
  have "fold_siblings sha (of_nat i) (?m h i) (sibling_walk (of_nat i) (map (level_at sha lv) [h ..< h + Suc k]))
      = fold_siblings sha (of_nat (i div 2)) (?m (Suc h) (i div 2))
          (sibling_walk (of_nat (i div 2)) (map (level_at sha lv) [Suc h ..< Suc h + k]))"
    unfolding node [symmetric]
    by (simp add: upt_conv_Cons [of h] sib of_nat_parity of_nat_halve [OF i, simplified] del: upt_Suc)
  also have "\<dots> = ?m (Suc h + k) (i div 2 div 2 ^ k)"
    by (rule Suc.IH [OF h half])
  also have "\<dots> = ?m (h + Suc k) (i div 2 ^ Suc k)"
    by (simp only: add_Suc_right add_Suc div_mult2_eq power_Suc)
  finally show ?case .
qed simp

lemma materialize_levels_eq:
  "materialize_levels sha t = map (level_at sha (leaf_level sha t)) [0 ..< 65]"
  by (simp add: materialize_levels_def levels_above_eq TREE_DEPTH_def del: upt_Suc)

lemma siblings_for_eq:
  "siblings_for sha idx t = sibling_walk idx (map (level_at sha (leaf_level sha t)) [0 ..< 64])"
  by (simp add: siblings_for_def materialize_levels_eq TREE_DEPTH_def take_map del: upt_Suc)

lemma length_sibling_walk [simp]: "length (sibling_walk i lvs) = length lvs"
  by (induction lvs arbitrary: i) auto

lemma length_siblings_for: "length (siblings_for sha idx t) = TREE_DEPTH"
  by (simp add: siblings_for_eq TREE_DEPTH_def)

lemma merkle_empty: "(\<And>i. f i = EMPTY) \<Longrightarrow> merkle_node sha f h i = EMPTY"
  by (induction h arbitrary: i) auto

lemma smt_root_reference: "smt_root sha t = merkle_node sha (leaf_value sha t) 64 0"
proof (cases "smt_leaves t = []")
  case True
  then have "merkle_node sha (leaf_value sha t) 64 0 = EMPTY"
    by (intro merkle_empty) (simp add: leaf_value_def)
  with True show ?thesis by (simp add: smt_root_def)
next
  case False
  have "get_or_empty (level_at sha (leaf_level sha t) 64) (of_nat 0) = merkle_node sha (leaf_value sha t) 64 0"
    unfolding get_leaf_level [symmetric] by (rule level_is_merkle) simp_all
  with False show ?thesis
    by (simp add: smt_root_def materialize_levels_eq TREE_DEPTH_def nth_map del: upt_Suc funpow.simps)
qed

lemma siblings_fold_to_root:
  "fold_siblings sha idx (leaf_value sha t idx) (siblings_for sha idx t) = smt_root sha t"
proof -
  have u: "unat idx < 2 ^ 64" using unsigned_less [of idx] by simp
  have "fold_siblings sha (of_nat (unat idx)) (merkle_node sha (get_or_empty (leaf_level sha t)) 0 (unat idx))
      (sibling_walk (of_nat (unat idx)) (map (level_at sha (leaf_level sha t)) [0 ..< 0 + 64]))
    = merkle_node sha (get_or_empty (leaf_level sha t)) (0 + 64) (unat idx div 2 ^ 64)"
    by (rule walk_up) (use u in simp_all)
  moreover have "unat idx div 2 ^ 64 = 0" "of_nat (unat idx) = idx" using u by simp_all
  ultimately show ?thesis
    by (simp only: smt_root_reference siblings_for_eq get_leaf_level add_0 merkle_node.simps(1))
qed

section \<open>A proof that verifies tells the truth\<close>

text \<open>The strings hashed when a proof is folded, and when the reference tree is built along one path.\<close>

fun fold_preimages :: "(bytes \<Rightarrow> bytes) \<Rightarrow> u64 \<Rightarrow> bytes \<Rightarrow> bytes list \<Rightarrow> bytes list" where
  "fold_preimages sha w cur [] = []"
| "fold_preimages sha w cur (s # ss) =
     (let l = (if w AND 1 = 0 then cur else s); r = (if w AND 1 = 0 then s else cur) in
      ([0x01] @ l @ r) # fold_preimages sha (drop_bit 1 w) (inner_hash sha l r) ss)"

definition path_preimages :: "(bytes \<Rightarrow> bytes) \<Rightarrow> (u64 \<Rightarrow> bytes) \<Rightarrow> nat \<Rightarrow> nat \<Rightarrow> nat \<Rightarrow> bytes list" where
  "path_preimages sha f h i k =
     map (\<lambda>j. [0x01] @ merkle_node sha f (h + j) (2 * (i div 2 ^ Suc j))
                      @ merkle_node sha f (h + j) (2 * (i div 2 ^ Suc j) + 1)) [0 ..< k]"

text \<open>\<open>sha\<close> is free of collisions on \<open>S\<close> and maps nothing in \<open>S\<close> to the empty node.\<close>

definition collision_free :: "(bytes \<Rightarrow> bytes) \<Rightarrow> bytes list \<Rightarrow> bool" where
  "collision_free sha S \<longleftrightarrow> inj_on sha (set S) \<and> (\<forall>x \<in> set S. sha x \<noteq> EMPTY)"

lemma inner_hash_inj:
  assumes "collision_free sha S" and "[0x01] @ l @ r \<in> set S" and "[0x01] @ l' @ r' \<in> set S"
    and "length l = 32" "length l' = 32" and eq: "inner_hash sha l r = inner_hash sha l' r'"
  shows "l = l' \<and> r = r'"
proof -
  have ne: "sha ([0x01] @ l @ r) \<noteq> EMPTY" "sha ([0x01] @ l' @ r') \<noteq> EMPTY"
    using assms(1-3) unfolding collision_free_def by blast+
  show ?thesis
  proof (cases "l = EMPTY \<and> r = EMPTY")
    case True
    then show ?thesis using eq ne by (auto simp: inner_hash_def split: if_splits)
  next
    case False
    then have "sha ([0x01] @ l @ r) = sha ([0x01] @ l' @ r')"
      using eq ne by (auto simp: inner_hash_def split: if_splits)
    then have "[0x01] @ l @ r = [0x01] @ l' @ r'"
      using assms(1-3) unfolding collision_free_def by (meson inj_onD)
    then show ?thesis using assms(4, 5) by simp
  qed
qed

lemma length_EMPTY [simp]: "length EMPTY = 32"
  by (simp add: EMPTY_def HASH_SIZE_def)

lemma length_inner_hash: "(\<And>x. length (sha x) = (32 :: nat)) \<Longrightarrow> length (inner_hash sha l r) = 32"
  by (simp add: inner_hash_def)

lemma length_leaf_value: "(\<And>x. length (sha x) = (32 :: nat)) \<Longrightarrow> length (leaf_value sha t i) = 32"
  by (simp add: leaf_value_def leaf_hash_def split: option.splits)

lemma length_merkle_node:
  "(\<And>x. length (sha x) = (32 :: nat)) \<Longrightarrow> (\<And>i. length (f i) = 32) \<Longrightarrow> length (merkle_node sha f h i) = 32"
  by (cases h) (simp_all add: length_inner_hash)

lemma path_preimages_Suc:
  "path_preimages sha f h i (Suc k) =
     ([0x01] @ merkle_node sha f h (2 * (i div 2)) @ merkle_node sha f h (2 * (i div 2) + 1))
       # path_preimages sha f (Suc h) (i div 2) k"
  unfolding path_preimages_def
  by (simp add: upt_conv_Cons [of 0] map_Suc_upt [symmetric] div_mult2_eq o_def del: upt_Suc)

lemma fold_sound:
  assumes len: "\<And>x. length (sha x) = 32" and f: "\<And>i. length (f i) = 32"
    and cf: "collision_free sha S"
    and "set (fold_preimages sha (of_nat i) cur ss) \<subseteq> set S" and "set (path_preimages sha f h i (length ss)) \<subseteq> set S"
    and "length cur = 32" and "\<forall>s \<in> set ss. length s = 32" and "i < 2 ^ 64"
    and "fold_siblings sha (of_nat i) cur ss = merkle_node sha f (h + length ss) (i div 2 ^ length ss)"
  shows "cur = merkle_node sha f h i"
  using assms(4-9)
proof (induction ss arbitrary: cur h i)
  case (Cons s ss)
  let ?l = "if even i then cur else s" and ?r = "if even i then s else cur"
  let ?L = "merkle_node sha f h (2 * (i div 2))" and ?R = "merkle_node sha f h (2 * (i div 2) + 1)"
  have half: "i div 2 < 2 ^ 64" using Cons.prems(5) by simp
  have pre: "fold_preimages sha (of_nat i) cur (s # ss) =
      ([0x01] @ ?l @ ?r) # fold_preimages sha (of_nat (i div 2)) (inner_hash sha ?l ?r) ss"
    by (simp add: of_nat_parity of_nat_halve [OF Cons.prems(5), simplified] Let_def)
  have fold: "fold_siblings sha (of_nat i) cur (s # ss) = fold_siblings sha (of_nat (i div 2)) (inner_hash sha ?l ?r) ss"
    by (simp add: of_nat_parity of_nat_halve [OF Cons.prems(5), simplified])
  have "inner_hash sha ?l ?r = merkle_node sha f (Suc h) (i div 2)"
  proof (rule Cons.IH)
    show "set (fold_preimages sha (of_nat (i div 2)) (inner_hash sha ?l ?r) ss) \<subseteq> set S"
      using Cons.prems(1) by (simp only: pre) simp
    show "set (path_preimages sha f (Suc h) (i div 2) (length ss)) \<subseteq> set S"
      using Cons.prems(2) by (simp add: path_preimages_Suc)
    show "fold_siblings sha (of_nat (i div 2)) (inner_hash sha ?l ?r) ss
        = merkle_node sha f (Suc h + length ss) (i div 2 div 2 ^ length ss)"
      using Cons.prems(6) unfolding fold by (simp add: div_mult2_eq)
  qed (use Cons.prems half len in \<open>auto simp: length_inner_hash\<close>)
  then have "inner_hash sha ?l ?r = inner_hash sha ?L ?R" by simp
  moreover have "[0x01] @ ?l @ ?r \<in> set S" using Cons.prems(1) by (simp only: pre) simp
  moreover have "[0x01] @ ?L @ ?R \<in> set S" using Cons.prems(2) by (simp add: path_preimages_Suc)
  ultimately have "?l = ?L \<and> ?r = ?R"
    using Cons.prems(3, 4) by (intro inner_hash_inj [OF cf]) (auto simp: length_merkle_node len f)
  then show ?case by (auto elim!: evenE oddE split: if_splits)
qed simp

text \<open>Folding the generated siblings hashes exactly the strings of the path.\<close>

lemma walk_preimages:
  assumes "h + k \<le> 64" and "i < 2 ^ (64 - h)"
  shows "fold_preimages sha (of_nat i) (merkle_node sha (get_or_empty lv) h i)
           (sibling_walk (of_nat i) (map (level_at sha lv) [h ..< h + k]))
         = path_preimages sha (get_or_empty lv) h i k"
  using assms
proof (induction k arbitrary: h i)
  case 0
  show ?case by (simp add: path_preimages_def)
next
  case (Suc k)
  let ?m = "merkle_node sha (get_or_empty lv)"
  have "64 - h = Suc (64 - Suc h)" using Suc.prems(1) by simp
  then have pw: "(2 :: nat) ^ (64 - h) = 2 * 2 ^ (64 - Suc h)" by simp
  have "(2 :: nat) ^ (64 - h) \<le> 2 ^ 64" by (intro power_increasing) auto
  then have i: "i < 2 ^ 64" and half: "i div 2 < 2 ^ (64 - Suc h)" and h: "Suc h + k \<le> 64"
    using Suc.prems pw by auto
  let ?s = "if even i then i + 1 else i - 1"
  have "?s < 2 ^ (64 - h)" using Suc.prems(2) half pw by (auto elim!: evenE oddE)
  then have sib: "get_or_empty (level_at sha lv h) (of_nat i XOR 1) = ?m h ?s"
    unfolding of_nat_flip [OF i] using Suc.prems(1) by (intro level_is_merkle) auto
  let ?l = "if even i then ?m h i else ?m h ?s" and ?r = "if even i then ?m h ?s else ?m h i"
  have lr: "?l = ?m h (2 * (i div 2))" "?r = ?m h (2 * (i div 2) + 1)"
    by (auto elim!: evenE oddE)
  have "fold_preimages sha (of_nat i) (?m h i) (sibling_walk (of_nat i) (map (level_at sha lv) [h ..< h + Suc k]))
      = ([0x01] @ ?l @ ?r) # fold_preimages sha (of_nat (i div 2)) (inner_hash sha ?l ?r)
          (sibling_walk (of_nat (i div 2)) (map (level_at sha lv) [Suc h ..< Suc h + k]))"
    by (simp add: upt_conv_Cons [of h] sib of_nat_parity of_nat_halve [OF i, simplified] Let_def del: upt_Suc)
  also have "\<dots> = path_preimages sha (get_or_empty lv) h i (Suc k)"
    unfolding lr path_preimages_Suc using Suc.IH [OF h half] by simp
  finally show ?case .
qed

lemma generated_preimages:
  "fold_preimages sha idx (leaf_value sha t idx) (siblings_for sha idx t)
     = path_preimages sha (leaf_value sha t) 0 (unat idx) 64"
proof -
  have u: "unat idx < 2 ^ 64" using unsigned_less [of idx] by simp
  have w: "of_nat (unat idx) = idx" by simp
  from walk_preimages [of 0 64 "unat idx" sha "leaf_level sha t"] u show ?thesis
    by (simp add: siblings_for_eq get_leaf_level w del: upt_Suc funpow.simps)
qed

end
