(* ===== verification/Core_Smt_Properties.thy ===== *)
theory Core_Smt_Properties
  imports Core_Smt_Proofs
begin

text \<open>
  The sparse Merkle tree as an authenticated store: the locale \<open>authenticated_store\<close> says what its
  users rely on, the tree interprets it for every digest function, and the properties state
  completeness, soundness and independence of history.
\<close>

section \<open>The contract of an authenticated store\<close>

locale authenticated_store =
  fixes put :: "bytes \<Rightarrow> bytes \<Rightarrow> 't \<Rightarrow> 't"
    and del :: "bytes \<Rightarrow> 't \<Rightarrow> 't"
    and proves :: "'t \<Rightarrow> bytes \<Rightarrow> bytes \<Rightarrow> bool"
    and refutes :: "'t \<Rightarrow> bytes \<Rightarrow> bool"
    and slot :: "bytes \<Rightarrow> 'i"
  assumes put_proves: "v \<noteq> [] \<Longrightarrow> proves (put k v t) k v"
    and del_refutes: "slot k' = slot k \<Longrightarrow> refutes (del k t) k'"
    and put_keeps: "slot k' \<noteq> slot k \<Longrightarrow> proves t k' v' \<Longrightarrow> proves (put k v t) k' v'"
    and put_keeps_refuted: "slot k' \<noteq> slot k \<Longrightarrow> refutes t k' \<Longrightarrow> refutes (put k v t) k'"
    and del_keeps: "slot k' \<noteq> slot k \<Longrightarrow> proves t k' v' \<Longrightarrow> proves (del k t) k' v'"
    and del_keeps_refuted: "slot k' \<noteq> slot k \<Longrightarrow> refutes t k' \<Longrightarrow> refutes (del k t) k'"
begin

text \<open>A write with a value, or a deletion.\<close>

definition change :: "bytes \<times> bytes option \<Rightarrow> 't \<Rightarrow> 't" where
  "change = (\<lambda>(k, w). case w of None \<Rightarrow> del k | Some v \<Rightarrow> put k v)"

lemma changes_keep_proves:
  "\<forall>(k', w) \<in> set ws. slot k' \<noteq> slot k \<Longrightarrow> proves t k v \<Longrightarrow> proves (fold change ws t) k v"
  by (induction ws arbitrary: t)
     (auto simp: change_def put_keeps del_keeps split: prod.splits option.splits)

lemma changes_keep_refutes:
  "\<forall>(k', w) \<in> set ws. slot k' \<noteq> slot k \<Longrightarrow> refutes t k \<Longrightarrow> refutes (fold change ws t) k"
  by (induction ws arbitrary: t)
     (auto simp: change_def put_keeps_refuted del_keeps_refuted split: prod.splits option.splits)

text \<open>The last change of a slot decides what is provable about its key.\<close>

lemma last_change_decides:
  assumes "\<forall>(k', w) \<in> set us. slot k' \<noteq> slot k"
  shows "v \<noteq> [] \<Longrightarrow> proves (fold change (ws @ (k, Some v) # us) t) k v"
    and "refutes (fold change (ws @ (k, None) # us) t) k"
  using changes_keep_proves [OF assms] changes_keep_refutes [OF assms]
  by (simp_all add: change_def put_proves del_refutes)

end

section \<open>The tree as an authenticated store\<close>

definition smt_proves :: "(bytes \<Rightarrow> bytes) \<Rightarrow> smt \<Rightarrow> bytes \<Rightarrow> bytes \<Rightarrow> bool" where
  "smt_proves sha t k v \<longleftrightarrow>
     (case generate_membership_proof sha k t of
        None \<Rightarrow> False | Some p \<Rightarrow> smt_verify_membership sha (smt_root sha t) p k v)"

definition smt_refutes :: "(bytes \<Rightarrow> bytes) \<Rightarrow> smt \<Rightarrow> bytes \<Rightarrow> bool" where
  "smt_refutes sha t k \<longleftrightarrow>
     (case generate_non_membership_proof sha k t of
        None \<Rightarrow> False | Some p \<Rightarrow> smt_verify_non_membership sha (smt_root sha t) p k)"

definition smt_leaf :: "(bytes \<Rightarrow> bytes) \<Rightarrow> smt \<Rightarrow> bytes \<Rightarrow> (bytes \<times> bytes) option" where
  "smt_leaf sha t k = map_of (smt_leaves t) (key_index sha k)"

lemma smt_proves_iff: "smt_proves sha t k v \<longleftrightarrow> v \<noteq> [] \<and> smt_leaf sha t k = Some (sha k, sha v)"
proof -
  have "fold_siblings sha (key_index sha k) (leaf_hash sha (sha k) vh) (siblings_for sha (key_index sha k) t) = smt_root sha t"
    if "smt_leaf sha t k = Some (sha k, vh)" for vh
    using siblings_fold_to_root [of sha "key_index sha k" t] that by (simp add: leaf_value_def smt_leaf_def)
  then show ?thesis
    by (cases "smt_leaf sha t k") (auto simp: smt_proves_def generate_membership_proof_def smt_verify_membership_def
        smt_leaf_def Let_def smt_sha256_def key_index_def length_siblings_for split: if_splits)
qed

lemma smt_refutes_iff: "smt_refutes sha t k \<longleftrightarrow> smt_leaf sha t k = None"
proof -
  have "fold_siblings sha (key_index sha k) EMPTY (siblings_for sha (key_index sha k) t) = smt_root sha t"
    if "smt_leaf sha t k = None"
    using siblings_fold_to_root [of sha "key_index sha k" t] that by (simp add: leaf_value_def smt_leaf_def)
  then show ?thesis
    by (cases "smt_leaf sha t k") (auto simp: smt_refutes_def generate_non_membership_proof_def
        smt_verify_non_membership_def smt_leaf_def Let_def smt_sha256_def key_index_def length_siblings_for)
qed

lemma smt_leaf_remove:
  "smt_leaf sha (smt_remove sha k t) k' = (if key_index sha k' = key_index sha k then None else smt_leaf sha t k')"
  by (simp add: smt_leaf_def smt_remove_def AList.delete_conv')

lemma smt_leaf_insert:
  "smt_leaf sha (smt_insert sha k v t) k' =
     (if key_index sha k' = key_index sha k then (if v = [] then None else Some (sha k, sha v)) else smt_leaf sha t k')"
proof (cases "v = []")
  case True
  then show ?thesis by (simp add: smt_insert_def smt_leaf_remove)
next
  case False
  then show ?thesis
    by (simp add: smt_insert_def Let_def smt_leaf_def AList.update_conv' key_index_def smt_sha256_def)
qed

interpretation smt_store: authenticated_store "smt_insert sha" "smt_remove sha" "smt_proves sha" "smt_refutes sha"
  "key_index sha" for sha
  by unfold_locales (auto simp: smt_proves_iff smt_refutes_iff smt_leaf_insert smt_leaf_remove)

section \<open>Properties\<close>

text \<open>
  C15 (the optimised tree is the Merkle tree). Building only the non-empty nodes level by level, the
  root is that of the complete binary Merkle tree of depth 64 over all index slots.
\<close>

theorem smt_root_is_merkle_root: "smt_root sha t = merkle_node sha (leaf_value sha t) 64 0"
  by (rule smt_root_reference)

text \<open>
  C16 (completeness). In every tree, a membership proof for a key and a value is generated and
  verifies against the root exactly when the key's slot holds this key with this (non-empty) value,
  and a non-membership proof exactly when the slot is empty; in particular whatever sequence of
  writes and deletions went before, the last write to a slot is provable and so is the last
  deletion.
\<close>

theorem smt_completeness:
  "(smt_proves sha t k v \<longleftrightarrow> v \<noteq> [] \<and> map_of (smt_leaves t) (key_index sha k) = Some (sha k, sha v))
   \<and> (smt_refutes sha t k \<longleftrightarrow> map_of (smt_leaves t) (key_index sha k) = None)
   \<and> (v \<noteq> [] \<longrightarrow> (\<forall>(k', w) \<in> set us. key_index sha k' \<noteq> key_index sha k) \<longrightarrow>
        smt_proves sha (fold (smt_store.change sha) (ws @ (k, Some v) # us) t) k v
        \<and> smt_refutes sha (fold (smt_store.change sha) (ws @ (k, None) # us) t) k)"
  using smt_proves_iff [of sha t k v] smt_refutes_iff [of sha t k]
    smt_store.last_change_decides [where us = us and k = k] by (auto simp: smt_leaf_def)

theorem smt_completeness_witness:
  "smt_proves sample_sha (fold (smt_store.change sample_sha) [([1], Some [9]), ([2], None)] smt_new) [1] [9]"
proof -
  have "key_index sample_sha [2] \<noteq> key_index sample_sha [1]" by code_simp
  then show ?thesis
    using smt_completeness [of sample_sha smt_new "[1]" "[9]" "[([2], None)]" "[]"] by simp
qed

text \<open>The leaves of a tree hold digests, and the strings a proof and the tree hash along one path.\<close>

definition smt_wf :: "smt \<Rightarrow> bool" where
  "smt_wf t \<longleftrightarrow> (\<forall>i kh vh. map_of (smt_leaves t) i = Some (kh, vh) \<longrightarrow> length kh = 32 \<and> length vh = 32)"

lemma smt_wf_insert: "(\<And>x. length (sha x) = 32) \<Longrightarrow> smt_wf t \<Longrightarrow> smt_wf (smt_insert sha k v t)"
  by (auto simp: smt_wf_def smt_insert_def smt_remove_def Let_def AList.update_conv' AList.delete_conv' smt_sha256_def
      split: if_splits)

definition proof_strings :: "(bytes \<Rightarrow> bytes) \<Rightarrow> smt \<Rightarrow> bytes \<Rightarrow> bytes \<Rightarrow> bytes list \<Rightarrow> bytes list" where
  "proof_strings sha t k leaf siblings =
     fold_preimages sha (key_index sha k) leaf siblings
     @ path_preimages sha (leaf_value sha t) 0 (unat (key_index sha k)) 64
     @ (case smt_leaf sha t k of None \<Rightarrow> [] | Some (kh, vh) \<Rightarrow> [[0x00] @ kh @ vh])"

lemma collision_free_mono: "collision_free sha S \<Longrightarrow> set S' \<subseteq> set S \<Longrightarrow> collision_free sha S'"
  by (auto simp: collision_free_def intro: inj_on_subset)

lemma folded_leaf_is_stored:
  assumes len: "\<And>x. length (sha x) = 32"
    and cf: "collision_free sha S" and sub: "set (proof_strings sha t k leaf siblings) \<subseteq> set S"
    and "length leaf = 32" and "\<forall>s \<in> set siblings. length s = 32" and 64: "length siblings = 64"
    and root: "fold_siblings sha (key_index sha k) leaf siblings = smt_root sha t"
  shows "leaf = leaf_value sha t (key_index sha k)"
proof -
  let ?i = "unat (key_index sha k)"
  have w: "of_nat ?i = key_index sha k" and u: "?i < 2 ^ 64"
    using unsigned_less [of "key_index sha k"] by simp_all
  have "leaf = merkle_node sha (leaf_value sha t) 0 ?i"
  proof (rule fold_sound [OF len _ cf])
    show "fold_siblings sha (of_nat ?i) leaf siblings
        = merkle_node sha (leaf_value sha t) (0 + length siblings) (?i div 2 ^ length siblings)"
      using root u by (simp add: w 64 smt_root_reference del: merkle_node.simps)
  qed (use assms(4, 5) sub u in \<open>auto simp: w 64 proof_strings_def length_leaf_value len\<close>)
  then show ?thesis by (simp add: w)
qed

lemma folded_membership:
  assumes len: "\<And>x. length (sha x) = 32" and wf: "smt_wf t"
    and sib: "\<forall>s \<in> set siblings. length s = 32" "length siblings = 64"
    and cf: "collision_free sha (([0x00] @ sha k @ sha v) # proof_strings sha t k (leaf_hash sha (sha k) (sha v)) siblings)"
    and root: "fold_siblings sha (key_index sha k) (leaf_hash sha (sha k) (sha v)) siblings = smt_root sha t"
  shows "map_of (smt_leaves t) (key_index sha k) = Some (sha k, sha v)"
proof -
  let ?pre = "[0x00] @ sha k @ sha v"
  let ?S = "?pre # proof_strings sha t k (leaf_hash sha (sha k) (sha v)) siblings"
  have "leaf_hash sha (sha k) (sha v) = leaf_value sha t (key_index sha k)"
    using sib root by (intro folded_leaf_is_stored [OF len cf]) (auto simp: leaf_hash_def len)
  moreover have "sha ?pre \<noteq> EMPTY" using cf by (simp add: collision_free_def)
  ultimately obtain kh vh where leaf: "smt_leaf sha t k = Some (kh, vh)" and eq: "sha ?pre = sha ([0x00] @ kh @ vh)"
    by (auto simp: leaf_value_def smt_leaf_def leaf_hash_def split: option.splits)
  have "[0x00] @ kh @ vh \<in> set ?S" by (simp add: proof_strings_def leaf)
  then have "?pre = [0x00] @ kh @ vh"
    using cf eq unfolding collision_free_def by (meson inj_onD list.set_intros(1))
  moreover have "length kh = 32" using wf leaf by (auto simp: smt_wf_def smt_leaf_def)
  ultimately show ?thesis using leaf by (simp add: smt_leaf_def len)
qed

lemma folded_non_membership:
  assumes len: "\<And>x. length (sha x) = 32"
    and sib: "\<forall>s \<in> set siblings. length s = 32" "length siblings = 64"
    and cf: "collision_free sha (proof_strings sha t k EMPTY siblings)"
    and root: "fold_siblings sha (key_index sha k) EMPTY siblings = smt_root sha t"
  shows "map_of (smt_leaves t) (key_index sha k) = None"
proof -
  have empty: "EMPTY = leaf_value sha t (key_index sha k)"
    using sib root by (intro folded_leaf_is_stored [OF len cf]) auto
  show ?thesis
  proof (cases "smt_leaf sha t k")
    case (Some q)
    obtain kh vh where q: "q = (kh, vh)" by (cases q)
    have "sha ([0x00] @ kh @ vh) \<noteq> EMPTY"
      using cf by (simp add: collision_free_def proof_strings_def Some q)
    with empty Some q show ?thesis by (simp add: leaf_value_def smt_leaf_def leaf_hash_def)
  qed (simp add: smt_leaf_def)
qed

text \<open>
  If a proof with 32-byte siblings verifies for a key and a value
  against the root of a tree, then the tree's slot for the key holds exactly this key's and this
  value's digests, unless SHA-256 collides, or hits the empty node, on one of the strings hashed
  along the path.
\<close>

lemma smt_membership_sound:
  assumes "\<And>x. length (sha x) = 32" and "smt_wf t"
    and "\<forall>s \<in> set (mp_siblings p). length s = 32"
    and "collision_free sha (([0x00] @ sha k @ sha v)
           # proof_strings sha t k (leaf_hash sha (sha k) (sha v)) (mp_siblings p))"
    and "smt_verify_membership sha (smt_root sha t) p k v"
  shows "map_of (smt_leaves t) (key_index sha k) = Some (sha k, sha v)"
  by (rule folded_membership [OF assms(1-3) _ assms(4)])
     (use assms(5) in \<open>auto simp: smt_verify_membership_def Let_def smt_sha256_def key_index_def TREE_DEPTH_def
        split: if_splits\<close>)

text \<open>
  If a non-membership proof with 32-byte siblings verifies for a
  key against the root of a tree, then the key's slot is empty, under the same provisos.
\<close>

lemma smt_non_membership_sound:
  assumes "\<And>x. length (sha x) = 32"
    and "\<forall>s \<in> set (np_siblings p). length s = 32"
    and "collision_free sha (proof_strings sha t k EMPTY (np_siblings p))"
    and "smt_verify_non_membership sha (smt_root sha t) p k"
  shows "map_of (smt_leaves t) (key_index sha k) = None"
  by (rule folded_non_membership [OF assms(1, 2) _ assms(3)])
     (use assms(4) in \<open>auto simp: smt_verify_non_membership_def Let_def smt_sha256_def key_index_def TREE_DEPTH_def
        split: if_splits\<close>)

section \<open>Sibling lengths\<close>

lemma get_or_empty_length: "\<forall>e \<in> set lv. length (snd e) = 32 \<Longrightarrow> length (get_or_empty lv i) = 32"
  by (fastforce simp: get_or_empty_def split: option.splits dest: map_of_SomeD)

lemma level_lengths:
  assumes "\<And>x. length (sha x) = 32"
  shows "\<forall>e \<in> set (level_at sha (leaf_level sha t) h). length (snd e) = 32"
  by (induction h) (auto simp: leaf_level_def leaf_hash_def next_level_def parent_entry_def Let_def assms length_inner_hash
      split: if_splits)

lemma sibling_walk_lengths:
  "\<forall>lv \<in> set lvs. \<forall>e \<in> set lv. length (snd e) = 32 \<Longrightarrow> \<forall>s \<in> set (sibling_walk i lvs). length s = 32"
  by (induction lvs arbitrary: i) (auto simp: get_or_empty_length)

lemma siblings_for_lengths:
  "(\<And>x. length (sha x) = 32) \<Longrightarrow> \<forall>s \<in> set (siblings_for sha idx t). length s = 32"
  unfolding siblings_for_eq using level_lengths [of sha] by (intro sibling_walk_lengths) auto

lemma length_smt_root: "(\<And>x. length (sha x) = 32) \<Longrightarrow> length (smt_root sha t) = 32"
  unfolding smt_root_reference by (rule length_merkle_node) (simp_all add: length_leaf_value)

text \<open>
  A digest for the two witnesses: it counts. Along the path of a single leaf every node is one more
  than its child, so no two strings hashed there collide and none yields the empty node.
\<close>

definition counting_sha :: "bytes \<Rightarrow> bytes" where
  "counting_sha bs = replicate 24 0 @ to_be_bytes (from_be_bytes (take 8 (drop 25 bs)) + 1)"

lemma length_counting_sha: "length (counting_sha x) = 32"
  by (simp add: counting_sha_def)

lemma inj_on_distinct_key: "distinct (map (\<lambda>x. g (f x)) xs) \<Longrightarrow> inj_on f (set xs)"
  by (auto simp: distinct_map inj_on_def)

definition sample_tree :: smt where
  "sample_tree = smt_insert counting_sha [] [5] smt_new"

definition ctr :: "nat \<Rightarrow> bytes" where
  "ctr n = replicate 24 0 @ to_be_bytes (of_nat n)"

lemma counting_inner [simp]: "counting_sha (1 # ctr n @ r) = ctr (Suc n)"
  by (simp add: counting_sha_def ctr_def add.commute)

lemma ctr_inj: "m < 2 ^ 64 \<Longrightarrow> n < 2 ^ 64 \<Longrightarrow> ctr m = ctr n \<longleftrightarrow> m = n"
  by (auto simp: ctr_def dest!: arg_cong [of _ _ unat] simp: unat_of_nat take_bit_nat_eq_self)

lemma ctr_nonempty: "0 < n \<Longrightarrow> n < 2 ^ 64 \<Longrightarrow> ctr n \<noteq> EMPTY"
proof -
  assume n: "0 < n" "n < 2 ^ 64"
  have "EMPTY = ctr 0" by code_simp
  with n ctr_inj [of n 0] show "ctr n \<noteq> EMPTY" by simp
qed

lemma counting_levels: "h \<le> 64 \<Longrightarrow> level_at counting_sha [(0, ctr 2)] h = [(0, ctr (h + 2))]"
proof (induction h)
  case (Suc h)
  then have "ctr (h + 2) \<noteq> EMPTY" "ctr (Suc h + 2) \<noteq> EMPTY" by (intro ctr_nonempty; simp)+
  with Suc show ?case
    by (simp add: next_level_def parent_entry_def Let_def get_or_empty_def inner_hash_def)
qed (simp add: numeral_2_eq_2)

lemma sample_leaf: "leaf_level counting_sha sample_tree = [(0, ctr 2)]" "key_index counting_sha [] = 0"
  "leaf_value counting_sha sample_tree 0 = ctr 2" "leaf_hash counting_sha (counting_sha []) (counting_sha [5]) = ctr 2"
  by code_simp+

lemma counting_walk: "\<forall>lv \<in> set lvs. \<exists>v. lv = [(0, v)] \<Longrightarrow> sibling_walk 0 lvs = replicate (length lvs) EMPTY"
  by (induction lvs) (auto simp: get_or_empty_def)

lemma sample_siblings: "siblings_for counting_sha 0 sample_tree = replicate 64 EMPTY"
  unfolding siblings_for_eq sample_leaf(1)
  by (subst counting_walk) (auto simp: counting_levels simp del: funpow.simps upt_rec_numeral)

lemma counting_folds:
  "0 < n \<Longrightarrow> n + k < 2 ^ 64 \<Longrightarrow>
   fold_preimages counting_sha 0 (ctr n) (replicate k EMPTY) = map (\<lambda>j. 1 # ctr j @ EMPTY) [n ..< n + k]"
proof (induction k arbitrary: n)
  case (Suc k)
  then have "ctr n \<noteq> EMPTY" by (intro ctr_nonempty) auto
  with Suc.IH [of "Suc n"] Suc.prems show ?case
    by (simp add: inner_hash_def Let_def upt_conv_Cons del: upt_Suc)
qed simp

lemma counting_path_free: "collision_free counting_sha (([0x00] @ counting_sha [] @ counting_sha [5])
     # map (\<lambda>j. 1 # ctr j @ EMPTY) [2 ..< 66])"
proof -
  let ?S = "([0x00] @ counting_sha [] @ counting_sha [5]) # map (\<lambda>j. 1 # ctr j @ EMPTY) [2 ..< 66]"
  have "map counting_sha ?S = ctr 2 # map (\<lambda>j. ctr (Suc j)) [2 ..< 66]"
    using sample_leaf(4) by (simp add: leaf_hash_def del: upt_rec_numeral)
  also have "\<dots> = map ctr (2 # map Suc [2 ..< 66])" by (simp del: upt_rec_numeral)
  also have "2 # map Suc [2 ..< 66] = [2 ..< 67]"
    unfolding map_Suc_upt by (simp add: upt_conv_Cons [of 2 67] del: upt_rec_numeral)
  finally have "map counting_sha ?S = map ctr [2 ..< 67]" .
  moreover have "distinct (map ctr [2 ..< 67])"
    by (auto simp: distinct_map inj_on_def ctr_inj simp del: upt_rec_numeral)
  ultimately have "distinct (map counting_sha ?S)" and img: "counting_sha ` set ?S = ctr ` {2 ..< 67}"
    by (metis, metis set_map set_upt)
  then have "inj_on counting_sha (set ?S)" by (simp only: distinct_map)
  moreover have "EMPTY \<notin> ctr ` {2 ..< 67}"
  proof
    assume "EMPTY \<in> ctr ` {2 ..< 67}"
    then obtain n where "n \<in> {2 ..< 67}" "ctr n = EMPTY" by (metis imageE)
    with ctr_nonempty [of n] show False by simp
  qed
  ultimately show ?thesis using img unfolding collision_free_def by (metis image_eqI)
qed

lemma sample_strings_subset:
  "set (([0x00] @ counting_sha [] @ counting_sha [5])
        # proof_strings counting_sha sample_tree [] (ctr 2) (replicate 64 EMPTY))
   \<subseteq> set (([0x00] @ counting_sha [] @ counting_sha [5]) # map (\<lambda>j. 1 # ctr j @ EMPTY) [2 ..< 66])"
proof -
  have "smt_leaf counting_sha sample_tree [] = Some (counting_sha [], counting_sha [5])"
    by (simp add: sample_tree_def smt_leaf_insert)
  moreover have "fold_preimages counting_sha 0 (ctr 2) (replicate 64 EMPTY) = map (\<lambda>j. 1 # ctr j @ EMPTY) [2 ..< 66]"
    using counting_folds [of 2 64] by (simp del: upt_rec_numeral)
  moreover from this have "path_preimages counting_sha (leaf_value counting_sha sample_tree) 0 (unat (0 :: u64)) 64
      = map (\<lambda>j. 1 # ctr j @ EMPTY) [2 ..< 66]"
    using generated_preimages [of counting_sha 0 sample_tree] by (simp only: sample_leaf sample_siblings)
  ultimately show ?thesis by (simp add: proof_strings_def sample_leaf(2) del: upt_rec_numeral)
qed

lemma smt_membership_sound_witness:
  "map_of (smt_leaves sample_tree) (key_index counting_sha []) = Some (counting_sha [], counting_sha [5])"
proof -
  let ?p = "\<lparr>mp_key_hash = counting_sha [], mp_value_hash = counting_sha [5], mp_siblings = replicate 64 EMPTY\<rparr>"
  have wf: "smt_wf sample_tree"
    unfolding sample_tree_def by (rule smt_wf_insert) (simp_all add: length_counting_sha smt_wf_def smt_new_def)
  have "smt_verify_membership counting_sha (smt_root counting_sha sample_tree) ?p [] [5]"
    using siblings_fold_to_root [of counting_sha 0 sample_tree]
    by (simp add: smt_verify_membership_def Let_def smt_sha256_def sample_siblings sample_leaf(2-4) [unfolded key_index_def smt_sha256_def]
        TREE_DEPTH_def)
  then show ?thesis
    by (intro smt_membership_sound [OF length_counting_sha wf, of ?p])
       (use sample_strings_subset collision_free_mono [OF counting_path_free] in
         \<open>auto simp: sample_leaf(4)\<close>)
qed

lemma empty_siblings: "siblings_for counting_sha 0 smt_new = replicate 64 EMPTY"
  by code_simp

lemma empty_tree_free: "collision_free counting_sha (proof_strings counting_sha smt_new [] EMPTY (replicate 64 EMPTY))"
proof -
  have fold: "fold_preimages counting_sha 0 EMPTY (replicate k EMPTY) = replicate k (1 # EMPTY @ EMPTY)" for k
    by (induction k) (simp_all add: Let_def)
  from generated_preimages [of counting_sha 0 smt_new]
  have "path_preimages counting_sha (leaf_value counting_sha smt_new) 0 (unat (0 :: u64)) 64 = replicate 64 (1 # EMPTY @ EMPTY)"
    by (simp add: leaf_value_def smt_new_def empty_siblings [unfolded smt_new_def] fold del: unat_0)
  then have "set (proof_strings counting_sha smt_new [] EMPTY (replicate 64 EMPTY)) = {1 # EMPTY @ EMPTY}"
    by (simp add: proof_strings_def sample_leaf(2) smt_leaf_def smt_new_def fold)
  moreover have "counting_sha (1 # EMPTY @ EMPTY) \<noteq> EMPTY" by code_simp
  ultimately show ?thesis by (simp add: collision_free_def)
qed

lemma smt_non_membership_sound_witness: "map_of (smt_leaves smt_new) (key_index counting_sha []) = None"
proof -
  let ?p = "\<lparr>np_key_hash = counting_sha [], np_siblings = siblings_for counting_sha 0 smt_new\<rparr>"
  have gen: "generate_non_membership_proof counting_sha [] smt_new = Some ?p"
    by (simp add: generate_non_membership_proof_def Let_def smt_new_def smt_sha256_def sample_leaf(2) [unfolded key_index_def smt_sha256_def])
  have "smt_refutes counting_sha smt_new []" by (simp add: smt_refutes_iff smt_leaf_def smt_new_def)
  then have ver: "smt_verify_non_membership counting_sha (smt_root counting_sha smt_new) ?p []"
    by (simp add: smt_refutes_def gen)
  show ?thesis
    by (intro smt_non_membership_sound [OF length_counting_sha _ _ ver]) (simp_all add: empty_siblings empty_tree_free)
qed

end
