(* ===== verification/Wasm_Merkle.thy ===== *)
theory Wasm_Merkle
  imports Wasm_Types Core_Smt_Properties
begin

text \<open>
  Proof checking in the CosmWasm light client: its own copy of the sparse Merkle hashing
  (\<open>contracts/cosmwasm/light-client/src/smt.rs\<close>) and the decoding of ICS-23 messages (\<open>src/merkle.rs\<close>),
  with their agreement with the gateway's side.
\<close>

section \<open>Hashing\<close>

definition WASM_EMPTY :: bytes where
  "WASM_EMPTY = replicate 32 0"

definition wasm_sha256 :: "(bytes \<Rightarrow> bytes) \<Rightarrow> bytes \<Rightarrow> bytes" where
  "wasm_sha256 sha d = sha d"

definition wasm_key_index :: "(bytes \<Rightarrow> bytes) \<Rightarrow> bytes \<Rightarrow> u64" where
  "wasm_key_index sha key = (let h = wasm_sha256 sha key in from_be_bytes (take 8 h))"

definition wasm_leaf_hash :: "(bytes \<Rightarrow> bytes) \<Rightarrow> bytes \<Rightarrow> bytes \<Rightarrow> bytes" where
  "wasm_leaf_hash sha key_hash value_hash = sha ([0x00] @ key_hash @ value_hash)"

definition wasm_inner_hash :: "(bytes \<Rightarrow> bytes) \<Rightarrow> bytes \<Rightarrow> bytes \<Rightarrow> bytes" where
  "wasm_inner_hash sha left right =
     (if left = WASM_EMPTY \<and> right = WASM_EMPTY then WASM_EMPTY else sha ([0x01] @ left @ right))"

fun wasm_fold_siblings :: "(bytes \<Rightarrow> bytes) \<Rightarrow> u64 \<Rightarrow> bytes \<Rightarrow> bytes list \<Rightarrow> bytes" where
  "wasm_fold_siblings sha sub_idx current [] = current"
| "wasm_fold_siblings sha sub_idx current (sibling # siblings) =
     wasm_fold_siblings sha (drop_bit 1 sub_idx)
       (if sub_idx AND 1 = 0 then wasm_inner_hash sha current sibling else wasm_inner_hash sha sibling current) siblings"

definition verify_membership_raw :: "(bytes \<Rightarrow> bytes) \<Rightarrow> bytes \<Rightarrow> bytes \<Rightarrow> bytes \<Rightarrow> bytes list \<Rightarrow> bool" where
  "verify_membership_raw sha root key val siblings =
     (if val = [] \<or> length siblings \<noteq> 64 then False
      else let key_hash = wasm_sha256 sha key; value_hash = wasm_sha256 sha val; idx = wasm_key_index sha key in
           wasm_fold_siblings sha idx (wasm_leaf_hash sha key_hash value_hash) siblings = root)"

definition verify_non_membership_raw :: "(bytes \<Rightarrow> bytes) \<Rightarrow> bytes \<Rightarrow> bytes \<Rightarrow> bytes list \<Rightarrow> bool" where
  "verify_non_membership_raw sha root key siblings =
     (if length siblings \<noteq> 64 then False
      else wasm_fold_siblings sha (wasm_key_index sha key) WASM_EMPTY siblings = root)"

lemma wasm_smt_eq [simp]:
  "WASM_EMPTY = EMPTY" "wasm_sha256 sha d = sha d" "wasm_key_index sha k = key_index sha k"
  "wasm_leaf_hash sha kh vh = leaf_hash sha kh vh" "wasm_inner_hash sha l r = inner_hash sha l r"
  "wasm_fold_siblings sha w c ss = fold_siblings sha w c ss"
proof -
  show e: "WASM_EMPTY = EMPTY" by (simp add: WASM_EMPTY_def EMPTY_def HASH_SIZE_def)
  show "wasm_sha256 sha d = sha d" by (simp add: wasm_sha256_def)
  show "wasm_key_index sha k = key_index sha k"
    by (simp add: wasm_key_index_def wasm_sha256_def key_index_def key_index_from_hash_def smt_sha256_def)
  show "wasm_leaf_hash sha kh vh = leaf_hash sha kh vh" by (simp add: wasm_leaf_hash_def leaf_hash_def)
  have i: "wasm_inner_hash sha l r = inner_hash sha l r" for l r
    by (simp add: wasm_inner_hash_def inner_hash_def e)
  then show "wasm_inner_hash sha l r = inner_hash sha l r" .
  show "wasm_fold_siblings sha w c ss = fold_siblings sha w c ss"
    by (induction ss arbitrary: w c) (simp_all add: i)
qed

section \<open>Decoding\<close>

definition extract_sibling :: "inner_op \<Rightarrow> contract_error + bytes" where
  "extract_sibling op =
     (if io_suffix op \<noteq> [] \<and> length (io_suffix op) = 32 \<and> length (io_prefix op) = 1 \<and> io_prefix op ! 0 = 0x01
      then Inr (io_suffix op)
      else if io_suffix op = [] \<and> length (io_prefix op) = 1 + 32 \<and> io_prefix op ! 0 = 0x01
      then Inr (drop 1 (io_prefix op))
      else Inl MerkleVerificationFailed)"

definition extract_siblings :: "inner_op list \<Rightarrow> contract_error + bytes list" where
  "extract_siblings ops = mapE extract_sibling ops"

text \<open>The first proof of the message, which must be present.\<close>

definition first_proof :: "wasm_codec \<Rightarrow> bytes \<Rightarrow> contract_error + ics23_proof" where
  "first_proof cd bs =
     bindE (ok_or (InvalidWire (asc ''MerkleProof'')) (dec_merkle_proof cd bs)) (\<lambda>merkle.
     bindE (ok_or MerkleVerificationFailed (case mk_proofs merkle of [] \<Rightarrow> None | p # _ \<Rightarrow> Some p)) (\<lambda>first.
     ok_or MerkleVerificationFailed (cmp_proof first)))"

definition decode_membership_proof :: "wasm_codec \<Rightarrow> bytes \<Rightarrow> contract_error + (bytes \<times> bytes \<times> bytes list)" where
  "decode_membership_proof cd bs =
     bindE (first_proof cd bs) (\<lambda>p.
     case p of
       Nonexist _ \<Rightarrow> Inl MerkleVerificationFailed
     | Exist e \<Rightarrow> bindE (extract_siblings (ep_path e)) (\<lambda>siblings. Inr (ep_key e, ep_value e, siblings)))"

definition decode_non_membership_proof :: "wasm_codec \<Rightarrow> bytes \<Rightarrow> contract_error + (bytes \<times> bytes list)" where
  "decode_non_membership_proof cd bs =
     bindE (first_proof cd bs) (\<lambda>p.
     case p of
       Exist _ \<Rightarrow> Inl MerkleVerificationFailed
     | Nonexist n \<Rightarrow>
         bindE (ok_or MerkleVerificationFailed (ne_left n)) (\<lambda>inner.
         bindE (ensure (ep_value inner = []) MerkleVerificationFailed) (\<lambda>_.
         bindE (extract_siblings (ep_path inner)) (\<lambda>siblings. Inr (ne_key n, siblings)))))"

section \<open>The light client reads what the gateway writes\<close>

lemma extract_sibling_parity: "length s = 32 \<Longrightarrow> extract_sibling (inner_op_with_parity s b) = Inr s"
  by (cases s) (auto simp: extract_sibling_def inner_op_with_parity_def)

lemma extract_indexed_path: "\<forall>s \<in> set ss. length s = 32 \<Longrightarrow> extract_siblings (indexed_path w ss) = Inr ss"
  unfolding extract_siblings_def
  by (induction ss arbitrary: w) (simp_all add: extract_sibling_parity)

lemma decode_serialized_membership:
  assumes "dec_merkle_proof cd (enc (exist_message (build_existence_proof_with_index k v (mp_siblings p) idx)))
      = Some (exist_message (build_existence_proof_with_index k v (mp_siblings p) idx))"
    and "\<forall>s \<in> set (mp_siblings p). length s = 32"
  shows "decode_membership_proof cd (serialize_membership_proof_with_index enc p k v idx) = Inr (k, v, mp_siblings p)"
  using assms
  by (simp add: decode_membership_proof_def serialize_membership_proof_with_index_def first_proof_def exist_message_def
      build_existence_proof_with_index_def extract_indexed_path)

lemma decode_serialized_non_membership:
  assumes "dec_merkle_proof cd (enc (nonexist_message k (build_existence_proof_with_index k [] (np_siblings p) idx)))
      = Some (nonexist_message k (build_existence_proof_with_index k [] (np_siblings p) idx))"
    and "\<forall>s \<in> set (np_siblings p). length s = 32"
  shows "decode_non_membership_proof cd (serialize_non_membership_proof_with_index enc p k idx) = Inr (k, np_siblings p)"
  using assms
  by (simp add: decode_non_membership_proof_def serialize_non_membership_proof_with_index_def first_proof_def
      nonexist_message_def build_existence_proof_with_index_def extract_indexed_path)

text \<open>Decoded siblings are digests.\<close>

lemma extract_siblings_lengths: "extract_siblings ops = Inr ss \<Longrightarrow> \<forall>s \<in> set ss. length s = 32"
  unfolding extract_siblings_def
  by (induction ops arbitrary: ss) (auto simp: bindE_simps extract_sibling_def split: if_splits)

end
