(* ===== verification/Wasm_Client.thy ===== *)
theory Wasm_Client
  imports Wasm_Store Wasm_Merkle
begin

text \<open>
  The entry points of the CosmWasm light client, \<open>contracts/cosmwasm/light-client/src/entrypoint.rs\<close>.
  Storage is passed explicitly; an error leaves it unchanged, as the host discards the writes of a
  failed call. The host's Ed25519 check (\<open>Api::ed25519_verify\<close>) is the parameter \<open>ed\<close>, with \<open>None\<close>
  for its errors; SHA-256 is \<open>sha\<close> and the protobuf codec \<open>cd\<close>.
\<close>

type_synonym wasm_ed25519 = "bytes \<Rightarrow> bytes \<Rightarrow> bytes \<Rightarrow> bool option"

definition ENVELOPE_TYPE_SCPVALUE :: bytes where
  "ENVELOPE_TYPE_SCPVALUE = [0, 0, 0, 4]"

section \<open>Helpers\<close>

definition hex_digit :: "u8 \<Rightarrow> u8" where
  "hex_digit n = (if n < 10 then 48 + n else 87 + n)"

definition hex_encode :: "bytes \<Rightarrow> bytes" where
  "hex_encode bs = concat (map (\<lambda>b. [hex_digit (drop_bit 4 b), hex_digit (b AND 0xF)]) bs)"

definition concat_path :: "bytes list \<Rightarrow> bytes" where
  "concat_path path = concat path"

definition wasm_decode_header :: "wasm_codec \<Rightarrow> bytes \<Rightarrow> contract_error + stellar_header" where
  "wasm_decode_header cd bs = ok_or (InvalidWire (asc ''header'')) (dec_stellar_header cd bs)"

definition require_client_state :: "wasm_codec \<Rightarrow> wasm_storage \<Rightarrow> contract_error + wasm_client_state" where
  "require_client_state cd st = ok_or NotInitialised (get_client_state cd st)"

definition require_consensus_state ::
  "wasm_codec \<Rightarrow> wasm_storage \<Rightarrow> u64 \<Rightarrow> contract_error + wasm_consensus_state" where
  "require_consensus_state cd st height = ok_or (ConsensusStateMissing height) (get_consensus_state cd height st)"

text \<open>\<open>Option<Height>::unwrap_or_default\<close>\<close>

definition height_or_default :: "wasm_height option \<Rightarrow> wasm_height" where
  "height_or_default h = (case h of None \<Rightarrow> \<lparr>wh_revision_number = 0, wh_revision_height = 0\<rparr> | Some x \<Rightarrow> x)"

text \<open>The early return on a frozen client.\<close>

definition check_not_frozen :: "wasm_client_state \<Rightarrow> contract_error + unit" where
  "check_not_frozen cs =
     (case wc_frozen_height cs of None \<Rightarrow> Inr () | Some h \<Rightarrow> Inl (Frozen (wh_revision_height h)))"

section \<open>Signatures\<close>

text \<open>What the error of a failed check reports.\<close>

record scp_tally =
  st_matched :: nat
  st_raw_ok :: bool
  st_hash_ok :: bool
  st_statement_len :: nat

text \<open>The loop over the envelopes: \<open>Inr\<close> is the early success, \<open>Inl\<close> the tally when all were read.\<close>

fun scp_scan ::
  "(bytes \<Rightarrow> bytes) \<Rightarrow> wasm_ed25519 \<Rightarrow> wasm_client_state \<Rightarrow> scp_envelope list \<Rightarrow> scp_tally \<Rightarrow> scp_tally + unit" where
  "scp_scan sha ed cs [] t = Inl t"
| "scp_scan sha ed cs (env # envs) t =
     (if length (env_node_id env) \<noteq> 32 \<or> length (env_signature env) \<noteq> 64 then scp_scan sha ed cs envs t
      else if \<not> list_ex (\<lambda>v. v = env_node_id env) (wc_trusted_validators cs) then scp_scan sha ed cs envs t
      else let t = t\<lparr>st_matched := st_matched t + 1\<rparr> in
        if env_statement_xdr env = [] then scp_scan sha ed cs envs t
        else let preimage = wc_network_id cs @ ENVELOPE_TYPE_SCPVALUE @ env_statement_xdr env;
                 digest = sha preimage;
                 raw_ok = (ed preimage (env_signature env) (env_node_id env) = Some True) in
          if raw_ok then Inr ()
          else let hash_ok = (ed digest (env_signature env) (env_node_id env) = Some True) in
            if hash_ok then Inr ()
            else scp_scan sha ed cs envs (t\<lparr>st_raw_ok := raw_ok, st_hash_ok := hash_ok,
                                            st_statement_len := length (env_statement_xdr env)\<rparr>))"

definition verify_scp_quorum ::
  "(bytes \<Rightarrow> bytes) \<Rightarrow> wasm_ed25519 \<Rightarrow> wasm_client_state \<Rightarrow> scp_envelope list \<Rightarrow> contract_error + unit" where
  "verify_scp_quorum sha ed cs envelopes =
     bindE (ensure (wc_network_id cs \<noteq> []) NetworkIdMissing) (\<lambda>_.
     bindE (ensure (length (wc_network_id cs) = 32)
       (ScpSignatureError (asc ''network_id must be 32 bytes, got '' @ decimal (length (wc_network_id cs))))) (\<lambda>_.
     case scp_scan sha ed cs envelopes \<lparr>st_matched = 0, st_raw_ok = False, st_hash_ok = False, st_statement_len = 0\<rparr> of
       Inr _ \<Rightarrow> Inr ()
     | Inl t \<Rightarrow> Inl (QuorumNotMet (length envelopes) (st_matched t) (st_raw_ok t) (st_hash_ok t)
                      (case envelopes of [] \<Rightarrow> [] | e # _ \<Rightarrow> hex_encode (env_node_id e))
                      (hex_encode (wc_network_id cs)) (st_statement_len t))))"

section \<open>Client messages\<close>

definition wasm_verify_client_message ::
  "(bytes \<Rightarrow> bytes) \<Rightarrow> wasm_ed25519 \<Rightarrow> wasm_codec \<Rightarrow> bytes \<Rightarrow> wasm_storage \<Rightarrow> contract_error + stellar_header" where
  "wasm_verify_client_message sha ed cd client_message st =
     bindE (require_client_state cd st) (\<lambda>cs.
     bindE (check_not_frozen cs) (\<lambda>_.
     bindE (wasm_decode_header cd client_message) (\<lambda>header.
     bindE (ok_or (InvalidWire (asc ''header.trusted_height'')) (map_option wh_revision_height (sh_trusted_height header))) (\<lambda>trusted_height.
     bindE (ensure (\<not> sh_ledger_seq header \<le> trusted_height) (NonAdvancingHeight trusted_height (sh_ledger_seq header))) (\<lambda>_.
     bindE (require_consensus_state cd st trusted_height) (\<lambda>_.
     bindE (verify_scp_quorum sha ed cs (sh_scp_envelopes header)) (\<lambda>_.
     Inr header)))))))"

definition header_consensus :: "stellar_header \<Rightarrow> wasm_consensus_state" where
  "header_consensus header =
     \<lparr>ws_timestamp = sh_timestamp header, ws_ledger_hash = sh_ledger_hash header, ws_root = sh_ibc_state_root header\<rparr>"

definition wasm_update_state ::
  "(bytes \<Rightarrow> bytes) \<Rightarrow> wasm_ed25519 \<Rightarrow> wasm_codec \<Rightarrow> bytes \<Rightarrow> wasm_storage \<Rightarrow>
   contract_error + wasm_storage \<times> wasm_height list" where
  "wasm_update_state sha ed cd client_message st =
     bindE (wasm_verify_client_message sha ed cd client_message st) (\<lambda>header.
     bindE (require_client_state cd st) (\<lambda>cs.
     let new_consensus = header_consensus header;
         height = \<lparr>wh_revision_number = 0, wh_revision_height = sh_ledger_seq header\<rparr> in
     bindE (ensure (case get_consensus_state cd (sh_ledger_seq header) st of
                      None \<Rightarrow> True | Some existing \<Rightarrow> existing = new_consensus)
              (ConsensusStateConflict (sh_ledger_seq header))) (\<lambda>_.
     let st = set_consensus_state cd (sh_ledger_seq header) new_consensus st;
         st = (if (case wc_latest_height cs of None \<Rightarrow> 0 | Some h \<Rightarrow> wh_revision_height h) < sh_ledger_seq header
               then set_client_state cd (cs\<lparr>wc_latest_height := Some height\<rparr>) st
               else st) in
     Inr (st, [height]))))"

definition wasm_update_state_on_misbehaviour :: "wasm_codec \<Rightarrow> wasm_storage \<Rightarrow> contract_error + wasm_storage" where
  "wasm_update_state_on_misbehaviour cd st =
     bindE (require_client_state cd st) (\<lambda>cs.
     Inr (set_client_state cd (cs\<lparr>wc_frozen_height := Some (height_or_default (wc_latest_height cs))\<rparr>) st))"

definition wasm_check_for_misbehaviour :: "wasm_codec \<Rightarrow> bytes \<Rightarrow> wasm_storage \<Rightarrow> contract_error + bool" where
  "wasm_check_for_misbehaviour cd client_message st =
     bindE (require_client_state cd st) (\<lambda>cs.
     if wc_frozen_height cs \<noteq> None then Inr False
     else bindE (wasm_decode_header cd client_message) (\<lambda>header.
       case get_consensus_state cd (sh_ledger_seq header) st of
         None \<Rightarrow> Inr False
       | Some existing \<Rightarrow> Inr (existing \<noteq> header_consensus header)))"

section \<open>Proofs\<close>

text \<open>The root of a stored consensus state as a 32-byte array.\<close>

definition root_array :: "wasm_consensus_state \<Rightarrow> contract_error + bytes" where
  "root_array consensus = bindE (ensure (length (ws_root consensus) = 32) MerkleVerificationFailed) (\<lambda>_. Inr (ws_root consensus))"

definition wasm_verify_membership ::
  "(bytes \<Rightarrow> bytes) \<Rightarrow> wasm_codec \<Rightarrow> verify_membership_msg \<Rightarrow> wasm_storage \<Rightarrow> contract_error + unit" where
  "wasm_verify_membership sha cd msg st =
     bindE (require_client_state cd st) (\<lambda>cs.
     bindE (check_not_frozen cs) (\<lambda>_.
     bindE (require_consensus_state cd st (wh_revision_height (vm_height msg))) (\<lambda>consensus.
     bindE (root_array consensus) (\<lambda>root.
     let key = concat_path (vm_merkle_path msg) in
     bindE (decode_membership_proof cd (vm_proof msg)) (\<lambda>(proof_key, proof_value, siblings).
     let key_match = (proof_key = key);
         value_match = (proof_value = wasm_sha256 sha (vm_value msg));
         computed_root =
           (if length siblings = 64 \<and> vm_value msg \<noteq> []
            then let leaf = wasm_leaf_hash sha (wasm_sha256 sha key) (wasm_sha256 sha (vm_value msg)) in
                 Some (wasm_fold_siblings sha (wasm_key_index sha key) leaf siblings)
            else None);
         root_match = (case computed_root of None \<Rightarrow> False | Some r \<Rightarrow> r = root) in
     if key_match \<and> value_match \<and> root_match then Inr ()
     else Inl (MembershipMismatch key_match value_match (length siblings) (wh_revision_height (vm_height msg))
                 (hex_encode key) (hex_encode proof_key) (length (vm_value msg)) (length proof_value) (hex_encode root)
                 (case computed_root of None \<Rightarrow> [] | Some r \<Rightarrow> hex_encode r)))))))"

definition wasm_verify_non_membership ::
  "(bytes \<Rightarrow> bytes) \<Rightarrow> wasm_codec \<Rightarrow> verify_non_membership_msg \<Rightarrow> wasm_storage \<Rightarrow> contract_error + unit" where
  "wasm_verify_non_membership sha cd msg st =
     bindE (require_client_state cd st) (\<lambda>cs.
     bindE (check_not_frozen cs) (\<lambda>_.
     bindE (require_consensus_state cd st (wh_revision_height (vn_height msg))) (\<lambda>consensus.
     bindE (root_array consensus) (\<lambda>root.
     let key = concat_path (vn_merkle_path msg) in
     bindE (decode_non_membership_proof cd (vn_proof msg)) (\<lambda>(proof_key, siblings).
     bindE (ensure (proof_key = key) MerkleVerificationFailed) (\<lambda>_.
     ensure (verify_non_membership_raw sha root key siblings) MerkleVerificationFailed))))))"

section \<open>Entry points\<close>

definition wasm_instantiate :: "wasm_codec \<Rightarrow> instantiate_msg \<Rightarrow> wasm_storage \<Rightarrow> contract_error + wasm_storage" where
  "wasm_instantiate cd msg st =
     bindE (ensure (get_client_state cd st = None) AlreadyInitialised) (\<lambda>_.
     bindE (ok_or (InvalidWire (asc ''client_state'')) (dec_client_state cd (im_client_state msg))) (\<lambda>client_state.
     bindE (ok_or (InvalidWire (asc ''consensus_state'')) (dec_consensus_state cd (im_consensus_state msg))) (\<lambda>consensus_state.
     bindE (ok_or (InvalidWire (asc ''client_state.latest_height'')) (map_option wh_revision_height (wc_latest_height client_state))) (\<lambda>height.
     let st = set_checksum (im_checksum msg) st;
         st = set_client_state cd client_state st;
         st = set_consensus_state cd height consensus_state st in
     Inr st))))"

definition wasm_sudo ::
  "(bytes \<Rightarrow> bytes) \<Rightarrow> wasm_ed25519 \<Rightarrow> wasm_codec \<Rightarrow> sudo_msg \<Rightarrow> wasm_storage \<Rightarrow>
   contract_error + wasm_storage \<times> response_data" where
  "wasm_sudo sha ed cd msg st =
     (case msg of
        UpdateState m \<Rightarrow> bindE (wasm_update_state sha ed cd m st) (\<lambda>(st, heights). Inr (st, UpdatedHeights heights))
      | UpdateStateOnMisbehaviour m \<Rightarrow> bindE (wasm_update_state_on_misbehaviour cd st) (\<lambda>st. Inr (st, NoData))
      | CheckForMisbehaviour m \<Rightarrow> bindE (wasm_check_for_misbehaviour cd m st) (\<lambda>b. Inr (st, FoundMisbehaviour b))
      | VerifyMembership m \<Rightarrow> bindE (wasm_verify_membership sha cd m st) (\<lambda>_. Inr (st, NoData))
      | VerifyNonMembership m \<Rightarrow> bindE (wasm_verify_non_membership sha cd m st) (\<lambda>_. Inr (st, NoData)))"

definition wasm_query ::
  "(bytes \<Rightarrow> bytes) \<Rightarrow> wasm_ed25519 \<Rightarrow> wasm_codec \<Rightarrow> query_msg \<Rightarrow> wasm_storage \<Rightarrow> contract_error + response_data" where
  "wasm_query sha ed cd msg st =
     (case msg of
        QueryClientState \<Rightarrow> bindE (require_client_state cd st) (\<lambda>cs. Inr (RawBytes (enc_client_state cd cs)))
      | QueryConsensusState height \<Rightarrow>
          bindE (require_consensus_state cd st (wh_revision_height height)) (\<lambda>cons. Inr (RawBytes (enc_consensus_state cd cons)))
      | QueryLatestHeight \<Rightarrow>
          bindE (require_client_state cd st) (\<lambda>cs. Inr (LatestHeight (height_or_default (wc_latest_height cs))))
      | QueryStatus \<Rightarrow>
          bindE (require_client_state cd st) (\<lambda>cs.
          Inr (Status (if wc_frozen_height cs \<noteq> None then ClientStatusFrozen else Active)))
      | QueryTimestampAtHeight height \<Rightarrow>
          bindE (require_consensus_state cd st (wh_revision_height height)) (\<lambda>cons. Inr (TimestampAtHeight (ws_timestamp cons)))
      | QueryVerifyClientMessage m \<Rightarrow> bindE (wasm_verify_client_message sha ed cd m st) (\<lambda>_. Inr EmptyObject)
      | QueryCheckForMisbehaviour _ \<Rightarrow> Inr (FoundMisbehaviour False))"

text \<open>A call as the host runs it, and a sequence of calls.\<close>

definition wasm_exec :: "(bytes \<Rightarrow> bytes) \<Rightarrow> wasm_ed25519 \<Rightarrow> wasm_codec \<Rightarrow> sudo_msg \<Rightarrow> wasm_storage \<Rightarrow> wasm_storage" where
  "wasm_exec sha ed cd msg st = (case wasm_sudo sha ed cd msg st of Inl _ \<Rightarrow> st | Inr (st', _) \<Rightarrow> st')"

end
