(* ===== verification/Sample_Codec.thy ===== *)
theory Sample_Codec
  imports Wasm_Client
begin

text \<open>
  A concrete codec for the messages of the CosmWasm light client, used only in the witnesses: each
  message is the list of its fields, each field a byte string, with a marker before every byte and
  another at the end of every field. It satisfies the codec laws the theorems assume of protobuf.
\<close>

definition pack :: "bytes list \<Rightarrow> bytes" where
  "pack xs = concat (map (\<lambda>x. concat (map (\<lambda>b. [1, b]) x) @ [0]) xs)"

fun unpack :: "bytes \<Rightarrow> bytes list" where
  "unpack [] = []"
| "unpack (t # r) =
     (if t = 0 then [] # unpack r
      else case r of [] \<Rightarrow> [] | b # r' \<Rightarrow> (case unpack r' of [] \<Rightarrow> [[b]] | x # xs \<Rightarrow> (b # x) # xs))"

lemma unpack_field: "unpack (concat (map (\<lambda>b. [1, b]) x) @ 0 # r) = x # unpack r"
  by (induction x) simp_all

lemma unpack_pack [simp]: "unpack (pack xs) = xs"
  by (induction xs) (simp_all add: pack_def unpack_field)

lemma pack_Cons_not_Nil [simp]: "pack (x # xs) \<noteq> []"
  by (simp add: pack_def)

definition pack_height :: "wasm_height option \<Rightarrow> bytes" where
  "pack_height h =
     (case h of None \<Rightarrow> [] | Some x \<Rightarrow> pack [to_be_bytes (wh_revision_number x), to_be_bytes (wh_revision_height x)])"

definition unpack_height :: "bytes \<Rightarrow> wasm_height option" where
  "unpack_height bs =
     (case unpack bs of
        [a, b] \<Rightarrow> Some \<lparr>wh_revision_number = from_be_bytes a, wh_revision_height = from_be_bytes b\<rparr> | _ \<Rightarrow> None)"

lemma unpack_pack_height [simp]: "unpack_height (pack_height h) = h"
  by (cases h) (simp_all add: pack_height_def unpack_height_def)

definition pack_client :: "wasm_client_state \<Rightarrow> bytes" where
  "pack_client c = pack [wc_chain_id c, pack_height (wc_latest_height c), pack_height (wc_frozen_height c),
     pack (wc_trusted_validators c), pack (wc_proof_specs c), wc_network_id c]"

definition unpack_client :: "bytes \<Rightarrow> wasm_client_state option" where
  "unpack_client bs =
     (case unpack bs of
        [a, b, c, d, e, f] \<Rightarrow>
          if is_utf8 a
          then Some \<lparr>wc_chain_id = a, wc_latest_height = unpack_height b, wc_frozen_height = unpack_height c,
                     wc_trusted_validators = unpack d, wc_proof_specs = unpack e, wc_network_id = f\<rparr>
          else None
      | _ \<Rightarrow> None)"

definition pack_consensus :: "wasm_consensus_state \<Rightarrow> bytes" where
  "pack_consensus c = pack [to_be_bytes (ws_timestamp c), ws_ledger_hash c, ws_root c]"

definition unpack_consensus :: "bytes \<Rightarrow> wasm_consensus_state option" where
  "unpack_consensus bs =
     (case unpack bs of
        [a, b, c] \<Rightarrow> Some \<lparr>ws_timestamp = from_be_bytes a, ws_ledger_hash = b, ws_root = c\<rparr> | _ \<Rightarrow> None)"

definition unpack_envelope :: "bytes \<Rightarrow> scp_envelope" where
  "unpack_envelope bs =
     (case unpack bs of
        [a, b, c] \<Rightarrow> \<lparr>env_node_id = a, env_statement_xdr = b, env_signature = c\<rparr>
      | _ \<Rightarrow> \<lparr>env_node_id = [], env_statement_xdr = [], env_signature = []\<rparr>)"

definition pack_header :: "stellar_header \<Rightarrow> bytes" where
  "pack_header h = pack [to_be_bytes (sh_ledger_seq h), sh_ledger_header_xdr h, sh_ibc_state_root h,
     pack (map (\<lambda>e. pack [env_node_id e, env_statement_xdr e, env_signature e]) (sh_scp_envelopes h)),
     pack_height (sh_trusted_height h), to_be_bytes (sh_timestamp h), sh_ledger_hash h, sh_previous_ledger_hash h]"

definition unpack_header :: "bytes \<Rightarrow> stellar_header option" where
  "unpack_header bs =
     (case unpack bs of
        [a, b, c, d, e, f, g, h] \<Rightarrow>
          Some \<lparr>sh_ledger_seq = from_be_bytes a, sh_ledger_header_xdr = b, sh_ibc_state_root = c,
                sh_scp_envelopes = map unpack_envelope (unpack d), sh_trusted_height = unpack_height e,
                sh_timestamp = from_be_bytes f, sh_ledger_hash = g, sh_previous_ledger_hash = h\<rparr>
      | _ \<Rightarrow> None)"

definition pack_any :: "proto_any \<Rightarrow> bytes" where
  "pack_any a = pack [any_type_url a, any_value a]"

definition unpack_any :: "bytes \<Rightarrow> proto_any option" where
  "unpack_any bs = (case unpack bs of [a, b] \<Rightarrow> Some \<lparr>any_type_url = a, any_value = b\<rparr> | _ \<Rightarrow> None)"

definition pack_client_wrapper :: "wasm_client_wrapper \<Rightarrow> bytes" where
  "pack_client_wrapper w = pack [wcw_data w, wcw_checksum w, pack_height (wcw_latest_height w)]"

definition unpack_client_wrapper :: "bytes \<Rightarrow> wasm_client_wrapper option" where
  "unpack_client_wrapper bs =
     (case unpack bs of
        [a, b, c] \<Rightarrow> Some \<lparr>wcw_data = a, wcw_checksum = b, wcw_latest_height = unpack_height c\<rparr> | _ \<Rightarrow> None)"

definition pack_consensus_wrapper :: "wasm_consensus_wrapper \<Rightarrow> bytes" where
  "pack_consensus_wrapper w = pack [wsw_data w]"

definition unpack_consensus_wrapper :: "bytes \<Rightarrow> wasm_consensus_wrapper option" where
  "unpack_consensus_wrapper bs = (case unpack bs of [a] \<Rightarrow> Some \<lparr>wsw_data = a\<rparr> | _ \<Rightarrow> None)"

section \<open>Proof messages\<close>

definition pack_i32 :: "i32 \<Rightarrow> bytes" where
  "pack_i32 w = to_be_bytes (ucast w)"

definition unpack_i32 :: "bytes \<Rightarrow> i32" where
  "unpack_i32 bs = ucast (from_be_bytes bs)"

lemma unpack_pack_i32 [simp]: "unpack_i32 (pack_i32 w) = w"
  by (simp add: unpack_i32_def pack_i32_def) (rule bit_word_eqI, simp add: bit_simps)

definition pack_leaf_op :: "leaf_op \<Rightarrow> bytes" where
  "pack_leaf_op l = pack [pack_i32 (lo_hash l), pack_i32 (lo_prehash_key l), pack_i32 (lo_prehash_value l),
     pack_i32 (lo_length l), lo_prefix l]"

definition unpack_leaf_op :: "bytes \<Rightarrow> leaf_op option" where
  "unpack_leaf_op bs =
     (case unpack bs of
        [a, b, c, d, e] \<Rightarrow>
          Some \<lparr>lo_hash = unpack_i32 a, lo_prehash_key = unpack_i32 b, lo_prehash_value = unpack_i32 c,
                lo_length = unpack_i32 d, lo_prefix = e\<rparr>
      | _ \<Rightarrow> None)"

definition pack_inner_op :: "inner_op \<Rightarrow> bytes" where
  "pack_inner_op i = pack [pack_i32 (io_hash i), io_prefix i, io_suffix i]"

definition unpack_inner_op :: "bytes \<Rightarrow> inner_op" where
  "unpack_inner_op bs =
     (case unpack bs of
        [a, b, c] \<Rightarrow> \<lparr>io_hash = unpack_i32 a, io_prefix = b, io_suffix = c\<rparr>
      | _ \<Rightarrow> \<lparr>io_hash = 0, io_prefix = [], io_suffix = []\<rparr>)"

definition pack_existence :: "existence_proof \<Rightarrow> bytes" where
  "pack_existence p = pack [ep_key p, ep_value p, (case ep_leaf p of None \<Rightarrow> [] | Some l \<Rightarrow> pack_leaf_op l),
     pack (map pack_inner_op (ep_path p))]"

definition unpack_existence :: "bytes \<Rightarrow> existence_proof option" where
  "unpack_existence bs =
     (case unpack bs of
        [a, b, c, d] \<Rightarrow>
          Some \<lparr>ep_key = a, ep_value = b, ep_leaf = unpack_leaf_op c, ep_path = map unpack_inner_op (unpack d)\<rparr>
      | _ \<Rightarrow> None)"

definition pack_ics23 :: "ics23_proof \<Rightarrow> bytes" where
  "pack_ics23 p =
     (case p of
        Exist e \<Rightarrow> pack [pack_existence e]
      | Nonexist n \<Rightarrow> pack [ne_key n, (case ne_left n of None \<Rightarrow> [] | Some e \<Rightarrow> pack_existence e),
                               (case ne_right n of None \<Rightarrow> [] | Some e \<Rightarrow> pack_existence e)])"

definition unpack_ics23 :: "bytes \<Rightarrow> ics23_proof option" where
  "unpack_ics23 bs =
     (case unpack bs of
        [a] \<Rightarrow> map_option Exist (unpack_existence a)
      | [a, b, c] \<Rightarrow> Some (Nonexist \<lparr>ne_key = a, ne_left = unpack_existence b, ne_right = unpack_existence c\<rparr>)
      | _ \<Rightarrow> None)"

definition pack_merkle :: "merkle_proof \<Rightarrow> bytes" where
  "pack_merkle m = pack (map (\<lambda>c. case cmp_proof c of None \<Rightarrow> [] | Some p \<Rightarrow> pack_ics23 p) (mk_proofs m))"

definition unpack_merkle :: "bytes \<Rightarrow> merkle_proof option" where
  "unpack_merkle bs = Some \<lparr>mk_proofs = map (\<lambda>x. \<lparr>cmp_proof = unpack_ics23 x\<rparr>) (unpack bs)\<rparr>"

definition sample_codec :: wasm_codec where
  "sample_codec = \<lparr>enc_client_state = pack_client, dec_client_state = unpack_client,
     enc_consensus_state = pack_consensus, dec_consensus_state = unpack_consensus,
     enc_client_wrapper = pack_client_wrapper, dec_client_wrapper = unpack_client_wrapper,
     enc_consensus_wrapper = pack_consensus_wrapper, dec_consensus_wrapper = unpack_consensus_wrapper,
     enc_any = pack_any, dec_any = unpack_any, dec_stellar_header = unpack_header, dec_merkle_proof = unpack_merkle\<rparr>"

section \<open>The codec laws\<close>

lemma sample_codec_ok: "wasm_codec_ok sample_codec"
  by (auto simp: wasm_codec_ok_def sample_codec_def pack_client_def unpack_client_def pack_consensus_def unpack_consensus_def
      pack_client_wrapper_def unpack_client_wrapper_def pack_consensus_wrapper_def unpack_consensus_wrapper_def
      pack_any_def unpack_any_def split: list.splits if_splits)

lemma unpack_envelope_pack [simp]:
  "unpack_envelope (pack [env_node_id e, env_statement_xdr e, env_signature e]) = e"
  by (simp add: unpack_envelope_def)

lemma unpack_pack_header [simp]: "unpack_header (pack_header h) = Some h"
  by (simp add: unpack_header_def pack_header_def comp_def)

lemma unpack_pack_inner [simp]: "unpack_inner_op (pack_inner_op i) = i"
  by (simp add: unpack_inner_op_def pack_inner_op_def)

lemma unpack_pack_leaf [simp]: "unpack_leaf_op (pack_leaf_op l) = Some l"
  by (simp add: unpack_leaf_op_def pack_leaf_op_def)

lemma unpack_nil [simp]: "unpack_leaf_op [] = None" "unpack_existence [] = None" "unpack_ics23 [] = None"
  by (simp_all add: unpack_leaf_op_def unpack_existence_def unpack_ics23_def)

lemma unpack_pack_existence [simp]: "unpack_existence (pack_existence p) = Some p"
  by (cases "ep_leaf p") (simp_all add: unpack_existence_def pack_existence_def comp_def)

lemma unpack_pack_ics23 [simp]: "unpack_ics23 (pack_ics23 p) = Some p"
  by (cases p) (auto simp: unpack_ics23_def pack_ics23_def split: option.splits)

lemma unpack_pack_merkle: "unpack_merkle (pack_merkle m) = Some m"
proof -
  have "\<lparr>cmp_proof = unpack_ics23 (case cmp_proof c of None \<Rightarrow> [] | Some p \<Rightarrow> pack_ics23 p)\<rparr> = c" for c
    by (cases "cmp_proof c") simp_all
  then show ?thesis by (simp add: unpack_merkle_def pack_merkle_def comp_def)
qed

lemma sample_merkle_codec: "dec_merkle_proof sample_codec (pack_merkle m) = Some m"
  by (simp add: sample_codec_def unpack_pack_merkle)

end
