(* ===== verification/Core_Conversion.thy ===== *)
theory Core_Conversion
  imports Prelude "HOL-Library.List_Lexorder"
begin

text \<open>
  Contract values as the gateway reads and writes them, \<open>crates/core/src/conversion.rs\<close>. The value
  and ledger types are those of the XDR library, with the constructors the code distinguishes; its
  \<open>XDR\<close> encoding and the \<open>Display\<close> text of its strings are parameters. The length bounds are those
  of the XDR types (\<open>StringM\<close>, \<open>BytesM\<close> and \<open>VecM\<close>: a 32-bit length, symbols 32 bytes).
\<close>

section \<open>Values and ledger keys\<close>

datatype sc_address = ScContract bytes | ScAddressOther bytes

datatype scval =
    ScvBool bool
  | ScvU32 u32
  | ScvU64 u64
  | ScvI128 "64 word" u64
  | ScvBytes bytes
  | ScvString bytes
  | ScvSymbol bytes
  | ScvVec "scval list option"
  | ScvMap "(scval \<times> scval) list option"
  | ScvAddress sc_address
  | ScvOther nat

type_synonym scmap = "(scval \<times> scval) list"

record contract_data =
  cda_contract :: sc_address
  cda_key :: scval
  cda_val :: scval

datatype ledger_entry_data = ContractData contract_data | EntryOther nat

datatype ledger_key = KeyContractData sc_address scval bool | KeyOther nat

datatype conversion_error =
    InvalidString bytes | InvalidSymbol bytes | InvalidBytes | VecTooLarge | StructTooLarge
  | MissingField bytes | FieldType bytes | FromXdr | ToXdr

abbreviation xdr_max :: nat where
  "xdr_max \<equiv> 2 ^ 32 - 1"

section \<open>Building\<close>

definition scval_string :: "bytes \<Rightarrow> conversion_error + scval" where
  "scval_string s = bindE (ensure (length s \<le> xdr_max) (InvalidString s)) (\<lambda>_. Inr (ScvString s))"

definition scval_symbol :: "bytes \<Rightarrow> conversion_error + scval" where
  "scval_symbol s = bindE (ensure (length s \<le> 32) (InvalidSymbol s)) (\<lambda>_. Inr (ScvSymbol s))"

definition scval_bytes :: "bytes \<Rightarrow> conversion_error + scval" where
  "scval_bytes b = bindE (ensure (length b \<le> xdr_max) InvalidBytes) (\<lambda>_. Inr (ScvBytes b))"

definition scval_u64 :: "u64 \<Rightarrow> scval" where
  "scval_u64 v = ScvU64 v"

definition scval_vec :: "scval list \<Rightarrow> conversion_error + scval" where
  "scval_vec items = bindE (ensure (length items \<le> xdr_max) VecTooLarge) (\<lambda>_. Inr (ScvVec (Some items)))"

definition scval_vec_of_bytes :: "bytes list \<Rightarrow> conversion_error + scval" where
  "scval_vec_of_bytes items = bindE (mapE scval_bytes items) scval_vec"

text \<open>The name in a symbol, by which \<open>sort_by\<close> orders the entries (all keys are symbols there).\<close>

definition symbol_name :: "scval \<Rightarrow> bytes" where
  "symbol_name v = (case v of ScvSymbol s \<Rightarrow> s | _ \<Rightarrow> [])"

definition struct_entry :: "bytes \<times> scval \<Rightarrow> conversion_error + (scval \<times> scval)" where
  "struct_entry f = bindE (scval_symbol (fst f)) (\<lambda>k. Inr (k, snd f))"

definition scval_struct :: "(bytes \<times> scval) list \<Rightarrow> conversion_error + scval" where
  "scval_struct flds =
     bindE (mapE struct_entry flds) (\<lambda>entries.
     let entries = sort_key (\<lambda>e. symbol_name (fst e)) entries in
     bindE (ensure (length entries \<le> xdr_max) StructTooLarge) (\<lambda>_.
     Inr (ScvMap (Some entries))))"

definition scval_height :: "u64 \<Rightarrow> u64 \<Rightarrow> conversion_error + scval" where
  "scval_height revision_number revision_height =
     scval_struct [(asc ''revision_number'', ScvU64 revision_number), (asc ''revision_height'', ScvU64 revision_height)]"

definition scval_from_xdr :: "(bytes \<Rightarrow> scval option) \<Rightarrow> bytes \<Rightarrow> conversion_error + scval" where
  "scval_from_xdr dec bs = ok_or FromXdr (dec bs)"

definition scval_to_xdr :: "(scval \<Rightarrow> bytes option) \<Rightarrow> scval \<Rightarrow> conversion_error + bytes" where
  "scval_to_xdr enc v = ok_or ToXdr (enc v)"

definition persistent_contract_data_key :: "(ledger_key \<Rightarrow> 'e + bytes) \<Rightarrow> bytes \<Rightarrow> scval \<Rightarrow> 'e + bytes" where
  "persistent_contract_data_key to_xdr contract key_val = to_xdr (KeyContractData (ScContract contract) key_val True)"

section \<open>Reading\<close>

definition ledger_entry_contract_val :: "(bytes \<Rightarrow> ledger_entry_data option) \<Rightarrow> bytes \<Rightarrow> scval option" where
  "ledger_entry_contract_val from_xdr entry_xdr =
     Option.bind (from_xdr entry_xdr) (\<lambda>e. case e of ContractData d \<Rightarrow> Some (cda_val d) | EntryOther _ \<Rightarrow> None)"

definition scval_field :: "(bytes \<Rightarrow> bytes) \<Rightarrow> scmap \<Rightarrow> bytes \<Rightarrow> scval option" where
  "scval_field disp m nm =
     map_option snd (find (\<lambda>e. case fst e of ScvSymbol s \<Rightarrow> disp s = nm | _ \<Rightarrow> False) m)"

definition scval_as_map :: "scval \<Rightarrow> scmap option" where
  "scval_as_map v = (case v of ScvMap (Some m) \<Rightarrow> Some m | _ \<Rightarrow> None)"

definition scval_as_u64 :: "scval \<Rightarrow> u64 option" where
  "scval_as_u64 v = (case v of ScvU64 n \<Rightarrow> Some n | _ \<Rightarrow> None)"

definition scval_as_u32 :: "scval \<Rightarrow> u32 option" where
  "scval_as_u32 v = (case v of ScvU32 n \<Rightarrow> Some n | _ \<Rightarrow> None)"

definition scval_as_string :: "(bytes \<Rightarrow> bytes) \<Rightarrow> scval \<Rightarrow> bytes option" where
  "scval_as_string disp v = (case v of ScvString s \<Rightarrow> Some (disp s) | _ \<Rightarrow> None)"

definition scval_as_symbol :: "(bytes \<Rightarrow> bytes) \<Rightarrow> scval \<Rightarrow> bytes option" where
  "scval_as_symbol disp v = (case v of ScvSymbol s \<Rightarrow> Some (disp s) | _ \<Rightarrow> None)"

definition scval_as_bytes :: "scval \<Rightarrow> bytes option" where
  "scval_as_bytes v = (case v of ScvBytes b \<Rightarrow> Some b | _ \<Rightarrow> None)"

definition scval_as_i128 :: "scval \<Rightarrow> 128 word option" where
  "scval_as_i128 v =
     (case v of ScvI128 hi lo \<Rightarrow> Some (push_bit 64 (scast hi) OR ucast lo) | _ \<Rightarrow> None)"

definition scval_map_field :: "(bytes \<Rightarrow> bytes) \<Rightarrow> scmap \<Rightarrow> bytes \<Rightarrow> conversion_error + scval" where
  "scval_map_field disp m nm = ok_or (MissingField nm) (scval_field disp m nm)"

definition scval_map_as_map :: "(bytes \<Rightarrow> bytes) \<Rightarrow> scmap \<Rightarrow> bytes \<Rightarrow> conversion_error + scmap" where
  "scval_map_as_map disp m nm = bindE (scval_map_field disp m nm) (\<lambda>v. ok_or (FieldType nm) (scval_as_map v))"

definition scval_map_u64 :: "(bytes \<Rightarrow> bytes) \<Rightarrow> scmap \<Rightarrow> bytes \<Rightarrow> conversion_error + u64" where
  "scval_map_u64 disp m nm = bindE (scval_map_field disp m nm) (\<lambda>v. ok_or (FieldType nm) (scval_as_u64 v))"

definition scval_map_u32 :: "(bytes \<Rightarrow> bytes) \<Rightarrow> scmap \<Rightarrow> bytes \<Rightarrow> conversion_error + u32" where
  "scval_map_u32 disp m nm = bindE (scval_map_field disp m nm) (\<lambda>v. ok_or (FieldType nm) (scval_as_u32 v))"

definition scval_map_string :: "(bytes \<Rightarrow> bytes) \<Rightarrow> scmap \<Rightarrow> bytes \<Rightarrow> conversion_error + bytes" where
  "scval_map_string disp m nm = bindE (scval_map_field disp m nm) (\<lambda>v. ok_or (FieldType nm) (scval_as_string disp v))"

definition scval_map_bytes :: "(bytes \<Rightarrow> bytes) \<Rightarrow> scmap \<Rightarrow> bytes \<Rightarrow> conversion_error + bytes" where
  "scval_map_bytes disp m nm = bindE (scval_map_field disp m nm) (\<lambda>v. ok_or (FieldType nm) (scval_as_bytes v))"

text \<open>\<open>key[key.len() - 9]\<close> is in range: the key has at least ten bytes there.\<close>

definition is_v2_provable_path :: "bytes \<Rightarrow> bool" where
  "is_v2_provable_path key =
     (if length key < 10 then False
      else let discriminator = key ! (length key - 9) in 0x01 \<le> discriminator \<and> discriminator \<le> 0x03)"

definition scval_to_v2_path :: "scval \<Rightarrow> bytes option" where
  "scval_to_v2_path key =
     (case scval_as_bytes key of None \<Rightarrow> None | Some bs \<Rightarrow> if is_v2_provable_path bs then Some bs else None)"

definition first_payload_value :: "(bytes \<Rightarrow> bytes) \<Rightarrow> scval \<Rightarrow> bytes option" where
  "first_payload_value disp packet =
     Option.bind (scval_as_map packet) (\<lambda>m.
     Option.bind (scval_field disp m (asc ''payloads'')) (\<lambda>payloads.
     case payloads of
       ScvVec (Some (first # _)) \<Rightarrow>
         Option.bind (scval_as_map first) (\<lambda>fm.
         Option.bind (scval_field disp fm (asc ''value'')) scval_as_bytes)
     | _ \<Rightarrow> None))"

section \<open>Structures read back\<close>

lemma struct_entries:
  "\<forall>f \<in> set flds. length (fst f) \<le> 32 \<Longrightarrow> mapE struct_entry flds = Inr (map (\<lambda>(k, v). (ScvSymbol k, v)) flds)"
  by (rule mapE_all_Inr) (simp add: struct_entry_def scval_symbol_def split_def)

lemma find_unique: "x \<in> set xs \<Longrightarrow> P x \<Longrightarrow> (\<And>y. y \<in> set xs \<Longrightarrow> P y \<Longrightarrow> y = x) \<Longrightarrow> find P xs = Some x"
  by (induction xs) (simp, metis find.simps(2) list.set_intros set_ConsD)

text \<open>The value of a structure, and its fields by name.\<close>

definition struct_map :: "(bytes \<times> scval) list \<Rightarrow> scmap" where
  "struct_map flds = sort_key (\<lambda>e. symbol_name (fst e)) (map (\<lambda>(k, v). (ScvSymbol k, v)) flds)"

lemma scval_struct_eq:
  assumes "\<forall>f \<in> set flds. length (fst f) \<le> 32" and "length flds \<le> xdr_max"
  shows "scval_struct flds = Inr (ScvMap (Some (struct_map flds)))"
  unfolding scval_struct_def struct_entries [OF assms(1)] using assms(2) by (simp add: Let_def struct_map_def)

lemma struct_map_field:
  assumes "distinct (map fst flds)" and "\<forall>f \<in> set flds. disp (fst f) = fst f" and "(nm, v) \<in> set flds"
  shows "scval_field disp (struct_map flds) nm = Some v"
proof -
  have "find (\<lambda>e. case fst e of ScvSymbol s \<Rightarrow> disp s = nm | _ \<Rightarrow> False) (struct_map flds) = Some (ScvSymbol nm, v)"
  proof (rule find_unique)
    fix y assume "y \<in> set (struct_map flds)" "case fst y of ScvSymbol s \<Rightarrow> disp s = nm | _ \<Rightarrow> False"
    then obtain k w where "y = (ScvSymbol k, w)" "(k, w) \<in> set flds" "disp k = nm" by (auto simp: struct_map_def)
    moreover from this have "k = nm" using assms(2) by auto
    ultimately show "y = (ScvSymbol nm, v)" using eq_key_imp_eq_value [OF assms(1)] assms(3) by auto
  qed (use assms(2, 3) in \<open>auto simp: struct_map_def\<close>)
  then show ?thesis by (simp add: scval_field_def)
qed

text \<open>
  A structure built from fields with distinct names of at most 32 bytes
  holds its entries sorted by name and returns each field under its name, in whatever order they
  were given, where the display form of the names is the names themselves.
\<close>

lemma struct_fields_roundtrip:
  assumes "distinct (map fst flds)" and "\<forall>f \<in> set flds. length (fst f) \<le> 32 \<and> disp (fst f) = fst f"
    and "length flds \<le> xdr_max" and "(nm, v) \<in> set flds"
  shows "\<exists>m. scval_struct flds = Inr (ScvMap (Some m)) \<and> sorted (map (\<lambda>e. symbol_name (fst e)) m)
    \<and> scval_map_field disp m nm = Inr v"
  using assms scval_struct_eq [of flds] struct_map_field [of flds disp nm v]
  by (auto simp: scval_map_field_def struct_map_def)

lemma struct_fields_roundtrip_witness:
  "\<exists>m. scval_height 3 7 = Inr (ScvMap (Some m)) \<and> sorted (map (\<lambda>e. symbol_name (fst e)) m)
     \<and> scval_map_field (\<lambda>x. x) m (asc ''revision_height'') = Inr (ScvU64 7)"
  unfolding scval_height_def
  by (rule struct_fields_roundtrip) (simp_all add: asc_def)

text \<open>The two halves of an \<open>i128\<close>.\<close>

lemma i128_parts: "push_bit 64 (scast hi) OR ucast lo = (word_of_int (sint hi * 2 ^ 64 + uint lo) :: 128 word)"
  for hi :: "64 word" and lo :: u64
proof -
  have "push_bit 64 (scast hi) OR ucast lo = (push_bit 64 (scast hi) + ucast lo :: 128 word)"
    by (rule disjunctive_add [symmetric]) (auto simp: bit_simps dest: bit_imp_le_length)
  then show ?thesis
    by (simp add: push_bit_eq_mult of_int_add of_int_mult)
qed

lemma i128_range:
  "- (2 ^ 63) \<le> a \<Longrightarrow> a < 2 ^ 63 \<Longrightarrow> 0 \<le> b \<Longrightarrow> b < 2 ^ 64 \<Longrightarrow>
     - (2 ^ 127) \<le> a * 2 ^ 64 + b \<and> a * 2 ^ 64 + b < 2 ^ 127" for a b :: int
  by simp

lemma scval_as_i128_value: "scval_as_i128 (ScvI128 hi lo) = Some w \<Longrightarrow> sint w = sint hi * 2 ^ 64 + uint lo"
proof -
  have "- (2 ^ 63) \<le> sint hi" "sint hi < 2 ^ 63" "0 \<le> uint lo" "uint lo < 2 ^ 64"
    using sint_ge [of hi] sint_lt [of hi] uint_lt2p [of lo] by simp_all
  then have "signed_take_bit 127 (sint hi * 2 ^ 64 + uint lo) = sint hi * 2 ^ 64 + uint lo"
    using i128_range by (intro signed_take_bit_int_eq_self) blast+
  then show "scval_as_i128 (ScvI128 hi lo) = Some w \<Longrightarrow> ?thesis"
    unfolding scval_as_i128_def i128_parts scval.case option.inject
    using sint_sbintrunc' [of "sint hi * 2 ^ 64 + uint lo", where 'a = 128] by fastforce
qed

end
