(* ===== verification/Core_State.thy ===== *)
theory Core_State
  imports Core_Conversion Wasm_Merkle
begin

text \<open>
  The gateway's view of the router's storage, \<open>crates/core/src/ibc/state.rs\<close>: it replays the ledgers'
  entry changes into the sparse Merkle tree and serves roots and proofs. The ledger source (the
  client of the API service) is the parameter \<open>get_ledger\<close>, which may fail, the XDR decoder of the
  ledger metadata the parameter \<open>dec_meta\<close>. The operations return the state beside the result, since an error
  in the middle of a replay keeps what was applied before it.
\<close>

section \<open>Ledger metadata\<close>

datatype ledger_entry_change =
    Created ledger_entry_data
  | Updated ledger_entry_data
  | Removed ledger_key
  | OtherChange

text \<open>A transaction's metadata: the changes of its operations, and around them in the later versions.\<close>

datatype transaction_meta =
    TxMetaV0 "ledger_entry_change list list"
  | TxMetaV1 "ledger_entry_change list" "ledger_entry_change list list"
  | TxMetaV2 "ledger_entry_change list" "ledger_entry_change list list" "ledger_entry_change list"
  | TxMetaV3 "ledger_entry_change list" "ledger_entry_change list list" "ledger_entry_change list"
  | TxMetaV4 "ledger_entry_change list" "ledger_entry_change list list" "ledger_entry_change list"

datatype ledger_close_meta =
    CloseMetaV0 "transaction_meta list"
  | CloseMetaV1 "transaction_meta list"
  | CloseMetaV2 "transaction_meta list"

fun collect_tx_changes :: "transaction_meta \<Rightarrow> ledger_entry_change list \<Rightarrow> ledger_entry_change list" where
  "collect_tx_changes (TxMetaV0 operations) out = out @ concat operations"
| "collect_tx_changes (TxMetaV1 tx_changes operations) out = out @ tx_changes @ concat operations"
| "collect_tx_changes (TxMetaV2 before operations after) out = out @ before @ concat operations @ after"
| "collect_tx_changes (TxMetaV3 before operations after) out = out @ before @ concat operations @ after"
| "collect_tx_changes (TxMetaV4 before operations after) out = out @ before @ concat operations @ after"

fun ledger_changes :: "ledger_close_meta \<Rightarrow> ledger_entry_change list" where
  "ledger_changes (CloseMetaV0 txs) = fold collect_tx_changes txs []"
| "ledger_changes (CloseMetaV1 txs) = fold collect_tx_changes txs []"
| "ledger_changes (CloseMetaV2 txs) = fold collect_tx_changes txs []"

section \<open>State\<close>

record gateway_state =
  gs_roots :: "u32 \<rightharpoonup> bytes"
  gs_ibc_contract_id :: "bytes option"
  gs_smt :: smt
  gs_last_processed :: "u32 option"

datatype gateway_error = ApiError | MetaDecodeError | NonMembershipUnavailable

datatype path_lookup = Found bytes bytes | Absent bytes

text \<open>The field of an API ledger the tracker reads; the metadata may be missing.\<close>

type_synonym ledger_source = "u32 \<Rightarrow> bytes option option"
type_synonym meta_decoder = "bytes \<Rightarrow> ledger_close_meta option"

definition state_new :: "bytes option \<Rightarrow> gateway_state" where
  "state_new ibc_contract_id =
     \<lparr>gs_roots = Map.empty, gs_ibc_contract_id = ibc_contract_id, gs_smt = smt_new, gs_last_processed = None\<rparr>"

definition state_key_index :: "(bytes \<Rightarrow> bytes) \<Rightarrow> bytes \<Rightarrow> u64" where
  "state_key_index sha key = (let h = sha key in from_be_bytes (take 8 h))"

definition state_matches :: "sc_address \<Rightarrow> gateway_state \<Rightarrow> bool" where
  "state_matches addr s =
     (case addr of
        ScAddressOther _ \<Rightarrow> False
      | ScContract hash \<Rightarrow> (case gs_ibc_contract_id s of None \<Rightarrow> True | Some i \<Rightarrow> hash = i))"

definition apply_contract_data_write ::
  "(bytes \<Rightarrow> bytes) \<Rightarrow> ledger_entry_data \<Rightarrow> bool \<Rightarrow> gateway_state \<Rightarrow> gateway_state \<times> bool" where
  "apply_contract_data_write sha dat is_update s =
     (case dat of
        EntryOther _ \<Rightarrow> (s, False)
      | ContractData d \<Rightarrow>
          if \<not> state_matches (cda_contract d) s then (s, False)
          else case scval_to_v2_path (cda_key d) of
            None \<Rightarrow> (s, False)
          | Some path \<Rightarrow>
              case scval_as_bytes (cda_val d) of
                None \<Rightarrow> (s, False)
              | Some v \<Rightarrow>
                  (s\<lparr>gs_smt := if is_update then smt_update sha path v (gs_smt s) else smt_insert sha path v (gs_smt s)\<rparr>,
                   True))"

definition apply_change :: "(bytes \<Rightarrow> bytes) \<Rightarrow> ledger_entry_change \<Rightarrow> gateway_state \<Rightarrow> gateway_state \<times> bool" where
  "apply_change sha change s =
     (case change of
        Created e \<Rightarrow> apply_contract_data_write sha e False s
      | Updated e \<Rightarrow> apply_contract_data_write sha e True s
      | Removed (KeyContractData contract key _) \<Rightarrow>
          if \<not> state_matches contract s then (s, False)
          else (case scval_to_v2_path key of
                  None \<Rightarrow> (s, False)
                | Some path \<Rightarrow> (s\<lparr>gs_smt := smt_remove sha path (gs_smt s)\<rparr>, True))
      | _ \<Rightarrow> (s, False))"

text \<open>Only the log messages use the number of changes applied, which is left out.\<close>

definition apply_ledger ::
  "(bytes \<Rightarrow> bytes) \<Rightarrow> meta_decoder \<Rightarrow> ledger_source \<Rightarrow> u32 \<Rightarrow> gateway_state \<Rightarrow> gateway_state \<times> (gateway_error + unit)" where
  "apply_ledger sha dec_meta get_ledger seq s =
     (case get_ledger seq of
        None \<Rightarrow> (s, Inl ApiError)
      | Some metadata_xdr \<Rightarrow>
          case metadata_xdr of
            None \<Rightarrow> (s, Inr ())
          | Some meta_xdr \<Rightarrow>
              case dec_meta meta_xdr of
                None \<Rightarrow> (s, Inl MetaDecodeError)
              | Some meta \<Rightarrow> (fold (\<lambda>change s. fst (apply_change sha change s)) (ledger_changes meta) s, Inr ()))"

fun apply_ledgers ::
  "(bytes \<Rightarrow> bytes) \<Rightarrow> meta_decoder \<Rightarrow> ledger_source \<Rightarrow> u32 list \<Rightarrow> gateway_state \<Rightarrow>
   gateway_state \<times> (gateway_error + unit)" where
  "apply_ledgers sha dec_meta get_ledger [] s = (s, Inr ())"
| "apply_ledgers sha dec_meta get_ledger (seq # seqs) s =
     (case apply_ledger sha dec_meta get_ledger seq s of
        (s, Inl e) \<Rightarrow> (s, Inl e)
      | (s, Inr _) \<Rightarrow> apply_ledgers sha dec_meta get_ledger seqs s)"

text \<open>The inclusive range \<open>start..=seq\<close> of \<open>u32\<close>.\<close>

definition ledger_range :: "u32 \<Rightarrow> u32 \<Rightarrow> u32 list" where
  "ledger_range start seq = map of_nat [unat start ..< Suc (unat seq)]"

definition process_through ::
  "(bytes \<Rightarrow> bytes) \<Rightarrow> meta_decoder \<Rightarrow> ledger_source \<Rightarrow> u32 \<Rightarrow> gateway_state \<Rightarrow> gateway_state \<times> (gateway_error + bytes)" where
  "process_through sha dec_meta get_ledger seq s =
     (if (case gs_last_processed s of Some prev \<Rightarrow> prev \<ge> seq | None \<Rightarrow> False)
      then let root = smt_root sha (gs_smt s) in (s\<lparr>gs_roots := (gs_roots s)(seq \<mapsto> root)\<rparr>, Inr root)
      else let start = (case gs_last_processed s of Some prev \<Rightarrow> prev + 1 | None \<Rightarrow> seq) in
        case apply_ledgers sha dec_meta get_ledger (ledger_range start seq) s of
          (s, Inl e) \<Rightarrow> (s, Inl e)
        | (s, Inr _) \<Rightarrow>
            let s = s\<lparr>gs_last_processed := Some seq\<rparr>;
                root = smt_root sha (gs_smt s) in
            (s\<lparr>gs_roots := (gs_roots s)(seq \<mapsto> root)\<rparr>, Inr root))"

definition root_at ::
  "(bytes \<Rightarrow> bytes) \<Rightarrow> meta_decoder \<Rightarrow> ledger_source \<Rightarrow> u32 \<Rightarrow> gateway_state \<Rightarrow> gateway_state \<times> (gateway_error + bytes)" where
  "root_at sha dec_meta get_ledger seq s =
     (case gs_roots s seq of
        Some root \<Rightarrow> (s, Inr root)
      | None \<Rightarrow> process_through sha dec_meta get_ledger seq s)"

definition proof_for_path ::
  "(bytes \<Rightarrow> bytes) \<Rightarrow> (merkle_proof \<Rightarrow> bytes) \<Rightarrow> meta_decoder \<Rightarrow> ledger_source \<Rightarrow> u32 \<Rightarrow> bytes \<Rightarrow> gateway_state \<Rightarrow>
   gateway_state \<times> (gateway_error + path_lookup)" where
  "proof_for_path sha enc dec_meta get_ledger seq key s =
     (case root_at sha dec_meta get_ledger seq s of
        (s, Inl e) \<Rightarrow> (s, Inl e)
      | (s, Inr _) \<Rightarrow>
          let index = state_key_index sha key in
          case generate_membership_proof sha key (gs_smt s) of
            Some p \<Rightarrow>
              let value_hash = mp_value_hash p in
              (s, Inr (Found value_hash (serialize_membership_proof_with_index enc p key value_hash index)))
          | None \<Rightarrow>
              (case generate_non_membership_proof sha key (gs_smt s) of
                 None \<Rightarrow> (s, Inl NonMembershipUnavailable)
               | Some p \<Rightarrow> (s, Inr (Absent (serialize_non_membership_proof_with_index enc p key index)))))"

section \<open>A replay is a sequence of tree changes\<close>

text \<open>What a ledger change means for the tree: nothing, a write or a deletion.\<close>

definition written_path :: "bytes option \<Rightarrow> sc_address \<Rightarrow> scval \<Rightarrow> bytes option" where
  "written_path cid addr key =
     (case addr of
        ScAddressOther _ \<Rightarrow> None
      | ScContract hash \<Rightarrow> if cid = None \<or> cid = Some hash then scval_to_v2_path key else None)"

fun ibc_change :: "bytes option \<Rightarrow> ledger_entry_change \<Rightarrow> (bytes \<times> bytes option) option" where
  "ibc_change cid (Created (ContractData d)) =
     (case (written_path cid (cda_contract d) (cda_key d), scval_as_bytes (cda_val d)) of
        (Some p, Some v) \<Rightarrow> Some (p, Some v) | _ \<Rightarrow> None)"
| "ibc_change cid (Updated (ContractData d)) =
     (case (written_path cid (cda_contract d) (cda_key d), scval_as_bytes (cda_val d)) of
        (Some p, Some v) \<Rightarrow> Some (p, Some v) | _ \<Rightarrow> None)"
| "ibc_change cid (Removed (KeyContractData contract key _)) =
     (case written_path cid contract key of Some p \<Rightarrow> Some (p, None) | None \<Rightarrow> None)"
| "ibc_change cid _ = None"

lemma state_matches_path:
  "(if state_matches addr s then scval_to_v2_path key else None) = written_path (gs_ibc_contract_id s) addr key"
  by (auto simp: state_matches_def written_path_def split: sc_address.splits option.splits)

lemma apply_change_spec:
  "fst (apply_change sha ch s) =
     (case ibc_change (gs_ibc_contract_id s) ch of
        None \<Rightarrow> s | Some w \<Rightarrow> s\<lparr>gs_smt := smt_store.change sha w (gs_smt s)\<rparr>)"
  by (cases "(gs_ibc_contract_id s, ch)" rule: ibc_change.cases)
     (auto simp: apply_change_def apply_contract_data_write_def state_matches_path [symmetric] smt_store.change_def
        smt_update_def split: option.splits)

definition ibc_changes :: "bytes option \<Rightarrow> ledger_entry_change list \<Rightarrow> (bytes \<times> bytes option) list" where
  "ibc_changes cid chs = List.map_filter (ibc_change cid) chs"

lemma apply_changes_spec:
  "fold (\<lambda>ch s. fst (apply_change sha ch s)) chs s =
     s\<lparr>gs_smt := fold (smt_store.change sha) (ibc_changes (gs_ibc_contract_id s) chs) (gs_smt s)\<rparr>"
  by (induction chs arbitrary: s)
     (auto simp: apply_change_spec ibc_changes_def map_filter_simps split: option.splits)

text \<open>The changes of one ledger, when its source and decoder succeed.\<close>

definition ledger_writes ::
  "bytes option \<Rightarrow> meta_decoder \<Rightarrow> ledger_source \<Rightarrow> u32 \<Rightarrow> (bytes \<times> bytes option) list option" where
  "ledger_writes cid dec_meta get_ledger seq =
     (case get_ledger seq of
        None \<Rightarrow> None
      | Some None \<Rightarrow> Some []
      | Some (Some x) \<Rightarrow> map_option (\<lambda>meta. ibc_changes cid (ledger_changes meta)) (dec_meta x))"

lemma apply_ledger_spec:
  "apply_ledger sha dec_meta get_ledger seq s =
     (case ledger_writes (gs_ibc_contract_id s) dec_meta get_ledger seq of
        None \<Rightarrow> (s, Inl (if get_ledger seq = None then ApiError else MetaDecodeError))
      | Some ws \<Rightarrow> (s\<lparr>gs_smt := fold (smt_store.change sha) ws (gs_smt s)\<rparr>, Inr ()))"
  by (auto simp: apply_ledger_def ledger_writes_def apply_changes_spec split: option.splits)

end
