(* ===== verification/Core_State_Properties.thy ===== *)
theory Core_State_Properties
  imports Core_State
begin

text \<open>
  What the gateway's replay guarantees: roots follow the ledgers as long as heights are asked for in
  order, and a replay interrupted by failures of the ledger source converges to the same tree once
  it succeeds.
\<close>

section \<open>Trees up to the order of their leaves\<close>

abbreviation leaf_map :: "smt \<Rightarrow> u64 \<rightharpoonup> bytes \<times> bytes" where
  "leaf_map t \<equiv> map_of (smt_leaves t)"

definition change_leaf :: "(bytes \<Rightarrow> bytes) \<Rightarrow> bytes \<times> bytes option \<Rightarrow> (bytes \<times> bytes) option" where
  "change_leaf sha w = (case snd w of None \<Rightarrow> None | Some v \<Rightarrow> if v = [] then None else Some (sha (fst w), sha v))"

lemma leaf_map_change:
  "leaf_map (smt_store.change sha w t) = (leaf_map t)(key_index sha (fst w) := change_leaf sha w)"
  by (cases w) (auto simp: smt_store.change_def change_leaf_def smt_insert_def smt_remove_def Let_def
      AList.update_conv' AList.delete_conv' key_index_def smt_sha256_def split: option.splits)

lemma leaf_map_root: "leaf_map t = leaf_map t' \<Longrightarrow> smt_root sha t = smt_root sha t'"
  unfolding smt_root_reference by (simp add: leaf_value_def [abs_def])

text \<open>Trees that differ only in slots a sequence of changes overwrites become equal.\<close>

lemma changes_overwrite:
  assumes "\<And>i. i \<notin> key_index sha ` fst ` set ws \<Longrightarrow> leaf_map t i = leaf_map t' i"
  shows "leaf_map (fold (smt_store.change sha) ws t) = leaf_map (fold (smt_store.change sha) ws t')"
  using assms
proof (induction ws arbitrary: t t')
  case (Cons w ws)
  have "leaf_map (smt_store.change sha w t) i = leaf_map (smt_store.change sha w t') i"
    if "i \<notin> key_index sha ` fst ` set ws" for i
    using that Cons.prems [of i] by (simp add: leaf_map_change)
  from Cons.IH [OF this] show ?case by simp
qed (simp add: fun_eq_iff)

lemma changes_untouched:
  "i \<notin> key_index sha ` fst ` set ws \<Longrightarrow> leaf_map (fold (smt_store.change sha) ws t) i = leaf_map t i"
  by (induction ws arbitrary: t) (auto simp: leaf_map_change)

section \<open>Replaying a range of ledgers\<close>

text \<open>All changes of some ledgers, if all can be read.\<close>

fun writes_of ::
  "bytes option \<Rightarrow> meta_decoder \<Rightarrow> ledger_source \<Rightarrow> u32 list \<Rightarrow> (bytes \<times> bytes option) list option" where
  "writes_of cid dec g [] = Some []"
| "writes_of cid dec g (h # hs) =
     (case ledger_writes cid dec g h of
        None \<Rightarrow> None
      | Some ws \<Rightarrow> map_option (\<lambda>ws'. ws @ ws') (writes_of cid dec g hs))"

text \<open>The ledgers read before the first that fails.\<close>

fun readable :: "bytes option \<Rightarrow> meta_decoder \<Rightarrow> ledger_source \<Rightarrow> u32 list \<Rightarrow> u32 list" where
  "readable cid dec g [] = []"
| "readable cid dec g (h # hs) = (if ledger_writes cid dec g h = None then [] else h # readable cid dec g hs)"

abbreviation with_changes :: "(bytes \<Rightarrow> bytes) \<Rightarrow> (bytes \<times> bytes option) list \<Rightarrow> gateway_state \<Rightarrow> gateway_state" where
  "with_changes sha ws s \<equiv> s\<lparr>gs_smt := fold (smt_store.change sha) ws (gs_smt s)\<rparr>"

lemma apply_ledgers_ok:
  "writes_of (gs_ibc_contract_id s) dec g hs = Some ws \<Longrightarrow>
     apply_ledgers sha dec g hs s = (with_changes sha ws s, Inr ())"
  by (induction hs arbitrary: s ws) (auto simp: apply_ledger_spec split: option.splits)

lemma apply_ledgers_fails:
  "writes_of (gs_ibc_contract_id s) dec g hs = None \<Longrightarrow>
     \<exists>e ws. writes_of (gs_ibc_contract_id s) dec g (readable (gs_ibc_contract_id s) dec g hs) = Some ws
          \<and> apply_ledgers sha dec g hs s = (with_changes sha ws s, Inl e)"
proof (induction hs arbitrary: s)
  case (Cons h hs)
  show ?case
  proof (cases "ledger_writes (gs_ibc_contract_id s) dec g h")
    case None
    then show ?thesis by (simp add: apply_ledger_spec)
  next
    case (Some ws)
    with Cons.prems have "writes_of (gs_ibc_contract_id s) dec g hs = None" by (simp split: option.splits)
    with Cons.IH [of "with_changes sha ws s"] Some show ?thesis by (auto simp: apply_ledger_spec)
  qed
qed simp

lemma readable_subset: "set (readable cid dec g hs) \<subseteq> set hs"
  by (induction hs) auto

text \<open>A source that answers more gives the same changes where both answer.\<close>

lemma ledger_writes_mono: "g \<subseteq>\<^sub>m g' \<Longrightarrow> ledger_writes cid dec g h = Some ws \<Longrightarrow> ledger_writes cid dec g' h = Some ws"
  by (auto simp: ledger_writes_def map_le_def dom_def split: option.splits)

lemma writes_touch:
  "writes_of cid dec g hs = Some ws \<Longrightarrow> g \<subseteq>\<^sub>m g' \<Longrightarrow> set hs \<subseteq> set hs' \<Longrightarrow> writes_of cid dec g' hs' = Some ws' \<Longrightarrow>
     set ws \<subseteq> set ws'"
proof (induction hs arbitrary: ws)
  case (Cons h hs)
  then obtain w1 w2 where w: "ledger_writes cid dec g h = Some w1" "writes_of cid dec g hs = Some w2" "ws = w1 @ w2"
    by (auto split: option.splits)
  have "ledger_writes cid dec g' h = Some x \<Longrightarrow> h \<in> set hs' \<Longrightarrow> writes_of cid dec g' hs' = Some ws' \<Longrightarrow> set x \<subseteq> set ws'" for x
    by (induction hs' arbitrary: ws') (auto split: option.splits)
  with Cons.prems w ledger_writes_mono [OF _ w(1)] have "set w1 \<subseteq> set ws'" by auto
  with Cons.IH [OF w(2)] Cons.prems w(3) show ?case by auto
qed simp

section \<open>One replay\<close>

definition replay_start :: "gateway_state \<Rightarrow> u32 \<Rightarrow> u32" where
  "replay_start s seq = (case gs_last_processed s of Some prev \<Rightarrow> prev + 1 | None \<Rightarrow> seq)"

abbreviation behind :: "gateway_state \<Rightarrow> u32 \<Rightarrow> bool" where
  "behind s seq \<equiv> \<not> (case gs_last_processed s of Some prev \<Rightarrow> prev \<ge> seq | None \<Rightarrow> False)"

lemma process_through_ok:
  assumes "behind s seq" and "writes_of (gs_ibc_contract_id s) dec g (ledger_range (replay_start s seq) seq) = Some ws"
  shows "process_through sha dec g seq s =
    (let t = fold (smt_store.change sha) ws (gs_smt s); root = smt_root sha t in
     (s\<lparr>gs_smt := t, gs_last_processed := Some seq, gs_roots := (gs_roots s)(seq \<mapsto> root)\<rparr>, Inr root))"
  using assms apply_ledgers_ok [OF assms(2)]
  by (simp add: process_through_def replay_start_def Let_def split del: if_split)

lemma process_through_fails:
  assumes "process_through sha dec g seq s = (s', Inl e)"
  shows "\<exists>ws. s' = with_changes sha ws s \<and> behind s seq
    \<and> writes_of (gs_ibc_contract_id s) dec g (ledger_range (replay_start s seq) seq) = None
    \<and> writes_of (gs_ibc_contract_id s) dec g
        (readable (gs_ibc_contract_id s) dec g (ledger_range (replay_start s seq) seq)) = Some ws"
proof -
  let ?hs = "ledger_range (replay_start s seq) seq"
  have b: "behind s seq" using assms by (auto simp: process_through_def Let_def split: if_splits)
  with assms process_through_ok [where s = s and seq = seq and dec = dec and g = g and sha = sha]
  have n: "writes_of (gs_ibc_contract_id s) dec g ?hs = None"
    by (cases "writes_of (gs_ibc_contract_id s) dec g ?hs") (auto simp: Let_def)
  from apply_ledgers_fails [OF n] obtain e' ws where
    "writes_of (gs_ibc_contract_id s) dec g (readable (gs_ibc_contract_id s) dec g ?hs) = Some ws"
    "apply_ledgers sha dec g ?hs s = (with_changes sha ws s, Inl e')" by blast
  with b n assms show ?thesis by (auto simp: process_through_def replay_start_def Let_def split del: if_split)
qed

lemma process_through_success:
  "process_through sha dec g seq s = (s', Inr r) \<Longrightarrow> behind s seq \<Longrightarrow>
     \<exists>ws. writes_of (gs_ibc_contract_id s) dec g (ledger_range (replay_start s seq) seq) = Some ws"
  using apply_ledgers_fails [of s dec g "ledger_range (replay_start s seq) seq" sha]
  by (cases "writes_of (gs_ibc_contract_id s) dec g (ledger_range (replay_start s seq) seq)")
     (auto simp: process_through_def replay_start_def Let_def split del: if_split)

section \<open>Interrupted replays\<close>

lemma ledger_range_subset: "h \<le> h' \<Longrightarrow> set (ledger_range a h) \<subseteq> set (ledger_range a h')"
  by (auto simp: ledger_range_def word_le_nat_alt)

lemma failed_try_touches:
  assumes "writes_of cid dec g (ledger_range (replay_start s h) h) = None"
    and "writes_of cid dec g (readable cid dec g (ledger_range (replay_start s h) h)) = Some ws"
    and "g \<subseteq>\<^sub>m g'" "h \<le> h'" and w': "writes_of cid dec g' (ledger_range (replay_start s h') h') = Some ws'"
  shows "set ws \<subseteq> set ws'"
proof (cases "gs_last_processed s")
  case None
  then have "ledger_range (replay_start s h) h = [h]" by (simp add: replay_start_def ledger_range_def)
  with assms(1, 2) show ?thesis by (auto split: option.splits)
next
  case (Some prev)
  then have "set (ledger_range (replay_start s h) h) \<subseteq> set (ledger_range (replay_start s h') h')"
    using ledger_range_subset [OF assms(4)] by (simp add: replay_start_def)
  then show ?thesis
    by (intro writes_touch [OF assms(2, 3) _ w'] order_trans [OF readable_subset])
qed

text \<open>Attempts to process up to a height, each with the source as it was then, that all fail.\<close>

fun failed_tries ::
  "(bytes \<Rightarrow> bytes) \<Rightarrow> meta_decoder \<Rightarrow> (ledger_source \<times> u32) list \<Rightarrow> gateway_state \<Rightarrow> gateway_state option" where
  "failed_tries sha dec [] s = Some s"
| "failed_tries sha dec ((g, h) # tries) s =
     (case process_through sha dec g h s of
        (s, Inl _) \<Rightarrow> failed_tries sha dec tries s
      | (s, Inr _) \<Rightarrow> None)"

lemma failed_tries_frame: "failed_tries sha dec tries s = Some s1 \<Longrightarrow> \<exists>t. s1 = s\<lparr>gs_smt := t\<rparr>"
proof (induction tries arbitrary: s)
  case Nil
  then show ?case by (intro exI [of _ "gs_smt s"]) simp
next
  case (Cons a tries)
  then obtain g h s' e where "process_through sha dec g h s = (s', Inl e)" "failed_tries sha dec tries s' = Some s1"
    by (cases a) (auto split: prod.splits sum.splits)
  with process_through_fails Cons.IH show ?case by fastforce
qed

lemma failed_tries_behind:
  "failed_tries sha dec tries s = Some s1 \<Longrightarrow> \<forall>(g, h) \<in> set tries. h \<le> h' \<Longrightarrow> tries \<noteq> [] \<Longrightarrow> behind s h'"
  by (cases tries) (auto split: prod.splits sum.splits option.splits dest!: process_through_fails)

lemma failed_tries_state:
  assumes "failed_tries sha dec tries s = Some s1"
    and "\<forall>(g, h) \<in> set tries. g \<subseteq>\<^sub>m g' \<and> h \<le> h'"
    and "writes_of (gs_ibc_contract_id s) dec g' (ledger_range (replay_start s h') h') = Some ws'"
  shows "\<exists>t. s1 = s\<lparr>gs_smt := t\<rparr> \<and> (\<forall>i. i \<notin> key_index sha ` fst ` set ws' \<longrightarrow> leaf_map t i = leaf_map (gs_smt s) i)"
  using assms
proof (induction tries arbitrary: s)
  case Nil
  then show ?case by (intro exI [of _ "gs_smt s"]) simp
next
  case (Cons a tries)
  obtain g h where a: "a = (g, h)" by (cases a)
  with Cons.prems(1) obtain s' e where att: "process_through sha dec g h s = (s', Inl e)"
    and rest: "failed_tries sha dec tries s' = Some s1" by (auto split: prod.splits sum.splits)
  from process_through_fails [OF att] obtain ws where s': "s' = with_changes sha ws s"
    and fails: "writes_of (gs_ibc_contract_id s) dec g (ledger_range (replay_start s h) h) = None"
      "writes_of (gs_ibc_contract_id s) dec g (readable (gs_ibc_contract_id s) dec g (ledger_range (replay_start s h) h)) = Some ws"
    by blast
  have "set ws \<subseteq> set ws'"
    using Cons.prems(2) a by (intro failed_try_touches [OF fails _ _ Cons.prems(3)]) auto
  with s' have touch: "leaf_map (gs_smt s') i = leaf_map (gs_smt s) i" if "i \<notin> key_index sha ` fst ` set ws'" for i
  proof -
    have "i \<notin> key_index sha ` fst ` set ws" using that \<open>set ws \<subseteq> set ws'\<close> by (meson image_mono subsetD)
    then show ?thesis using s' by (simp add: changes_untouched)
  qed
  have "replay_start s' h' = replay_start s h'" by (simp add: s' replay_start_def)
  with Cons.IH [OF rest] Cons.prems s' obtain t where "s1 = s'\<lparr>gs_smt := t\<rparr>"
    "\<forall>i. i \<notin> key_index sha ` fst ` set ws' \<longrightarrow> leaf_map t i = leaf_map (gs_smt s') i" by auto
  with touch s' show ?case by (intro exI [of _ t]) auto
qed


text \<open>A ledger that creates one packet commitment of the router, for the witnesses.\<close>

definition sample_path :: bytes where
  "sample_path = asc ''client-0'' @ [0x01] @ to_be_bytes 1"

definition sample_dec_meta :: meta_decoder where
  "sample_dec_meta x =
     Some (CloseMetaV2 [TxMetaV4 [] [[Created (ContractData
       \<lparr>cda_contract = ScContract [7], cda_key = ScvBytes sample_path, cda_val = ScvBytes x\<rparr>)]] []])"

text \<open>Ledgers 5 to 7 exist, ledger 6 without changes; one source stops after ledger 5.\<close>

definition sample_source :: ledger_source where
  "sample_source h = (if h = 6 then Some None else if h = 5 \<or> h = 7 then Some (Some [ucast h]) else None)"

definition sample_short_source :: ledger_source where
  "sample_short_source h = (if h = 5 then Some (Some [5]) else None)"

lemma sample_path_ok [simp]: "is_v2_provable_path sample_path"
  by code_simp

lemma sample_writes:
  "ledger_writes None sample_dec_meta g h =
     (case g h of None \<Rightarrow> None | Some None \<Rightarrow> Some [] | Some (Some x) \<Rightarrow> Some [(sample_path, Some x)])"
  by (auto simp: ledger_writes_def sample_dec_meta_def ibc_changes_def map_filter_simps written_path_def
      scval_to_v2_path_def scval_as_bytes_def split: option.splits)


section \<open>Roots in order\<close>

lemma writes_of_append:
  "writes_of cid dec g (xs @ ys) =
     (case writes_of cid dec g xs of None \<Rightarrow> None | Some ws \<Rightarrow> map_option (\<lambda>ws'. ws @ ws') (writes_of cid dec g ys))"
  by (induction xs) (auto split: option.splits simp: option.map_comp comp_def option.map_ident;
      cases "writes_of cid dec g ys"; simp)+

lemma ledger_range_append:
  "a \<le> l \<Longrightarrow> l < h \<Longrightarrow> ledger_range a h = ledger_range a l @ ledger_range (l + 1) h"
proof -
  assume "a \<le> l" "l < h"
  moreover have "unat h < 2 ^ 32" using unsigned_less [of h] by simp
  ultimately have "unat a \<le> Suc (unat l)" "Suc (unat l) \<le> Suc (unat h)" "Suc (unat l) < 2 ^ 32"
    by (simp_all add: word_le_nat_alt word_less_nat_alt)
  moreover from this(3) have "unat (l + 1) = Suc (unat l)"
    by (simp add: unat_word_ariths)
  ultimately show ?thesis
    unfolding ledger_range_def map_append [symmetric] by (metis le_add_diff_inverse upt_add_eq_append)
qed

text \<open>The tree after the ledgers \<open>a\<close> to \<open>b\<close>, starting from the empty tree.\<close>

definition history_tree ::
  "(bytes \<Rightarrow> bytes) \<Rightarrow> bytes option \<Rightarrow> meta_decoder \<Rightarrow> ledger_source \<Rightarrow> u32 \<Rightarrow> u32 \<Rightarrow> smt" where
  "history_tree sha cid dec g a b = fold (smt_store.change sha) (the (writes_of cid dec g (ledger_range a b))) smt_new"

text \<open>The roots for heights asked for one after the other.\<close>

fun roots_for ::
  "(bytes \<Rightarrow> bytes) \<Rightarrow> meta_decoder \<Rightarrow> ledger_source \<Rightarrow> u32 list \<Rightarrow> gateway_state \<Rightarrow> (gateway_error + bytes) list" where
  "roots_for sha dec g [] s = []"
| "roots_for sha dec g (h # hs) s = (case root_at sha dec g h s of (s', r) \<Rightarrow> r # roots_for sha dec g hs s')"

definition tracks ::
  "(bytes \<Rightarrow> bytes) \<Rightarrow> bytes option \<Rightarrow> meta_decoder \<Rightarrow> ledger_source \<Rightarrow> u32 \<Rightarrow> u32 \<Rightarrow> gateway_state \<Rightarrow> bool" where
  "tracks sha cid dec g a l s \<longleftrightarrow>
     gs_ibc_contract_id s = cid \<and> gs_last_processed s = Some l \<and> a \<le> l \<and> gs_smt s = history_tree sha cid dec g a l
     \<and> (\<forall>h r. gs_roots s h = Some r \<longrightarrow> h \<le> l \<and> r = smt_root sha (history_tree sha cid dec g a h))
     \<and> gs_roots s l \<noteq> None"

lemma root_at_tracks:
  assumes tr: "tracks sha cid dec g a l s" and "l \<le> h" and w: "writes_of cid dec g (ledger_range a h) \<noteq> None"
  shows "\<exists>s'. root_at sha dec g h s = (s', Inr (smt_root sha (history_tree sha cid dec g a h))) \<and> tracks sha cid dec g a h s'"
proof (cases "gs_roots s h")
  case (Some r)
  with tr have "h \<le> l" "r = smt_root sha (history_tree sha cid dec g a h)" by (auto simp: tracks_def)
  moreover from this \<open>l \<le> h\<close> have "h = l" by simp
  ultimately show ?thesis using Some tr by (auto simp: root_at_def)
next
  case None
  with tr have "h \<noteq> l" by (auto simp: tracks_def)
  with \<open>l \<le> h\<close> have lh: "l < h" by simp
  have a: "a \<le> l" using tr by (simp add: tracks_def)
  from w obtain w1 w2 where w12: "writes_of cid dec g (ledger_range a l) = Some w1"
    "writes_of cid dec g (ledger_range (l + 1) h) = Some w2"
    by (auto simp: ledger_range_append [OF a lh] writes_of_append split: option.splits)
  then have tree: "history_tree sha cid dec g a h = fold (smt_store.change sha) w2 (history_tree sha cid dec g a l)"
    by (simp add: history_tree_def ledger_range_append [OF a lh] writes_of_append)
  have "process_through sha dec g h s =
    (let t = history_tree sha cid dec g a h; root = smt_root sha t in
     (s\<lparr>gs_smt := t, gs_last_processed := Some h, gs_roots := (gs_roots s)(h \<mapsto> root)\<rparr>, Inr root))"
    using process_through_ok [where s = s and seq = h and dec = dec and g = g and ws = w2 and sha = sha] tr lh w12 by (simp add: tracks_def tree replay_start_def)
  with tr lh a show ?thesis
    by (fastforce simp: root_at_def None Let_def tracks_def intro: order_trans [of _ l h])
qed

lemma writes_of_prefix:
  "a \<le> l \<Longrightarrow> l \<le> h \<Longrightarrow> writes_of cid dec g (ledger_range a h) \<noteq> None \<Longrightarrow> writes_of cid dec g (ledger_range a l) \<noteq> None"
  by (cases "l = h") (auto simp: ledger_range_append [of a l h] writes_of_append split: option.splits)

lemma roots_for_tracks:
  "tracks sha cid dec g a l s \<Longrightarrow> sorted (l # hs) \<Longrightarrow> \<forall>h \<in> set hs. writes_of cid dec g (ledger_range a h) \<noteq> None \<Longrightarrow>
     roots_for sha dec g hs s = map (\<lambda>h. Inr (smt_root sha (history_tree sha cid dec g a h))) hs"
proof (induction hs arbitrary: l s)
  case (Cons h hs)
  with root_at_tracks [OF Cons.prems(1), of h] obtain s' where
    "root_at sha dec g h s = (s', Inr (smt_root sha (history_tree sha cid dec g a h)))" "tracks sha cid dec g a h s'"
    by auto
  with Cons show ?case by auto
qed simp

lemma root_at_fresh:
  assumes "writes_of cid dec g (ledger_range a a) = Some ws"
  shows "\<exists>s. root_at sha dec g a (state_new cid) = (s, Inr (smt_root sha (history_tree sha cid dec g a a)))
    \<and> tracks sha cid dec g a a s"
  using process_through_ok [where s = "state_new cid" and seq = a and dec = dec and g = g and ws = ws and sha = sha] assms
  by (auto simp: root_at_def state_new_def replay_start_def Let_def tracks_def history_tree_def)

text \<open>
  C17 (roots follow the ledgers). Asked for the roots at heights in ascending order while every ledger
  from the first height on can be read, the gateway answers each with the root of the tree that
  results from exactly the router's storage changes in the ledgers from the first height up to that
  one.
\<close>

theorem roots_follow_ledgers:
  assumes "sorted (a # hs)" and "\<forall>h \<in> set (a # hs). writes_of cid dec_meta get_ledger (ledger_range a h) \<noteq> None"
  shows "roots_for sha dec_meta get_ledger (a # hs) (state_new cid)
    = map (\<lambda>h. Inr (smt_root sha (history_tree sha cid dec_meta get_ledger a h))) (a # hs)"
proof -
  from assms(2) obtain ws where "writes_of cid dec_meta get_ledger (ledger_range a a) = Some ws" by auto
  from root_at_fresh [OF this] obtain s where
    "root_at sha dec_meta get_ledger a (state_new cid) = (s, Inr (smt_root sha (history_tree sha cid dec_meta get_ledger a a)))"
    "tracks sha cid dec_meta get_ledger a a s" by blast
  then show ?thesis using roots_for_tracks [of sha cid dec_meta get_ledger a a s hs] assms by simp
qed

theorem roots_follow_ledgers_witness:
  "roots_for sample_sha sample_dec_meta sample_source [5, 7] (state_new None)
   = [Inr (smt_root sample_sha (history_tree sample_sha None sample_dec_meta sample_source 5 5)),
      Inr (smt_root sample_sha (history_tree sample_sha None sample_dec_meta sample_source 5 7))]"
proof -
  have r: "ledger_range 5 5 = [5]" "ledger_range 5 7 = [5, 6, 7]" by (code_simp)+
  show ?thesis
    using roots_follow_ledgers [of 5 "[7]" None sample_dec_meta sample_source sample_sha]
    by (simp add: r sample_writes sample_source_def)
qed

text \<open>
  Out of order it is different: a height below the last one processed, whose root was not asked for
  before, is answered with the root of the newest tree.
\<close>

lemma older_height_gets_newest_root:
  assumes "gs_roots s h = None" "gs_last_processed s = Some l" "h \<le> l"
  shows "snd (root_at sha dec_meta get_ledger h s) = Inr (smt_root sha (gs_smt s))"
  using assms by (simp add: root_at_def process_through_def Let_def)

end
