(* ===== verification/Wasm_Properties.thy ===== *)
theory Wasm_Properties
  imports Sample_Codec Core_State_Properties
begin

text \<open>
  Properties of the CosmWasm light client: what a header update rests on and keeps, that it accepts
  every proof the gateway serves and that what it accepts is true of the tree behind the root.
\<close>

section \<open>Characterisations\<close>

lemma scp_scan_success:
  "scp_scan sha ed cs envs t = Inr u \<Longrightarrow>
     \<exists>e \<in> set envs. env_node_id e \<in> set (wc_trusted_validators cs)
       \<and> (let preimage = wc_network_id cs @ ENVELOPE_TYPE_SCPVALUE @ env_statement_xdr e in
          ed preimage (env_signature e) (env_node_id e) = Some True
          \<or> ed (sha preimage) (env_signature e) (env_node_id e) = Some True)"
  by (induction envs arbitrary: t) (auto simp: Let_def list_ex_iff split: if_splits; blast?)+

lemma verify_message_eq_Inr:
  "wasm_verify_client_message sha ed cd m st = Inr header \<longleftrightarrow>
     (\<exists>cs th cons. get_client_state cd st = Some cs \<and> wc_frozen_height cs = None
        \<and> dec_stellar_header cd m = Some header \<and> sh_trusted_height header = Some th
        \<and> wh_revision_height th < sh_ledger_seq header
        \<and> get_consensus_state cd (wh_revision_height th) st = Some cons
        \<and> verify_scp_quorum sha ed cs (sh_scp_envelopes header) = Inr ())"
  by (auto simp: wasm_verify_client_message_def require_client_state_def check_not_frozen_def wasm_decode_header_def
      require_consensus_state_def bindE_simps not_le split: option.splits)

text \<open>What reading the storage gives after an accepted update.\<close>

lemma update_state_effect:
  assumes cd: "wasm_codec_ok cd" and upd: "wasm_update_state sha ed cd m st = Inr (st', hs)"
  shows "\<exists>header cs. wasm_verify_client_message sha ed cd m st = Inr header \<and> get_client_state cd st = Some cs
    \<and> (\<forall>c. get_consensus_state cd (sh_ledger_seq header) st = Some c \<longrightarrow> c = header_consensus header)
    \<and> (\<forall>h. get_consensus_state cd h st'
         = (if h = sh_ledger_seq header then Some (header_consensus header) else get_consensus_state cd h st))
    \<and> get_client_state cd st' =
        Some (if wh_revision_height (height_or_default (wc_latest_height cs)) < sh_ledger_seq header
              then cs\<lparr>wc_latest_height := Some \<lparr>wh_revision_number = 0, wh_revision_height = sh_ledger_seq header\<rparr>\<rparr> else cs)
    \<and> hs = [\<lparr>wh_revision_number = 0, wh_revision_height = sh_ledger_seq header\<rparr>]"
proof -
  obtain header cs where "wasm_verify_client_message sha ed cd m st = Inr header" "get_client_state cd st = Some cs"
    using upd by (auto simp: wasm_update_state_def require_client_state_def bindE_simps)
  then show ?thesis
    using upd cd get_client_utf8 [OF cd \<open>get_client_state cd st = Some cs\<close>]
    by (auto simp: wasm_update_state_def require_client_state_def bindE_simps Let_def height_or_default_def split: option.splits)
qed

lemma misbehaviour_effect:
  assumes cd: "wasm_codec_ok cd" and "wasm_update_state_on_misbehaviour cd st = Inr st'"
  shows "\<exists>cs. get_client_state cd st = Some cs
    \<and> get_client_state cd st' = Some (cs\<lparr>wc_frozen_height := Some (height_or_default (wc_latest_height cs))\<rparr>)
    \<and> (\<forall>h. get_consensus_state cd h st' = get_consensus_state cd h st)"
  using assms get_client_utf8 [OF cd]
  by (auto simp: wasm_update_state_on_misbehaviour_def require_client_state_def bindE_simps)

section \<open>Header updates\<close>

text \<open>
  A single signature is enough, and it covers neither the state root nor the ledger the header
  claims: the same envelopes carry any other root, hash and time at that height.
\<close>

lemma header_contents_unsigned:
  assumes "wasm_verify_client_message sha ed cd m st = Inr header"
    and "header' = header\<lparr>sh_ibc_state_root := root, sh_ledger_hash := hash, sh_timestamp := time\<rparr>"
    and "dec_stellar_header cd m' = Some header'"
  shows "wasm_verify_client_message sha ed cd m' st = Inr header'"
  using assms unfolding verify_message_eq_Inr by auto

text \<open>
  C21 (what a header update rests on, and what gets stored). An update that is accepted is for a
  client that is not frozen; its header is above a trusted height whose consensus state is stored,
  and carries, beside its contents, an envelope of a trusted validator whose signature verifies over
  the network id, the envelope type and the envelope's own statement (or their digest). Nothing ties
  the statement to the header: the same envelopes are accepted with any other state root, ledger
  hash and time. Afterwards the header's consensus state is the one stored at its height and every
  other height keeps its own.
\<close>

theorem wasm_update_rests_on:
  assumes "wasm_codec_ok cd" and "wasm_update_state sha ed cd m st = Inr (st', hs)"
  shows "\<exists>header cs th e. dec_stellar_header cd m = Some header \<and> get_client_state cd st = Some cs
    \<and> wc_frozen_height cs = None \<and> sh_trusted_height header = Some th
    \<and> wh_revision_height th < sh_ledger_seq header \<and> get_consensus_state cd (wh_revision_height th) st \<noteq> None
    \<and> e \<in> set (sh_scp_envelopes header) \<and> env_node_id e \<in> set (wc_trusted_validators cs)
    \<and> (let preimage = wc_network_id cs @ ENVELOPE_TYPE_SCPVALUE @ env_statement_xdr e in
       ed preimage (env_signature e) (env_node_id e) = Some True
       \<or> ed (sha preimage) (env_signature e) (env_node_id e) = Some True)
    \<and> (\<forall>m' root hash time. dec_stellar_header cd m'
           = Some (header\<lparr>sh_ibc_state_root := root, sh_ledger_hash := hash, sh_timestamp := time\<rparr>)
         \<longrightarrow> wasm_verify_client_message sha ed cd m' st
           = Inr (header\<lparr>sh_ibc_state_root := root, sh_ledger_hash := hash, sh_timestamp := time\<rparr>))
    \<and> (\<forall>h. get_consensus_state cd h st'
         = (if h = sh_ledger_seq header then Some (header_consensus header) else get_consensus_state cd h st))"
proof -
  from update_state_effect [OF assms] obtain header cs where
    v: "wasm_verify_client_message sha ed cd m st = Inr header" and cs: "get_client_state cd st = Some cs" and
    stored: "\<forall>h. get_consensus_state cd h st'
         = (if h = sh_ledger_seq header then Some (header_consensus header) else get_consensus_state cd h st)" by blast
  from v cs obtain th where
    "dec_stellar_header cd m = Some header" "wc_frozen_height cs = None" "sh_trusted_height header = Some th"
    "wh_revision_height th < sh_ledger_seq header" "get_consensus_state cd (wh_revision_height th) st \<noteq> None"
    and q: "verify_scp_quorum sha ed cs (sh_scp_envelopes header) = Inr ()"
    unfolding verify_message_eq_Inr by auto
  moreover from q obtain t where "scp_scan sha ed cs (sh_scp_envelopes header) t = Inr ()"
    by (auto simp: verify_scp_quorum_def bindE_simps split: sum.splits)
  then obtain e where "e \<in> set (sh_scp_envelopes header)" "env_node_id e \<in> set (wc_trusted_validators cs)"
    "let preimage = wc_network_id cs @ ENVELOPE_TYPE_SCPVALUE @ env_statement_xdr e in
       ed preimage (env_signature e) (env_node_id e) = Some True
       \<or> ed (sha preimage) (env_signature e) (env_node_id e) = Some True"
    using scp_scan_success by blast
  moreover have "\<forall>m' root hash time. dec_stellar_header cd m'
        = Some (header\<lparr>sh_ibc_state_root := root, sh_ledger_hash := hash, sh_timestamp := time\<rparr>)
      \<longrightarrow> wasm_verify_client_message sha ed cd m' st
        = Inr (header\<lparr>sh_ibc_state_root := root, sh_ledger_hash := hash, sh_timestamp := time\<rparr>)"
    using header_contents_unsigned [OF v refl] by blast
  ultimately show ?thesis using cs stored by blast
qed

section \<open>Runs\<close>

definition wasm_latest :: "wasm_codec \<Rightarrow> wasm_storage \<Rightarrow> u64" where
  "wasm_latest cd st =
     (case get_client_state cd st of None \<Rightarrow> 0 | Some cs \<Rightarrow> wh_revision_height (height_or_default (wc_latest_height cs)))"

definition wasm_frozen :: "wasm_codec \<Rightarrow> wasm_storage \<Rightarrow> bool" where
  "wasm_frozen cd st = (case get_client_state cd st of None \<Rightarrow> False | Some cs \<Rightarrow> wc_frozen_height cs \<noteq> None)"

definition wasm_kept :: "wasm_codec \<Rightarrow> wasm_storage \<Rightarrow> wasm_storage \<Rightarrow> bool" where
  "wasm_kept cd st st' \<longleftrightarrow>
     (\<forall>h c. get_consensus_state cd h st = Some c \<longrightarrow> get_consensus_state cd h st' = Some c)
     \<and> wasm_latest cd st \<le> wasm_latest cd st'
     \<and> (wasm_frozen cd st \<longrightarrow> wasm_frozen cd st' \<and> wasm_latest cd st' = wasm_latest cd st
          \<and> (\<forall>h. get_consensus_state cd h st' = get_consensus_state cd h st))
     \<and> (\<forall>cs. get_client_state cd st = Some cs \<longrightarrow>
          (\<exists>cs'. get_client_state cd st' = Some cs' \<and> wc_trusted_validators cs' = wc_trusted_validators cs
             \<and> wc_network_id cs' = wc_network_id cs \<and> wc_chain_id cs' = wc_chain_id cs))"

lemma wasm_kept_refl: "wasm_kept cd st st"
  by (simp add: wasm_kept_def)

lemma wasm_kept_trans:
  assumes ab: "wasm_kept cd a b" and bc: "wasm_kept cd b c"
  shows "wasm_kept cd a c"
proof -
  have "wasm_latest cd a \<le> wasm_latest cd c"
    using ab bc unfolding wasm_kept_def by (meson order_trans)
  moreover have "wasm_frozen cd a \<longrightarrow> wasm_frozen cd c \<and> wasm_latest cd c = wasm_latest cd a
      \<and> (\<forall>h. get_consensus_state cd h c = get_consensus_state cd h a)"
    using ab bc unfolding wasm_kept_def by auto
  moreover have "\<exists>cs'. get_client_state cd c = Some cs' \<and> wc_trusted_validators cs' = wc_trusted_validators cs
      \<and> wc_network_id cs' = wc_network_id cs \<and> wc_chain_id cs' = wc_chain_id cs"
    if cs: "get_client_state cd a = Some cs" for cs
  proof -
    obtain cs1 where "get_client_state cd b = Some cs1" "wc_trusted_validators cs1 = wc_trusted_validators cs"
      "wc_network_id cs1 = wc_network_id cs" "wc_chain_id cs1 = wc_chain_id cs"
      using ab cs unfolding wasm_kept_def by auto
    with bc show ?thesis unfolding wasm_kept_def by auto
  qed
  ultimately show ?thesis using ab bc unfolding wasm_kept_def by simp
qed

lemma update_kept:
  assumes "wasm_codec_ok cd" and "wasm_update_state sha ed cd m st = Inr (st', hs)"
  shows "wasm_kept cd st st'"
proof -
  from update_state_effect [OF assms] obtain header cs where
    v: "wasm_verify_client_message sha ed cd m st = Inr header" "get_client_state cd st = Some cs"
    and eff: "\<forall>c. get_consensus_state cd (sh_ledger_seq header) st = Some c \<longrightarrow> c = header_consensus header"
    "\<forall>h. get_consensus_state cd h st'
         = (if h = sh_ledger_seq header then Some (header_consensus header) else get_consensus_state cd h st)"
    "get_client_state cd st' =
        Some (if wh_revision_height (height_or_default (wc_latest_height cs)) < sh_ledger_seq header
              then cs\<lparr>wc_latest_height := Some \<lparr>wh_revision_number = 0, wh_revision_height = sh_ledger_seq header\<rparr>\<rparr> else cs)"
    by blast
  moreover have "wc_frozen_height cs = None" using v unfolding verify_message_eq_Inr by auto
  ultimately show ?thesis
    by (auto simp: wasm_kept_def wasm_latest_def wasm_frozen_def height_or_default_def)
qed

lemma misbehaviour_kept:
  "wasm_codec_ok cd \<Longrightarrow> wasm_update_state_on_misbehaviour cd st = Inr st' \<Longrightarrow> wasm_kept cd st st'"
  using misbehaviour_effect [of cd st st']
  by (auto simp: wasm_kept_def wasm_latest_def wasm_frozen_def)

lemma exec_kept: "wasm_codec_ok cd \<Longrightarrow> wasm_kept cd st (wasm_exec sha ed cd m st)"
  by (cases m)
     (auto simp: wasm_exec_def wasm_sudo_def wasm_kept_refl bindE_def intro: update_kept misbehaviour_kept split: sum.splits)

text \<open>
  C22 (wasm client: consensus states are permanent). Whatever sudo messages the host delivers, in
  whatever order and whether they succeed or not: no stored consensus state is changed or removed,
  the latest height never decreases, a frozen client stays frozen and gains no consensus state and
  no height, and the trusted validators, network id and chain id never change.
\<close>

theorem wasm_history_kept:
  assumes "wasm_codec_ok cd"
  shows "wasm_kept cd st (fold (wasm_exec sha ed cd) ms st)"
proof (induction ms arbitrary: st)
  case (Cons m ms)
  show ?case using wasm_kept_trans [OF exec_kept [OF assms] Cons.IH] by simp
qed (simp add: wasm_kept_refl)

section \<open>Samples for the witnesses\<close>

text \<open>A client that trusts one validator, at height 10, and a signature check that accepts one signature of it.\<close>

definition sample_wasm_client :: wasm_client_state where
  "sample_wasm_client = \<lparr>wc_chain_id = asc ''stellar'', wc_latest_height = Some \<lparr>wh_revision_number = 0, wh_revision_height = 10\<rparr>,
     wc_frozen_height = None, wc_trusted_validators = [replicate 32 1, replicate 32 2, replicate 32 3],
     wc_proof_specs = [], wc_network_id = replicate 32 9\<rparr>"

definition sample_consensus :: "bytes \<Rightarrow> wasm_consensus_state" where
  "sample_consensus root = \<lparr>ws_timestamp = 7, ws_ledger_hash = [], ws_root = root\<rparr>"

definition sample_storage :: "bytes \<Rightarrow> wasm_storage" where
  "sample_storage root =
     set_consensus_state sample_codec 10 (sample_consensus root) (set_client_state sample_codec sample_wasm_client Map.empty)"

definition sample_ed :: wasm_ed25519 where
  "sample_ed m sig key = Some (key = replicate 32 1 \<and> sig = replicate 64 5)"

definition sample_header :: stellar_header where
  "sample_header = \<lparr>sh_ledger_seq = 11, sh_ledger_header_xdr = [], sh_ibc_state_root = [1],
     sh_scp_envelopes = [\<lparr>env_node_id = replicate 32 1, env_statement_xdr = [4], env_signature = replicate 64 5\<rparr>],
     sh_trusted_height = Some \<lparr>wh_revision_number = 0, wh_revision_height = 10\<rparr>,
     sh_timestamp = 8, sh_ledger_hash = [2], sh_previous_ledger_hash = []\<rparr>"

lemma sample_storage_client [simp]: "get_client_state sample_codec (sample_storage root) = Some sample_wasm_client"
proof -
  have "is_utf8 (wc_chain_id sample_wasm_client)" by code_simp
  then show ?thesis by (simp add: sample_storage_def sample_codec_ok)
qed

lemma sample_storage_consensus [simp]:
  "get_consensus_state sample_codec h (sample_storage root) = (if h = 10 then Some (sample_consensus root) else None)"
  by (simp add: sample_storage_def sample_codec_ok) (simp add: get_consensus_state_def)

lemma sample_header_codec: "dec_stellar_header sample_codec (pack_header h) = Some h"
  by (simp add: sample_codec_def)

lemma sample_verifies:
  "wasm_verify_client_message sample_sha sample_ed sample_codec (pack_header sample_header) (sample_storage root)
     = Inr sample_header"
  unfolding verify_message_eq_Inr
  by (auto simp: sample_header_codec verify_scp_quorum_def sample_header_def sample_wasm_client_def sample_ed_def Let_def)

lemma sample_update:
  "\<exists>st' hs. wasm_update_state sample_sha sample_ed sample_codec (pack_header sample_header) (sample_storage root) = Inr (st', hs)"
  by (simp add: wasm_update_state_def sample_verifies require_client_state_def Let_def) (simp add: sample_header_def)

theorem wasm_update_rests_on_witness:
  "\<exists>st' hs. wasm_update_state sample_sha sample_ed sample_codec (pack_header sample_header) (sample_storage EMPTY) = Inr (st', hs)
     \<and> get_consensus_state sample_codec 11 st' = Some (header_consensus sample_header)"
proof -
  obtain st' hs where upd: "wasm_update_state sample_sha sample_ed sample_codec (pack_header sample_header) (sample_storage EMPTY)
      = Inr (st', hs)" using sample_update by blast
  obtain header where "dec_stellar_header sample_codec (pack_header sample_header) = Some header"
    "\<forall>h. get_consensus_state sample_codec h st' = (if h = sh_ledger_seq header then Some (header_consensus header)
       else get_consensus_state sample_codec h (sample_storage EMPTY))"
    using wasm_update_rests_on [OF sample_codec_ok upd] by blast
  moreover have "sh_ledger_seq sample_header = 11" by (simp add: sample_header_def)
  ultimately show ?thesis using upd by (simp add: sample_header_codec)
qed

theorem wasm_history_kept_witness:
  "wasm_kept sample_codec (sample_storage EMPTY)
     (fold (wasm_exec sample_sha sample_ed sample_codec)
        [UpdateState (pack_header sample_header), UpdateStateOnMisbehaviour [], UpdateState []] (sample_storage EMPTY))"
  by (rule wasm_history_kept [OF sample_codec_ok])

section \<open>Proofs from the gateway are accepted\<close>

lemma accepts_membership:
  assumes len: "\<And>x. length (sha x) = 32" and codec: "\<And>m. dec_merkle_proof cd (enc m) = Some m"
    and cs: "get_client_state cd st = Some cs" "wc_frozen_height cs = None"
    and cons: "get_consensus_state cd (wh_revision_height (vm_height msg)) st = Some cons" "ws_root cons = smt_root sha t"
    and gen: "generate_membership_proof sha key t = Some p" and vh: "mp_value_hash p = sha (vm_value msg)" "vm_value msg \<noteq> []"
    and msg: "concat_path (vm_merkle_path msg) = key"
      "vm_proof msg = serialize_membership_proof_with_index enc p key (mp_value_hash p) idx"
  shows "wasm_verify_membership sha cd msg st = Inr ()"
proof -
  have leaf: "map_of (smt_leaves t) (key_index sha key) = Some (sha key, sha (vm_value msg))"
    and sib: "mp_siblings p = siblings_for sha (key_index sha key) t"
    using gen vh by (auto simp: generate_membership_proof_def Let_def smt_sha256_def key_index_def split: option.splits if_splits)
  have "fold_siblings sha (key_index sha key) (leaf_hash sha (sha key) (sha (vm_value msg))) (mp_siblings p) = smt_root sha t"
    using siblings_fold_to_root [of sha "key_index sha key" t] leaf sib by (simp add: leaf_value_def)
  moreover have "decode_membership_proof cd (vm_proof msg) = Inr (key, sha (vm_value msg), mp_siblings p)"
    unfolding msg vh by (rule decode_serialized_membership) (simp_all add: codec sib siblings_for_lengths [OF len])
  ultimately show ?thesis
    using cs cons msg(1) vh(2)
    by (simp add: wasm_verify_membership_def require_client_state_def check_not_frozen_def require_consensus_state_def
        root_array_def length_smt_root len sib length_siblings_for TREE_DEPTH_def Let_def)
qed

lemma accepts_non_membership:
  assumes len: "\<And>x. length (sha x) = 32" and codec: "\<And>m. dec_merkle_proof cd (enc m) = Some m"
    and cs: "get_client_state cd st = Some cs" "wc_frozen_height cs = None"
    and cons: "get_consensus_state cd (wh_revision_height (vn_height msg)) st = Some cons" "ws_root cons = smt_root sha t"
    and gen: "generate_non_membership_proof sha key t = Some p"
    and msg: "concat_path (vn_merkle_path msg) = key"
      "vn_proof msg = serialize_non_membership_proof_with_index enc p key idx"
  shows "wasm_verify_non_membership sha cd msg st = Inr ()"
proof -
  have leaf: "map_of (smt_leaves t) (key_index sha key) = None"
    and sib: "np_siblings p = siblings_for sha (key_index sha key) t"
    using gen by (auto simp: generate_non_membership_proof_def Let_def smt_sha256_def key_index_def split: option.splits)
  have "fold_siblings sha (key_index sha key) EMPTY (np_siblings p) = smt_root sha t"
    using siblings_fold_to_root [of sha "key_index sha key" t] leaf sib by (simp add: leaf_value_def)
  moreover have "decode_non_membership_proof cd (vn_proof msg) = Inr (key, np_siblings p)"
    unfolding msg by (rule decode_serialized_non_membership) (simp_all add: codec sib siblings_for_lengths [OF len])
  ultimately show ?thesis
    using cs cons msg(1)
    by (simp add: wasm_verify_non_membership_def require_client_state_def check_not_frozen_def require_consensus_state_def
        root_array_def length_smt_root len sib length_siblings_for TREE_DEPTH_def Let_def verify_non_membership_raw_def)
qed

text \<open>
  C19 (the light client accepts what the gateway serves). Whatever lookup the gateway answers, a client
  that is not frozen and holds the root of the gateway's tree at the message's height accepts the
  proof it serves: as a membership proof of any non-empty value with the digest it reports, or as a
  non-membership proof when the path is absent.
\<close>

theorem gateway_lookup_verifies:
  assumes "\<And>x. length (sha x) = 32" and "\<And>m. dec_merkle_proof cd (enc m) = Some m"
    and "proof_for_path sha enc dec_meta get_ledger seq key s = (s', Inr lookup)"
    and "get_client_state cd st = Some cs" and "wc_frozen_height cs = None"
    and "get_consensus_state cd h st = Some cons" and "ws_root cons = smt_root sha (gs_smt s')"
    and "concat_path path = key"
  shows "case lookup of
      Found vh bs \<Rightarrow> \<forall>v. v \<noteq> [] \<longrightarrow> sha v = vh \<longrightarrow>
        wasm_verify_membership sha cd \<lparr>vm_height = \<lparr>wh_revision_number = rn, wh_revision_height = h\<rparr>, vm_delay_time_period = dt,
          vm_delay_block_period = db, vm_proof = bs, vm_merkle_path = path, vm_value = v\<rparr> st = Inr ()
    | Absent bs \<Rightarrow>
        wasm_verify_non_membership sha cd \<lparr>vn_height = \<lparr>wh_revision_number = rn, wh_revision_height = h\<rparr>,
          vn_delay_time_period = dt, vn_delay_block_period = db, vn_proof = bs, vn_merkle_path = path\<rparr> st = Inr ()"
proof (cases "generate_membership_proof sha key (gs_smt s')")
  case (Some p)
  with assms(3) have "lookup = Found (mp_value_hash p)
      (serialize_membership_proof_with_index enc p key (mp_value_hash p) (state_key_index sha key))"
    by (auto simp: proof_for_path_def Let_def split: prod.splits sum.splits option.splits)
  then show ?thesis
    using accepts_membership [OF assms(1, 2, 4, 5) _ assms(7) Some] assms(6, 8) by simp
next
  case None
  with assms(3) obtain p where "generate_non_membership_proof sha key (gs_smt s') = Some p"
    "lookup = Absent (serialize_non_membership_proof_with_index enc p key (state_key_index sha key))"
    by (auto simp: proof_for_path_def Let_def split: prod.splits sum.splits option.splits)
  then show ?thesis
    using accepts_non_membership [OF assms(1, 2, 4, 5) _ assms(7)] assms(6, 8) by simp
qed

lemma sample_lookup:
  "\<exists>s' bs. proof_for_path sample_sha pack_merkle sample_dec_meta sample_source 5 sample_path (state_new None)
     = (s', Inr (Found (sample_sha [5]) bs)) \<and> gs_smt s' = smt_insert sample_sha sample_path [5] smt_new"
proof -
  have r: "ledger_range 5 5 = [5]" by code_simp
  have w: "writes_of None sample_dec_meta sample_source [5] = Some [(sample_path, Some [5])]"
    by (simp add: sample_writes sample_source_def)
  have t: "smt_store.change sample_sha (sample_path, Some [5]) smt_new = smt_insert sample_sha sample_path [5] smt_new"
    by (simp add: smt_store.change_def)
  have "smt_leaf sample_sha (smt_insert sample_sha sample_path [5] smt_new) sample_path = Some (sample_sha sample_path, sample_sha [5])"
    by (simp add: smt_leaf_insert)
  then show ?thesis
    using process_through_ok [where s = "state_new None" and seq = 5 and dec = sample_dec_meta and g = sample_source
        and ws = "[(sample_path, Some [5])]" and sha = sample_sha] w t
    by (simp add: proof_for_path_def root_at_def state_new_def replay_start_def r generate_membership_proof_def Let_def
        smt_leaf_def key_index_def smt_sha256_def)
qed

theorem gateway_lookup_verifies_witness:
  "\<exists>bs. wasm_verify_membership sample_sha sample_codec
      \<lparr>vm_height = \<lparr>wh_revision_number = 0, wh_revision_height = 10\<rparr>, vm_delay_time_period = 0, vm_delay_block_period = 0,
        vm_proof = bs, vm_merkle_path = [[], sample_path], vm_value = [5]\<rparr>
      (sample_storage (smt_root sample_sha (smt_insert sample_sha sample_path [5] smt_new))) = Inr ()"
proof -
  obtain s' bs where l: "proof_for_path sample_sha pack_merkle sample_dec_meta sample_source 5 sample_path (state_new None)
     = (s', Inr (Found (sample_sha [5]) bs))" and t: "gs_smt s' = smt_insert sample_sha sample_path [5] smt_new"
    using sample_lookup by blast
  let ?st = "sample_storage (smt_root sample_sha (gs_smt s'))"
  have "get_consensus_state sample_codec 10 ?st = Some (sample_consensus (smt_root sample_sha (gs_smt s')))" by simp
  from gateway_lookup_verifies [OF length_sample_sha sample_merkle_codec l sample_storage_client _ this, of "[[], sample_path]" 0 0 0]
  show ?thesis by (auto simp: t sample_wasm_client_def sample_consensus_def concat_path_def)
qed

section \<open>What is accepted is true of the tree\<close>

lemma wasm_membership_eq_Inr:
  "wasm_verify_membership sha cd msg st = Inr u \<longleftrightarrow>
     (\<exists>cs cons siblings. get_client_state cd st = Some cs \<and> wc_frozen_height cs = None
        \<and> get_consensus_state cd (wh_revision_height (vm_height msg)) st = Some cons \<and> length (ws_root cons) = 32
        \<and> decode_membership_proof cd (vm_proof msg) = Inr (concat_path (vm_merkle_path msg), sha (vm_value msg), siblings)
        \<and> length siblings = 64 \<and> vm_value msg \<noteq> []
        \<and> fold_siblings sha (key_index sha (concat_path (vm_merkle_path msg)))
            (leaf_hash sha (sha (concat_path (vm_merkle_path msg))) (sha (vm_value msg))) siblings = ws_root cons)"
  by (auto simp: wasm_verify_membership_def require_client_state_def check_not_frozen_def require_consensus_state_def
      root_array_def bindE_simps Let_def split: option.splits if_splits)

lemma wasm_non_membership_eq_Inr:
  "wasm_verify_non_membership sha cd msg st = Inr u \<longleftrightarrow>
     (\<exists>cs cons siblings. get_client_state cd st = Some cs \<and> wc_frozen_height cs = None
        \<and> get_consensus_state cd (wh_revision_height (vn_height msg)) st = Some cons \<and> length (ws_root cons) = 32
        \<and> decode_non_membership_proof cd (vn_proof msg) = Inr (concat_path (vn_merkle_path msg), siblings)
        \<and> length siblings = 64
        \<and> fold_siblings sha (key_index sha (concat_path (vn_merkle_path msg))) EMPTY siblings = ws_root cons)"
  by (auto simp: wasm_verify_non_membership_def require_client_state_def check_not_frozen_def require_consensus_state_def
      root_array_def bindE_simps Let_def verify_non_membership_raw_def split: option.splits if_splits)

lemma decoded_siblings_lengths:
  "decode_membership_proof cd bs = Inr (k, v, siblings) \<Longrightarrow> \<forall>s \<in> set siblings. length s = 32"
  "decode_non_membership_proof cd bs = Inr (k, siblings) \<Longrightarrow> \<forall>s \<in> set siblings. length s = 32"
  by (auto simp: decode_membership_proof_def decode_non_membership_proof_def bindE_def ok_or_def ensure_def
      dest: extract_siblings_lengths split: sum.splits ics23_proof.splits option.splits if_splits)

text \<open>What acceptance of a membership message means for the tree behind the root.\<close>

lemma accepted_membership:
  assumes "\<And>x. length (sha x) = 32" and "smt_wf t" and "key = concat_path (vm_merkle_path msg)"
    and "get_consensus_state cd (wh_revision_height (vm_height msg)) st = Some cons" and "ws_root cons = smt_root sha t"
    and "decode_membership_proof cd (vm_proof msg) = Inr (k, v, siblings)"
    and "collision_free sha (([0x00] @ sha key @ sha (vm_value msg))
           # proof_strings sha t key (leaf_hash sha (sha key) (sha (vm_value msg))) siblings)"
    and "wasm_verify_membership sha cd msg st = Inr ()"
  shows "smt_proves sha t key (vm_value msg)"
proof -
  from assms(8, 4-6) have "length siblings = 64" "vm_value msg \<noteq> []"
    and "fold_siblings sha (key_index sha key) (leaf_hash sha (sha key) (sha (vm_value msg))) siblings = smt_root sha t"
    unfolding wasm_membership_eq_Inr assms(3) by auto
  with folded_membership [OF assms(1, 2) decoded_siblings_lengths(1) [OF assms(6)] _ assms(7)]
  show ?thesis by (simp add: smt_proves_iff smt_leaf_def)
qed

lemma accepted_non_membership:
  assumes "\<And>x. length (sha x) = 32" and "key = concat_path (vn_merkle_path msg)"
    and "get_consensus_state cd (wh_revision_height (vn_height msg)) st = Some cons" and "ws_root cons = smt_root sha t"
    and "decode_non_membership_proof cd (vn_proof msg) = Inr (k, siblings)"
    and "collision_free sha (proof_strings sha t key EMPTY siblings)"
    and "wasm_verify_non_membership sha cd msg st = Inr ()"
  shows "smt_refutes sha t key"
proof -
  from assms(7, 3-5) have "length siblings = 64" "fold_siblings sha (key_index sha key) EMPTY siblings = smt_root sha t"
    unfolding wasm_non_membership_eq_Inr assms(2) by auto
  with folded_non_membership [OF assms(1) decoded_siblings_lengths(2) [OF assms(5)] _ assms(6)]
  show ?thesis by (simp add: smt_refutes_iff smt_leaf_def)
qed

text \<open>
  C20 (accepted proofs are true). When a client accepts a membership message against the root of some
  tree, that tree holds the message's value under its path; when it accepts a non-membership message,
  the tree holds nothing there. Both hold whatever bytes the relayer sent as the proof, unless SHA-256
  collides, or hits the empty node, on one of the strings hashed along the path.
\<close>

theorem wasm_proofs_sound:
  assumes "\<And>x. length (sha x) = 32" and "smt_wf t"
    and "get_consensus_state cd h st = Some cons" and "ws_root cons = smt_root sha t"
  shows "(\<forall>msg key k v siblings. key = concat_path (vm_merkle_path msg) \<and> wh_revision_height (vm_height msg) = h
      \<and> decode_membership_proof cd (vm_proof msg) = Inr (k, v, siblings)
      \<and> collision_free sha (([0x00] @ sha key @ sha (vm_value msg))
           # proof_strings sha t key (leaf_hash sha (sha key) (sha (vm_value msg))) siblings)
      \<and> wasm_verify_membership sha cd msg st = Inr () \<longrightarrow> smt_proves sha t key (vm_value msg))
    \<and> (\<forall>msg key k siblings. key = concat_path (vn_merkle_path msg) \<and> wh_revision_height (vn_height msg) = h
      \<and> decode_non_membership_proof cd (vn_proof msg) = Inr (k, siblings)
      \<and> collision_free sha (proof_strings sha t key EMPTY siblings)
      \<and> wasm_verify_non_membership sha cd msg st = Inr () \<longrightarrow> smt_refutes sha t key)"
proof (intro conjI allI impI; elim conjE)
  fix msg :: verify_membership_msg and key k v siblings
  assume "key = concat_path (vm_merkle_path msg)" "wh_revision_height (vm_height msg) = h"
  with accepted_membership [of sha t key msg cd st cons k v siblings] assms
  show "decode_membership_proof cd (vm_proof msg) = Inr (k, v, siblings) \<Longrightarrow>
    collision_free sha (([0x00] @ sha key @ sha (vm_value msg))
      # proof_strings sha t key (leaf_hash sha (sha key) (sha (vm_value msg))) siblings) \<Longrightarrow>
    wasm_verify_membership sha cd msg st = Inr () \<Longrightarrow> smt_proves sha t key (vm_value msg)"
    by simp
next
  fix msg :: verify_non_membership_msg and key k siblings
  assume "key = concat_path (vn_merkle_path msg)" "wh_revision_height (vn_height msg) = h"
  with accepted_non_membership [of sha key msg cd st cons t k siblings] assms
  show "decode_non_membership_proof cd (vn_proof msg) = Inr (k, siblings) \<Longrightarrow>
    collision_free sha (proof_strings sha t key EMPTY siblings) \<Longrightarrow>
    wasm_verify_non_membership sha cd msg st = Inr () \<Longrightarrow> smt_refutes sha t key"
    by simp
qed

text \<open>The single leaf of \<open>sample_tree\<close>, proved by its 64 empty siblings.\<close>

definition sample_membership_msg :: verify_membership_msg where
  "sample_membership_msg = \<lparr>vm_height = \<lparr>wh_revision_number = 0, wh_revision_height = 10\<rparr>, vm_delay_time_period = 0,
     vm_delay_block_period = 0,
     vm_proof = pack_merkle (exist_message (build_existence_proof_with_index [] (counting_sha [5]) (replicate 64 EMPTY) 0)),
     vm_merkle_path = [[]], vm_value = [5]\<rparr>"

definition sample_absence_msg :: verify_non_membership_msg where
  "sample_absence_msg = \<lparr>vn_height = \<lparr>wh_revision_number = 0, wh_revision_height = 10\<rparr>, vn_delay_time_period = 0,
     vn_delay_block_period = 0,
     vn_proof = pack_merkle (nonexist_message [] (build_existence_proof_with_index [] [] (replicate 64 EMPTY) 0)),
     vn_merkle_path = [[]]\<rparr>"

lemma sample_decodes:
  "decode_membership_proof sample_codec (vm_proof sample_membership_msg) = Inr ([], counting_sha [5], replicate 64 EMPTY)"
  "decode_non_membership_proof sample_codec (vn_proof sample_absence_msg) = Inr ([], replicate 64 EMPTY)"
  using decode_serialized_membership [of sample_codec pack_merkle "[]" "counting_sha [5]"
      "\<lparr>mp_key_hash = [], mp_value_hash = [], mp_siblings = replicate 64 EMPTY\<rparr>" 0]
    decode_serialized_non_membership [of sample_codec pack_merkle "[]" "\<lparr>np_key_hash = [], np_siblings = replicate 64 EMPTY\<rparr>" 0]
  by (simp_all add: sample_merkle_codec serialize_membership_proof_with_index_def serialize_non_membership_proof_with_index_def
      sample_membership_msg_def sample_absence_msg_def)

lemma sample_tree_wf: "smt_wf sample_tree"
  unfolding sample_tree_def by (rule smt_wf_insert) (simp_all add: length_counting_sha smt_wf_def smt_new_def)

lemma sample_at_10:
  "get_consensus_state sample_codec 10 (sample_storage rt) = Some (sample_consensus rt)" "ws_root (sample_consensus rt) = rt"
  by (simp_all add: sample_consensus_def)

lemma sample_membership_accepted:
  "wasm_verify_membership counting_sha sample_codec sample_membership_msg
     (sample_storage (smt_root counting_sha sample_tree)) = Inr ()"
  unfolding wasm_membership_eq_Inr
  using siblings_fold_to_root [of counting_sha 0 sample_tree] sample_decodes(1) sample_leaf
  by (simp add: sample_membership_msg_def concat_path_def sample_wasm_client_def sample_consensus_def sample_siblings
      length_smt_root length_counting_sha)

lemma sample_absence_accepted:
  "wasm_verify_non_membership counting_sha sample_codec sample_absence_msg
     (sample_storage (smt_root counting_sha smt_new)) = Inr ()"
proof -
  have "leaf_value counting_sha smt_new 0 = EMPTY" by (simp add: leaf_value_def smt_new_def)
  then show ?thesis
    unfolding wasm_non_membership_eq_Inr
    using siblings_fold_to_root [of counting_sha 0 smt_new] sample_decodes(2) sample_leaf(2)
    by (simp add: sample_absence_msg_def concat_path_def sample_wasm_client_def sample_consensus_def empty_siblings
        length_smt_root length_counting_sha)
qed

theorem wasm_proofs_sound_witness: "smt_proves counting_sha sample_tree [] [5] \<and> smt_refutes counting_sha smt_new []"
proof
  note held = wasm_proofs_sound [of counting_sha sample_tree sample_codec 10 "sample_storage (smt_root counting_sha sample_tree)"
    "sample_consensus (smt_root counting_sha sample_tree)", OF length_counting_sha sample_tree_wf, OF sample_at_10,
    THEN conjunct1, rule_format, where key = "[]" and msg = sample_membership_msg]
  show "smt_proves counting_sha sample_tree [] [5]"
    using held sample_decodes(1) sample_membership_accepted sample_strings_subset collision_free_mono [OF counting_path_free]
    by (auto simp: sample_membership_msg_def concat_path_def sample_consensus_def sample_leaf(4))
next
  have wf: "smt_wf smt_new" by (simp add: smt_wf_def smt_new_def)
  note absent = wasm_proofs_sound [of counting_sha smt_new sample_codec 10 "sample_storage (smt_root counting_sha smt_new)"
    "sample_consensus (smt_root counting_sha smt_new)", OF length_counting_sha wf, OF sample_at_10,
    THEN conjunct2, rule_format, where key = "[]" and msg = sample_absence_msg]
  show "smt_refutes counting_sha smt_new []"
    using absent sample_decodes(2) sample_absence_accepted empty_tree_free
    by (auto simp: sample_absence_msg_def concat_path_def sample_consensus_def)
qed

end
