(* ===== verification/Core_Soroban.thy ===== *)
theory Core_Soroban
  imports Core_Conversion Tendermint_LC
begin

text \<open>
  The gateway's translation between the Tendermint client types of the relayer and the values the
  Soroban light client stores: \<open>crates/core/src/ibc/soroban.rs\<close>, \<open>client_state.rs\<close> and
  \<open>consensus_state.rs\<close>. The types of ibc-rs and their protobuf forms belong to that library: the
  parameter \<open>ibc_rs\<close> gives what the code reads of them and the conversions it calls. The XDR codec
  of contract values is the parameter \<open>sc_xdr\<close>, the text of XDR strings the parameter \<open>disp\<close>.
\<close>

section \<open>Types of the libraries\<close>

record raw_height =
  rh_revision_number :: u64
  rh_revision_height :: u64

text \<open>What the code reads of \<open>ClientState::inner()\<close> and \<open>ConsensusState::inner()\<close>.\<close>

record tm_domain =
  td_chain_id :: bytes
  td_trust_numerator :: u64
  td_trust_denominator :: u64
  td_trusting_period_secs :: u64
  td_unbonding_period_secs :: u64
  td_max_clock_drift_secs :: u64
  td_latest_height :: raw_height
  td_frozen_height :: "raw_height option"

record tm_cons_domain =
  tcd_unix_timestamp :: "64 word"
  tcd_next_validators_hash :: bytes
  tcd_root :: bytes

text \<open>The raw protobuf messages the code fills or reads; \<open>as i64\<close> keeps the bits.\<close>

record raw_tm_client =
  rc_chain_id :: bytes
  rc_trust_level :: "(u64 \<times> u64) option"
  rc_trusting_period :: "(64 word \<times> 32 word) option"
  rc_unbonding_period :: "(64 word \<times> 32 word) option"
  rc_max_clock_drift :: "(64 word \<times> 32 word) option"
  rc_frozen_height :: "raw_height option"
  rc_latest_height :: "raw_height option"
  rc_proof_specs :: "bytes list"
  rc_upgrade_path :: "bytes list"
  rc_allow_update_after_expiry :: bool
  rc_allow_update_after_misbehaviour :: bool

record raw_tm_cons =
  rs_timestamp :: "(64 word \<times> 32 word) option"
  rs_root :: "bytes option"
  rs_next_validators_hash :: bytes

record raw_tm_inner_header =
  ri_height :: "64 word"
  ri_time_seconds :: "64 word option"
  ri_next_validators_hash :: bytes
  ri_app_hash :: bytes

record raw_signed_header =
  rg_header :: "raw_tm_inner_header option"
  rg_commit :: bytes

record raw_tm_header =
  rt_signed_header :: "raw_signed_header option"
  rt_validator_set :: "bytes option"
  rt_trusted_height :: "raw_height option"

record ('c, 's) ibc_rs =
  tm_inner :: "'c \<Rightarrow> tm_domain"
  tm_try_from_raw :: "raw_tm_client \<Rightarrow> 'c option"
  tm_encode_vec :: "'c \<Rightarrow> bytes"
  tm_decode_vec :: "bytes \<Rightarrow> 'c option"
  cons_inner :: "'s \<Rightarrow> tm_cons_domain"
  cons_try_from_raw :: "raw_tm_cons \<Rightarrow> 's option"
  cons_encode_vec :: "'s \<Rightarrow> bytes"
  cons_decode_vec :: "bytes \<Rightarrow> 's option"
  decode_raw_header :: "bytes \<Rightarrow> raw_tm_header option"
  encode_signed_header :: "raw_signed_header \<Rightarrow> bytes"
  encode_validator_set :: "bytes \<Rightarrow> bytes"
  cosmos_proof_specs :: "bytes list"

record sc_xdr =
  enc_scval :: "scval \<Rightarrow> bytes option"
  dec_scval :: "bytes \<Rightarrow> scval option"

datatype soroban_error =
    Conversion conversion_error
  | NotAMap
  | HeaderDecode
  | MissingSignedHeader
  | MissingInnerHeader
  | MissingTrustedHeight
  | NegativeTargetHeight
  | ValidatorsHashLength nat
  | AppHashLength nat
  | FromRaw
  | ProtobufDecode
  | UnknownTypeUrl bytes

section \<open>Client states (\<open>client_state.rs\<close>)\<close>

text \<open>The enumerations have the single constructor \<open>Tendermint\<close>.\<close>

datatype 'c any_client_state = TendermintClient 'c
datatype 's any_consensus_state = TendermintConsensus 's

record any_msg =
  am_type_url :: bytes
  am_value :: bytes

definition TENDERMINT_CLIENT_STATE_TYPE_URL :: bytes where
  "TENDERMINT_CLIENT_STATE_TYPE_URL = asc ''/ibc.lightclients.tendermint.v1.ClientState''"

definition TENDERMINT_CONSENSUS_STATE_TYPE_URL :: bytes where
  "TENDERMINT_CONSENSUS_STATE_TYPE_URL = asc ''/ibc.lightclients.tendermint.v1.ConsensusState''"

definition client_decode_value :: "('c, 's) ibc_rs \<Rightarrow> bytes \<Rightarrow> soroban_error + 'c any_client_state" where
  "client_decode_value rs bs = bindE (ok_or ProtobufDecode (tm_decode_vec rs bs)) (\<lambda>c. Inr (TendermintClient c))"

fun client_encode_value :: "('c, 's) ibc_rs \<Rightarrow> 'c any_client_state \<Rightarrow> bytes" where
  "client_encode_value rs (TendermintClient c) = tm_encode_vec rs c"

definition client_try_from_any :: "('c, 's) ibc_rs \<Rightarrow> any_msg \<Rightarrow> soroban_error + 'c any_client_state" where
  "client_try_from_any rs raw =
     (if am_type_url raw = TENDERMINT_CLIENT_STATE_TYPE_URL
      then bindE (ok_or ProtobufDecode (tm_decode_vec rs (am_value raw))) (\<lambda>c. Inr (TendermintClient c))
      else Inl (UnknownTypeUrl (am_type_url raw)))"

fun client_into_any :: "('c, 's) ibc_rs \<Rightarrow> 'c any_client_state \<Rightarrow> any_msg" where
  "client_into_any rs (TendermintClient c) =
     \<lparr>am_type_url = TENDERMINT_CLIENT_STATE_TYPE_URL, am_value = tm_encode_vec rs c\<rparr>"

fun client_chain_id :: "('c, 's) ibc_rs \<Rightarrow> 'c any_client_state \<Rightarrow> bytes" where
  "client_chain_id rs (TendermintClient c) = td_chain_id (tm_inner rs c)"

fun client_revision_number :: "('c, 's) ibc_rs \<Rightarrow> 'c any_client_state \<Rightarrow> u64" where
  "client_revision_number rs (TendermintClient c) = rh_revision_number (td_latest_height (tm_inner rs c))"

fun client_latest_height :: "('c, 's) ibc_rs \<Rightarrow> 'c any_client_state \<Rightarrow> u64" where
  "client_latest_height rs (TendermintClient c) = rh_revision_height (td_latest_height (tm_inner rs c))"

section \<open>Consensus states (\<open>consensus_state.rs\<close>)\<close>

definition cons_decode_value :: "('c, 's) ibc_rs \<Rightarrow> bytes \<Rightarrow> soroban_error + 's any_consensus_state" where
  "cons_decode_value rs bs = bindE (ok_or ProtobufDecode (cons_decode_vec rs bs)) (\<lambda>c. Inr (TendermintConsensus c))"

fun cons_encode_value :: "('c, 's) ibc_rs \<Rightarrow> 's any_consensus_state \<Rightarrow> bytes" where
  "cons_encode_value rs (TendermintConsensus c) = cons_encode_vec rs c"

definition cons_try_from_any :: "('c, 's) ibc_rs \<Rightarrow> any_msg \<Rightarrow> soroban_error + 's any_consensus_state" where
  "cons_try_from_any rs raw =
     (if am_type_url raw = TENDERMINT_CONSENSUS_STATE_TYPE_URL
      then bindE (ok_or ProtobufDecode (cons_decode_vec rs (am_value raw))) (\<lambda>c. Inr (TendermintConsensus c))
      else Inl (UnknownTypeUrl (am_type_url raw)))"

fun cons_into_any :: "('c, 's) ibc_rs \<Rightarrow> 's any_consensus_state \<Rightarrow> any_msg" where
  "cons_into_any rs (TendermintConsensus c) =
     \<lparr>am_type_url = TENDERMINT_CONSENSUS_STATE_TYPE_URL, am_value = cons_encode_vec rs c\<rparr>"

fun cons_timestamp_secs :: "('c, 's) ibc_rs \<Rightarrow> 's any_consensus_state \<Rightarrow> u64" where
  "cons_timestamp_secs rs (TendermintConsensus c) = tcd_unix_timestamp (cons_inner rs c)"

section \<open>To and from contract values (\<open>soroban.rs\<close>)\<close>

definition sc_get_height :: "(bytes \<Rightarrow> bytes) \<Rightarrow> scmap \<Rightarrow> bytes \<Rightarrow> conversion_error + raw_height" where
  "sc_get_height disp m nm =
     bindE (scval_map_as_map disp m nm) (\<lambda>h.
     bindE (scval_map_u64 disp h (asc ''revision_number'')) (\<lambda>rn.
     bindE (scval_map_u64 disp h (asc ''revision_height'')) (\<lambda>rh.
     Inr \<lparr>rh_revision_number = rn, rh_revision_height = rh\<rparr>)))"

fun client_to_soroban_xdr :: "('c, 's) ibc_rs \<Rightarrow> sc_xdr \<Rightarrow> 'c any_client_state \<Rightarrow> conversion_error + bytes" where
  "client_to_soroban_xdr rs x (TendermintClient c) =
     (let cs = tm_inner rs c in
      bindE (scval_struct [(asc ''numerator'', ScvU32 (ucast (td_trust_numerator cs))),
                           (asc ''denominator'', ScvU32 (ucast (td_trust_denominator cs)))]) (\<lambda>trust_level.
      let (frozen_rn, frozen_rh) = (case td_frozen_height cs of
            Some h \<Rightarrow> (rh_revision_number h, rh_revision_height h) | None \<Rightarrow> (0, 0)) in
      bindE (scval_string (td_chain_id cs)) (\<lambda>chain_id.
      bindE (scval_height (rh_revision_number (td_latest_height cs)) (rh_revision_height (td_latest_height cs))) (\<lambda>latest_height.
      bindE (scval_height frozen_rn frozen_rh) (\<lambda>frozen_height.
      bindE (scval_bytes []) (\<lambda>proof_specs.
      bindE (scval_struct [(asc ''chain_id'', chain_id), (asc ''trust_level'', trust_level),
               (asc ''trusting_period_secs'', ScvU64 (td_trusting_period_secs cs)),
               (asc ''unbonding_period_secs'', ScvU64 (td_unbonding_period_secs cs)),
               (asc ''max_clock_drift_secs'', ScvU64 (td_max_clock_drift_secs cs)),
               (asc ''latest_height'', latest_height),
               (asc ''is_frozen'', ScvBool (td_frozen_height cs \<noteq> None)),
               (asc ''frozen_height'', frozen_height), (asc ''proof_specs'', proof_specs)]) (\<lambda>state.
      scval_to_xdr (enc_scval x) state)))))))"

definition client_from_soroban_xdr ::
  "('c, 's) ibc_rs \<Rightarrow> sc_xdr \<Rightarrow> (bytes \<Rightarrow> bytes) \<Rightarrow> bytes \<Rightarrow> soroban_error + 'c any_client_state" where
  "client_from_soroban_xdr rs x disp bs =
     bindE (map_err Conversion (scval_from_xdr (dec_scval x) bs)) (\<lambda>v.
     bindE (ok_or NotAMap (scval_as_map v)) (\<lambda>m.
     bindE (map_err Conversion (scval_map_as_map disp m (asc ''trust_level''))) (\<lambda>trust.
     bindE (map_err Conversion (sc_get_height disp m (asc ''frozen_height''))) (\<lambda>frozen.
     bindE (map_err Conversion (scval_map_string disp m (asc ''chain_id''))) (\<lambda>chain_id.
     bindE (map_err Conversion (scval_map_u32 disp trust (asc ''numerator''))) (\<lambda>numerator.
     bindE (map_err Conversion (scval_map_u32 disp trust (asc ''denominator''))) (\<lambda>denominator.
     bindE (map_err Conversion (scval_map_u64 disp m (asc ''trusting_period_secs''))) (\<lambda>trusting.
     bindE (map_err Conversion (scval_map_u64 disp m (asc ''unbonding_period_secs''))) (\<lambda>unbonding.
     bindE (map_err Conversion (scval_map_u64 disp m (asc ''max_clock_drift_secs''))) (\<lambda>drift.
     bindE (map_err Conversion (sc_get_height disp m (asc ''latest_height''))) (\<lambda>latest.
     let raw = \<lparr>rc_chain_id = chain_id, rc_trust_level = Some (ucast numerator, ucast denominator),
                rc_trusting_period = Some (trusting, 0), rc_unbonding_period = Some (unbonding, 0),
                rc_max_clock_drift = Some (drift, 0), rc_frozen_height = Some frozen,
                rc_latest_height = Some latest, rc_proof_specs = cosmos_proof_specs rs,
                rc_upgrade_path = [asc ''upgrade'', asc ''upgradedIBCState''],
                rc_allow_update_after_expiry = False, rc_allow_update_after_misbehaviour = False\<rparr> in
     bindE (ok_or FromRaw (tm_try_from_raw rs raw)) (\<lambda>cs.
     Inr (TendermintClient cs)))))))))))))"

definition tendermint_header_to_soroban_xdr :: "('c, 's) ibc_rs \<Rightarrow> sc_xdr \<Rightarrow> bytes \<Rightarrow> soroban_error + bytes" where
  "tendermint_header_to_soroban_xdr rs x header_bytes =
     bindE (ok_or HeaderDecode (decode_raw_header rs header_bytes)) (\<lambda>header.
     bindE (ok_or MissingSignedHeader (rt_signed_header header)) (\<lambda>signed_header.
     bindE (ok_or MissingInnerHeader (rg_header signed_header)) (\<lambda>inner.
     bindE (ok_or MissingTrustedHeight (rt_trusted_height header)) (\<lambda>trusted_height.
     bindE (ensure (\<not> sint (ri_height inner) < 0) NegativeTargetHeight) (\<lambda>_.
     let target_revision_height = ri_height inner;
         timestamp_secs = (case ri_time_seconds inner of
           Some t \<Rightarrow> (if sint t < 0 then 0 else t) | None \<Rightarrow> 0);
         next_validators_hash = ri_next_validators_hash inner;
         app_hash = ri_app_hash inner in
     bindE (ensure (\<not> length next_validators_hash \<noteq> 32) (ValidatorsHashLength (length next_validators_hash))) (\<lambda>_.
     bindE (ensure (\<not> length app_hash \<noteq> 32) (AppHashLength (length app_hash))) (\<lambda>_.
     let validator_set_bytes = (case rt_validator_set header of Some v \<Rightarrow> encode_validator_set rs v | None \<Rightarrow> []);
         signed_header_bytes = encode_signed_header rs signed_header in
     bindE (map_err Conversion (scval_height (rh_revision_number trusted_height) (rh_revision_height trusted_height))) (\<lambda>trusted.
     bindE (map_err Conversion (scval_height (rh_revision_number trusted_height) target_revision_height)) (\<lambda>target.
     bindE (map_err Conversion (scval_bytes next_validators_hash)) (\<lambda>nvh.
     bindE (map_err Conversion (scval_bytes app_hash)) (\<lambda>app.
     bindE (map_err Conversion (scval_bytes signed_header_bytes)) (\<lambda>shb.
     bindE (map_err Conversion (scval_bytes validator_set_bytes)) (\<lambda>vsb.
     bindE (map_err Conversion (scval_struct [(asc ''trusted_height'', trusted), (asc ''target_height'', target),
              (asc ''timestamp_secs'', ScvU64 timestamp_secs), (asc ''next_validators_hash'', nvh),
              (asc ''app_hash'', app), (asc ''signed_header_bytes'', shb), (asc ''validator_set_bytes'', vsb)])) (\<lambda>state.
     map_err Conversion (scval_to_xdr (enc_scval x) state)))))))))))))))"

fun cons_to_soroban_xdr :: "('c, 's) ibc_rs \<Rightarrow> sc_xdr \<Rightarrow> 's any_consensus_state \<Rightarrow> conversion_error + bytes" where
  "cons_to_soroban_xdr rs x (TendermintConsensus c) =
     (let cons = cons_inner rs c;
          timestamp_secs = (if sint (tcd_unix_timestamp cons) < 0 then 0 else tcd_unix_timestamp cons) in
      bindE (scval_bytes (tcd_next_validators_hash cons)) (\<lambda>nvh.
      bindE (scval_bytes (tcd_root cons)) (\<lambda>root.
      bindE (scval_struct [(asc ''timestamp_secs'', ScvU64 timestamp_secs), (asc ''next_validators_hash'', nvh),
               (asc ''root'', root)]) (\<lambda>state.
      scval_to_xdr (enc_scval x) state))))"

definition cons_from_soroban_xdr ::
  "('c, 's) ibc_rs \<Rightarrow> sc_xdr \<Rightarrow> (bytes \<Rightarrow> bytes) \<Rightarrow> bytes \<Rightarrow> soroban_error + 's any_consensus_state" where
  "cons_from_soroban_xdr rs x disp bs =
     bindE (map_err Conversion (scval_from_xdr (dec_scval x) bs)) (\<lambda>v.
     bindE (ok_or NotAMap (scval_as_map v)) (\<lambda>m.
     bindE (map_err Conversion (scval_map_u64 disp m (asc ''timestamp_secs''))) (\<lambda>timestamp_secs.
     bindE (map_err Conversion (scval_map_bytes disp m (asc ''next_validators_hash''))) (\<lambda>nvh.
     bindE (map_err Conversion (scval_map_bytes disp m (asc ''root''))) (\<lambda>root.
     let raw = \<lparr>rs_timestamp = Some (timestamp_secs, 0), rs_root = Some root, rs_next_validators_hash = nvh\<rparr> in
     bindE (ok_or FromRaw (cons_try_from_raw rs raw)) (\<lambda>cons.
     Inr (TendermintConsensus cons)))))))"

section \<open>The values the contract's types have\<close>

text \<open>
  A \<open>contracttype\<close> structure is a map from its field names, as symbols in order, to its fields
  (\<open>light-clients/tendermint/src/lib.rs\<close>).
\<close>

definition struct_val :: "(bytes \<times> scval) list \<Rightarrow> scval" where
  "struct_val flds = ScvMap (Some (struct_map flds))"

definition tm_height_val :: "tm_height \<Rightarrow> scval" where
  "tm_height_val h = struct_val [(asc ''revision_number'', ScvU64 (th_revision_number h)),
     (asc ''revision_height'', ScvU64 (th_revision_height h))]"

definition trust_threshold_val :: "trust_threshold \<Rightarrow> scval" where
  "trust_threshold_val t = struct_val [(asc ''numerator'', ScvU32 (tt_numerator t)),
     (asc ''denominator'', ScvU32 (tt_denominator t))]"

definition tm_client_state_val :: "tm_client_state \<Rightarrow> scval" where
  "tm_client_state_val cs = struct_val
     [(asc ''chain_id'', ScvString (tmc_chain_id cs)), (asc ''trust_level'', trust_threshold_val (tmc_trust_level cs)),
      (asc ''trusting_period_secs'', ScvU64 (tmc_trusting_period_secs cs)),
      (asc ''unbonding_period_secs'', ScvU64 (tmc_unbonding_period_secs cs)),
      (asc ''max_clock_drift_secs'', ScvU64 (tmc_max_clock_drift_secs cs)),
      (asc ''latest_height'', tm_height_val (tmc_latest_height cs)), (asc ''is_frozen'', ScvBool (tmc_is_frozen cs)),
      (asc ''frozen_height'', tm_height_val (tmc_frozen_height cs)), (asc ''proof_specs'', ScvBytes (tmc_proof_specs cs))]"

definition tm_consensus_state_val :: "tm_consensus_state \<Rightarrow> scval" where
  "tm_consensus_state_val cons = struct_val
     [(asc ''timestamp_secs'', ScvU64 (tms_timestamp_secs cons)),
      (asc ''next_validators_hash'', ScvBytes (tms_next_validators_hash cons)), (asc ''root'', ScvBytes (tms_root cons))]"

definition tm_header_val :: "tm_header \<Rightarrow> scval" where
  "tm_header_val h = struct_val
     [(asc ''trusted_height'', tm_height_val (tmh_trusted_height h)), (asc ''target_height'', tm_height_val (tmh_target_height h)),
      (asc ''timestamp_secs'', ScvU64 (tmh_timestamp_secs h)),
      (asc ''next_validators_hash'', ScvBytes (tmh_next_validators_hash h)), (asc ''app_hash'', ScvBytes (tmh_app_hash h)),
      (asc ''signed_header_bytes'', ScvBytes (tmh_signed_header_bytes h)),
      (asc ''validator_set_bytes'', ScvBytes (tmh_validator_set_bytes h))]"

lemma struct_val_eq:
  assumes "\<forall>f \<in> set flds. length (fst f) \<le> 32" and "length flds \<le> xdr_max"
  shows "scval_struct flds = Inr (struct_val flds)"
  by (simp only: scval_struct_eq [OF assms] struct_val_def)

lemma scval_height_val: "scval_height rn rh = Inr (tm_height_val \<lparr>th_revision_number = rn, th_revision_height = rh\<rparr>)"
  unfolding scval_height_def tm_height_val_def by (subst struct_val_eq) simp_all

section \<open>What the gateway writes is what the contract's types have\<close>

definition tm_height_of :: "raw_height \<Rightarrow> tm_height" where
  "tm_height_of h = \<lparr>th_revision_number = rh_revision_number h, th_revision_height = rh_revision_height h\<rparr>"

definition contract_client :: "tm_domain \<Rightarrow> tm_client_state" where
  "contract_client d = \<lparr>tmc_chain_id = td_chain_id d,
     tmc_trust_level = \<lparr>tt_numerator = ucast (td_trust_numerator d), tt_denominator = ucast (td_trust_denominator d)\<rparr>,
     tmc_trusting_period_secs = td_trusting_period_secs d, tmc_unbonding_period_secs = td_unbonding_period_secs d,
     tmc_max_clock_drift_secs = td_max_clock_drift_secs d, tmc_latest_height = tm_height_of (td_latest_height d),
     tmc_is_frozen = (td_frozen_height d \<noteq> None),
     tmc_frozen_height = (case td_frozen_height d of None \<Rightarrow> \<lparr>th_revision_number = 0, th_revision_height = 0\<rparr>
       | Some h \<Rightarrow> tm_height_of h),
     tmc_proof_specs = []\<rparr>"

lemma client_to_soroban_val:
  assumes "length (td_chain_id (tm_inner rs c)) \<le> xdr_max"
  shows "client_to_soroban_xdr rs x (TendermintClient c)
    = scval_to_xdr (enc_scval x) (tm_client_state_val (contract_client (tm_inner rs c)))"
  using assms
  by (simp add: Let_def scval_height_val scval_string_def scval_bytes_def struct_val_eq tm_client_state_val_def
      contract_client_def trust_threshold_val_def tm_height_of_def split: option.splits)

definition contract_consensus :: "tm_cons_domain \<Rightarrow> tm_consensus_state" where
  "contract_consensus d = \<lparr>tms_timestamp_secs = (if sint (tcd_unix_timestamp d) < 0 then 0 else tcd_unix_timestamp d),
     tms_next_validators_hash = tcd_next_validators_hash d, tms_root = tcd_root d\<rparr>"

lemma cons_to_soroban_val:
  assumes "length (tcd_next_validators_hash (cons_inner rs c)) \<le> xdr_max" "length (tcd_root (cons_inner rs c)) \<le> xdr_max"
  shows "cons_to_soroban_xdr rs x (TendermintConsensus c)
    = scval_to_xdr (enc_scval x) (tm_consensus_state_val (contract_consensus (cons_inner rs c)))"
  using assms by (simp add: Let_def scval_bytes_def struct_val_eq tm_consensus_state_val_def contract_consensus_def)

text \<open>The header of the contract that a relayed Tendermint header becomes, where it becomes one.\<close>

definition contract_header :: "('c, 's) ibc_rs \<Rightarrow> raw_tm_header \<Rightarrow> tm_header option" where
  "contract_header rs rh =
     (case (rt_signed_header rh, rt_trusted_height rh) of
        (Some sh, Some th) \<Rightarrow> (case rg_header sh of
          Some i \<Rightarrow>
            if 0 \<le> sint (ri_height i) \<and> length (ri_next_validators_hash i) = 32 \<and> length (ri_app_hash i) = 32
            then Some \<lparr>tmh_trusted_height = tm_height_of th,
              tmh_target_height = \<lparr>th_revision_number = rh_revision_number th, th_revision_height = ri_height i\<rparr>,
              tmh_timestamp_secs = (case ri_time_seconds i of Some t \<Rightarrow> if sint t < 0 then 0 else t | None \<Rightarrow> 0),
              tmh_next_validators_hash = ri_next_validators_hash i, tmh_app_hash = ri_app_hash i,
              tmh_signed_header_bytes = encode_signed_header rs sh,
              tmh_validator_set_bytes = (case rt_validator_set rh of Some v \<Rightarrow> encode_validator_set rs v | None \<Rightarrow> [])\<rparr>
            else None
        | None \<Rightarrow> None)
      | _ \<Rightarrow> None)"

lemma header_to_soroban_val:
  assumes "tendermint_header_to_soroban_xdr rs x bs = Inr out"
  shows "\<exists>rh h. decode_raw_header rs bs = Some rh \<and> contract_header rs rh = Some h
    \<and> scval_to_xdr (enc_scval x) (tm_header_val h) = Inr out"
  using assms
  by (auto simp: tendermint_header_to_soroban_xdr_def bindE_simps Let_def scval_height_val scval_bytes_def struct_val_eq
      contract_header_def tm_header_val_def tm_height_of_def)

end
