(* ===== verification/Api_Client.thy ===== *)
theory Api_Client
  imports Core_Soroban
begin

text \<open>
  The gateway's client of the API service, \<open>crates/core/src/api_client.rs\<close> with the types of
  \<open>crates/core/src/types.rs\<close>. Sending a request and parsing the response body belong to the HTTP
  library: the parameter \<open>http\<close> gives, for a URL, nothing (the request failed) or a status and a body
  (nothing when it is not JSON). The hexadecimal and XDR codecs are the parameter \<open>api_libs\<close>.
\<close>

section \<open>JSON values\<close>

text \<open>\<open>serde_json::Value\<close>; a number that is not a \<open>u64\<close> is kept apart. The keys of an object are distinct.\<close>

datatype json =
    JNull
  | JBool bool
  | JU64 u64
  | JNumber int
  | JStr bytes
  | JArr "json list"
  | JObj "(bytes \<times> json) list"

definition json_get :: "json \<Rightarrow> bytes \<Rightarrow> json option" where
  "json_get v key = (case v of JObj m \<Rightarrow> map_of m key | _ \<Rightarrow> None)"

definition json_str :: "json \<Rightarrow> bytes option" where
  "json_str v = (case v of JStr s \<Rightarrow> Some s | _ \<Rightarrow> None)"

definition json_u64 :: "json \<Rightarrow> u64 option" where
  "json_u64 v = (case v of JU64 n \<Rightarrow> Some n | _ \<Rightarrow> None)"

definition json_array :: "json \<Rightarrow> json list option" where
  "json_array v = (case v of JArr xs \<Rightarrow> Some xs | _ \<Rightarrow> None)"

definition get_str :: "json \<Rightarrow> bytes \<Rightarrow> bytes option" where
  "get_str v key = Option.bind (json_get v key) json_str"

definition get_u64 :: "json \<Rightarrow> bytes \<Rightarrow> u64 option" where
  "get_u64 v key = Option.bind (json_get v key) json_u64"

definition get_array :: "json \<Rightarrow> bytes \<Rightarrow> json list option" where
  "get_array v key = Option.bind (json_get v key) json_array"

definition or_default :: "'a \<Rightarrow> 'a option \<Rightarrow> 'a" where
  "or_default d v = (case v of Some x \<Rightarrow> x | None \<Rightarrow> d)"

definition string_field :: "json \<Rightarrow> bytes \<Rightarrow> bytes" where
  "string_field v key = or_default [] (get_str v key)"

text \<open>\<open>str::parse::<i128>\<close>: an optional sign, at least one digit, and the value in range.\<close>

definition parse_digits :: "bytes \<Rightarrow> nat option" where
  "parse_digits s = (if s \<noteq> [] \<and> (\<forall>d \<in> set s. is_digit d) then Some (undecimal s) else None)"

definition parse_i128 :: "bytes \<Rightarrow> int option" where
  "parse_i128 s =
     (let v = (case s of
          [] \<Rightarrow> None
        | c # r \<Rightarrow> if c = 43 then map_option int (parse_digits r)
                   else if c = 45 then map_option (\<lambda>n. - int n) (parse_digits r)
                   else map_option int (parse_digits s)) in
      case v of Some n \<Rightarrow> if - (2 ^ 127) \<le> n \<and> n < 2 ^ 127 then Some n else None | None \<Rightarrow> None)"

section \<open>Types (\<open>types.rs\<close>)\<close>

record ledger_data =
  ld_sequence :: u32
  ld_header_xdr :: bytes
  ld_metadata_xdr :: "bytes option"

record submitted_tx =
  stx_hash :: bytes
  stx_return_value :: "scval option"

record event_record =
  er_id :: bytes
  er_ledger :: u32
  er_ledger_closed_at :: bytes
  er_contract_id :: bytes
  er_tx_hash :: bytes
  er_topics_xdr :: "bytes list"
  er_value_xdr :: bytes

record events_page =
  ep_latest_ledger :: u32
  ep_cursor :: bytes
  ep_events :: "event_record list"

datatype event_cursor = Cursor bytes | StartLedger u32

section \<open>The client\<close>

record http =
  http_get :: "bytes \<Rightarrow> (nat \<times> json option) option"
  http_post :: "bytes \<Rightarrow> json \<Rightarrow> (nat \<times> json option) option"

record api_libs =
  hex_encode :: "bytes \<Rightarrow> bytes"
  hex_decode :: "bytes \<Rightarrow> bytes option"
  lib_xdr :: sc_xdr

record api_client =
  ac_base_url :: bytes

datatype api_error =
    RequestFailed bytes
  | ResponseParse bytes
  | ErrorStatus bytes nat
  | MissingResponseField bytes
  | HexDecode bytes
  | ArgEncode
  | ReturnValue conversion_error

definition trim_end :: "u8 \<Rightarrow> bytes \<Rightarrow> bytes" where
  "trim_end c s = rev (dropWhile (\<lambda>b. b = c) (rev s))"

definition api_client_new :: "bytes \<Rightarrow> api_client" where
  "api_client_new base_url = \<lparr>ac_base_url = trim_end 47 base_url\<rparr>"

definition api_url :: "api_client \<Rightarrow> bytes \<Rightarrow> bytes" where
  "api_url c path = ac_base_url c @ path"

definition json_response :: "bytes \<Rightarrow> (nat \<times> json option) option \<Rightarrow> api_error + json" where
  "json_response path r =
     bindE (ok_or (RequestFailed path) r) (\<lambda>(status, body).
     bindE (ok_or (ResponseParse path) body) (\<lambda>b.
     if 200 \<le> status \<and> status < 300 then Inr b else Inl (ErrorStatus path status)))"

definition get_json :: "http \<Rightarrow> api_client \<Rightarrow> bytes \<Rightarrow> api_error + json" where
  "get_json ht c path = json_response path (http_get ht (api_url c path))"

definition post_json :: "http \<Rightarrow> api_client \<Rightarrow> bytes \<Rightarrow> json \<Rightarrow> api_error + json" where
  "post_json ht c path body = json_response path (http_post ht (api_url c path) body)"

definition api_get_latest_ledger :: "http \<Rightarrow> api_client \<Rightarrow> api_error + u32" where
  "api_get_latest_ledger ht c =
     bindE (get_json ht c (asc ''/ledger/latest'')) (\<lambda>body.
     ok_or (MissingResponseField (asc ''sequence'')) (map_option ucast (get_u64 body (asc ''sequence''))))"

definition balance_path :: "bytes \<Rightarrow> bytes \<Rightarrow> bytes" where
  "balance_path denom address_hex = asc ''/stellar/transfer/balance/'' @ denom @ asc ''/'' @ address_hex"

definition get_transfer_balance :: "http \<Rightarrow> api_client \<Rightarrow> bytes \<Rightarrow> bytes \<Rightarrow> api_error + int" where
  "get_transfer_balance ht c denom address_hex =
     bindE (get_json ht c (balance_path denom address_hex)) (\<lambda>body.
     ok_or (MissingResponseField (asc ''balance'')) (Option.bind (get_str body (asc ''balance'')) parse_i128))"

definition list_client_ids :: "http \<Rightarrow> api_client \<Rightarrow> api_error + bytes list" where
  "list_client_ids ht c =
     bindE (get_json ht c (asc ''/stellar/clients'')) (\<lambda>body.
     Inr (case get_array body (asc ''clients'') of
            None \<Rightarrow> []
          | Some groups \<Rightarrow> concat (map (\<lambda>group.
              case get_array group (asc ''client_ids'') of None \<Rightarrow> [] | Some arr \<Rightarrow> List.map_filter json_str arr) groups)))"

definition client_state_path :: "bytes \<Rightarrow> bytes" where
  "client_state_path client_id = asc ''/stellar/clients/'' @ client_id @ asc ''/state''"

definition get_client_state_xdr :: "http \<Rightarrow> api_libs \<Rightarrow> api_client \<Rightarrow> bytes \<Rightarrow> api_error + bytes" where
  "get_client_state_xdr ht lb c client_id =
     bindE (get_json ht c (client_state_path client_id)) (\<lambda>body.
     bindE (ok_or (MissingResponseField (asc ''client_state_xdr'')) (get_str body (asc ''client_state_xdr''))) (\<lambda>hex.
     ok_or (HexDecode (asc ''client_state_xdr'')) (hex_decode lb hex)))"

definition consensus_state_path :: "bytes \<Rightarrow> u64 \<Rightarrow> bytes" where
  "consensus_state_path client_id height =
     asc ''/stellar/clients/'' @ client_id @ asc ''/consensus/'' @ decimal (unat height)"

definition get_consensus_state_xdr :: "http \<Rightarrow> api_libs \<Rightarrow> api_client \<Rightarrow> bytes \<Rightarrow> u64 \<Rightarrow> api_error + bytes" where
  "get_consensus_state_xdr ht lb c client_id height =
     bindE (get_json ht c (consensus_state_path client_id height)) (\<lambda>body.
     bindE (ok_or (MissingResponseField (asc ''consensus_state_xdr'')) (get_str body (asc ''consensus_state_xdr''))) (\<lambda>hex.
     ok_or (HexDecode (asc ''consensus_state_xdr'')) (hex_decode lb hex)))"

definition ledger_path :: "u32 \<Rightarrow> bytes" where
  "ledger_path sequence = asc ''/ledger/'' @ decimal (unat sequence)"

definition api_get_ledger :: "http \<Rightarrow> api_libs \<Rightarrow> api_client \<Rightarrow> u32 \<Rightarrow> api_error + ledger_data" where
  "api_get_ledger ht lb c sequence =
     bindE (get_json ht c (ledger_path sequence)) (\<lambda>body.
     bindE (ok_or (MissingResponseField (asc ''header_xdr'')) (get_str body (asc ''header_xdr''))) (\<lambda>header_hex.
     bindE (ok_or (HexDecode (asc ''header_xdr'')) (hex_decode lb header_hex)) (\<lambda>header_xdr.
     bindE (case get_str body (asc ''metadata_xdr'') of
              Some meta_hex \<Rightarrow> bindE (ok_or (HexDecode (asc ''metadata_xdr'')) (hex_decode lb meta_hex)) (\<lambda>m. Inr (Some m))
            | None \<Rightarrow> Inr None) (\<lambda>metadata_xdr.
     Inr \<lparr>ld_sequence = sequence, ld_header_xdr = header_xdr, ld_metadata_xdr = metadata_xdr\<rparr>))))"

definition events_path :: "bytes \<Rightarrow> event_cursor \<Rightarrow> u32 option \<Rightarrow> bytes" where
  "events_path contract_id cursor limit =
     asc ''/events?contract_id='' @ contract_id
     @ (case cursor of Cursor c \<Rightarrow> asc ''&cursor='' @ c | StartLedger s \<Rightarrow> asc ''&start_ledger='' @ decimal (unat s))
     @ (case limit of Some l \<Rightarrow> asc ''&limit='' @ decimal (unat l) | None \<Rightarrow> [])"

definition parse_event :: "api_libs \<Rightarrow> json \<Rightarrow> api_error + event_record" where
  "parse_event lb ev =
     bindE (case get_array ev (asc ''topics_xdr'') of
              Some topics \<Rightarrow> mapE (\<lambda>t. ok_or (HexDecode (asc ''topics_xdr'')) (hex_decode lb t)) (List.map_filter json_str topics)
            | None \<Rightarrow> Inr []) (\<lambda>topics_xdr.
     bindE (case get_str ev (asc ''value_xdr'') of
              Some v \<Rightarrow> ok_or (HexDecode (asc ''value_xdr'')) (hex_decode lb v)
            | None \<Rightarrow> Inr []) (\<lambda>value_xdr.
     Inr \<lparr>er_id = string_field ev (asc ''id''), er_ledger = ucast (or_default 0 (get_u64 ev (asc ''ledger''))),
          er_ledger_closed_at = string_field ev (asc ''ledger_closed_at''),
          er_contract_id = string_field ev (asc ''contract_id''), er_tx_hash = string_field ev (asc ''tx_hash''),
          er_topics_xdr = topics_xdr, er_value_xdr = value_xdr\<rparr>))"

definition api_get_events ::
  "http \<Rightarrow> api_libs \<Rightarrow> api_client \<Rightarrow> bytes \<Rightarrow> event_cursor \<Rightarrow> u32 option \<Rightarrow> api_error + events_page" where
  "api_get_events ht lb c contract_id cursor limit =
     bindE (get_json ht c (events_path contract_id cursor limit)) (\<lambda>body.
     bindE (ok_or (MissingResponseField (asc ''latest_ledger'')) (map_option ucast (get_u64 body (asc ''latest_ledger'')))) (\<lambda>latest_ledger.
     let cursor = string_field body (asc ''cursor'') in
     bindE (ok_or (MissingResponseField (asc ''events'')) (get_array body (asc ''events''))) (\<lambda>raw_events.
     bindE (mapE (parse_event lb) raw_events) (\<lambda>events.
     Inr \<lparr>ep_latest_ledger = latest_ledger, ep_cursor = cursor, ep_events = events\<rparr>))))"

definition api_build_unsigned_tx ::
  "http \<Rightarrow> api_libs \<Rightarrow> api_client \<Rightarrow> bytes \<Rightarrow> bytes \<Rightarrow> scval list \<Rightarrow> api_error + bytes" where
  "api_build_unsigned_tx ht lb c signer method args =
     bindE (mapE (\<lambda>arg. bindE (ok_or ArgEncode (enc_scval (lib_xdr lb) arg)) (\<lambda>bs. Inr (hex_encode lb bs))) args) (\<lambda>args_xdr.
     let body = JObj [(asc ''signer'', JStr signer), (asc ''method'', JStr method),
                      (asc ''args_xdr'', JArr (map JStr args_xdr))] in
     bindE (post_json ht c (asc ''/tx/prepare'') body) (\<lambda>resp.
     bindE (ok_or (MissingResponseField (asc ''tx_xdr'')) (get_str resp (asc ''tx_xdr''))) (\<lambda>tx_hex.
     ok_or (HexDecode (asc ''tx_xdr'')) (hex_decode lb tx_hex))))"

definition api_submit_and_wait :: "http \<Rightarrow> api_libs \<Rightarrow> api_client \<Rightarrow> bytes \<Rightarrow> api_error + submitted_tx" where
  "api_submit_and_wait ht lb c tx_xdr =
     bindE (post_json ht c (asc ''/tx/submit'') (JObj [(asc ''tx_xdr'', JStr (hex_encode lb tx_xdr))])) (\<lambda>resp.
     bindE (ok_or (MissingResponseField (asc ''hash'')) (get_str resp (asc ''hash''))) (\<lambda>hash.
     bindE (case get_str resp (asc ''return_value_xdr'') of
              Some value_hex \<Rightarrow>
                bindE (ok_or (HexDecode (asc ''return_value_xdr'')) (hex_decode lb value_hex)) (\<lambda>bs.
                bindE (map_err ReturnValue (scval_from_xdr (dec_scval (lib_xdr lb)) bs)) (\<lambda>v. Inr (Some v)))
            | None \<Rightarrow> Inr None) (\<lambda>return_value.
     Inr \<lparr>stx_hash = hash, stx_return_value = return_value\<rparr>)))"

end
