(* ===== verification/Core_Soroban_Properties.thy ===== *)
theory Core_Soroban_Properties
  imports Core_Soroban
begin

text \<open>
  The gateway's translations compose: what it writes for the contract it reads back unchanged, up to
  the whole seconds and 32-bit fractions the contract stores, and a relayed header reaches the
  contract's storage.
\<close>

section \<open>Reading what the contract stores\<close>

text \<open>
  Text that the XDR library shows as it is: printable ASCII without the backslash. The field names of
  the contract's types are such text.
\<close>

definition plain :: "bytes \<Rightarrow> bool" where
  "plain s \<longleftrightarrow> (\<forall>b \<in> set s. 32 \<le> b \<and> b \<le> 126 \<and> b \<noteq> 92)"

definition shows_plain :: "(bytes \<Rightarrow> bytes) \<Rightarrow> bool" where
  "shows_plain disp \<longleftrightarrow> (\<forall>s. plain s \<longrightarrow> disp s = s)"

lemma shows_plainD: "shows_plain disp \<Longrightarrow> plain s \<Longrightarrow> disp s = s"
  by (simp add: shows_plain_def)

definition plain_names :: "(bytes \<times> scval) list \<Rightarrow> bool" where
  "plain_names flds \<longleftrightarrow> distinct (map fst flds) \<and> (\<forall>f \<in> set flds. plain (fst f))"

lemma asc_inject [simp]: "asc s = asc t \<longleftrightarrow> s = t"
proof -
  have "unat (of_char c :: u8) = of_char c" for c
    using of_char_mod_256 [of c] by (simp add: unat_of_nat take_bit_eq_mod flip: of_nat_of_char [where 'a = u8])
  then show ?thesis unfolding asc_def by (intro inj_map_eq_map injI) (metis of_char_eq_iff)
qed

lemma plain_fields:
  assumes "shows_plain disp" and "plain_names flds"
  shows "scval_map_field disp (struct_map flds) nm = ok_or (MissingField nm) (map_of flds nm)"
proof (cases "map_of flds nm")
  case None
  have "scval_field disp (struct_map flds) nm = None"
  proof -
    have "disp k = k" if "(k, w) \<in> set flds" for k w
      using assms that by (auto simp: plain_names_def shows_plain_def)
    moreover have "(nm, w) \<notin> set flds" for w using None by (force simp: map_of_eq_None_iff)
    ultimately show ?thesis by (auto simp: scval_field_def find_None_iff struct_map_def)
  qed
  with None show ?thesis by (simp add: scval_map_field_def)
next
  case (Some v)
  have "distinct (map fst flds)" using assms(2) by (simp add: plain_names_def)
  moreover have "\<forall>f \<in> set flds. disp (fst f) = fst f"
    using assms by (auto simp: plain_names_def shows_plain_def)
  ultimately have "scval_field disp (struct_map flds) nm = Some v"
    using map_of_SomeD [OF Some] by (rule struct_map_field)
  with Some show ?thesis by (simp add: scval_map_field_def)
qed

lemma scval_as_map_struct [simp]: "scval_as_map (struct_val flds) = Some (struct_map flds)"
  by (simp add: scval_as_map_def struct_val_def)

lemma height_names: "plain_names [(asc ''revision_number'', a), (asc ''revision_height'', b)]"
  by (simp add: plain_names_def plain_def asc_def)

lemma trust_names: "plain_names [(asc ''numerator'', a), (asc ''denominator'', b)]"
  by (simp add: plain_names_def plain_def asc_def)

lemma client_names:
  "plain_names [(asc ''chain_id'', a), (asc ''trust_level'', b), (asc ''trusting_period_secs'', c),
     (asc ''unbonding_period_secs'', d), (asc ''max_clock_drift_secs'', e), (asc ''latest_height'', f),
     (asc ''is_frozen'', g), (asc ''frozen_height'', h), (asc ''proof_specs'', i)]"
  by (simp add: plain_names_def plain_def asc_def)

lemma consensus_names: "plain_names [(asc ''timestamp_secs'', a), (asc ''next_validators_hash'', b), (asc ''root'', c)]"
  by (simp add: plain_names_def plain_def asc_def)

text \<open>A structure determines its fields.\<close>

lemma header_names:
  "plain_names [(asc ''trusted_height'', a), (asc ''target_height'', b), (asc ''timestamp_secs'', c),
     (asc ''next_validators_hash'', d), (asc ''app_hash'', e), (asc ''signed_header_bytes'', f),
     (asc ''validator_set_bytes'', g)]"
  by (simp add: plain_names_def plain_def asc_def)

lemma struct_val_fields:
  assumes "struct_val flds = struct_val flds'" and "plain_names flds" and "plain_names flds'"
  shows "map_of flds nm = map_of flds' nm"
proof -
  have "shows_plain (\<lambda>s. s)" by (simp add: shows_plain_def)
  note plain_fields [OF this assms(2), of nm] plain_fields [OF this assms(3), of nm]
  moreover have "struct_map flds = struct_map flds'" using assms(1) by (simp add: struct_val_def)
  ultimately have "ok_or (MissingField nm) (map_of flds nm) = ok_or (MissingField nm) (map_of flds' nm)" by simp
  then show ?thesis by (cases "map_of flds nm"; cases "map_of flds' nm") auto
qed

lemma tm_height_val_inj:
  assumes "tm_height_val h = tm_height_val h'"
  shows "h = h'"
proof -
  note eq = struct_val_fields [OF assms [unfolded tm_height_val_def] height_names height_names]
  show ?thesis
    using eq [of "asc ''revision_number''"] eq [of "asc ''revision_height''"]
    by (intro tm_height.equality) auto
qed

lemma tm_header_val_inj:
  assumes "tm_header_val h = tm_header_val h'"
  shows "h = h'"
proof -
  note eq = struct_val_fields [OF assms [unfolded tm_header_val_def] header_names header_names]
  show ?thesis
    using eq [of "asc ''trusted_height''"] eq [of "asc ''target_height''"] eq [of "asc ''timestamp_secs''"]
      eq [of "asc ''next_validators_hash''"] eq [of "asc ''app_hash''"] eq [of "asc ''signed_header_bytes''"]
      eq [of "asc ''validator_set_bytes''"]
    by (intro tm_header.equality) (auto dest: tm_height_val_inj)
qed

definition raw_height_of :: "tm_height \<Rightarrow> raw_height" where
  "raw_height_of h = \<lparr>rh_revision_number = th_revision_number h, rh_revision_height = th_revision_height h\<rparr>"

lemma read_height:
  assumes "shows_plain disp" and "scval_map_field disp m nm = Inr (tm_height_val h)"
  shows "sc_get_height disp m nm = Inr (raw_height_of h)"
  using assms(2) plain_fields [OF assms(1) height_names]
  by (simp add: sc_get_height_def scval_map_as_map_def scval_map_u64_def scval_as_u64_def tm_height_val_def raw_height_of_def)

text \<open>The raw client state the gateway builds from a stored one.\<close>

definition raw_of_contract :: "('c, 's) ibc_rs \<Rightarrow> tm_client_state \<Rightarrow> raw_tm_client" where
  "raw_of_contract rs cs = \<lparr>rc_chain_id = tmc_chain_id cs,
     rc_trust_level = Some (ucast (tt_numerator (tmc_trust_level cs)), ucast (tt_denominator (tmc_trust_level cs))),
     rc_trusting_period = Some (tmc_trusting_period_secs cs, 0), rc_unbonding_period = Some (tmc_unbonding_period_secs cs, 0),
     rc_max_clock_drift = Some (tmc_max_clock_drift_secs cs, 0),
     rc_frozen_height = Some (raw_height_of (tmc_frozen_height cs)),
     rc_latest_height = Some (raw_height_of (tmc_latest_height cs)), rc_proof_specs = cosmos_proof_specs rs,
     rc_upgrade_path = [asc ''upgrade'', asc ''upgradedIBCState''],
     rc_allow_update_after_expiry = False, rc_allow_update_after_misbehaviour = False\<rparr>"

lemma client_from_soroban_val:
  assumes disp: "shows_plain disp" and "plain (tmc_chain_id cs)" and "dec_scval x bs = Some (tm_client_state_val cs)"
  shows "client_from_soroban_xdr rs x disp bs
    = bindE (ok_or FromRaw (tm_try_from_raw rs (raw_of_contract rs cs))) (\<lambda>c. Inr (TendermintClient c))"
proof -
  define flds where "flds = [(asc ''chain_id'', ScvString (tmc_chain_id cs)),
      (asc ''trust_level'', trust_threshold_val (tmc_trust_level cs)),
      (asc ''trusting_period_secs'', ScvU64 (tmc_trusting_period_secs cs)),
      (asc ''unbonding_period_secs'', ScvU64 (tmc_unbonding_period_secs cs)),
      (asc ''max_clock_drift_secs'', ScvU64 (tmc_max_clock_drift_secs cs)),
      (asc ''latest_height'', tm_height_val (tmc_latest_height cs)), (asc ''is_frozen'', ScvBool (tmc_is_frozen cs)),
      (asc ''frozen_height'', tm_height_val (tmc_frozen_height cs)), (asc ''proof_specs'', ScvBytes (tmc_proof_specs cs))]"
  have "plain_names flds" unfolding flds_def by (rule client_names)
  note field = plain_fields [OF disp this]
  have lookups: "map_of flds (asc ''chain_id'') = Some (ScvString (tmc_chain_id cs))"
    "map_of flds (asc ''trust_level'') = Some (trust_threshold_val (tmc_trust_level cs))"
    "map_of flds (asc ''trusting_period_secs'') = Some (ScvU64 (tmc_trusting_period_secs cs))"
    "map_of flds (asc ''unbonding_period_secs'') = Some (ScvU64 (tmc_unbonding_period_secs cs))"
    "map_of flds (asc ''max_clock_drift_secs'') = Some (ScvU64 (tmc_max_clock_drift_secs cs))"
    "map_of flds (asc ''latest_height'') = Some (tm_height_val (tmc_latest_height cs))"
    "map_of flds (asc ''frozen_height'') = Some (tm_height_val (tmc_frozen_height cs))"
    by (simp_all add: flds_def)
  have "dec_scval x bs = Some (struct_val flds)"
    using assms(3) by (simp only: tm_client_state_val_def flds_def)
  then show ?thesis
    using plain_fields [OF disp trust_names] shows_plainD [OF disp assms(2)] read_height [OF disp]
    by (simp add: field lookups client_from_soroban_xdr_def scval_from_xdr_def scval_map_as_map_def scval_map_string_def
        scval_map_u32_def scval_map_u64_def scval_as_string_def scval_as_u32_def scval_as_u64_def trust_threshold_val_def
        raw_of_contract_def Let_def)
qed

lemma cons_from_soroban_val:
  assumes disp: "shows_plain disp" and "dec_scval x bs = Some (tm_consensus_state_val cons)"
  shows "cons_from_soroban_xdr rs x disp bs = bindE (ok_or FromRaw (cons_try_from_raw rs
      \<lparr>rs_timestamp = Some (tms_timestamp_secs cons, 0), rs_root = Some (tms_root cons),
       rs_next_validators_hash = tms_next_validators_hash cons\<rparr>)) (\<lambda>c. Inr (TendermintConsensus c))"
  using assms(2) plain_fields [OF disp consensus_names]
  by (simp add: cons_from_soroban_xdr_def scval_from_xdr_def tm_consensus_state_val_def scval_map_u64_def
      scval_map_bytes_def scval_as_u64_def scval_as_bytes_def Let_def)

section \<open>Properties\<close>

definition xdr_law :: "sc_xdr \<Rightarrow> bool" where
  "xdr_law x \<longleftrightarrow> (\<forall>v bs. enc_scval x v = Some bs \<longrightarrow> dec_scval x bs = Some v)"

text \<open>
  What the code relies on of \<open>TryFrom<RawTmClientState>\<close> of ibc-rs: the fields are kept, and a frozen
  height of zero means not frozen.
\<close>

definition raw_fields_kept :: "('c, 's) ibc_rs \<Rightarrow> bool" where
  "raw_fields_kept rs \<longleftrightarrow> (\<forall>raw c. tm_try_from_raw rs raw = Some c \<longrightarrow>
     td_chain_id (tm_inner rs c) = rc_chain_id raw
     \<and> rc_trust_level raw = Some (td_trust_numerator (tm_inner rs c), td_trust_denominator (tm_inner rs c))
     \<and> map_option fst (rc_trusting_period raw) = Some (td_trusting_period_secs (tm_inner rs c))
     \<and> map_option fst (rc_unbonding_period raw) = Some (td_unbonding_period_secs (tm_inner rs c))
     \<and> map_option fst (rc_max_clock_drift raw) = Some (td_max_clock_drift_secs (tm_inner rs c))
     \<and> rc_latest_height raw = Some (td_latest_height (tm_inner rs c))
     \<and> td_frozen_height (tm_inner rs c) = (case rc_frozen_height raw of
          Some h \<Rightarrow> if rh_revision_height h = 0 then None else Some h | None \<Rightarrow> None))"

lemma raw_height_round [simp]: "raw_height_of (tm_height_of h) = h"
  by (simp add: raw_height_of_def tm_height_of_def)

lemma raw_height_of_height [simp]: "rh_revision_height (raw_height_of h) = th_revision_height h"
  by (simp add: raw_height_of_def)

lemma height_of_height [simp]: "th_revision_height (tm_height_of h) = rh_revision_height h"
  by (simp add: tm_height_of_def)

lemma ucast_fits: "v < 2 ^ 32 \<Longrightarrow> ucast (ucast v :: u32) = (v :: u64)"
proof -
  assume "v < 2 ^ 32"
  then have "unat v < 2 ^ 32" by (simp add: word_less_nat_alt)
  then have "unat (ucast (ucast v :: u32) :: u64) = unat v"
    by (simp add: unsigned_ucast_eq unsigned_take_bit_eq take_bit_nat_eq_self)
  then show ?thesis by (simp add: word_unat_eq_iff)
qed

lemma client_to_soroban_chain_id:
  "client_to_soroban_xdr rs x (TendermintClient c) = Inr bs \<Longrightarrow> length (td_chain_id (tm_inner rs c)) \<le> xdr_max"
  by (auto simp: bindE_simps Let_def scval_string_def split: prod.splits option.splits)

text \<open>
  Client states survive the contract. The value the gateway writes for a Tendermint client
  state is the contract's value of that state, and reading it back gives a state with the same
  fields, when the trust level fits 32 bits, the frozen height, if any, is not zero and the library
  accepts the state that was read.
\<close>

lemma client_state_roundtrip:
  assumes "client_to_soroban_xdr rs x (TendermintClient c) = Inr bs" and "xdr_law x" and "shows_plain disp"
    and "plain (td_chain_id (tm_inner rs c))" and "raw_fields_kept rs"
    and "tm_try_from_raw rs (raw_of_contract rs (contract_client (tm_inner rs c))) = Some c'"
    and "td_trust_numerator (tm_inner rs c) < 2 ^ 32" and "td_trust_denominator (tm_inner rs c) < 2 ^ 32"
    and "\<forall>h. td_frozen_height (tm_inner rs c) = Some h \<longrightarrow> rh_revision_height h \<noteq> 0"
  shows "dec_scval x bs = Some (tm_client_state_val (contract_client (tm_inner rs c)))
    \<and> client_from_soroban_xdr rs x disp bs = Inr (TendermintClient c') \<and> tm_inner rs c' = tm_inner rs c"
proof -
  have dec: "dec_scval x bs = Some (tm_client_state_val (contract_client (tm_inner rs c)))"
    using assms(1, 2) client_to_soroban_val [OF client_to_soroban_chain_id [OF assms(1)], of x]
    by (auto simp: scval_to_xdr_def bindE_simps xdr_law_def simp del: client_to_soroban_xdr.simps)
  have "plain (tmc_chain_id (contract_client (tm_inner rs c)))"
    using assms(4) by (simp add: contract_client_def)
  from client_from_soroban_val [OF assms(3) this dec, of rs] assms(6)
  have "client_from_soroban_xdr rs x disp bs = Inr (TendermintClient c')" by simp
  moreover have "tm_inner rs c' = tm_inner rs c"
    using assms(5) [unfolded raw_fields_kept_def, rule_format, OF assms(6)] assms(7-9)
    by (intro tm_domain.equality)
       (auto simp: raw_of_contract_def contract_client_def ucast_fits split: option.splits)
  ultimately show ?thesis using dec by blast
qed

definition sample_domain :: tm_domain where
  "sample_domain = \<lparr>td_chain_id = asc ''cosmoshub-4'', td_trust_numerator = 1, td_trust_denominator = 3,
     td_trusting_period_secs = 100, td_unbonding_period_secs = 200, td_max_clock_drift_secs = 10,
     td_latest_height = \<lparr>rh_revision_number = 4, rh_revision_height = 7\<rparr>, td_frozen_height = None\<rparr>"

text \<open>A library whose states are their fields, and a codec of one value.\<close>

definition sample_from_raw :: "raw_tm_client \<Rightarrow> tm_domain option" where
  "sample_from_raw raw =
     (case (rc_trust_level raw, rc_trusting_period raw, rc_unbonding_period raw, rc_max_clock_drift raw, rc_latest_height raw) of
        (Some (n, d), Some (t, _), Some (u, _), Some (m, _), Some h) \<Rightarrow>
          Some \<lparr>td_chain_id = rc_chain_id raw, td_trust_numerator = n, td_trust_denominator = d,
            td_trusting_period_secs = t, td_unbonding_period_secs = u, td_max_clock_drift_secs = m, td_latest_height = h,
            td_frozen_height = (case rc_frozen_height raw of
              Some h \<Rightarrow> if rh_revision_height h = 0 then None else Some h | None \<Rightarrow> None)\<rparr>
      | _ \<Rightarrow> None)"

definition sample_raw_header :: raw_tm_header where
  "sample_raw_header = \<lparr>rt_signed_header = Some \<lparr>rg_header = Some \<lparr>ri_height = 9, ri_time_seconds = Some 50,
       ri_next_validators_hash = replicate 32 1, ri_app_hash = replicate 32 2\<rparr>, rg_commit = [5]\<rparr>,
     rt_validator_set = None, rt_trusted_height = Some \<lparr>rh_revision_number = 4, rh_revision_height = 7\<rparr>\<rparr>"

definition sample_rs :: "(tm_domain, tm_cons_domain) ibc_rs" where
  "sample_rs = \<lparr>tm_inner = (\<lambda>d. d), tm_try_from_raw = sample_from_raw, tm_encode_vec = (\<lambda>_. []), tm_decode_vec = (\<lambda>_. None),
     cons_inner = (\<lambda>d. d), cons_try_from_raw = (\<lambda>_. None), cons_encode_vec = (\<lambda>_. []), cons_decode_vec = (\<lambda>_. None),
     decode_raw_header = (\<lambda>_. Some sample_raw_header), encode_signed_header = rg_commit, encode_validator_set = (\<lambda>v. v),
     cosmos_proof_specs = []\<rparr>"

definition one_value_xdr :: "scval \<Rightarrow> sc_xdr" where
  "one_value_xdr v = \<lparr>enc_scval = (\<lambda>u. if u = v then Some [1] else None), dec_scval = (\<lambda>bs. if bs = [1] then Some v else None)\<rparr>"

lemma one_value_xdr_law: "xdr_law (one_value_xdr v)"
  by (simp add: xdr_law_def one_value_xdr_def)

lemma sample_rs_kept: "raw_fields_kept sample_rs"
  by (auto simp: raw_fields_kept_def sample_rs_def sample_from_raw_def split: option.splits prod.splits)

lemma client_state_roundtrip_witness:
  "\<exists>bs c'. client_from_soroban_xdr sample_rs (one_value_xdr (tm_client_state_val (contract_client sample_domain))) (\<lambda>s. s) bs
     = Inr (TendermintClient c') \<and> tm_inner sample_rs c' = sample_domain"
proof -
  let ?x = "one_value_xdr (tm_client_state_val (contract_client sample_domain))"
  have inner: "tm_inner sample_rs sample_domain = sample_domain" by (simp add: sample_rs_def)
  have "client_to_soroban_xdr sample_rs ?x (TendermintClient sample_domain) = Inr [1]"
    by (subst client_to_soroban_val) (simp_all add: inner scval_to_xdr_def one_value_xdr_def, simp add: sample_domain_def)
  moreover obtain c' where "tm_try_from_raw sample_rs (raw_of_contract sample_rs (contract_client sample_domain)) = Some c'"
    by (simp add: sample_rs_def sample_from_raw_def raw_of_contract_def)
  moreover have "plain (td_chain_id sample_domain)" "td_trust_numerator sample_domain < 2 ^ 32"
    "td_trust_denominator sample_domain < 2 ^ 32" "td_frozen_height sample_domain = None"
    by (simp_all add: sample_domain_def plain_def asc_def)
  moreover have "shows_plain (\<lambda>s. s)" by (simp add: shows_plain_def)
  ultimately have "client_from_soroban_xdr sample_rs ?x (\<lambda>s. s) [1] = Inr (TendermintClient c')
      \<and> tm_inner sample_rs c' = tm_inner sample_rs sample_domain"
    using client_state_roundtrip [OF _ one_value_xdr_law _ _ sample_rs_kept, of _ sample_domain "[1]" "\<lambda>s. s" c']
    unfolding inner by (metis option.distinct(1))
  then show ?thesis unfolding inner by blast
qed

text \<open>
  The contract's decoder of headers on the values of its type: \<open>next_validators_hash\<close> and \<open>app_hash\<close> are
  \<open>BytesN<32>\<close>, so of values with hashes of another length nothing is said.
\<close>

definition header_law :: "sc_xdr \<Rightarrow> tm_codec \<Rightarrow> bool" where
  "header_law x cd \<longleftrightarrow> (\<forall>bs h. dec_scval x bs = Some (tm_header_val h)
     \<and> length (tmh_next_validators_hash h) = 32 \<and> length (tmh_app_hash h) = 32 \<longrightarrow> dec_tm_header cd bs = Some h)"

lemma contract_header_lengths:
  "contract_header rs rh = Some h \<Longrightarrow> length (tmh_next_validators_hash h) = 32 \<and> length (tmh_app_hash h) = 32"
  by (auto simp: contract_header_def split: option.splits if_splits)

text \<open>
  C31 (a relayed header is stored). A Tendermint header that the gateway converts for
  \<open>update_client\<close> is one the light client accepts whenever the client is not frozen and behind it,
  and the consensus state it stores at the header's height has the header's application hash, next
  validators and time.
\<close>

theorem relayed_header_stored:
  assumes "tendermint_header_to_soroban_xdr rs x header_bytes = Inr msg" and "xdr_law x"
    and "header_law x cd"
    and "tm_client l c = Some cs" and "\<not> tmc_is_frozen cs"
    and "decode_raw_header rs header_bytes = Some rh" and "contract_header rs rh = Some h"
    and "th_revision_height (tmc_latest_height cs) < th_revision_height (tmh_target_height h)"
  shows "\<exists>l'. tm_update_state cd c msg l = Inr (th_revision_height (tmh_target_height h), l')
    \<and> tm_consensus l' (c, th_revision_height (tmh_target_height h))
        = Some \<lparr>tms_timestamp_secs = tmh_timestamp_secs h, tms_next_validators_hash = tmh_next_validators_hash h,
                tms_root = tmh_app_hash h\<rparr>"
proof -
  from header_to_soroban_val [OF assms(1)] assms(6, 7)
  have "enc_scval x (tm_header_val h) = Some msg" by (auto simp: scval_to_xdr_def bindE_simps)
  with assms(2, 3) contract_header_lengths [OF assms(7)] have "dec_tm_header cd msg = Some h"
    by (auto simp: xdr_law_def header_law_def)
  with assms(4, 5, 8) show ?thesis by (simp add: tm_update_state_eq_Inr)
qed

definition sample_contract_header :: tm_header where
  "sample_contract_header = the (contract_header sample_rs sample_raw_header)"

lemma sample_header_contract: "contract_header sample_rs sample_raw_header = Some sample_contract_header"
  by (simp add: sample_contract_header_def contract_header_def sample_raw_header_def)

theorem relayed_header_stored_witness:
  "\<exists>msg cd l' cons. tm_update_state cd [7] msg sample_tm = Inr (9, l') \<and> tm_consensus l' ([7], 9) = Some cons
     \<and> tms_root cons = replicate 32 2"
proof -
  let ?x = "one_value_xdr (tm_header_val sample_contract_header)"
  let ?cd = "sample_tm_codec\<lparr>dec_tm_header := (\<lambda>bs. if bs = [1] then Some sample_contract_header else None)\<rparr>"
  have conv: "tendermint_header_to_soroban_xdr sample_rs ?x [] = Inr [1]"
    by (simp add: tendermint_header_to_soroban_xdr_def sample_rs_def sample_raw_header_def Let_def scval_height_val
        scval_bytes_def struct_val_eq scval_to_xdr_def one_value_xdr_def tm_header_val_def sample_contract_header_def
        contract_header_def tm_height_of_def)
  have target: "th_revision_height (tmh_target_height sample_contract_header) = 9"
    "tmh_app_hash sample_contract_header = replicate 32 2"
    by (simp_all add: sample_contract_header_def contract_header_def sample_raw_header_def)
  have cl: "tm_client sample_tm [7] = Some sample_tm_client" "\<not> tmc_is_frozen sample_tm_client"
    "th_revision_height (tmc_latest_height sample_tm_client) < 9"
    by (simp_all add: sample_tm_def sample_tm_client_def)
  have dec: "header_law ?x ?cd"
    by (auto simp: header_law_def one_value_xdr_def dest: tm_header_val_inj split: if_splits)
  from relayed_header_stored [OF conv one_value_xdr_law dec cl(1, 2) _ sample_header_contract] cl(3) target
  show ?thesis by (fastforce simp: sample_rs_def)
qed

end
