(* ===== verification/Core_Event.thy ===== *)
theory Core_Event
  imports Core_Soroban_Properties Router_State
begin

text \<open>
  The relayer's text for a router event, \<open>crates/core/src/ibc/event.rs\<close>, and its agreement with the
  events the router declares (\<open>ibc-router/src/events.rs\<close>).
\<close>

section \<open>Attributes\<close>

definition first_payload_ports :: "(bytes \<Rightarrow> bytes) \<Rightarrow> scmap \<Rightarrow> bytes \<times> bytes" where
  "first_payload_ports disp packet =
     (let dflt = (asc ''transfer'', asc ''transfer'');
          port = (\<lambda>m nm. case Option.bind (scval_field disp m nm) (scval_as_string disp) of
                    Some s \<Rightarrow> s | None \<Rightarrow> asc ''transfer'') in
      case scval_field disp packet (asc ''payloads'') of
        Some (ScvVec (Some payloads)) \<Rightarrow>
          (case payloads of
             [] \<Rightarrow> dflt
           | first # _ \<Rightarrow>
               (case scval_as_map first of
                  None \<Rightarrow> dflt
                | Some payload \<Rightarrow> (port payload (asc ''source_port''), port payload (asc ''dest_port''))))
      | _ \<Rightarrow> dflt)"

text \<open>One line \<open>name=value\<close> of the text.\<close>

definition attr_line :: "string \<Rightarrow> bytes \<Rightarrow> bytes" where
  "attr_line nm v = asc nm @ asc ''='' @ v @ [10]"

definition event_attributes ::
  "(bytes \<Rightarrow> scval option) \<Rightarrow> (bytes \<Rightarrow> bytes) \<Rightarrow> bytes list \<Rightarrow> bytes \<Rightarrow> bytes option" where
  "event_attributes dec disp topics_xdr value_xdr =
     (case topics_xdr of [] \<Rightarrow> None | topic # _ \<Rightarrow>
      Option.bind (Option.bind (dec topic) (scval_as_symbol disp)) (\<lambda>kind.
      Option.bind (dec value_xdr) (\<lambda>v.
      Option.bind (scval_as_map v) (\<lambda>root.
      case Option.bind (scval_field disp root (asc ''packet'')) scval_as_map of
        Some packet \<Rightarrow>
          let sequence = (case Option.bind (scval_field disp packet (asc ''sequence'')) scval_as_u64 of
                Some n \<Rightarrow> n | None \<Rightarrow> 0);
              source_client = (case Option.bind (scval_field disp packet (asc ''source_client'')) (scval_as_string disp) of
                Some s \<Rightarrow> s | None \<Rightarrow> []);
              dest_client = (case Option.bind (scval_field disp packet (asc ''dest_client'')) (scval_as_string disp) of
                Some s \<Rightarrow> s | None \<Rightarrow> []);
              (source_port, dest_port) = first_payload_ports disp packet in
          Some (attr_line ''type'' kind @ attr_line ''packet_sequence'' (decimal (unat sequence))
            @ (if source_client \<noteq> [] then attr_line ''packet_src_channel'' source_client else [])
            @ (if dest_client \<noteq> [] then attr_line ''packet_dst_channel'' dest_client else [])
            @ attr_line ''packet_src_port'' source_port @ attr_line ''packet_dst_port'' dest_port)
      | None \<Rightarrow>
          Some (attr_line ''type'' kind
            @ (case Option.bind (scval_field disp root (asc ''client_id'')) (scval_as_string disp) of
                 Some client_id \<Rightarrow> attr_line ''client_id'' client_id | None \<Rightarrow> []))))))"

section \<open>The events of the router as values\<close>

text \<open>
  The structures of \<open>types.rs\<close> and, for an event, the map of the fields that are not topics; its first
  topic is the name of the event.
\<close>

definition payload_val :: "payload \<Rightarrow> scval" where
  "payload_val p = struct_val
     [(asc ''source_port'', ScvString (pl_source_port p)), (asc ''dest_port'', ScvString (pl_dest_port p)),
      (asc ''version'', ScvString (pl_version p)), (asc ''encoding'', ScvString (pl_encoding p)),
      (asc ''value'', ScvBytes (pl_value p))]"

definition packet_val :: "packet \<Rightarrow> scval" where
  "packet_val p = struct_val
     [(asc ''sequence'', ScvU64 (pk_sequence p)), (asc ''source_client'', ScvString (pk_source_client p)),
      (asc ''dest_client'', ScvString (pk_dest_client p)), (asc ''timeout_timestamp'', ScvU64 (pk_timeout_timestamp p)),
      (asc ''payloads'', ScvVec (Some (map payload_val (pk_payloads p))))]"

definition acks_val :: "bytes list \<Rightarrow> scval" where
  "acks_val acks = ScvVec (Some (map ScvBytes acks))"

fun event_val :: "router_event \<Rightarrow> scval" where
  "event_val (SendPacket c n p) = struct_val [(asc ''packet'', packet_val p)]"
| "event_val (RecvPacket c n p) = struct_val [(asc ''packet'', packet_val p)]"
| "event_val (WriteAck c n acks) = struct_val [(asc ''acknowledgements'', acks_val acks)]"
| "event_val (AckPacket c n p acks) = struct_val [(asc ''packet'', packet_val p), (asc ''acknowledgements'', acks_val acks)]"
| "event_val (TimeoutPacket c n p) = struct_val [(asc ''packet'', packet_val p)]"

fun event_name :: "router_event \<Rightarrow> bytes" where
  "event_name (SendPacket c n p) = asc ''send_packet''"
| "event_name (RecvPacket c n p) = asc ''recv_packet''"
| "event_name (WriteAck c n acks) = asc ''write_ack''"
| "event_name (AckPacket c n p acks) = asc ''ack_packet''"
| "event_name (TimeoutPacket c n p) = asc ''timeout_packet''"

fun event_packet :: "router_event \<Rightarrow> packet option" where
  "event_packet (SendPacket c n p) = Some p"
| "event_packet (RecvPacket c n p) = Some p"
| "event_packet (WriteAck c n acks) = None"
| "event_packet (AckPacket c n p acks) = Some p"
| "event_packet (TimeoutPacket c n p) = Some p"

section \<open>Properties\<close>

lemma packet_names:
  "plain_names [(asc ''sequence'', a), (asc ''source_client'', b), (asc ''dest_client'', c),
     (asc ''timeout_timestamp'', d), (asc ''payloads'', e)]"
  "plain_names [(asc ''source_port'', a), (asc ''dest_port'', b), (asc ''version'', c), (asc ''encoding'', d), (asc ''value'', e)]"
  "plain_names [(asc ''packet'', a)]" "plain_names [(asc ''acknowledgements'', a)]"
  "plain_names [(asc ''packet'', a), (asc ''acknowledgements'', b)]"
  by (simp_all add: plain_names_def plain_def asc_def)

lemma plain_field: "shows_plain disp \<Longrightarrow> plain_names flds \<Longrightarrow> scval_field disp (struct_map flds) nm = map_of flds nm"
  using plain_fields [of disp flds nm]
  by (cases "scval_field disp (struct_map flds) nm"; cases "map_of flds nm") (auto simp: scval_map_field_def)

lemma first_payload_ports_packet:
  assumes "shows_plain disp" and "pk_payloads p = pl # pls" and "plain (pl_source_port pl)" and "plain (pl_dest_port pl)"
  shows "first_payload_ports disp (struct_map
     [(asc ''sequence'', ScvU64 (pk_sequence p)), (asc ''source_client'', ScvString (pk_source_client p)),
      (asc ''dest_client'', ScvString (pk_dest_client p)), (asc ''timeout_timestamp'', ScvU64 (pk_timeout_timestamp p)),
      (asc ''payloads'', ScvVec (Some (map payload_val (pk_payloads p))))]) = (pl_source_port pl, pl_dest_port pl)"
  using assms
  by (simp add: first_payload_ports_def Let_def plain_field packet_names payload_val_def scval_as_string_def shows_plain_def)

lemma event_names: "plain (event_name ev)"
  by (cases ev) (simp_all add: plain_def asc_def)

lemma event_field:
  assumes "shows_plain disp" and "event_packet ev = Some p"
  shows "\<exists>root. scval_as_map (event_val ev) = Some root \<and> scval_field disp root (asc ''packet'') = Some (packet_val p)"
  using assms by (cases ev) (auto simp: plain_field packet_names)

text \<open>
  The text the gateway gives the relayer for a router event that
  carries a packet has, line by line, the event's name and the packet's sequence, source and
  destination client and the ports of its first payload, when these are printable.
\<close>

lemma event_attributes_of_packet:
  assumes disp: "shows_plain disp" and "dec t = Some (ScvSymbol (event_name ev))" and "dec v = Some (event_val ev)"
    and "event_packet ev = Some p" and payloads: "pk_payloads p = pl # pls"
    and plain: "plain (pl_source_port pl)" "plain (pl_dest_port pl)" "plain (pk_source_client p)" "plain (pk_dest_client p)"
    and "pk_source_client p \<noteq> []" "pk_dest_client p \<noteq> []"
  shows "event_attributes dec disp (t # ts) v = Some (
      attr_line ''type'' (event_name ev) @ attr_line ''packet_sequence'' (decimal (unat (pk_sequence p)))
      @ attr_line ''packet_src_channel'' (pk_source_client p) @ attr_line ''packet_dst_channel'' (pk_dest_client p)
      @ attr_line ''packet_src_port'' (pl_source_port pl) @ attr_line ''packet_dst_port'' (pl_dest_port pl))"
proof -
  obtain root where root: "scval_as_map (event_val ev) = Some root" "scval_field disp root (asc ''packet'') = Some (packet_val p)"
    using event_field [OF disp assms(4)] by blast
  note ports = first_payload_ports_packet [OF disp payloads plain(1, 2)]
  show ?thesis
    using assms(2, 3, 10, 11) root ports plain(3, 4) shows_plainD [OF disp] event_names [of ev]
    by (simp add: event_attributes_def packet_val_def scval_as_symbol_def scval_as_string_def scval_as_u64_def
        plain_field [OF disp] packet_names Let_def)
qed

text \<open>
  The event of a written acknowledgement carries no packet, and its client and sequence are topics the
  text does not use: the relayer is told its name only.
\<close>

lemma write_ack_event_anonymous:
  assumes "shows_plain disp" and "dec t = Some (ScvSymbol (event_name (WriteAck c n acks)))"
    and "dec v = Some (event_val (WriteAck c n acks))"
  shows "event_attributes dec disp (t # ts) v = Some (attr_line ''type'' (asc ''write_ack''))"
  using assms shows_plainD [OF assms(1) event_names [of "WriteAck c n acks"]]
  by (simp add: event_attributes_def scval_as_symbol_def plain_field packet_names)

definition sample_event_dec :: "bytes \<Rightarrow> scval option" where
  "sample_event_dec bs = (if bs = [1] then Some (ScvSymbol (asc ''send_packet''))
     else Some (event_val (SendPacket (asc ''07-tendermint-0'') 1 sample_packet)))"

lemma event_attributes_of_packet_witness:
  "\<exists>text. event_attributes sample_event_dec (\<lambda>s. s) [[1]] [2] = Some text
     \<and> take 17 text = asc ''type=send_packet'' @ [10]"
proof -
  have "shows_plain (\<lambda>s. s)" by (simp add: shows_plain_def)
  from event_attributes_of_packet [OF this, of sample_event_dec "[1]" "SendPacket (asc ''07-tendermint-0'') 1 sample_packet"
      "[2]" sample_packet sample_payload "[]" "[]"]
  show ?thesis
    by (simp add: sample_event_dec_def sample_packet_def sample_payload_def plain_def asc_def attr_line_def)
qed

end
