(* ===== verification/Gateway_Service.thy ===== *)
theory Gateway_Service
  imports Api_Client Core_State Core_Event Core_Commitment
begin

text \<open>
  The gRPC handlers of the gateway, \<open>crates/gateway/src/query.rs\<close> and \<open>msg.rs\<close>: queries over the state
  tracker and the API service, and messages turned into unsigned router transactions. The libraries
  (protobuf, XDR, HTTP, ibc-rs) are the fields of the parameter \<open>gw_env\<close>. A query that reads the
  tracker returns the tracker's state beside its result; the lock around the tracker makes the
  queries atomic. Log messages, and the balance read that only feeds one, are left out.
\<close>

section \<open>Requests, responses and errors\<close>

datatype grpc_code = Internal | InvalidArgument | NotFoundCode | Unimplemented

datatype gw_reason =
    ApiFailure api_error
  | SorobanFailure soroban_error
  | ConversionFailure conversion_error
  | StateFailure gateway_error
  | HeightTooLarge u64
  | LedgerHeaderDecode
  | NeedStartOrCursor
  | FieldRequired bytes
  | NextSeqRecvRemoved

type_synonym grpc_status = "grpc_code \<times> gw_reason"

record proved_bytes =
  pb_value :: bytes
  pb_proof :: bytes
  pb_proof_height :: u64

record proved_bool =
  pbl_received :: bool
  pbl_proof :: bytes
  pbl_proof_height :: u64

record gw_event =
  ge_id :: bytes
  ge_ledger :: u64
  ge_ledger_closed_at :: bytes
  ge_contract_id :: bytes
  ge_tx_hash :: bytes
  ge_topics_xdr :: "bytes list"
  ge_value_xdr :: bytes
  ge_attributes :: bytes

record gw_events_page =
  gp_latest_ledger :: u64
  gp_cursor :: bytes
  gp_events :: "gw_event list"

text \<open>What the code reads of a ledger header, and the header message it builds.\<close>

record ledger_header =
  lh_tx_set_hash :: bytes
  lh_close_time :: u64
  lh_signed :: "(bytes \<times> bytes) option"

record gw_stellar_header =
  gh_ledger_seq :: u32
  gh_ledger_header_xdr :: bytes
  gh_ibc_state_root :: bytes
  gh_scp_node_id :: bytes
  gh_scp_signature :: bytes
  gh_signed_value_xdr :: bytes

record ('c, 's) gw_env =
  gw_http :: http
  gw_libs :: api_libs
  gw_api :: api_client
  gw_rs :: "('c, 's) ibc_rs"
  gw_disp :: "bytes \<Rightarrow> bytes"
  gw_sha :: "bytes \<Rightarrow> bytes"
  gw_enc_any :: "any_msg \<Rightarrow> bytes"
  gw_enc_proof :: "merkle_proof \<Rightarrow> bytes"
  gw_dec_meta :: meta_decoder
  gw_dec_header :: "bytes \<Rightarrow> ledger_header option"
  gw_enc_stellar_header :: "gw_stellar_header \<Rightarrow> bytes"
  gw_ibc_contract_id :: "bytes option"

section \<open>Queries (\<open>query.rs\<close>)\<close>

definition gw_latest_height :: "('c, 's) gw_env \<Rightarrow> grpc_status + (u64 \<times> u64)" where
  "gw_latest_height g =
     bindE (map_err (\<lambda>e. (Internal, ApiFailure e)) (api_get_latest_ledger (gw_http g) (gw_api g))) (\<lambda>latest_sequence.
     Inr (0, ucast latest_sequence))"

definition gw_query_client_state :: "('c, 's) gw_env \<Rightarrow> bytes \<Rightarrow> u64 \<Rightarrow> grpc_status + proved_bytes" where
  "gw_query_client_state g client_id height =
     bindE (map_err (\<lambda>e. (Internal, ApiFailure e)) (get_client_state_xdr (gw_http g) (gw_libs g) (gw_api g) client_id)) (\<lambda>xdr.
     bindE (map_err (\<lambda>e. (Internal, SorobanFailure e))
              (client_from_soroban_xdr (gw_rs g) (lib_xdr (gw_libs g)) (gw_disp g) xdr)) (\<lambda>cs.
     Inr \<lparr>pb_value = gw_enc_any g (client_into_any (gw_rs g) cs), pb_proof = [], pb_proof_height = height\<rparr>))"

text \<open>A client whose state cannot be fetched or decoded is skipped.\<close>

definition gw_identified_client :: "('c, 's) gw_env \<Rightarrow> bytes \<Rightarrow> (bytes \<times> bytes) option" where
  "gw_identified_client g client_id =
     (case get_client_state_xdr (gw_http g) (gw_libs g) (gw_api g) client_id of
        Inl _ \<Rightarrow> None
      | Inr xdr \<Rightarrow>
          (case client_from_soroban_xdr (gw_rs g) (lib_xdr (gw_libs g)) (gw_disp g) xdr of
             Inl _ \<Rightarrow> None
           | Inr cs \<Rightarrow> Some (client_id, gw_enc_any g (client_into_any (gw_rs g) cs))))"

definition gw_query_client_states :: "('c, 's) gw_env \<Rightarrow> grpc_status + (bytes \<times> bytes) list" where
  "gw_query_client_states g =
     bindE (map_err (\<lambda>e. (Internal, ApiFailure e)) (list_client_ids (gw_http g) (gw_api g))) (\<lambda>ids.
     Inr (List.map_filter (gw_identified_client g) ids))"

definition gw_query_consensus_state :: "('c, 's) gw_env \<Rightarrow> bytes \<Rightarrow> u64 \<Rightarrow> grpc_status + proved_bytes" where
  "gw_query_consensus_state g client_id revision_height =
     bindE (map_err (\<lambda>e. (NotFoundCode, ApiFailure e))
              (get_consensus_state_xdr (gw_http g) (gw_libs g) (gw_api g) client_id revision_height)) (\<lambda>xdr.
     bindE (map_err (\<lambda>e. (Internal, SorobanFailure e))
              (cons_from_soroban_xdr (gw_rs g) (lib_xdr (gw_libs g)) (gw_disp g) xdr)) (\<lambda>cs.
     Inr \<lparr>pb_value = gw_enc_any g (cons_into_any (gw_rs g) cs), pb_proof = [], pb_proof_height = revision_height\<rparr>))"

text \<open>The tracker's ledger source is the API client.\<close>

definition gw_source :: "('c, 's) gw_env \<Rightarrow> ledger_source" where
  "gw_source g seq = (case api_get_ledger (gw_http g) (gw_libs g) (gw_api g) seq of
     Inl _ \<Rightarrow> None | Inr ledger \<Rightarrow> Some (ld_metadata_xdr ledger))"

definition height_u32 :: "u64 \<Rightarrow> grpc_status + u32" where
  "height_u32 height = (if unat height < 2 ^ 32 then Inr (ucast height) else Inl (InvalidArgument, HeightTooLarge height))"

definition gw_lookup ::
  "('c, 's) gw_env \<Rightarrow> u64 \<Rightarrow> bytes \<Rightarrow> gateway_state \<Rightarrow> gateway_state \<times> (grpc_status + path_lookup)" where
  "gw_lookup g height key s =
     (case height_u32 height of
        Inl e \<Rightarrow> (s, Inl e)
      | Inr seq \<Rightarrow>
          let (s1, r) = proof_for_path (gw_sha g) (gw_enc_proof g) (gw_dec_meta g) (gw_source g) seq key s in
          (s1, map_err (\<lambda>e. (Internal, StateFailure e)) r))"

definition gw_query_packet_commitment ::
  "('c, 's) gw_env \<Rightarrow> bytes \<Rightarrow> u64 \<Rightarrow> u64 \<Rightarrow> gateway_state \<Rightarrow> gateway_state \<times> (grpc_status + proved_bytes)" where
  "gw_query_packet_commitment g client_id sequence height s =
     (let (s1, r) = gw_lookup g height (core_packet_commitment_path client_id sequence) s in
      (s1, bindE r (\<lambda>lookup.
        let (commitment, prf) = (case lookup of Found value_hash bs \<Rightarrow> (value_hash, bs) | Absent bs \<Rightarrow> ([], bs)) in
        Inr \<lparr>pb_value = commitment, pb_proof = prf, pb_proof_height = height\<rparr>)))"

definition gw_query_packet_receipt ::
  "('c, 's) gw_env \<Rightarrow> bytes \<Rightarrow> u64 \<Rightarrow> u64 \<Rightarrow> gateway_state \<Rightarrow> gateway_state \<times> (grpc_status + proved_bool)" where
  "gw_query_packet_receipt g client_id sequence height s =
     (let (s1, r) = gw_lookup g height (core_packet_receipt_path client_id sequence) s in
      (s1, bindE r (\<lambda>lookup.
        let (received, prf) = (case lookup of Found _ bs \<Rightarrow> (True, bs) | Absent bs \<Rightarrow> (False, bs)) in
        Inr \<lparr>pbl_received = received, pbl_proof = prf, pbl_proof_height = height\<rparr>)))"

definition gw_query_acknowledgement ::
  "('c, 's) gw_env \<Rightarrow> bytes \<Rightarrow> u64 \<Rightarrow> u64 \<Rightarrow> gateway_state \<Rightarrow> gateway_state \<times> (grpc_status + proved_bytes)" where
  "gw_query_acknowledgement g client_id sequence height s =
     (let (s1, r) = gw_lookup g height (core_ack_commitment_path client_id sequence) s in
      (s1, bindE r (\<lambda>lookup.
        let (ack, prf) = (case lookup of Found value_hash bs \<Rightarrow> (value_hash, bs) | Absent bs \<Rightarrow> ([], bs)) in
        Inr \<lparr>pb_value = ack, pb_proof = prf, pb_proof_height = height\<rparr>)))"

definition gw_query_next_seq_recv :: "grpc_status + unit" where
  "gw_query_next_seq_recv = Inl (Unimplemented, NextSeqRecvRemoved)"

text \<open>Here the height is truncated to 32 bits, not checked.\<close>

definition gw_query_ibc_header ::
  "('c, 's) gw_env \<Rightarrow> u64 \<Rightarrow> gateway_state \<Rightarrow> gateway_state \<times> (grpc_status + bytes)" where
  "gw_query_ibc_header g height s =
     (let seq = (ucast height :: u32) in
      case map_err (\<lambda>e. (Internal, ApiFailure e)) (api_get_ledger (gw_http g) (gw_libs g) (gw_api g) seq) of
        Inl e \<Rightarrow> (s, Inl e)
      | Inr ledger \<Rightarrow>
          (case gw_dec_header g (ld_header_xdr ledger) of
             None \<Rightarrow> (s, Inl (Internal, LedgerHeaderDecode))
           | Some header \<Rightarrow>
               let (scp_node_id, scp_signature) = (case lh_signed header of Some sig \<Rightarrow> sig | None \<Rightarrow> ([], []));
                   signed_value_xdr = lh_tx_set_hash header @ to_be_bytes (lh_close_time header);
                   (s1, root) = root_at (gw_sha g) (gw_dec_meta g) (gw_source g) seq s in
               (s1, bindE (map_err (\<lambda>e. (Internal, StateFailure e)) root) (\<lambda>ibc_state_root.
                 Inr (gw_enc_stellar_header g \<lparr>gh_ledger_seq = seq, gh_ledger_header_xdr = ld_header_xdr ledger,
                        gh_ibc_state_root = ibc_state_root, gh_scp_node_id = scp_node_id,
                        gh_scp_signature = scp_signature, gh_signed_value_xdr = signed_value_xdr\<rparr>)))))"

definition gw_event_of :: "('c, 's) gw_env \<Rightarrow> event_record \<Rightarrow> gw_event" where
  "gw_event_of g ev = \<lparr>ge_id = er_id ev, ge_ledger = ucast (er_ledger ev), ge_ledger_closed_at = er_ledger_closed_at ev,
     ge_contract_id = er_contract_id ev, ge_tx_hash = er_tx_hash ev, ge_topics_xdr = er_topics_xdr ev,
     ge_value_xdr = er_value_xdr ev,
     ge_attributes = or_default [] (event_attributes (dec_scval (lib_xdr (gw_libs g))) (gw_disp g)
                                      (er_topics_xdr ev) (er_value_xdr ev))\<rparr>"

definition gw_events :: "('c, 's) gw_env \<Rightarrow> u32 \<Rightarrow> bytes \<Rightarrow> u32 \<Rightarrow> grpc_status + gw_events_page" where
  "gw_events g start_ledger cursor limit =
     (case gw_ibc_contract_id g of
        Some contract_id \<Rightarrow>
          if contract_id \<noteq> [] then
            bindE (if cursor \<noteq> [] then Inr (Cursor cursor)
                   else if start_ledger > 0 then Inr (StartLedger start_ledger)
                   else Inl (InvalidArgument, NeedStartOrCursor)) (\<lambda>cur.
            let lim = (if limit = 0 then None else Some limit) in
            bindE (map_err (\<lambda>e. (Internal, ApiFailure e))
                     (api_get_events (gw_http g) (gw_libs g) (gw_api g) contract_id cur lim)) (\<lambda>page.
            Inr \<lparr>gp_latest_ledger = ucast (ep_latest_ledger page), gp_cursor = ep_cursor page,
                 gp_events = map (gw_event_of g) (ep_events page)\<rparr>))
          else
            bindE (map_err (\<lambda>e. (Internal, ApiFailure e)) (api_get_latest_ledger (gw_http g) (gw_api g))) (\<lambda>latest.
            Inr \<lparr>gp_latest_ledger = ucast latest, gp_cursor = [], gp_events = []\<rparr>)
      | None \<Rightarrow>
          bindE (map_err (\<lambda>e. (Internal, ApiFailure e)) (api_get_latest_ledger (gw_http g) (gw_api g))) (\<lambda>latest.
          Inr \<lparr>gp_latest_ledger = ucast latest, gp_cursor = [], gp_events = []\<rparr>))"

section \<open>Messages (\<open>msg.rs\<close>)\<close>

abbreviation invalid_conv :: "conversion_error + 'a \<Rightarrow> grpc_status + 'a" where
  "invalid_conv \<equiv> map_err (\<lambda>e. (InvalidArgument, ConversionFailure e))"

definition prepare_msg_tx :: "('c, 's) gw_env \<Rightarrow> bytes \<Rightarrow> bytes \<Rightarrow> scval list \<Rightarrow> grpc_status + bytes" where
  "prepare_msg_tx g signer method args =
     map_err (\<lambda>e. (Internal, ApiFailure e)) (api_build_unsigned_tx (gw_http g) (gw_libs g) (gw_api g) signer method args)"

definition decode_packet_scval :: "('c, 's) gw_env \<Rightarrow> bytes \<Rightarrow> grpc_status + scval" where
  "decode_packet_scval g bs = invalid_conv (scval_from_xdr (dec_scval (lib_xdr (gw_libs g))) bs)"

definition msg_submit_signed_tx :: "('c, 's) gw_env \<Rightarrow> bytes \<Rightarrow> grpc_status + (bytes \<times> bytes)" where
  "msg_submit_signed_tx g tx_xdr =
     bindE (map_err (\<lambda>e. (Internal, ApiFailure e)) (api_submit_and_wait (gw_http g) (gw_libs g) (gw_api g) tx_xdr)) (\<lambda>submitted.
     let return_value = or_default [] (Option.bind (stx_return_value submitted) (enc_scval (lib_xdr (gw_libs g)))) in
     Inr (stx_hash submitted, return_value))"

definition msg_create_client ::
  "('c, 's) gw_env \<Rightarrow> bytes \<Rightarrow> bytes \<Rightarrow> bytes \<Rightarrow> bytes \<Rightarrow> grpc_status + bytes" where
  "msg_create_client g signer client_type client_state consensus_state =
     bindE (ensure (client_type \<noteq> []) (InvalidArgument, FieldRequired (asc ''client_type''))) (\<lambda>_.
     bindE (map_err (\<lambda>e. (InvalidArgument, SorobanFailure e)) (client_decode_value (gw_rs g) client_state)) (\<lambda>cs.
     let height = client_latest_height (gw_rs g) cs in
     bindE (map_err (\<lambda>e. (Internal, ConversionFailure e)) (client_to_soroban_xdr (gw_rs g) (lib_xdr (gw_libs g)) cs)) (\<lambda>cs_xdr.
     bindE (map_err (\<lambda>e. (InvalidArgument, SorobanFailure e)) (cons_decode_value (gw_rs g) consensus_state)) (\<lambda>cons.
     bindE (map_err (\<lambda>e. (Internal, ConversionFailure e)) (cons_to_soroban_xdr (gw_rs g) (lib_xdr (gw_libs g)) cons)) (\<lambda>cons_xdr.
     bindE (invalid_conv (scval_string client_type)) (\<lambda>a1.
     bindE (invalid_conv (scval_bytes cs_xdr)) (\<lambda>a2.
     bindE (invalid_conv (scval_bytes cons_xdr)) (\<lambda>a3.
     prepare_msg_tx g signer (asc ''create_client'') [a1, a2, a3, scval_u64 height]))))))))"

definition msg_update_client :: "('c, 's) gw_env \<Rightarrow> bytes \<Rightarrow> bytes \<Rightarrow> bytes \<Rightarrow> grpc_status + bytes" where
  "msg_update_client g signer client_id header =
     bindE (ensure (client_id \<noteq> []) (InvalidArgument, FieldRequired (asc ''client_id''))) (\<lambda>_.
     bindE (if take 13 client_id = asc ''07-tendermint''
            then map_err (\<lambda>e. (InvalidArgument, SorobanFailure e))
                   (tendermint_header_to_soroban_xdr (gw_rs g) (lib_xdr (gw_libs g)) header)
            else Inr header) (\<lambda>header_xdr.
     bindE (invalid_conv (scval_string client_id)) (\<lambda>a1.
     bindE (invalid_conv (scval_bytes header_xdr)) (\<lambda>a2.
     prepare_msg_tx g signer (asc ''update_client'') [a1, a2]))))"

definition msg_register_counterparty ::
  "('c, 's) gw_env \<Rightarrow> bytes \<Rightarrow> bytes \<Rightarrow> bytes \<Rightarrow> bytes list \<Rightarrow> grpc_status + bytes" where
  "msg_register_counterparty g signer client_id counterparty_client_id prefix =
     bindE (ensure (\<not> (client_id = [] \<or> counterparty_client_id = []))
              (InvalidArgument, FieldRequired (asc ''client_id and counterparty_client_id''))) (\<lambda>_.
     bindE (invalid_conv (scval_string client_id)) (\<lambda>a1.
     bindE (invalid_conv (scval_string counterparty_client_id)) (\<lambda>a2.
     bindE (invalid_conv (scval_vec_of_bytes prefix)) (\<lambda>a3.
     prepare_msg_tx g signer (asc ''register_counterparty'') [a1, a2, a3]))))"

definition msg_recv_packet :: "('c, 's) gw_env \<Rightarrow> bytes \<Rightarrow> bytes \<Rightarrow> bytes \<Rightarrow> u64 \<Rightarrow> grpc_status + bytes" where
  "msg_recv_packet g signer packet prf proof_height =
     bindE (decode_packet_scval g packet) (\<lambda>a1.
     bindE (invalid_conv (scval_bytes prf)) (\<lambda>a2.
     prepare_msg_tx g signer (asc ''recv_packet'') [a1, a2, scval_u64 proof_height]))"

definition msg_ack_packet :: "('c, 's) gw_env \<Rightarrow> bytes \<Rightarrow> bytes \<Rightarrow> bytes \<Rightarrow> bytes \<Rightarrow> u64 \<Rightarrow> grpc_status + bytes" where
  "msg_ack_packet g signer packet ack prf proof_height =
     bindE (decode_packet_scval g packet) (\<lambda>packet_scval.
     bindE (invalid_conv (scval_vec_of_bytes [ack])) (\<lambda>acks.
     bindE (invalid_conv (scval_bytes prf)) (\<lambda>a3.
     prepare_msg_tx g signer (asc ''acknowledge_packet'') [packet_scval, acks, a3, scval_u64 proof_height])))"

definition msg_timeout_packet :: "('c, 's) gw_env \<Rightarrow> bytes \<Rightarrow> bytes \<Rightarrow> bytes \<Rightarrow> u64 \<Rightarrow> grpc_status + bytes" where
  "msg_timeout_packet g signer packet prf proof_height =
     bindE (decode_packet_scval g packet) (\<lambda>a1.
     bindE (invalid_conv (scval_bytes prf)) (\<lambda>a2.
     prepare_msg_tx g signer (asc ''timeout_packet'') [a1, a2, scval_u64 proof_height]))"

definition msg_submit_misbehaviour :: "('c, 's) gw_env \<Rightarrow> bytes \<Rightarrow> bytes \<Rightarrow> bytes \<Rightarrow> grpc_status + bytes" where
  "msg_submit_misbehaviour g signer client_id client_message =
     bindE (ensure (client_id \<noteq> []) (InvalidArgument, FieldRequired (asc ''client_id''))) (\<lambda>_.
     bindE (invalid_conv (scval_string client_id)) (\<lambda>a1.
     bindE (invalid_conv (scval_bytes client_message)) (\<lambda>a2.
     prepare_msg_tx g signer (asc ''update_client'') [a1, a2])))"

text \<open>
  What \<open>ack_packet\<close> reports of the sender's balance: the log has no influence on the answer. \<open>parse\<close> is
  the JSON parser of the library.
\<close>

record wallet_log =
  wl_denom :: bytes
  wl_sender :: bytes
  wl_current_balance :: int
  wl_new_balance :: int
  wl_moved :: int

definition saturating_add_i128 :: "int \<Rightarrow> int \<Rightarrow> int" where
  "saturating_add_i128 a b = max (- (2 ^ 127)) (min (2 ^ 127 - 1) (a + b))"

definition log_wallet_change :: "(bytes \<Rightarrow> json option) \<Rightarrow> ('c, 's) gw_env \<Rightarrow> scval \<Rightarrow> wallet_log option" where
  "log_wallet_change parse g packet =
     Option.bind (first_payload_value (gw_disp g) packet) (\<lambda>value_bytes.
     Option.bind (parse value_bytes) (\<lambda>parsed.
     Option.bind (get_str parsed (asc ''denom'')) (\<lambda>denom.
     Option.bind (get_str parsed (asc ''sender'')) (\<lambda>sender.
     Option.bind (Option.bind (get_str parsed (asc ''amount'')) parse_i128) (\<lambda>amount.
     case get_transfer_balance (gw_http g) (gw_api g) denom sender of
       Inr new_balance \<Rightarrow>
         Some \<lparr>wl_denom = denom, wl_sender = sender, wl_current_balance = saturating_add_i128 new_balance amount,
               wl_new_balance = new_balance, wl_moved = amount\<rparr>
     | Inl e \<Rightarrow> None)))))"

lemma log_wallet_change_exact:
  assumes "log_wallet_change parse g packet = Some l" "wl_new_balance l + wl_moved l < 2 ^ 127" "0 \<le> wl_new_balance l" "0 \<le> wl_moved l"
  shows "wl_current_balance l = wl_new_balance l + wl_moved l"
proof -
  have ok: "(case r of Inl e \<Rightarrow> None | Inr n \<Rightarrow> Some (f n)) = Some l \<longleftrightarrow> (\<exists>n. r = Inr n \<and> l = f n)"
    for r :: "api_error + int" and f l
    by (cases r) auto
  show ?thesis using assms by (auto simp: log_wallet_change_def saturating_add_i128_def bind_eq_Some_conv ok)
qed

end
