(* ===== verification/Api_Rpc.thy ===== *)
theory Api_Rpc
  imports Api_Client
begin

text \<open>
  The API service's client of the Soroban RPC node, \<open>crates/api/src/rpc.rs\<close>. The node and the SDK that
  talks to it are the parameter \<open>soroban_server\<close>, whose fields are the SDK calls the code makes;
  accounts and transactions are the SDK's own types, here type variables.
\<close>

section \<open>The node\<close>

text \<open>A header or metadata is absent, present but not encodable, or present with its XDR.\<close>

record ledger_info =
  li_sequence :: u32
  li_header_xdr :: "bytes option option"
  li_metadata_xdr :: "bytes option option"

record rpc_event =
  re_id :: bytes
  re_ledger :: u64
  re_ledger_closed_at :: bytes
  re_contract_id :: bytes
  re_tx_hash :: bytes
  re_topics_xdr :: "bytes option list"
  re_value_xdr :: "bytes option"

record rpc_events =
  rv_latest_ledger :: u64
  rv_cursor :: "bytes option"
  rv_events :: "rpc_event list"

datatype tx_status = TxSuccess "scval option" | TxFailed | TxNotFound

record ('a, 't) soroban_server =
  srv_latest_ledger :: "u32 option"
  srv_get_ledgers :: "u32 \<Rightarrow> u32 option \<Rightarrow> ledger_info list option"
  srv_dec_key :: "bytes \<Rightarrow> ledger_key option"
  srv_get_ledger_entries :: "ledger_key list \<Rightarrow> bytes option list option option"
  srv_get_events :: "event_cursor \<Rightarrow> bytes \<Rightarrow> u32 option \<Rightarrow> rpc_events option"
  srv_contract :: "bytes \<Rightarrow> bool"
  srv_get_account :: "bytes \<Rightarrow> 'a option"
  srv_build :: "'a \<Rightarrow> bytes \<Rightarrow> u32 \<Rightarrow> bytes \<Rightarrow> bytes \<Rightarrow> scval list \<Rightarrow> 't"
  srv_prepare :: "'t \<Rightarrow> 't option"
  srv_envelope_xdr :: "'t \<Rightarrow> bytes option option"
  srv_dec_envelope :: "bytes \<Rightarrow> bytes option option"
  srv_send :: "bytes \<Rightarrow> json option option"
  srv_wait :: "bytes \<Rightarrow> tx_status option"

datatype rpc_error =
    LatestFailed | LedgersFailed | NoLedgerAt u32 | WrongLedger u32 u32 | NoHeader u32 | HeaderEncode | MetaEncode
  | InvalidLedgerKey | EntriesFailed | EntryEncode | EventsFailed | TopicEncode | ValueEncode
  | ArgDecode nat | InvalidContractId bytes | SignerRequired | GetAccount bytes | PrepareFailed | ToEnvelope | EnvelopeEncode
  | InvalidEnvelope | Base64Encode | SendFailed | SendParse | SendRejected bytes
  | WaitFailed | FailedOnChain bytes | NotFoundAfterWait bytes

section \<open>Operations\<close>

definition rpc_get_latest_ledger :: "('a, 't) soroban_server \<Rightarrow> rpc_error + u32" where
  "rpc_get_latest_ledger srv = ok_or LatestFailed (srv_latest_ledger srv)"

definition rpc_get_ledger :: "('a, 't) soroban_server \<Rightarrow> u32 \<Rightarrow> rpc_error + ledger_data" where
  "rpc_get_ledger srv sequence =
     bindE (ok_or LedgersFailed (srv_get_ledgers srv sequence (Some 1))) (\<lambda>ledgers.
     bindE (case ledgers of [] \<Rightarrow> Inl (NoLedgerAt sequence) | info # _ \<Rightarrow> Inr info) (\<lambda>info.
     bindE (ensure (\<not> li_sequence info \<noteq> sequence) (WrongLedger sequence (li_sequence info))) (\<lambda>_.
     bindE (ok_or (NoHeader sequence) (li_header_xdr info)) (\<lambda>header.
     bindE (ok_or HeaderEncode header) (\<lambda>header_xdr.
     bindE (case li_metadata_xdr info of
              None \<Rightarrow> Inr None
            | Some m \<Rightarrow> bindE (ok_or MetaEncode m) (\<lambda>x. Inr (Some x))) (\<lambda>metadata_xdr.
     Inr \<lparr>ld_sequence = sequence, ld_header_xdr = header_xdr, ld_metadata_xdr = metadata_xdr\<rparr>))))))"

definition rpc_get_ledger_entry :: "('a, 't) soroban_server \<Rightarrow> bytes \<Rightarrow> rpc_error + bytes option" where
  "rpc_get_ledger_entry srv key =
     bindE (ok_or InvalidLedgerKey (srv_dec_key srv key)) (\<lambda>ledger_key.
     bindE (ok_or EntriesFailed (srv_get_ledger_entries srv [ledger_key])) (\<lambda>entries.
     case entries of
       Some (first # _) \<Rightarrow> bindE (ok_or EntryEncode first) (\<lambda>data_xdr. Inr (Some data_xdr))
     | _ \<Rightarrow> Inr None))"

definition rpc_event_record :: "rpc_event \<Rightarrow> rpc_error + event_record" where
  "rpc_event_record ev =
     bindE (mapE (ok_or TopicEncode) (re_topics_xdr ev)) (\<lambda>topics_xdr.
     bindE (ok_or ValueEncode (re_value_xdr ev)) (\<lambda>value_xdr.
     Inr \<lparr>er_id = re_id ev, er_ledger = ucast (re_ledger ev), er_ledger_closed_at = re_ledger_closed_at ev,
          er_contract_id = re_contract_id ev, er_tx_hash = re_tx_hash ev, er_topics_xdr = topics_xdr,
          er_value_xdr = value_xdr\<rparr>))"

definition rpc_get_events ::
  "('a, 't) soroban_server \<Rightarrow> bytes \<Rightarrow> event_cursor \<Rightarrow> u32 option \<Rightarrow> rpc_error + events_page" where
  "rpc_get_events srv contract_id cursor limit =
     bindE (ok_or EventsFailed (srv_get_events srv cursor contract_id limit)) (\<lambda>resp.
     bindE (mapE rpc_event_record (rv_events resp)) (\<lambda>events.
     Inr \<lparr>ep_latest_ledger = ucast (rv_latest_ledger resp), ep_cursor = or_default [] (rv_cursor resp), ep_events = events\<rparr>))"

definition decode_args :: "(bytes \<Rightarrow> scval option) \<Rightarrow> bytes list \<Rightarrow> rpc_error + scval list" where
  "decode_args dec args_xdr = mapE (\<lambda>(i, raw). ok_or (ArgDecode i) (dec raw)) (enumerate 0 args_xdr)"

definition rpc_build_unsigned_tx ::
  "('a, 't) soroban_server \<Rightarrow> (bytes \<Rightarrow> scval option) \<Rightarrow> bytes \<Rightarrow> bytes \<Rightarrow> bytes \<Rightarrow> bytes list \<Rightarrow> bytes \<Rightarrow> u32 \<Rightarrow> rpc_error + bytes" where
  "rpc_build_unsigned_tx srv dec signer contract_id method args_xdr network_passphrase base_fee =
     bindE (decode_args dec args_xdr) (\<lambda>args.
     bindE (ensure (srv_contract srv contract_id) (InvalidContractId contract_id)) (\<lambda>_.
     bindE (ensure (signer \<noteq> []) SignerRequired) (\<lambda>_.
     bindE (ok_or (GetAccount signer) (srv_get_account srv signer)) (\<lambda>source.
     let unsigned = srv_build srv source network_passphrase base_fee contract_id method args in
     bindE (ok_or PrepareFailed (srv_prepare srv unsigned)) (\<lambda>prepared.
     bindE (ok_or ToEnvelope (srv_envelope_xdr srv prepared)) (\<lambda>envelope.
     ok_or EnvelopeEncode envelope))))))"

text \<open>The answer of \<open>sendTransaction\<close>: a hash, or an error message.\<close>

definition sent_hash :: "json \<Rightarrow> rpc_error + bytes" where
  "sent_hash resp =
     (case Option.bind (Option.bind (json_get resp (asc ''result'')) (\<lambda>r. json_get r (asc ''hash''))) json_str of
        Some hash \<Rightarrow> Inr hash
      | None \<Rightarrow> Inl (SendRejected (or_default (asc ''unknown RPC error'')
          (Option.bind (Option.bind (json_get resp (asc ''error'')) (\<lambda>r. json_get r (asc ''message''))) json_str))))"

definition rpc_submit_and_wait :: "('a, 't) soroban_server \<Rightarrow> bytes \<Rightarrow> rpc_error + submitted_tx" where
  "rpc_submit_and_wait srv tx_xdr =
     bindE (ok_or InvalidEnvelope (srv_dec_envelope srv tx_xdr)) (\<lambda>envelope.
     bindE (ok_or Base64Encode envelope) (\<lambda>tx_b64.
     bindE (ok_or SendFailed (srv_send srv tx_b64)) (\<lambda>answer.
     bindE (ok_or SendParse answer) (\<lambda>resp.
     bindE (sent_hash resp) (\<lambda>hash.
     bindE (ok_or WaitFailed (srv_wait srv hash)) (\<lambda>result.
     case result of
       TxSuccess return_value \<Rightarrow> Inr \<lparr>stx_hash = hash, stx_return_value = return_value\<rparr>
     | TxFailed \<Rightarrow> Inl (FailedOnChain hash)
     | TxNotFound \<Rightarrow> Inl (NotFoundAfterWait hash)))))))"

end
