(* ===== verification/Api_Service.thy ===== *)
theory Api_Service
  imports Api_Rpc Transfer_Codec
begin

text \<open>
  The handlers of the API service, \<open>crates/api/src/services\<close>: ledgers, events, clients, balances and
  transactions. A handler returns an error with its status or a JSON body; \<open>answer\<close> is the response
  the client of the service sees. The text of an error is the parameter \<open>sl_text\<close>.
\<close>

section \<open>State and errors\<close>

record app_state =
  as_ibc_contract_id :: bytes
  as_transfer_contract_id :: bytes
  as_network_passphrase :: bytes

datatype svc_reason =
    NotConfigured bytes
  | InvalidContractAddress
  | KeyConversion conversion_error
  | KeyEncode
  | RpcError rpc_error
  | EntryNotFound bytes
  | NotAContractAddress
  | NotContractData
  | ReEncode conversion_error
  | MissingContractId
  | MissingCursor
  | BadHex bytes
  | BadAddressValue conversion_error
  | ReturnValueEncode

type_synonym svc_error = "nat \<times> svc_reason"

record svc_libs =
  sl_api :: api_libs
  sl_enc_key :: "ledger_key \<Rightarrow> bytes option"
  sl_dec_entry :: "bytes \<Rightarrow> ledger_entry_data option"
  sl_strkey :: "bytes \<Rightarrow> bytes option"
  sl_text :: "svc_reason \<Rightarrow> bytes"

definition BAD_REQUEST :: nat where "BAD_REQUEST = 400"
definition NOT_FOUND :: nat where "NOT_FOUND = 404"
definition INTERNAL_SERVER_ERROR :: nat where "INTERNAL_SERVER_ERROR = 500"
definition BAD_GATEWAY :: nat where "BAD_GATEWAY = 502"

lemmas status_defs = BAD_REQUEST_def NOT_FOUND_def INTERNAL_SERVER_ERROR_def BAD_GATEWAY_def

definition answer :: "svc_libs \<Rightarrow> svc_error + json \<Rightarrow> nat \<times> json option" where
  "answer lb r = (case r of
     Inr body \<Rightarrow> (200, Some body)
   | Inl (status, reason) \<Rightarrow> (status, Some (JObj [(asc ''error'', JStr (sl_text lb reason))])))"

abbreviation gateway_err :: "rpc_error + 'a \<Rightarrow> svc_error + 'a" where
  "gateway_err \<equiv> map_err (\<lambda>e. (BAD_GATEWAY, RpcError e))"

section \<open>Ledgers (\<open>ledgers.rs\<close>)\<close>

definition svc_get_ledger :: "svc_libs \<Rightarrow> ('a, 't) soroban_server \<Rightarrow> u32 \<Rightarrow> svc_error + json" where
  "svc_get_ledger lb srv sequence =
     bindE (gateway_err (rpc_get_ledger srv sequence)) (\<lambda>ledger.
     Inr (JObj [(asc ''sequence'', JU64 (ucast (ld_sequence ledger))),
                (asc ''header_xdr'', JStr (hex_encode (sl_api lb) (ld_header_xdr ledger))),
                (asc ''metadata_xdr'', case ld_metadata_xdr ledger of
                   Some m \<Rightarrow> JStr (hex_encode (sl_api lb) m) | None \<Rightarrow> JNull)]))"

definition svc_get_latest_ledger :: "svc_libs \<Rightarrow> ('a, 't) soroban_server \<Rightarrow> svc_error + json" where
  "svc_get_latest_ledger lb srv = bindE (gateway_err (rpc_get_latest_ledger srv)) (svc_get_ledger lb srv)"

section \<open>Events (\<open>events.rs\<close>)\<close>

record events_query =
  eq_contract_id :: "bytes option"
  eq_cursor :: "bytes option"
  eq_start_ledger :: "u32 option"
  eq_limit :: "u32 option"

definition events_cursor :: "bytes option \<Rightarrow> u32 option \<Rightarrow> event_cursor option" where
  "events_cursor cursor start_ledger =
     (let by_ledger = (case start_ledger of
            Some s \<Rightarrow> if s > 0 then Some (StartLedger s) else None | None \<Rightarrow> None) in
      case cursor of Some c \<Rightarrow> if c \<noteq> [] then Some (Cursor c) else by_ledger | None \<Rightarrow> by_ledger)"

definition event_json :: "svc_libs \<Rightarrow> event_record \<Rightarrow> json" where
  "event_json lb ev = JObj
     [(asc ''id'', JStr (er_id ev)), (asc ''ledger'', JU64 (ucast (er_ledger ev))),
      (asc ''ledger_closed_at'', JStr (er_ledger_closed_at ev)), (asc ''contract_id'', JStr (er_contract_id ev)),
      (asc ''tx_hash'', JStr (er_tx_hash ev)),
      (asc ''topics_xdr'', JArr (map (\<lambda>t. JStr (hex_encode (sl_api lb) t)) (er_topics_xdr ev))),
      (asc ''value_xdr'', JStr (hex_encode (sl_api lb) (er_value_xdr ev)))]"

definition svc_get_events :: "svc_libs \<Rightarrow> ('a, 't) soroban_server \<Rightarrow> events_query \<Rightarrow> svc_error + json" where
  "svc_get_events lb srv params =
     bindE (case eq_contract_id params of
              Some contract \<Rightarrow> if contract \<noteq> [] then Inr contract else Inl (BAD_REQUEST, MissingContractId)
            | None \<Rightarrow> Inl (BAD_REQUEST, MissingContractId)) (\<lambda>contract_id.
     bindE (ok_or (BAD_REQUEST, MissingCursor) (events_cursor (eq_cursor params) (eq_start_ledger params))) (\<lambda>cursor.
     bindE (gateway_err (rpc_get_events srv contract_id cursor (eq_limit params))) (\<lambda>page.
     Inr (JObj [(asc ''latest_ledger'', JU64 (ucast (ep_latest_ledger page))), (asc ''cursor'', JStr (ep_cursor page)),
                (asc ''events'', JArr (map (event_json lb) (ep_events page)))]))))"

section \<open>Clients (\<open>clients.rs\<close>)\<close>

definition DEFAULT_CLIENT_TYPES :: "bytes list" where
  "DEFAULT_CLIENT_TYPES = [asc ''07-tendermint'', asc ''mock'', asc ''attestation'', asc ''08-wasm'']"

definition key_xdr :: "svc_libs \<Rightarrow> bytes \<Rightarrow> scval \<Rightarrow> svc_reason + bytes" where
  "key_xdr lb contract key_val = persistent_contract_data_key (\<lambda>k. ok_or KeyEncode (sl_enc_key lb k)) contract key_val"

definition contract_data_key :: "svc_libs \<Rightarrow> bytes \<Rightarrow> bytes \<Rightarrow> bytes \<Rightarrow> svc_reason + bytes" where
  "contract_data_key lb contract variant arg =
     bindE (map_err KeyConversion (scval_symbol variant)) (\<lambda>sym.
     bindE (map_err KeyConversion (scval_string arg)) (\<lambda>str.
     bindE (map_err KeyConversion (scval_vec [sym, str])) (\<lambda>key_val.
     key_xdr lb contract key_val)))"

definition consensus_data_key :: "svc_libs \<Rightarrow> bytes \<Rightarrow> bytes \<Rightarrow> u64 \<Rightarrow> svc_reason + bytes" where
  "consensus_data_key lb contract client_id height =
     bindE (map_err KeyConversion (scval_symbol (asc ''Consensus''))) (\<lambda>sym.
     bindE (map_err KeyConversion (scval_string client_id)) (\<lambda>str.
     bindE (map_err KeyConversion (scval_vec [sym, str, scval_u64 height])) (\<lambda>key_val.
     key_xdr lb contract key_val)))"

definition decode_counter :: "svc_libs \<Rightarrow> bytes \<Rightarrow> u32 option" where
  "decode_counter lb entry_xdr = Option.bind (ledger_entry_contract_val (sl_dec_entry lb) entry_xdr) scval_as_u32"

definition client_type_of :: "bytes \<Rightarrow> bytes" where
  "client_type_of client_id =
     (if 45 \<in> set client_id then rev (tl (dropWhile (\<lambda>b. b \<noteq> 45) (rev client_id))) else client_id)"

definition fmt_02x :: "u8 \<Rightarrow> bytes" where
  "fmt_02x b = [nibble_to_hex (drop_bit 4 b), nibble_to_hex (b AND 0x0f)]"

text \<open>The router's own address, and the address of the light client it has registered for a client.\<close>

definition router_contract :: "svc_libs \<Rightarrow> app_state \<Rightarrow> svc_error + bytes" where
  "router_contract lb st =
     bindE (ensure (as_ibc_contract_id st \<noteq> []) (BAD_GATEWAY, NotConfigured (asc ''ROUTER_CONTRACT_ADDRESS''))) (\<lambda>_.
     ok_or (BAD_GATEWAY, InvalidContractAddress) (sl_strkey lb (as_ibc_contract_id st)))"

definition client_lc_contract :: "svc_libs \<Rightarrow> ('a, 't) soroban_server \<Rightarrow> app_state \<Rightarrow> bytes \<Rightarrow> svc_error + bytes" where
  "client_lc_contract lb srv st client_id =
     bindE (router_contract lb st) (\<lambda>router.
     bindE (map_err (Pair INTERNAL_SERVER_ERROR) (contract_data_key lb router (asc ''ClientLcAddr'') client_id)) (\<lambda>lc_key.
     bindE (gateway_err (rpc_get_ledger_entry srv lc_key)) (\<lambda>lc_found.
     bindE (ok_or (NOT_FOUND, EntryNotFound client_id) lc_found) (\<lambda>lc_entry.
     case ledger_entry_contract_val (sl_dec_entry lb) lc_entry of
       Some (ScvAddress (ScContract i)) \<Rightarrow> Inr i
     | _ \<Rightarrow> Inl (INTERNAL_SERVER_ERROR, NotAContractAddress)))))"

text \<open>The value of an entry, re-encoded and in hexadecimal.\<close>

definition entry_hex :: "svc_libs \<Rightarrow> ('a, 't) soroban_server \<Rightarrow> bytes \<Rightarrow> bytes \<Rightarrow> svc_error + bytes" where
  "entry_hex lb srv client_id key =
     bindE (gateway_err (rpc_get_ledger_entry srv key)) (\<lambda>found.
     bindE (ok_or (NOT_FOUND, EntryNotFound client_id) found) (\<lambda>entry.
     bindE (ok_or (INTERNAL_SERVER_ERROR, NotContractData) (ledger_entry_contract_val (sl_dec_entry lb) entry)) (\<lambda>val.
     bindE (map_err (\<lambda>e. (INTERNAL_SERVER_ERROR, ReEncode e)) (scval_to_xdr (enc_scval (lib_xdr (sl_api lb))) val)) (\<lambda>xdr.
     Inr (concat (map fmt_02x xdr))))))"

definition svc_client_state :: "svc_libs \<Rightarrow> ('a, 't) soroban_server \<Rightarrow> app_state \<Rightarrow> bytes \<Rightarrow> svc_error + json" where
  "svc_client_state lb srv st client_id =
     bindE (client_lc_contract lb srv st client_id) (\<lambda>lc_contract.
     bindE (map_err (Pair INTERNAL_SERVER_ERROR) (contract_data_key lb lc_contract (asc ''Client'') client_id)) (\<lambda>cs_key.
     bindE (entry_hex lb srv client_id cs_key) (\<lambda>hex.
     Inr (JObj [(asc ''client_id'', JStr client_id), (asc ''client_type'', JStr (client_type_of client_id)),
                (asc ''client_state_xdr'', JStr hex)]))))"

definition svc_consensus_state ::
  "svc_libs \<Rightarrow> ('a, 't) soroban_server \<Rightarrow> app_state \<Rightarrow> bytes \<Rightarrow> u64 \<Rightarrow> svc_error + json" where
  "svc_consensus_state lb srv st client_id height =
     bindE (client_lc_contract lb srv st client_id) (\<lambda>lc_contract.
     bindE (map_err (Pair INTERNAL_SERVER_ERROR) (consensus_data_key lb lc_contract client_id height)) (\<lambda>cons_key.
     bindE (entry_hex lb srv client_id cons_key) (\<lambda>hex.
     Inr (JObj [(asc ''client_id'', JStr client_id), (asc ''client_type'', JStr (client_type_of client_id)),
                (asc ''height'', JU64 height), (asc ''consensus_state_xdr'', JStr hex)]))))"

definition client_ids_of :: "bytes \<Rightarrow> u32 \<Rightarrow> bytes list" where
  "client_ids_of client_type count = map (\<lambda>n. client_type @ asc ''-'' @ decimal n) [0 ..< unat count]"

definition list_one_type :: "svc_libs \<Rightarrow> ('a, 't) soroban_server \<Rightarrow> bytes \<Rightarrow> bytes \<Rightarrow> svc_error + json option" where
  "list_one_type lb srv router client_type =
     bindE (map_err (Pair INTERNAL_SERVER_ERROR) (contract_data_key lb router (asc ''NextClientId'') client_type)) (\<lambda>key.
     bindE (gateway_err (rpc_get_ledger_entry srv key)) (\<lambda>entry.
     let count = or_default 0 (Option.bind entry (decode_counter lb)) in
     if count = 0 then Inr None
     else Inr (Some (JObj [(asc ''client_type'', JStr client_type), (asc ''count'', JU64 (ucast count)),
                           (asc ''client_ids'', JArr (map JStr (client_ids_of client_type count)))]))))"

definition svc_list_clients :: "svc_libs \<Rightarrow> ('a, 't) soroban_server \<Rightarrow> app_state \<Rightarrow> bytes option \<Rightarrow> svc_error + json" where
  "svc_list_clients lb srv st client_type =
     bindE (router_contract lb st) (\<lambda>router.
     let types = (case client_type of Some t \<Rightarrow> [t] | None \<Rightarrow> DEFAULT_CLIENT_TYPES) in
     bindE (mapE (list_one_type lb srv router) types) (\<lambda>groups.
     Inr (JObj [(asc ''clients'', JArr (List.map_filter (\<lambda>g. g) groups))])))"

section \<open>Balances (\<open>balance.rs\<close>)\<close>

definition balance_ledger_key :: "svc_libs \<Rightarrow> bytes \<Rightarrow> bytes \<Rightarrow> bytes \<Rightarrow> svc_reason + bytes" where
  "balance_ledger_key lb contract address_hex denom =
     bindE (ok_or (BadHex address_hex) (hex_decode (sl_api lb) address_hex)) (\<lambda>addr_xdr.
     bindE (map_err BadAddressValue (scval_from_xdr (dec_scval (lib_xdr (sl_api lb))) addr_xdr)) (\<lambda>addr_val.
     bindE (map_err KeyConversion (scval_symbol (asc ''Balance''))) (\<lambda>sym.
     bindE (map_err KeyConversion (scval_string denom)) (\<lambda>str.
     bindE (map_err KeyConversion (scval_vec [sym, addr_val, str])) (\<lambda>key_val.
     key_xdr lb contract key_val)))))"

definition decode_i128 :: "svc_libs \<Rightarrow> bytes \<Rightarrow> 128 word option" where
  "decode_i128 lb entry_xdr = Option.bind (ledger_entry_contract_val (sl_dec_entry lb) entry_xdr) scval_as_i128"

text \<open>\<open>i128::to_string\<close>.\<close>

definition show_i128 :: "int \<Rightarrow> bytes" where
  "show_i128 n = (if n < 0 then asc ''-'' @ decimal (nat (- n)) else decimal (nat n))"

definition svc_transfer_balance ::
  "svc_libs \<Rightarrow> ('a, 't) soroban_server \<Rightarrow> app_state \<Rightarrow> bytes \<Rightarrow> bytes \<Rightarrow> svc_error + json" where
  "svc_transfer_balance lb srv st denom address =
     bindE (ensure (as_transfer_contract_id st \<noteq> []) (BAD_GATEWAY, NotConfigured (asc ''TRANSFER_CONTRACT_ADDRESS''))) (\<lambda>_.
     bindE (ok_or (BAD_GATEWAY, InvalidContractAddress) (sl_strkey lb (as_transfer_contract_id st))) (\<lambda>contract.
     bindE (map_err (Pair BAD_REQUEST) (balance_ledger_key lb contract address denom)) (\<lambda>key.
     bindE (gateway_err (rpc_get_ledger_entry srv key)) (\<lambda>entry.
     let balance = or_default 0 (Option.bind entry (decode_i128 lb)) in
     Inr (JObj [(asc ''balance'', JStr (show_i128 (sint balance)))])))))"

section \<open>Transactions (\<open>tx.rs\<close>)\<close>

definition BASE_FEE :: u32 where
  "BASE_FEE = 1000"

record prepare_request =
  pq_signer :: bytes
  pq_method :: bytes
  pq_args_xdr :: "bytes list"

definition prepare_tx :: "svc_libs \<Rightarrow> ('a, 't) soroban_server \<Rightarrow> app_state \<Rightarrow> prepare_request \<Rightarrow> svc_error + json" where
  "prepare_tx lb srv st req =
     bindE (ensure (as_ibc_contract_id st \<noteq> []) (BAD_GATEWAY, NotConfigured (asc ''ROUTER_CONTRACT_ADDRESS''))) (\<lambda>_.
     bindE (mapE (\<lambda>a. ok_or (BAD_REQUEST, BadHex a) (hex_decode (sl_api lb) a)) (pq_args_xdr req)) (\<lambda>args_xdr.
     bindE (gateway_err (rpc_build_unsigned_tx srv (dec_scval (lib_xdr (sl_api lb))) (pq_signer req) (as_ibc_contract_id st)
              (pq_method req) args_xdr (as_network_passphrase st) BASE_FEE)) (\<lambda>tx_xdr.
     Inr (JObj [(asc ''tx_xdr'', JStr (hex_encode (sl_api lb) tx_xdr))]))))"

definition submit_signed_tx :: "svc_libs \<Rightarrow> ('a, 't) soroban_server \<Rightarrow> bytes \<Rightarrow> svc_error + json" where
  "submit_signed_tx lb srv tx_hex =
     bindE (ok_or (BAD_REQUEST, BadHex tx_hex) (hex_decode (sl_api lb) tx_hex)) (\<lambda>tx_xdr.
     bindE (gateway_err (rpc_submit_and_wait srv tx_xdr)) (\<lambda>submitted.
     bindE (case stx_return_value submitted of
              Some v \<Rightarrow> bindE (ok_or (BAD_GATEWAY, ReturnValueEncode) (enc_scval (lib_xdr (sl_api lb)) v)) (\<lambda>bs.
                          Inr (hex_encode (sl_api lb) bs))
            | None \<Rightarrow> Inr []) (\<lambda>return_value_xdr.
     Inr (JObj [(asc ''hash'', JStr (stx_hash submitted)), (asc ''return_value_xdr'', JStr return_value_xdr)]))))"

section \<open>Health probe (\<open>runner.rs\<close>)\<close>

definition svc_health :: "svc_libs \<Rightarrow> ('a, 't) soroban_server \<Rightarrow> bytes" where
  "svc_health lb srv = asc ''Stellar IBC API is healthy. Latest ledger: '' @
     (case rpc_get_latest_ledger srv of
        Inr sequence \<Rightarrow> decimal (unat sequence)
      | Inl e \<Rightarrow> asc ''unavailable ('' @ sl_text lb (RpcError e) @ asc '')'')"

end
