(* ===== verification/Api_Properties.thy ===== *)
theory Api_Properties
  imports Api_Service Core_Soroban_Properties Router_Properties
begin

text \<open>
  The gateway's client of the API service and the service agree: what the client returns is what the
  RPC node answered, and the clients it lists are those of the router's registry. The transport
  between the two is a hypothesis: the request for a route reaches its handler.
\<close>

section \<open>The route table (\<open>crates/api/src/runner.rs\<close>)\<close>

datatype endpoint =
    EpLatestLedger
  | EpLedger u32
  | EpEvents events_query
  | EpBalance bytes bytes
  | EpClients "bytes option"
  | EpClientState bytes
  | EpConsensusState bytes u64
  | EpSubmit bytes
  | EpPrepare prepare_request

fun api_route :: "svc_libs \<Rightarrow> ('a, 't) soroban_server \<Rightarrow> app_state \<Rightarrow> endpoint \<Rightarrow> svc_error + json" where
  "api_route lb srv st EpLatestLedger = svc_get_latest_ledger lb srv"
| "api_route lb srv st (EpLedger sequence) = svc_get_ledger lb srv sequence"
| "api_route lb srv st (EpEvents params) = svc_get_events lb srv params"
| "api_route lb srv st (EpBalance denom addr) = svc_transfer_balance lb srv st denom addr"
| "api_route lb srv st (EpClients client_type) = svc_list_clients lb srv st client_type"
| "api_route lb srv st (EpClientState client_id) = svc_client_state lb srv st client_id"
| "api_route lb srv st (EpConsensusState client_id height) = svc_consensus_state lb srv st client_id height"
| "api_route lb srv st (EpSubmit tx_hex) = submit_signed_tx lb srv tx_hex"
| "api_route lb srv st (EpPrepare req) = prepare_tx lb srv st req"

definition cursor_query :: "bytes \<Rightarrow> event_cursor \<Rightarrow> u32 option \<Rightarrow> events_query" where
  "cursor_query contract_id cursor limit = \<lparr>eq_contract_id = Some contract_id,
     eq_cursor = (case cursor of Cursor c \<Rightarrow> Some c | StartLedger _ \<Rightarrow> None),
     eq_start_ledger = (case cursor of Cursor _ \<Rightarrow> None | StartLedger s \<Rightarrow> Some s), eq_limit = limit\<rparr>"

fun cursor_set :: "event_cursor \<Rightarrow> bool" where
  "cursor_set (Cursor c) = (c \<noteq> [])"
| "cursor_set (StartLedger s) = (s > 0)"

text \<open>The request the client makes reaches the handler of a route.\<close>

definition routed_get ::
  "http \<Rightarrow> api_client \<Rightarrow> svc_libs \<Rightarrow> ('a, 't) soroban_server \<Rightarrow> app_state \<Rightarrow> bytes \<Rightarrow> endpoint \<Rightarrow> bool" where
  "routed_get ht c lb srv st path ep \<longleftrightarrow> http_get ht (api_url c path) = Some (answer lb (api_route lb srv st ep))"

definition routed_post ::
  "http \<Rightarrow> api_client \<Rightarrow> svc_libs \<Rightarrow> ('a, 't) soroban_server \<Rightarrow> app_state \<Rightarrow> bytes \<Rightarrow> json \<Rightarrow> endpoint \<Rightarrow> bool" where
  "routed_post ht c lb srv st path body ep \<longleftrightarrow>
     http_post ht (api_url c path) body = Some (answer lb (api_route lb srv st ep))"

definition routed_submit :: "http \<Rightarrow> api_client \<Rightarrow> svc_libs \<Rightarrow> ('a, 't) soroban_server \<Rightarrow> app_state \<Rightarrow> bytes \<Rightarrow> bool" where
  "routed_submit ht c lb srv st tx_hex \<longleftrightarrow>
     routed_post ht c lb srv st (asc ''/tx/submit'') (JObj [(asc ''tx_xdr'', JStr tx_hex)]) (EpSubmit tx_hex)"

definition routed_prepare ::
  "http \<Rightarrow> api_client \<Rightarrow> svc_libs \<Rightarrow> ('a, 't) soroban_server \<Rightarrow> app_state \<Rightarrow> bytes \<Rightarrow> bytes \<Rightarrow> bytes list \<Rightarrow> bool" where
  "routed_prepare ht c lb srv st signer method args_xdr \<longleftrightarrow>
     routed_post ht c lb srv st (asc ''/tx/prepare'')
       (JObj [(asc ''signer'', JStr signer), (asc ''method'', JStr method), (asc ''args_xdr'', JArr (map JStr args_xdr))])
       (EpPrepare \<lparr>pq_signer = signer, pq_method = method, pq_args_xdr = args_xdr\<rparr>)"

lemmas routed_defs = routed_get_def routed_post_def routed_submit_def routed_prepare_def

definition hex_law :: "api_libs \<Rightarrow> bool" where
  "hex_law lb \<longleftrightarrow> (\<forall>bs. hex_decode lb (hex_encode lb bs) = Some bs \<and> hex_decode lb (concat (map fmt_02x bs)) = Some bs)"

section \<open>Responses\<close>

lemma json_response_answer:
  assumes "\<forall>st e. r = Inl (st, e) \<longrightarrow> st = BAD_REQUEST \<or> st = NOT_FOUND \<or> st = INTERNAL_SERVER_ERROR \<or> st = BAD_GATEWAY"
  shows "json_response path (Some (answer lb r)) = map_err (\<lambda>(st, e). ErrorStatus path st) r"
  using assms by (cases r) (auto simp: json_response_def answer_def status_defs)

lemmas json_simps = get_str_def get_u64_def get_array_def json_get_def json_str_def json_u64_def json_array_def or_default_def
  string_field_def

lemma ucast_u32_u64 [simp]: "ucast (ucast (n :: u32) :: u64) = n"
  by (rule bit_word_eqI) (auto simp: bit_simps)

section \<open>Ledgers and events\<close>

lemma api_ledger_eq:
  assumes "routed_get ht c lb srv st (ledger_path n) (EpLedger n)" and "hex_law (sl_api lb)"
  shows "api_get_ledger ht (sl_api lb) c n = map_err (\<lambda>_. ErrorStatus (ledger_path n) BAD_GATEWAY) (rpc_get_ledger srv n)"
proof -
  have "http_get ht (api_url c (ledger_path n)) = Some (answer lb (svc_get_ledger lb srv n))"
    using assms(1) by (simp add: routed_defs)
  moreover have seq: "ld_sequence d = n" if "rpc_get_ledger srv n = Inr d" for d
    using that by (auto simp: rpc_get_ledger_def bindE_simps)
  ultimately show ?thesis
    using assms(2)
    by (cases "rpc_get_ledger srv n")
       (auto simp: api_get_ledger_def get_json_def svc_get_ledger_def json_response_def answer_def status_defs json_simps
         hex_law_def bindE_simps split: option.splits)
qed

lemma parse_event_json:
  assumes "hex_law (sl_api lb)"
  shows "parse_event (sl_api lb) (event_json lb ev) = Inr ev"
proof -
  have "mapE (\<lambda>t. ok_or er (hex_decode (sl_api lb) t)) (map (hex_encode (sl_api lb)) ts) = Inr ts" for er :: api_error and ts
    using assms by (induction ts) (simp_all add: hex_law_def)
  then show ?thesis
    using assms
    by (simp add: parse_event_def event_json_def json_simps hex_law_def List.map_filter_def comp_def)
qed

lemma api_events_eq:
  assumes "routed_get ht c lb srv st (events_path contract_id cursor limit) (EpEvents (cursor_query contract_id cursor limit))"
    and "hex_law (sl_api lb)" and "contract_id \<noteq> []" and "cursor_set cursor"
  shows "api_get_events ht (sl_api lb) c contract_id cursor limit
    = map_err (\<lambda>_. ErrorStatus (events_path contract_id cursor limit) BAD_GATEWAY) (rpc_get_events srv contract_id cursor limit)"
proof -
  have get: "http_get ht (api_url c (events_path contract_id cursor limit))
      = Some (answer lb (svc_get_events lb srv (cursor_query contract_id cursor limit)))"
    using assms(1) by (simp add: routed_defs)
  have cur: "events_cursor (eq_cursor (cursor_query contract_id cursor limit)) (eq_start_ledger (cursor_query contract_id cursor limit))
      = Some cursor"
    using assms(4) by (cases cursor) (auto simp: cursor_query_def events_cursor_def)
  have events: "mapE (parse_event (sl_api lb)) (map (event_json lb) evs) = Inr evs" for evs
    by (induction evs) (simp_all add: parse_event_json [OF assms(2)])
  show ?thesis
    using cur assms(3)
    by (cases "rpc_get_events srv contract_id cursor limit")
       (auto simp: api_get_events_def get_json_def get svc_get_events_def json_response_def answer_def status_defs json_simps
         events cursor_query_def Let_def)
qed

section \<open>Transactions\<close>

lemma enumerate_decode:
  "mapE (\<lambda>(i, raw). ok_or (ArgDecode i) (dec raw)) (enumerate k bss) = Inr vs \<longleftrightarrow> list_all2 (\<lambda>b v. dec b = Some v) bss vs"
proof (induction bss arbitrary: k vs)
  case (Cons b bss)
  then show ?case by (cases vs) (auto simp: bindE_simps)
qed auto

lemma args_roundtrip:
  assumes "hex_law lb" and "xdr_law (lib_xdr lb)"
    and "mapE (\<lambda>arg. bindE (ok_or er (enc_scval (lib_xdr lb) arg)) (\<lambda>bs. Inr (hex_encode lb bs))) args = Inr hexes"
  shows "\<exists>bss. mapE (\<lambda>a. ok_or (f a) (hex_decode lb a)) hexes = Inr bss \<and> decode_args (dec_scval (lib_xdr lb)) bss = Inr args"
  unfolding decode_args_def enumerate_decode
  using assms(3)
proof (induction args arbitrary: hexes)
  case (Cons arg args)
  then obtain bs hs bss where "enc_scval (lib_xdr lb) arg = Some bs" and h: "hexes = hex_encode lb bs # hs"
    and "mapE (\<lambda>a. ok_or (f a) (hex_decode lb a)) hs = Inr bss" "list_all2 (\<lambda>b v. dec_scval (lib_xdr lb) b = Some v) bss args"
    by (auto simp: bindE_simps)
  moreover from this have "dec_scval (lib_xdr lb) bs = Some arg" using assms(2) by (simp add: xdr_law_def)
  ultimately show ?case using assms(1) by (auto simp: hex_law_def)
qed simp

text \<open>What the node is asked for when a transaction with these arguments is prepared.\<close>

definition node_build :: "('a, 't) soroban_server \<Rightarrow> app_state \<Rightarrow> bytes \<Rightarrow> bytes \<Rightarrow> scval list \<Rightarrow> rpc_error + bytes" where
  "node_build srv st signer method args =
     bindE (ensure (srv_contract srv (as_ibc_contract_id st)) (InvalidContractId (as_ibc_contract_id st))) (\<lambda>_.
     bindE (ensure (signer \<noteq> []) SignerRequired) (\<lambda>_.
     bindE (ok_or (GetAccount signer) (srv_get_account srv signer)) (\<lambda>source.
     bindE (ok_or PrepareFailed (srv_prepare srv
              (srv_build srv source (as_network_passphrase st) BASE_FEE (as_ibc_contract_id st) method args))) (\<lambda>prepared.
     bindE (ok_or ToEnvelope (srv_envelope_xdr srv prepared)) (\<lambda>envelope.
     ok_or EnvelopeEncode envelope)))))"

lemma api_build_eq:
  assumes "\<forall>args_xdr. routed_prepare ht c lb srv st signer method args_xdr"
    and "hex_law (sl_api lb)" and "xdr_law (lib_xdr (sl_api lb))" and "as_ibc_contract_id st \<noteq> []"
    and "\<forall>arg \<in> set args. enc_scval (lib_xdr (sl_api lb)) arg \<noteq> None"
  shows "api_build_unsigned_tx ht (sl_api lb) c signer method args
    = map_err (\<lambda>_. ErrorStatus (asc ''/tx/prepare'') BAD_GATEWAY) (node_build srv st signer method args)"
proof -
  have enc: "mapE (\<lambda>arg. bindE (ok_or er (enc_scval (lib_xdr (sl_api lb)) arg)) (\<lambda>bs. Inr (hex_encode (sl_api lb) bs))) args
      = Inr (map (\<lambda>arg. hex_encode (sl_api lb) (the (enc_scval (lib_xdr (sl_api lb)) arg))) args)" for er :: api_error
    using assms(5) by (intro mapE_all_Inr) auto
  obtain bss where dec: "mapE (\<lambda>a. ok_or (BAD_REQUEST, BadHex a) (hex_decode (sl_api lb) a))
        (map (\<lambda>arg. hex_encode (sl_api lb) (the (enc_scval (lib_xdr (sl_api lb)) arg))) args) = Inr bss"
    and args: "decode_args (dec_scval (lib_xdr (sl_api lb))) bss = Inr args"
    using args_roundtrip [OF assms(2, 3) enc, where f = "\<lambda>a. (BAD_REQUEST, BadHex a)"] by blast
  have "http_post ht (api_url c (asc ''/tx/prepare'')) (JObj [(asc ''signer'', JStr signer), (asc ''method'', JStr method),
      (asc ''args_xdr'', JArr (map JStr hs))]) = Some (answer lb (prepare_tx lb srv st
        \<lparr>pq_signer = signer, pq_method = method, pq_args_xdr = hs\<rparr>))" for hs
    using assms(1) by (simp add: routed_defs)
  moreover have "rpc_build_unsigned_tx srv (dec_scval (lib_xdr (sl_api lb))) signer (as_ibc_contract_id st) method bss
      (as_network_passphrase st) BASE_FEE = node_build srv st signer method args"
    by (simp add: rpc_build_unsigned_tx_def args node_build_def Let_def)
  ultimately have "http_post ht (api_url c (asc ''/tx/prepare'')) (JObj [(asc ''signer'', JStr signer), (asc ''method'', JStr method),
      (asc ''args_xdr'', JArr (map JStr (map (\<lambda>arg. hex_encode (sl_api lb) (the (enc_scval (lib_xdr (sl_api lb)) arg))) args)))])
      = Some (answer lb (bindE (gateway_err (node_build srv st signer method args))
          (\<lambda>tx. Inr (JObj [(asc ''tx_xdr'', JStr (hex_encode (sl_api lb) tx))]))))"
    using assms(4) dec by (simp only: prepare_tx_def prepare_request.simps) simp
  then show ?thesis
    using assms(2)
    by (cases "node_build srv st signer method args")
       (auto simp: api_build_unsigned_tx_def enc post_json_def json_response_def answer_def status_defs json_simps
         hex_law_def Let_def simp del: map_map)
qed

lemma api_submit_eq:
  assumes "routed_submit ht c lb srv st (hex_encode (sl_api lb) tx)" and "hex_law (sl_api lb)" and "xdr_law (lib_xdr (sl_api lb))"
    and "rpc_submit_and_wait srv tx = Inr \<lparr>stx_hash = hash, stx_return_value = Some v\<rparr>"
    and "enc_scval (lib_xdr (sl_api lb)) v = Some bs"
  shows "api_submit_and_wait ht (sl_api lb) c tx = Inr \<lparr>stx_hash = hash, stx_return_value = Some v\<rparr>"
proof -
  have "http_post ht (api_url c (asc ''/tx/submit'')) (JObj [(asc ''tx_xdr'', JStr (hex_encode (sl_api lb) tx))])
      = Some (answer lb (submit_signed_tx lb srv (hex_encode (sl_api lb) tx)))"
    using assms(1) by (simp add: routed_defs)
  moreover have "dec_scval (lib_xdr (sl_api lb)) bs = Some v" using assms(3, 5) by (simp add: xdr_law_def)
  ultimately show ?thesis
    using assms(2, 4, 5)
    by (simp add: api_submit_and_wait_def post_json_def submit_signed_tx_def json_response_def answer_def json_simps
        hex_law_def scval_from_xdr_def)
qed

text \<open>
  A transaction that succeeded without a return value is reported to the gateway as an error: the
  service sends an empty string for the missing value, which the client decodes as a value.
\<close>

lemma api_submit_without_value_fails:
  assumes "routed_submit ht c lb srv st (hex_encode (sl_api lb) tx)" and "hex_law (sl_api lb)"
    and "rpc_submit_and_wait srv tx = Inr \<lparr>stx_hash = hash, stx_return_value = None\<rparr>"
    and "dec_scval (lib_xdr (sl_api lb)) [] = None"
  shows "api_submit_and_wait ht (sl_api lb) c tx = Inl (ReturnValue FromXdr)"
proof -
  have "http_post ht (api_url c (asc ''/tx/submit'')) (JObj [(asc ''tx_xdr'', JStr (hex_encode (sl_api lb) tx))])
      = Some (answer lb (submit_signed_tx lb srv (hex_encode (sl_api lb) tx)))"
    using assms(1) by (simp add: routed_defs)
  moreover have "hex_decode (sl_api lb) [] = Some []"
    using assms(2) [unfolded hex_law_def, rule_format, of "[]"] by simp
  ultimately show ?thesis
    using assms(2-4)
    by (simp add: api_submit_and_wait_def post_json_def submit_signed_tx_def json_response_def answer_def json_simps
        hex_law_def scval_from_xdr_def)
qed

section \<open>Clients\<close>

text \<open>The node holds the router's storage: the counters of client types.\<close>

definition node_counts :: "svc_libs \<Rightarrow> ('a, 't) soroban_server \<Rightarrow> bytes \<Rightarrow> router_state \<Rightarrow> bool" where
  "node_counts lb srv router s \<longleftrightarrow> (\<forall>t \<in> set DEFAULT_CLIENT_TYPES. \<exists>key e.
     contract_data_key lb router (asc ''NextClientId'') t = Inr key \<and> rpc_get_ledger_entry srv key = Inr e
     \<and> Option.bind e (decode_counter lb) = r_next_client_id s t)"

lemma client_ids_minted: "client_ids_of t n = map (minted_id t) [0 ..< unat n]"
  by (simp add: client_ids_of_def minted_id_def asc_def)

definition client_group :: "router_state \<Rightarrow> bytes \<Rightarrow> json option" where
  "client_group s t = (if next_id s t = 0 then None else Some (JObj
      [(asc ''client_type'', JStr t), (asc ''count'', JU64 (ucast (or_default 0 (r_next_client_id s t)))),
       (asc ''client_ids'', JArr (map JStr (map (minted_id t) [0 ..< next_id s t])))]))"

lemma list_one_type_eq:
  assumes "node_counts lb srv router s" and "t \<in> set DEFAULT_CLIENT_TYPES"
  shows "list_one_type lb srv router t = Inr (client_group s t)"
proof -
  obtain key e where "contract_data_key lb router (asc ''NextClientId'') t = Inr key"
    and "rpc_get_ledger_entry srv key = Inr e" and "Option.bind e (decode_counter lb) = r_next_client_id s t"
    using assms unfolding node_counts_def by blast
  moreover have "next_id s t = unat (or_default 0 (r_next_client_id s t))"
    by (simp add: next_id_def or_default_def split: option.splits)
  ultimately show ?thesis
    by (simp add: list_one_type_def client_group_def client_ids_minted Let_def unat_eq_0 del: map_map)
qed

text \<open>The listing of the service, and the identifiers it holds.\<close>

definition listed_groups :: "router_state \<Rightarrow> json list" where
  "listed_groups s = List.map_filter (\<lambda>g. g) (map (client_group s) DEFAULT_CLIENT_TYPES)"

definition listed_ids :: "router_state \<Rightarrow> bytes list" where
  "listed_ids s = concat (map (\<lambda>t. map (minted_id t) [0 ..< next_id s t]) DEFAULT_CLIENT_TYPES)"

lemma svc_list_clients_eq:
  assumes "router_contract lb st = Inr router" and "node_counts lb srv router s"
  shows "svc_list_clients lb srv st None = Inr (JObj [(asc ''clients'', JArr (listed_groups s))])"
proof -
  have "mapE (list_one_type lb srv router) DEFAULT_CLIENT_TYPES = Inr (map (client_group s) DEFAULT_CLIENT_TYPES)"
    by (rule mapE_all_Inr) (rule list_one_type_eq [OF assms(2)])
  then show ?thesis by (simp add: svc_list_clients_def listed_groups_def assms(1))
qed

lemma listed_groups_ids:
  "concat (map (\<lambda>g. case get_array g (asc ''client_ids'') of None \<Rightarrow> [] | Some arr \<Rightarrow> List.map_filter json_str arr) (listed_groups s))
     = listed_ids s"
proof -
  have strs: "List.map_filter json_str (map JStr xs) = xs" for xs
    by (induction xs) (simp_all add: map_filter_simps json_str_def)
  have "concat (map (\<lambda>g. case get_array g (asc ''client_ids'') of None \<Rightarrow> [] | Some arr \<Rightarrow> List.map_filter json_str arr)
      (List.map_filter (\<lambda>g. g) (map (client_group s) ts))) = concat (map (\<lambda>t. map (minted_id t) [0 ..< next_id s t]) ts)" for ts
    by (induction ts) (simp_all add: map_filter_simps client_group_def get_array_def json_get_def json_array_def strs del: map_map)
  then show ?thesis by (simp add: listed_groups_def listed_ids_def)
qed

lemma api_list_eq:
  assumes "routed_get ht c lb srv st (asc ''/stellar/clients'') (EpClients None)" and "router_contract lb st = Inr router" and "node_counts lb srv router s"
  shows "list_client_ids ht c = Inr (listed_ids s)"
proof -
  have "http_get ht (api_url c (asc ''/stellar/clients'')) = Some (answer lb (svc_list_clients lb srv st None))"
    using assms(1) by (simp add: routed_defs)
  then show ?thesis
    by (simp add: list_client_ids_def get_json_def svc_list_clients_eq [OF assms(2,3)] json_response_def answer_def get_array_def
        json_get_def json_array_def flip: listed_groups_ids)
qed

text \<open>Over a run of the router the identifiers are those of the registry.\<close>

lemma distinct_minted: "distinct ts \<Longrightarrow> distinct (concat (map (\<lambda>t. map (minted_id t) [0 ..< f t]) ts))"
  by (induction ts) (auto simp: distinct_map inj_on_def minted_id_inj)

lemma listed_ids_registry:
  assumes "router_run sha ce allowed (router_constructor admin, x0) (s, x)"
  shows "distinct (listed_ids s)" "set (listed_ids s) = {i. \<exists>t \<in> set DEFAULT_CLIENT_TYPES. r_client_type s i = Some t}"
proof -
  have wf: "registry_wf s" by (rule registry_wf_run [OF assms registry_wf_constructor])
  note clients = registered_clients [OF wf registry_full_run [OF assms]]
  have "set (listed_ids s) = (\<Union>t \<in> set DEFAULT_CLIENT_TYPES. {i. r_client_type s i = Some t})"
    unfolding clients by (auto simp: listed_ids_def)
  then show "set (listed_ids s) = {i. \<exists>t \<in> set DEFAULT_CLIENT_TYPES. r_client_type s i = Some t}" by blast
  have "distinct DEFAULT_CLIENT_TYPES" by (simp add: DEFAULT_CLIENT_TYPES_def)
  then show "distinct (listed_ids s)"
    unfolding listed_ids_def by (rule distinct_minted)
qed

text \<open>
  C32 (the client listing is the registry). Asked for the clients while the node holds the storage of
  a router that has run since deployment, the gateway's API client returns, without repetition,
  exactly the registered clients of the known client types.
\<close>

theorem api_lists_registry:
  assumes "router_run sha ce allowed (router_constructor admin, x0) (s, x)"
    and "routed_get ht c lb srv st (asc ''/stellar/clients'') (EpClients None)" and "router_contract lb st = Inr router" and "node_counts lb srv router s"
  shows "\<exists>ids. list_client_ids ht c = Inr ids \<and> distinct ids
    \<and> set ids = {i. \<exists>t \<in> set DEFAULT_CLIENT_TYPES. r_client_type s i = Some t}"
  using listed_ids_registry [OF assms(1)] api_list_eq [OF assms(2-4)] by blast

text \<open>
  The node holds the entries of one client: the router's entry with the address of its light client,
  and that contract's entry with its state.
\<close>

definition node_holds_client ::
  "svc_libs \<Rightarrow> ('a, 't) soroban_server \<Rightarrow> bytes \<Rightarrow> bytes \<Rightarrow> bytes \<Rightarrow> scval \<Rightarrow> bool" where
  "node_holds_client lb srv router client_id lc v \<longleftrightarrow> (\<exists>k1 e1 k2 e2.
     contract_data_key lb router (asc ''ClientLcAddr'') client_id = Inr k1 \<and> rpc_get_ledger_entry srv k1 = Inr (Some e1)
     \<and> ledger_entry_contract_val (sl_dec_entry lb) e1 = Some (ScvAddress (ScContract lc))
     \<and> contract_data_key lb lc (asc ''Client'') client_id = Inr k2 \<and> rpc_get_ledger_entry srv k2 = Inr (Some e2)
     \<and> ledger_entry_contract_val (sl_dec_entry lb) e2 = Some v)"

lemma api_client_state_eq:
  assumes "routed_get ht c lb srv st (client_state_path client_id) (EpClientState client_id)" and "hex_law (sl_api lb)"
    and "router_contract lb st = Inr router" and "node_holds_client lb srv router client_id lc v"
    and "enc_scval (lib_xdr (sl_api lb)) v = Some bs"
  shows "get_client_state_xdr ht (sl_api lb) c client_id = Inr bs"
proof -
  have "svc_client_state lb srv st client_id = Inr (JObj [(asc ''client_id'', JStr client_id),
      (asc ''client_type'', JStr (client_type_of client_id)), (asc ''client_state_xdr'', JStr (concat (map fmt_02x bs)))])"
    using assms(3-5)
    by (auto simp: node_holds_client_def svc_client_state_def client_lc_contract_def entry_hex_def scval_to_xdr_def)
  with assms(1, 2) show ?thesis
    by (simp add: get_client_state_xdr_def get_json_def routed_get_def json_response_def answer_def json_simps hex_law_def)
qed

text \<open>A service over a node that holds the storage of the sample router.\<close>

definition sample_api_libs :: "sc_xdr \<Rightarrow> api_libs" where
  "sample_api_libs x = \<lparr>hex_encode = hex_of_bytes,
     hex_decode = (\<lambda>h. case bytes_of_hex h of Inr bs \<Rightarrow> Some bs | Inl _ \<Rightarrow> None), lib_xdr = x\<rparr>"

lemma sample_hex_law: "hex_law (sample_api_libs x)"
proof -
  have "concat (map fmt_02x bs) = hex_of_bytes bs" for bs by (simp add: hex_of_bytes_def fmt_02x_def [abs_def])
  then show ?thesis by (simp add: hex_law_def sample_api_libs_def hex_round)
qed

definition sample_svc_libs :: "sc_xdr \<Rightarrow> svc_libs" where
  "sample_svc_libs x = \<lparr>sl_api = sample_api_libs x,
     sl_enc_key = (\<lambda>k. case k of KeyContractData _ (ScvVec (Some [_, ScvString t])) _ \<Rightarrow> Some t | _ \<Rightarrow> None),
     sl_dec_entry = (\<lambda>_. Some (ContractData \<lparr>cda_contract = ScContract [], cda_key = ScvBytes [], cda_val = ScvU32 1\<rparr>)),
     sl_strkey = Some, sl_text = (\<lambda>_. [])\<rparr>"

definition sample_server :: "(unit, unit) soroban_server" where
  "sample_server = \<lparr>srv_latest_ledger = Some 7,
     srv_get_ledgers = (\<lambda>n _. Some [\<lparr>li_sequence = n, li_header_xdr = Some (Some [7]), li_metadata_xdr = Some (Some [5])\<rparr>]),
     srv_dec_key = (\<lambda>bs. Some (KeyContractData (ScContract []) (ScvBytes bs) True)),
     srv_get_ledger_entries = (\<lambda>ks. case ks of
         [KeyContractData _ (ScvBytes t) _] \<Rightarrow> Some (if t = sample_type then Some [Some [1]] else None) | _ \<Rightarrow> None),
     srv_get_events = (\<lambda>_ _ _. None), srv_contract = (\<lambda>_. True), srv_get_account = (\<lambda>_. Some ()),
     srv_build = (\<lambda>_ _ _ _ _ _. ()), srv_prepare = Some, srv_envelope_xdr = (\<lambda>_. Some (Some [9])),
     srv_dec_envelope = (\<lambda>_. None), srv_send = (\<lambda>_. None), srv_wait = (\<lambda>_. None)\<rparr>"

definition sample_app :: app_state where
  "sample_app = \<lparr>as_ibc_contract_id = [67], as_transfer_contract_id = [], as_network_passphrase = []\<rparr>"

lemma sample_node_counts: "node_counts (sample_svc_libs x) sample_server [67] sample_ready"
proof -
  have "asc ''NextClientId'' \<noteq> []" by (simp add: asc_def)
  then show ?thesis
    by (auto simp: node_counts_def DEFAULT_CLIENT_TYPES_def sample_svc_libs_def sample_server_def contract_data_key_def
        key_xdr_def persistent_contract_data_key_def scval_symbol_def scval_string_def scval_vec_def rpc_get_ledger_entry_def
        decode_counter_def ledger_entry_contract_val_def scval_as_u32_def sample_ready_def router_constructor_def
        empty_router_def sample_type_def)
qed

theorem api_lists_registry_witness:
  "\<exists>ht ids. list_client_ids ht (api_client_new []) = Inr ids \<and> sample_client \<in> set ids"
proof -
  let ?lb = "sample_svc_libs (one_value_xdr (ScvU32 0))"
  let ?ht = "\<lparr>http_get = (\<lambda>_. Some (answer ?lb (api_route ?lb sample_server sample_app (EpClients None)))), http_post = (\<lambda>_ _. None)\<rparr>"
  have "routed_get ?ht (api_client_new []) ?lb sample_server sample_app (asc ''/stellar/clients'') (EpClients None)"
    by (simp add: routed_get_def)
  moreover have "router_contract ?lb sample_app = Inr [67]"
    by (simp add: router_contract_def sample_app_def sample_svc_libs_def)
  ultimately obtain ids where "list_client_ids ?ht (api_client_new []) = Inr ids"
    and "set ids = {i. \<exists>t \<in> set DEFAULT_CLIENT_TYPES. r_client_type sample_ready i = Some t}"
    using api_lists_registry [OF sample_setup_run [of sample_sha] _ _ sample_node_counts] by blast
  moreover have "r_client_type sample_ready sample_client = Some sample_type" by (simp add: sample_ready_def)
  moreover have "sample_type \<in> set DEFAULT_CLIENT_TYPES" by (simp add: sample_type_def DEFAULT_CLIENT_TYPES_def)
  ultimately show ?thesis by blast
qed

end
