(* ===== verification/Gateway_Properties.thy ===== *)
theory Gateway_Properties
  imports Gateway_Service Api_Properties Core_State_Properties
begin

text \<open>
  The gateway over the API service over the node: the ledgers the state tracker replays and the
  headers it serves are the node's, and a message becomes a transaction that calls the router with
  exactly the message's arguments.
\<close>

section \<open>Ledgers through the API\<close>

text \<open>The gateway's client is connected to a service over the node.\<close>

definition connected :: "('c, 's) gw_env \<Rightarrow> svc_libs \<Rightarrow> ('a, 't) soroban_server \<Rightarrow> app_state \<Rightarrow> bool" where
  "connected g lb srv st \<longleftrightarrow> gw_libs g = sl_api lb \<and> hex_law (sl_api lb)
     \<and> (\<forall>n. routed_get (gw_http g) (gw_api g) lb srv st (ledger_path n) (EpLedger n))"

definition node_source :: "('a, 't) soroban_server \<Rightarrow> ledger_source" where
  "node_source srv n = (case rpc_get_ledger srv n of Inl _ \<Rightarrow> None | Inr d \<Rightarrow> Some (ld_metadata_xdr d))"

lemma connected_ledger:
  assumes "connected g lb srv st"
  shows "api_get_ledger (gw_http g) (gw_libs g) (gw_api g) n
    = map_err (\<lambda>_. ErrorStatus (ledger_path n) BAD_GATEWAY) (rpc_get_ledger srv n)"
  using assms api_ledger_eq [of "gw_http g" "gw_api g" lb srv st n] by (simp add: connected_def)

lemma gw_source_node: "connected g lb srv st \<Longrightarrow> gw_source g = node_source srv"
  by (rule ext) (simp add: gw_source_def node_source_def connected_ledger split: sum.splits)

lemma height_u32_of [simp]: "height_u32 (ucast (h :: u32)) = Inr h"
proof -
  have h: "unat h < 2 ^ 32" by (rule order_less_le_trans [OF unsigned_less]) simp
  then have "unat (ucast h :: u64) < 2 ^ 32"
    by (simp add: unsigned_ucast_eq take_bit_nat_eq_self)
  then show ?thesis by (simp add: height_u32_def)
qed

text \<open>
  C33 (served headers come from the ledgers). A gateway connected through the API service to a node,
  asked in order while every ledger since its first can be read, answers a header query with the
  node's ledger header, its signed value and signature, and the root of the tree that results from
  exactly the router's storage changes in the node's ledgers up to that height.
\<close>

theorem gateway_header_root:
  assumes "connected g lb srv st"
    and "tracks (gw_sha g) cid (gw_dec_meta g) (node_source srv) a l s" and "l \<le> h"
    and "writes_of cid (gw_dec_meta g) (node_source srv) (ledger_range a h) \<noteq> None"
    and "rpc_get_ledger srv h = Inr d" and "gw_dec_header g (ld_header_xdr d) = Some lh"
  shows "\<exists>s'. gw_query_ibc_header g (ucast h) s = (s', Inr (gw_enc_stellar_header g
      \<lparr>gh_ledger_seq = h, gh_ledger_header_xdr = ld_header_xdr d,
       gh_ibc_state_root = smt_root (gw_sha g) (history_tree (gw_sha g) cid (gw_dec_meta g) (node_source srv) a h),
       gh_scp_node_id = (case lh_signed lh of Some (i, _) \<Rightarrow> i | None \<Rightarrow> []),
       gh_scp_signature = (case lh_signed lh of Some (_, sg) \<Rightarrow> sg | None \<Rightarrow> []),
       gh_signed_value_xdr = lh_tx_set_hash lh @ to_be_bytes (lh_close_time lh)\<rparr>))
    \<and> tracks (gw_sha g) cid (gw_dec_meta g) (node_source srv) a h s'"
proof -
  obtain s' where "root_at (gw_sha g) (gw_dec_meta g) (node_source srv) h s
      = (s', Inr (smt_root (gw_sha g) (history_tree (gw_sha g) cid (gw_dec_meta g) (node_source srv) a h)))"
    and "tracks (gw_sha g) cid (gw_dec_meta g) (node_source srv) a h s'"
    using root_at_tracks [OF assms(2-4)] by blast
  then show ?thesis
    using connected_ledger [OF assms(1), of h] assms(5, 6)
    by (simp add: gw_query_ibc_header_def gw_source_node [OF assms(1)] split: option.splits prod.splits)
qed

text \<open>A gateway with sample libraries over the sample service.\<close>

definition sample_http :: "sc_xdr \<Rightarrow> http" where
  "sample_http x = \<lparr>
     http_get = (\<lambda>u. Some (answer (sample_svc_libs x)
       (api_route (sample_svc_libs x) sample_server sample_app (EpLedger (of_nat (undecimal (drop 8 u))))))),
     http_post = (\<lambda>u body. Some (answer (sample_svc_libs x) (api_route (sample_svc_libs x) sample_server sample_app
       (EpPrepare \<lparr>pq_signer = string_field body (asc ''signer''), pq_method = string_field body (asc ''method''),
          pq_args_xdr = List.map_filter json_str (or_default [] (get_array body (asc ''args_xdr'')))\<rparr>))))\<rparr>"

definition sample_gateway :: "sc_xdr \<Rightarrow> (tm_domain, tm_cons_domain) gw_env" where
  "sample_gateway x = \<lparr>gw_http = sample_http x, gw_libs = sample_api_libs x, gw_api = \<lparr>ac_base_url = []\<rparr>, gw_rs = sample_rs,
     gw_disp = (\<lambda>s. s), gw_sha = sample_sha, gw_enc_any = am_value, gw_enc_proof = (\<lambda>_. []), gw_dec_meta = sample_dec_meta,
     gw_dec_header = (\<lambda>_. Some \<lparr>lh_tx_set_hash = [3], lh_close_time = 9, lh_signed = Some ([1], [2])\<rparr>),
     gw_enc_stellar_header = gh_ibc_state_root, gw_ibc_contract_id = None\<rparr>"

lemma sample_connected: "connected (sample_gateway x) (sample_svc_libs x) sample_server sample_app"
  using sample_hex_law
  by (simp add: connected_def sample_gateway_def sample_svc_libs_def sample_http_def routed_get_def api_url_def ledger_path_def)

theorem gateway_header_root_witness:
  "\<exists>s'. snd (gw_query_ibc_header (sample_gateway (one_value_xdr (ScvU32 0))) 5 s')
     = Inr (smt_root sample_sha (history_tree sample_sha None sample_dec_meta (node_source sample_server) 5 5))"
proof -
  let ?g = "sample_gateway (one_value_xdr (ScvU32 0))"
  have src: "node_source sample_server n = Some (Some [5])" for n
    by (simp add: node_source_def rpc_get_ledger_def sample_server_def)
  have r: "ledger_range 5 5 = [5]" by code_simp
  have w: "writes_of None sample_dec_meta (node_source sample_server) (ledger_range 5 5) = Some [(sample_path, Some [5])]"
    by (simp add: r sample_writes src)
  from root_at_fresh [OF this] obtain s where tr: "tracks sample_sha None sample_dec_meta (node_source sample_server) 5 5 s"
    by blast
  have g: "gw_sha ?g = sample_sha" "gw_dec_meta ?g = sample_dec_meta" "gw_enc_stellar_header ?g = gh_ibc_state_root"
    by (simp_all add: sample_gateway_def)
  have "rpc_get_ledger sample_server 5 = Inr \<lparr>ld_sequence = 5, ld_header_xdr = [7], ld_metadata_xdr = Some [5]\<rparr>"
    by (simp add: rpc_get_ledger_def sample_server_def)
  from gateway_header_root [OF sample_connected, of "one_value_xdr (ScvU32 0)" None 5 5 s 5, unfolded g, OF tr order_refl _ this] w
  obtain s' where "gw_query_ibc_header ?g (ucast (5 :: u32)) s = (s', Inr (smt_root sample_sha
      (history_tree sample_sha None sample_dec_meta (node_source sample_server) 5 5)))"
    by (auto simp: sample_gateway_def)
  then show ?thesis by (intro exI [of _ s]) simp
qed

text \<open>Heights that differ by a multiple of \<open>2 ^ 32\<close> are not told apart.\<close>

lemma ibc_header_height_wraps: "gw_query_ibc_header g (height + 2 ^ 32) s = gw_query_ibc_header g height s"
proof -
  have "(ucast (height + 2 ^ 32) :: u32) = ucast height"
  proof (rule word_unat_eq_iff [THEN iffD2])
    have "unat (ucast w :: u32) = unat w mod 2 ^ 32" for w :: u64
      by (simp add: unsigned_ucast_eq unsigned_take_bit_eq take_bit_eq_mod)
    moreover have "(unat height + 2 ^ 32) mod 2 ^ 64 mod 2 ^ 32 = unat height mod (2 ^ 32 :: nat)"
      by (simp add: mod_mod_cancel)
    ultimately show "unat (ucast (height + 2 ^ 32) :: u32) = unat (ucast height :: u32)"
      by (simp add: unat_word_ariths)
  qed
  then show ?thesis by (simp add: gw_query_ibc_header_def)
qed

section \<open>Client states through the API\<close>

text \<open>
  C34 (client states are the contract's). Asked for the state of a Tendermint client, the gateway
  answers with the relayer's form of exactly the state that the light-client contract registered for
  this client holds at the node, when the ibc-rs types accept it, and otherwise with an error; it
  attaches no proof.
\<close>

theorem gateway_client_state:
  assumes "gw_libs g = sl_api lb" and "hex_law (sl_api lb)" and "xdr_law (lib_xdr (sl_api lb))" and "shows_plain (gw_disp g)"
    and "routed_get (gw_http g) (gw_api g) lb srv st (client_state_path client_id) (EpClientState client_id)"
    and "router_contract lb st = Inr router"
    and "node_holds_client lb srv router client_id lc (tm_client_state_val cs)" and "plain (tmc_chain_id cs)"
    and "enc_scval (lib_xdr (sl_api lb)) (tm_client_state_val cs) = Some bs"
  shows "gw_query_client_state g client_id height =
    (case tm_try_from_raw (gw_rs g) (raw_of_contract (gw_rs g) cs) of
       Some c \<Rightarrow> Inr \<lparr>pb_value = gw_enc_any g (client_into_any (gw_rs g) (TendermintClient c)), pb_proof = [], pb_proof_height = height\<rparr>
     | None \<Rightarrow> Inl (Internal, SorobanFailure FromRaw))"
proof -
  have "get_client_state_xdr (gw_http g) (gw_libs g) (gw_api g) client_id = Inr bs"
    using api_client_state_eq [OF assms(5, 2, 6, 7, 9)] assms(1) by simp
  moreover have "dec_scval (lib_xdr (gw_libs g)) bs = Some (tm_client_state_val cs)"
    using assms(1, 3, 9) by (simp add: xdr_law_def)
  note client_from_soroban_val [OF assms(4, 8) this, of "gw_rs g"]
  ultimately show ?thesis by (simp add: gw_query_client_state_def split: option.splits)
qed

definition sample_stored :: tm_client_state where
  "sample_stored = contract_client sample_domain"

definition client_libs :: svc_libs where
  "client_libs = (sample_svc_libs (one_value_xdr (tm_client_state_val sample_stored)))\<lparr>
     sl_enc_key := (\<lambda>k. case k of KeyContractData _ (ScvVec (Some [ScvSymbol v, _])) _ \<Rightarrow> Some v | _ \<Rightarrow> None),
     sl_dec_entry := (\<lambda>e. Some (ContractData \<lparr>cda_contract = ScContract [], cda_key = ScvBytes [],
       cda_val = if e = [1] then ScvAddress (ScContract [8]) else tm_client_state_val sample_stored\<rparr>))\<rparr>"

definition client_server :: "(unit, unit) soroban_server" where
  "client_server = sample_server\<lparr>srv_get_ledger_entries := (\<lambda>ks. case ks of
     [KeyContractData _ (ScvBytes v) _] \<Rightarrow> Some (Some [Some (if v = asc ''Client'' then [2] else [1])]) | _ \<Rightarrow> None)\<rparr>"

definition client_gateway :: "(tm_domain, tm_cons_domain) gw_env" where
  "client_gateway = (sample_gateway (one_value_xdr (tm_client_state_val sample_stored)))\<lparr>gw_http :=
     \<lparr>http_get = (\<lambda>_. Some (answer client_libs (api_route client_libs client_server sample_app (EpClientState sample_client)))),
      http_post = (\<lambda>_ _. None)\<rparr>\<rparr>"

lemma client_node: "node_holds_client client_libs client_server [67] sample_client [8] (tm_client_state_val sample_stored)"
  by (simp add: node_holds_client_def client_libs_def client_server_def sample_server_def contract_data_key_def key_xdr_def
      persistent_contract_data_key_def scval_symbol_def scval_string_def scval_vec_def rpc_get_ledger_entry_def
      ledger_entry_contract_val_def)

theorem gateway_client_state_witness:
  "\<exists>r. gw_query_client_state client_gateway sample_client 4 = Inr r \<and> pb_proof r = []"
proof -
  let ?x = "one_value_xdr (tm_client_state_val sample_stored)"
  have "gw_libs client_gateway = sl_api client_libs" "sl_api client_libs = sample_api_libs ?x" "gw_disp client_gateway = (\<lambda>s. s)"
    "gw_rs client_gateway = sample_rs" "lib_xdr (sample_api_libs ?x) = ?x"
    by (simp_all add: client_gateway_def sample_gateway_def client_libs_def sample_svc_libs_def sample_api_libs_def)
  moreover have "routed_get (gw_http client_gateway) (gw_api client_gateway) client_libs client_server sample_app
      (client_state_path sample_client) (EpClientState sample_client)"
    by (simp add: routed_get_def client_gateway_def)
  moreover have "router_contract client_libs sample_app = Inr [67]"
    by (simp add: router_contract_def sample_app_def client_libs_def sample_svc_libs_def)
  moreover have "plain (tmc_chain_id sample_stored)"
    by (simp add: sample_stored_def contract_client_def sample_domain_def plain_def asc_def)
  moreover have "enc_scval ?x (tm_client_state_val sample_stored) = Some [1]" by (simp add: one_value_xdr_def)
  moreover have "tm_try_from_raw sample_rs (raw_of_contract sample_rs sample_stored) \<noteq> None"
    by (simp add: sample_rs_def sample_from_raw_def raw_of_contract_def)
  ultimately show ?thesis
    using gateway_client_state [OF _ _ _ _ _ _ client_node, of client_gateway sample_app "[1]" 4] sample_hex_law one_value_xdr_law
    by (auto simp: shows_plain_def split: option.splits)
qed

section \<open>Messages become transactions\<close>

definition prepares :: "('c, 's) gw_env \<Rightarrow> svc_libs \<Rightarrow> ('a, 't) soroban_server \<Rightarrow> app_state \<Rightarrow> bool" where
  "prepares g lb srv st \<longleftrightarrow> gw_libs g = sl_api lb \<and> hex_law (sl_api lb) \<and> xdr_law (lib_xdr (sl_api lb))
     \<and> as_ibc_contract_id st \<noteq> []
     \<and> (\<forall>signer method args. routed_prepare (gw_http g) (gw_api g) lb srv st signer method args)"

definition encodable :: "svc_libs \<Rightarrow> scval list \<Rightarrow> bool" where
  "encodable lb vs \<longleftrightarrow> (\<forall>v \<in> set vs. enc_scval (lib_xdr (sl_api lb)) v \<noteq> None)"

text \<open>The transaction the node prepares for a call of the router, as the relayer gets it.\<close>

definition router_tx ::
  "('a, 't) soroban_server \<Rightarrow> app_state \<Rightarrow> bytes \<Rightarrow> string \<Rightarrow> scval list \<Rightarrow> grpc_status + bytes" where
  "router_tx srv st signer method args =
     map_err (\<lambda>_. (Internal, ApiFailure (ErrorStatus (asc ''/tx/prepare'') BAD_GATEWAY))) (node_build srv st signer (asc method) args)"

lemma map_err_comp [simp]: "map_err f (map_err g m) = map_err (\<lambda>e. f (g e)) m"
  by (cases m) simp_all

lemma prepare_msg_tx_node:
  assumes "prepares g lb srv st" and "encodable lb args"
  shows "prepare_msg_tx g signer (asc method) args = router_tx srv st signer method args"
  using api_build_eq [of "gw_http g" "gw_api g" lb srv st signer "asc method" args] assms
  by (simp add: prepare_msg_tx_def prepares_def router_tx_def encodable_def)

lemmas short_conv = scval_string_def scval_bytes_def scval_u64_def scval_vec_of_bytes_def scval_vec_def

lemma msg_update_client_node:
  assumes "prepares g lb srv st" and "client_id \<noteq> []" and "take 13 client_id = asc ''07-tendermint''"
    and "tendermint_header_to_soroban_xdr (gw_rs g) (lib_xdr (gw_libs g)) header = Inr header_xdr"
    and "length client_id \<le> xdr_max" and "length header_xdr \<le> xdr_max"
    and "encodable lb [ScvString client_id, ScvBytes header_xdr]"
  shows "msg_update_client g signer client_id header
    = router_tx srv st signer ''update_client'' [ScvString client_id, ScvBytes header_xdr]"
  using assms prepare_msg_tx_node [OF assms(1, 7)] by (simp add: msg_update_client_def short_conv)

text \<open>
  The transactions the gateway hands the relayer for receiving,
  acknowledging and timing out a packet are those the node prepares for a call of the router's entry
  point with the decoded packet, the acknowledgement, the proof and its height, unchanged.
\<close>

lemma packet_messages_call_router:
  assumes "prepares g lb srv st" and "dec_scval (lib_xdr (sl_api lb)) packet = Some p"
    and "length prf \<le> xdr_max" and "length ack \<le> xdr_max"
    and "encodable lb [p, ScvVec (Some [ScvBytes ack]), ScvBytes prf, ScvU64 h]"
  shows "msg_recv_packet g signer packet prf h = router_tx srv st signer ''recv_packet'' [p, ScvBytes prf, ScvU64 h]
    \<and> msg_ack_packet g signer packet ack prf h
      = router_tx srv st signer ''acknowledge_packet'' [p, ScvVec (Some [ScvBytes ack]), ScvBytes prf, ScvU64 h]
    \<and> msg_timeout_packet g signer packet prf h = router_tx srv st signer ''timeout_packet'' [p, ScvBytes prf, ScvU64 h]"
proof -
  have packet: "decode_packet_scval g packet = Inr p"
    using assms(1, 2) by (simp add: decode_packet_scval_def scval_from_xdr_def prepares_def)
  have "encodable lb [p, ScvBytes prf, ScvU64 h]" using assms(5) by (simp add: encodable_def)
  note txs = prepare_msg_tx_node [OF assms(1) this] prepare_msg_tx_node [OF assms(1, 5)]
  show ?thesis
    using assms(3, 4) txs packet
    by (simp add: msg_recv_packet_def msg_ack_packet_def msg_timeout_packet_def short_conv)
qed

definition packet_xdr :: sc_xdr where
  "packet_xdr = (let vs = [packet_val sample_packet, ScvVec (Some [ScvBytes [1]]), ScvBytes [2], ScvU64 3] in
     \<lparr>enc_scval = (\<lambda>v. if v \<in> set vs then Some [of_nat (length (takeWhile (\<lambda>u. u \<noteq> v) vs))] else None),
      dec_scval = (\<lambda>bs. if bs \<noteq> [] \<and> unat (bs ! 0) < 4 then Some (vs ! unat (bs ! 0)) else None)\<rparr>)"

lemma packet_xdr_ok: "xdr_law packet_xdr" "encodable (sample_svc_libs packet_xdr)
    [packet_val sample_packet, ScvVec (Some [ScvBytes [1]]), ScvBytes [2], ScvU64 3]"
  "dec_scval packet_xdr [0] = Some (packet_val sample_packet)"
  by (auto simp: xdr_law_def packet_xdr_def encodable_def sample_svc_libs_def sample_api_libs_def packet_val_def struct_val_def
      Let_def split: if_splits)

lemma packet_messages_call_router_witness:
  "msg_recv_packet (sample_gateway packet_xdr) [71] [0] [2] 3
     = router_tx sample_server sample_app [71] ''recv_packet'' [packet_val sample_packet, ScvBytes [2], ScvU64 3]
   \<and> router_tx sample_server sample_app [71] ''recv_packet'' [packet_val sample_packet, ScvBytes [2], ScvU64 3] = Inr [9]"
proof -
  have "List.map_filter json_str (map JStr xs) = xs" for xs
    by (induction xs) (simp_all add: map_filter_simps json_str_def)
  then have "prepares (sample_gateway packet_xdr) (sample_svc_libs packet_xdr) sample_server sample_app"
    using sample_hex_law packet_xdr_ok(1)
    by (simp add: prepares_def sample_gateway_def sample_svc_libs_def sample_http_def routed_prepare_def routed_post_def
        sample_app_def json_simps) (simp add: sample_api_libs_def)
  from packet_messages_call_router [OF this, of "[0]" _ "[2]" "[1]" 3 "[71]"] packet_xdr_ok(2, 3)
  have "msg_recv_packet (sample_gateway packet_xdr) [71] [0] [2] 3
     = router_tx sample_server sample_app [71] ''recv_packet'' [packet_val sample_packet, ScvBytes [2], ScvU64 3]"
    by (simp add: sample_svc_libs_def sample_api_libs_def)
  then show ?thesis by (simp add: router_tx_def node_build_def sample_server_def)
qed

text \<open>
  Misbehaviour evidence is passed on as it comes, unlike a header: unless its bytes happen to be a
  header of the contract, the light client rejects it instead of freezing the client.
\<close>

lemma misbehaviour_not_converted:
  assumes "prepares g lb srv st" and "client_id \<noteq> []" and "length client_id \<le> xdr_max" and "length evidence \<le> xdr_max"
    and "encodable lb [ScvString client_id, ScvBytes evidence]"
    and "tm_client l client_id = Some cs" and "\<not> tmc_is_frozen cs" and "dec_tm_header cd evidence = None"
  shows "msg_submit_misbehaviour g signer client_id evidence
      = router_tx srv st signer ''update_client'' [ScvString client_id, ScvBytes evidence]
    \<and> tm_check_for_misbehaviour cd client_id evidence l = Inl (TendermintFault TmInvalidHeader)"
  using assms prepare_msg_tx_node [OF assms(1, 5)]
  by (simp add: msg_submit_misbehaviour_def short_conv tm_check_for_misbehaviour_def tm_load_client_state_def
      tm_decode_header_def)

end
