(* ===== verification/Rust_Text.thy ===== *)
theory Rust_Text
  imports Prelude
begin

text \<open>
  What the sources use of Rust's \<open>str\<close>: trimming, lines, prefixes and searches. A string is its UTF-8
  bytes, so trimming removes whole encodings of characters.
\<close>

section \<open>Trimming\<close>

text \<open>\<open>strip ps s\<close> removes members of \<open>ps\<close> from the front of \<open>s\<close> as long as there is one.\<close>

definition matching :: "bytes list \<Rightarrow> bytes \<Rightarrow> bytes option" where
  "matching ps s = find (\<lambda>p. p \<noteq> [] \<and> take (length p) s = p) ps"

lemma matching_Some: "matching ps s = Some p \<Longrightarrow> p \<in> set ps \<and> p \<noteq> [] \<and> take (length p) s = p"
  by (auto simp: matching_def find_Some_iff)

lemma matching_shorter: "matching ps s = Some p \<Longrightarrow> length s - length p < length s"
  using matching_Some [of ps s p] by (cases s; cases p) auto

function strip :: "bytes list \<Rightarrow> bytes \<Rightarrow> bytes" where
  "strip ps s = (case matching ps s of None \<Rightarrow> s | Some p \<Rightarrow> strip ps (drop (length p) s))"
  by auto
termination
  by (relation "measure (\<lambda>(ps, s). length s)") (auto simp: matching_shorter)

declare strip.simps [simp del]

definition strip_both :: "bytes list \<Rightarrow> bytes \<Rightarrow> bytes" where
  "strip_both ps s = rev (strip (map rev ps) (rev (strip ps s)))"

text \<open>The encodings of the characters with the Unicode property \<open>White_Space\<close>, for \<open>str::trim\<close>.\<close>

definition white_space :: "bytes list" where
  "white_space = [[9], [10], [11], [12], [13], [32], [0xC2, 0x85], [0xC2, 0xA0], [0xE1, 0x9A, 0x80],
     [0xE2, 0x80, 0x80], [0xE2, 0x80, 0x81], [0xE2, 0x80, 0x82], [0xE2, 0x80, 0x83], [0xE2, 0x80, 0x84],
     [0xE2, 0x80, 0x85], [0xE2, 0x80, 0x86], [0xE2, 0x80, 0x87], [0xE2, 0x80, 0x88], [0xE2, 0x80, 0x89],
     [0xE2, 0x80, 0x8A], [0xE2, 0x80, 0xA8], [0xE2, 0x80, 0xA9], [0xE2, 0x80, 0xAF], [0xE2, 0x81, 0x9F],
     [0xE3, 0x80, 0x80]]"

definition quotes :: "bytes list" where
  "quotes = [[34], [39]]"

section \<open>Trimmed values\<close>

lemma strip_none: "matching ps s = None \<Longrightarrow> strip ps s = s"
  by (subst strip.simps) simp

text \<open>Lists in which no member is a prefix of another, as for the encodings of characters.\<close>

definition prefix_free :: "bytes list \<Rightarrow> bool" where
  "prefix_free ps = list_all (\<lambda>p. p \<noteq> [] \<and> list_all (\<lambda>q. take (length p) q = p \<longrightarrow> p = q) ps) ps"

lemma prefix_free_lists:
  "prefix_free white_space" "prefix_free (map rev white_space)" "prefix_free quotes" "prefix_free (map rev quotes)"
  by (simp_all add: prefix_free_def white_space_def quotes_def)

lemma matching_prefix:
  assumes "prefix_free ps" and "p \<in> set ps"
  shows "matching ps (p @ s) = Some p"
proof -
  have unique: "q = p" if "q \<in> set ps" "take (length q) (p @ s) = q" for q
  proof (cases "length q \<le> length p")
    case True
    then have "take (length q) p = q" using that(2) by simp
    then show ?thesis using assms that(1) unfolding prefix_free_def list_all_iff by blast
  next
    case False
    then have "take (length p) (take (length q) (p @ s)) = p" by simp
    then have "take (length p) q = p" unfolding that(2) .
    then show ?thesis using assms that(1) unfolding prefix_free_def list_all_iff by blast
  qed
  have "p \<noteq> []" using assms by (simp add: prefix_free_def list_all_iff)
  moreover have "take (length p) (p @ s) = p" by simp
  ultimately have "matching ps (p @ s) \<noteq> None"
    unfolding matching_def find_None_iff using assms(2) by blast
  then obtain q where "matching ps (p @ s) = Some q" by blast
  with matching_Some [OF this] unique [of q] show ?thesis by simp
qed

lemma strip_members:
  "prefix_free ps \<Longrightarrow> set ws \<subseteq> set ps \<Longrightarrow> strip ps (concat ws @ s) = strip ps s"
proof (induction ws)
  case (Cons w ws)
  then show ?case by (subst strip.simps) (simp add: matching_prefix)
qed simp

text \<open>A value that begins and ends with a printable ASCII character other than a quote.\<close>

definition printable :: "u8 \<Rightarrow> bool" where
  "printable c \<longleftrightarrow> 33 \<le> c \<and> c \<le> 126 \<and> c \<noteq> 34 \<and> c \<noteq> 39"

definition clean :: "bytes \<Rightarrow> bool" where
  "clean v \<longleftrightarrow> v \<noteq> [] \<and> printable (hd v) \<and> printable (last v)"

lemma matching_hd: "v \<noteq> [] \<Longrightarrow> hd v \<notin> hd ` set ps \<Longrightarrow> matching ps (v @ s) = None"
  unfolding matching_def find_None_iff
  by (metis hd_append2 hd_take image_eqI length_greater_0_conv)

lemma heads_not_printable:
  "printable c \<Longrightarrow> c \<notin> hd ` set white_space" "printable c \<Longrightarrow> c \<notin> hd ` set quotes"
  "printable c \<Longrightarrow> c \<notin> last ` set white_space" "printable c \<Longrightarrow> c \<notin> last ` set quotes"
  by (auto simp: printable_def white_space_def quotes_def)

lemma strip_both_padded:
  assumes "prefix_free ps" "prefix_free (map rev ps)" "set a \<subseteq> set ps" "set b \<subseteq> set ps"
    and "v \<noteq> []" "hd v \<notin> hd ` set ps" "last v \<notin> last ` set ps" "[] \<notin> set ps"
  shows "strip_both ps (concat a @ v @ concat b) = v"
proof -
  have "hd ` set (map rev ps) = last ` set ps"
    using assms(8) by (force simp: hd_rev)
  then have "strip (map rev ps) (rev v) = rev v"
    using assms(5, 7) strip_none [OF matching_hd [of "rev v" "map rev ps" "[]"]] by (simp add: hd_rev)
  moreover have "rev (concat b) = concat (rev (map rev b))" by (simp add: rev_concat rev_map)
  moreover have "set (rev (map rev b)) \<subseteq> set (map rev ps)" using assms(4) by auto
  ultimately have "strip (map rev ps) (rev (v @ concat b)) = rev v"
    using strip_members [OF assms(2), of "rev (map rev b)" "rev v"] by simp
  then show ?thesis
    using strip_members [OF assms(1, 3), of "v @ concat b"] strip_none [OF matching_hd [OF assms(5, 6), of "concat b"]]
    by (simp add: strip_both_def)
qed

lemma strip_Nil [simp]: "strip ps [] = []"
  by (auto simp: matching_def find_None_iff intro!: strip_none)

lemma padded_hd:
  assumes "set a \<subseteq> set ps" "[] \<notin> set ps" "v \<noteq> []"
  shows "hd (concat a @ v) \<in> insert (hd v) (hd ` set ps)"
  using assms by (cases a) (auto simp: hd_append)

lemma padded_last:
  assumes "set b \<subseteq> set ps" "[] \<notin> set ps" "v \<noteq> []"
  shows "last (v @ concat b) \<in> insert (last v) (last ` set ps)"
  using assms by (cases b rule: rev_cases) (auto simp: last_append)

lemma white_space_ends:
  "[] \<notin> set white_space" "hd ` set white_space \<inter> hd ` set quotes = {}" "last ` set white_space \<inter> last ` set quotes = {}"
  by (simp_all add: white_space_def quotes_def)

lemma padded_ends:
  assumes "set a \<subseteq> set white_space" "set b \<subseteq> set white_space" "clean v"
  shows "hd (concat a @ v @ concat b) \<notin> hd ` set quotes" "last (concat a @ v @ concat b) \<notin> last ` set quotes"
proof -
  have v: "v \<noteq> []" "hd v \<notin> hd ` set quotes" "last v \<notin> last ` set quotes"
    using assms(3) heads_not_printable by (simp_all add: clean_def)
  show "hd (concat a @ v @ concat b) \<notin> hd ` set quotes"
    using padded_hd [OF assms(1) white_space_ends(1), of "v @ concat b"] v white_space_ends(2) by auto
  show "last (concat a @ v @ concat b) \<notin> last ` set quotes"
    using padded_last [OF assms(2) white_space_ends(1), of "concat a @ v"] v white_space_ends(3) by auto
qed

lemma white_space_padded:
  "set a \<subseteq> set white_space \<Longrightarrow> set b \<subseteq> set white_space \<Longrightarrow> v \<noteq> [] \<Longrightarrow> hd v \<notin> hd ` set white_space
   \<Longrightarrow> last v \<notin> last ` set white_space \<Longrightarrow> strip_both white_space (concat a @ v @ concat b) = v"
  by (rule strip_both_padded) (simp_all add: prefix_free_lists, simp add: white_space_def)


section \<open>Prefixes and searches\<close>

definition starts_with :: "bytes \<Rightarrow> bytes \<Rightarrow> bool" where
  "starts_with p s \<longleftrightarrow> take (length p) s = p"

lemma starts_with_append [simp]: "starts_with p (p @ s)"
  by (simp add: starts_with_def)

lemma starts_with_iff: "starts_with p s \<longleftrightarrow> (\<exists>r. s = p @ r)"
  by (metis append_eq_conv_conj append_take_drop_id starts_with_def)

text \<open>\<open>str::trim_start\<close>, and \<open>str::contains\<close> for a string and for \<open>char::is_whitespace\<close>.\<close>

definition trim_start :: "bytes \<Rightarrow> bytes" where
  "trim_start s = strip white_space s"

definition trim :: "bytes \<Rightarrow> bytes" where
  "trim s = strip_both white_space s"

fun contains :: "bytes \<Rightarrow> bytes \<Rightarrow> bool" where
  "contains p [] = (p = [])"
| "contains p (c # s) = (starts_with p (c # s) \<or> contains p s)"

fun has_white_space :: "bytes \<Rightarrow> bool" where
  "has_white_space [] = False"
| "has_white_space (c # s) = (matching white_space (c # s) \<noteq> None \<or> has_white_space s)"

section \<open>Lines\<close>

text \<open>The pieces between newlines, at least one.\<close>

fun split_nl :: "bytes \<Rightarrow> bytes list" where
  "split_nl [] = [[]]"
| "split_nl (c # s) = (if c = 10 then [] # split_nl s else (c # hd (split_nl s)) # tl (split_nl s))"

definition strip_cr :: "bytes \<Rightarrow> bytes" where
  "strip_cr l = (if l \<noteq> [] \<and> last l = 13 then butlast l else l)"

text \<open>\<open>str::lines\<close>: a line ends with a newline, and with the carriage return before it; no empty line follows the last newline.\<close>

definition lines :: "bytes \<Rightarrow> bytes list" where
  "lines s = map strip_cr (butlast (split_nl s)) @ (if last (split_nl s) = [] then [] else [last (split_nl s)])"

fun join_nl :: "bytes list \<Rightarrow> bytes" where
  "join_nl [] = []"
| "join_nl [l] = l"
| "join_nl (l # m # ls) = l @ 10 # join_nl (m # ls)"

lemma split_nl_ne [simp]: "split_nl s \<noteq> []"
  by (induction s) auto

lemma split_nl_line: "10 \<notin> set l \<Longrightarrow> split_nl (l @ 10 # s) = l # split_nl s"
  by (induction l) auto

lemma split_nl_chars: "l \<in> set (split_nl s) \<Longrightarrow> 10 \<notin> set l \<and> set l \<subseteq> set s"
proof (induction s arbitrary: l)
  case (Cons c s)
  obtain m ms where "split_nl s = m # ms" by (meson neq_Nil_conv split_nl_ne)
  with Cons show ?case by (fastforce split: if_splits)
qed simp

lemma lines_chars: "l \<in> set (lines s) \<Longrightarrow> 10 \<notin> set l \<and> set l \<subseteq> set s"
proof -
  assume "l \<in> set (lines s)"
  then obtain m where "m \<in> set (split_nl s)" "set l \<subseteq> set m"
    by (auto simp: lines_def strip_cr_def dest: in_set_butlastD split: if_splits) (metis last_in_set split_nl_ne order_refl)
  then show ?thesis using split_nl_chars [of m s] by blast
qed

definition line_ok :: "bytes \<Rightarrow> bool" where
  "line_ok l \<longleftrightarrow> 10 \<notin> set l \<and> 13 \<notin> set l"

lemma strip_cr_ok: "line_ok l \<Longrightarrow> strip_cr l = l"
  by (cases l rule: rev_cases) (auto simp: strip_cr_def line_ok_def)

lemma split_nl_join: "ls \<noteq> [] \<Longrightarrow> list_all line_ok ls \<Longrightarrow> split_nl (join_nl ls @ [10]) = ls @ [[]]"
  by (induction ls rule: join_nl.induct) (auto simp: line_ok_def split_nl_line)

lemma lines_join:
  assumes "ls \<noteq> []" and "list_all line_ok ls"
  shows "lines (join_nl ls @ [10]) = ls"
  using assms by (simp add: lines_def split_nl_join list.map_ident_strong strip_cr_ok list_all_iff)

lemma lines_ok: "13 \<notin> set s \<Longrightarrow> list_all line_ok (lines s)"
  using lines_chars [of _ s] by (auto simp: list_all_iff line_ok_def)

lemma split_nl_single: "tl (split_nl s) = [] \<longleftrightarrow> 10 \<notin> set s"
  by (induction s) auto

lemma split_nl_last: "last (split_nl s) = [] \<longleftrightarrow> s = [] \<or> last s = 10"
proof (induction s)
  case (Cons c s)
  obtain m ms where s: "split_nl s = m # ms" by (meson neq_Nil_conv split_nl_ne)
  have "last s \<noteq> 10" if "ms = []" "s \<noteq> []"
    using that split_nl_single [of s] last_in_set [of s] unfolding s by (metis list.sel(3))
  with Cons s show ?case by auto
qed simp

lemma lines_last: "s \<noteq> [] \<Longrightarrow> last s \<noteq> 10 \<Longrightarrow> lines s \<noteq> [] \<and> last (lines s) \<noteq> []"
  using split_nl_last [of s] by (simp add: lines_def)

lemma split_nl_join_open: "ls \<noteq> [] \<Longrightarrow> list_all line_ok ls \<Longrightarrow> split_nl (join_nl ls) = ls"
proof (induction ls rule: join_nl.induct)
  case (2 l)
  then show ?case by (induction l) (auto simp: line_ok_def)
qed (auto simp: line_ok_def split_nl_line)

lemma lines_join_open:
  assumes "ls \<noteq> []" "list_all line_ok ls" "last ls \<noteq> []"
  shows "lines (join_nl ls) = ls"
proof -
  have "map strip_cr (butlast ls) = butlast ls"
    using assms(2) by (intro map_idI strip_cr_ok) (auto simp: list_all_iff dest: in_set_butlastD)
  then show ?thesis using assms by (simp add: lines_def split_nl_join_open)
qed

section \<open>Splitting\<close>

definition split_once :: "u8 \<Rightarrow> bytes \<Rightarrow> (bytes \<times> bytes) option" where
  "split_once c s = (if c \<in> set s then Some (takeWhile (\<lambda>b. b \<noteq> c) s, tl (dropWhile (\<lambda>b. b \<noteq> c) s)) else None)"

lemma split_once_append [simp]: "c \<notin> set a \<Longrightarrow> split_once c (a @ c # b) = Some (a, b)"
proof -
  assume "c \<notin> set a"
  then have "takeWhile (\<lambda>b. b \<noteq> c) (a @ c # b) = a" "dropWhile (\<lambda>b. b \<noteq> c) (a @ c # b) = c # b"
    by (induction a) auto
  then show ?thesis by (simp add: split_once_def)
qed

lemma strip_split: "\<exists>ws. set ws \<subseteq> set ps \<and> s = concat ws @ strip ps s"
proof (induction ps s rule: strip.induct)
  case (1 ps s)
  show ?case
  proof (cases "matching ps s")
    case None
    then show ?thesis by (intro exI [of _ "[]"]) (simp add: strip_none)
  next
    case (Some p)
    with 1 obtain ws where "set ws \<subseteq> set ps" "drop (length p) s = concat ws @ strip ps (drop (length p) s)" by blast
    moreover have "strip ps s = strip ps (drop (length p) s)" by (subst strip.simps) (simp add: Some)
    moreover have "p \<in> set ps" "s = p @ drop (length p) s"
      using matching_Some [OF Some] by (simp_all, metis append_take_drop_id)
    ultimately show ?thesis by (intro exI [of _ "p # ws"]) simp
  qed
qed

text \<open>The characters of a string, and the pieces between those that satisfy a condition.\<close>

definition utf8_len :: "u8 \<Rightarrow> nat" where
  "utf8_len c = (if c < 0x80 then 1 else if c < 0xE0 then 2 else if c < 0xF0 then 3 else 4)"

function utf8_chars :: "bytes \<Rightarrow> bytes list" where
  "utf8_chars [] = []"
| "utf8_chars (c # s) = take (utf8_len c) (c # s) # utf8_chars (drop (utf8_len c - 1) s)"
  by pat_completeness auto
termination
  by (relation "measure length") auto

fun split_chars :: "(bytes \<Rightarrow> bool) \<Rightarrow> bytes list \<Rightarrow> bytes list" where
  "split_chars sep [] = [[]]"
| "split_chars sep (c # cs) =
     (if sep c then [] # split_chars sep cs else (c @ hd (split_chars sep cs)) # tl (split_chars sep cs))"

lemma utf8_chars_ascii: "list_all (\<lambda>c. c < 0x80) a \<Longrightarrow> utf8_chars (a @ s) = map (\<lambda>c. [c]) a @ utf8_chars s"
  by (induction a) (simp_all add: utf8_len_def)

lemma split_chars_ne [simp]: "split_chars sep cs \<noteq> []"
  by (cases cs) auto

lemma split_chars_sep: "sep c \<Longrightarrow> split_chars sep (a @ c # b) = split_chars sep a @ split_chars sep b"
proof (induction a)
  case (Cons x a)
  then show ?case by (cases "split_chars sep a") auto
qed simp

lemma split_chars_token: "list_all (\<lambda>c. \<not> sep c) a \<Longrightarrow> split_chars sep a = [concat a]"
  by (induction a) auto

end
