(* ===== verification/Service_Config.thy ===== *)
theory Service_Config
  imports Gateway_Properties Rust_Text
begin

text \<open>
  Start-up of the services: \<open>config.rs\<close> of \<open>crates/gateway\<close> and \<open>crates/api\<close>, and what \<open>build_router\<close>
  and \<open>run\<close> of their \<open>runner.rs\<close> make of it. The environment is a parameter. The listening address and
  the server itself are not modelled.
\<close>

section \<open>Configurations\<close>

definition cleaned :: "bytes \<Rightarrow> bytes" where
  "cleaned v = strip_both white_space (strip_both quotes (strip_both white_space v))"

definition env_or :: "(bytes \<rightharpoonup> bytes) \<Rightarrow> bytes \<Rightarrow> bytes \<Rightarrow> bytes" where
  "env_or env key dflt =
     (case env key of
        Some v \<Rightarrow> if cleaned v = [] then dflt else cleaned v
      | None \<Rightarrow> dflt)"

text \<open>\<open>str::parse::<u16>\<close>: an optional plus sign and digits.\<close>

definition parse_u16 :: "bytes \<Rightarrow> 16 word option" where
  "parse_u16 s =
     (case parse_digits (case s of c # r \<Rightarrow> if c = 43 then r else s | [] \<Rightarrow> []) of
        Some n \<Rightarrow> if n < 2 ^ 16 then Some (of_nat n) else None
      | None \<Rightarrow> None)"

record gateway_config =
  gc_host :: bytes
  gc_grpc_port :: "16 word"
  gc_api_url :: bytes
  gc_ibc_contract_id :: bytes

record api_config =
  cf_host :: bytes
  cf_port :: "16 word"
  cf_rpc_url :: bytes
  cf_ibc_contract_id :: bytes
  cf_transfer_contract_id :: bytes
  cf_network_passphrase :: bytes

definition gateway_from_env :: "(bytes \<rightharpoonup> bytes) \<Rightarrow> gateway_config" where
  "gateway_from_env env = \<lparr>
     gc_host = env_or env (asc ''STELLAR_GATEWAY_HOST'') (asc ''0.0.0.0''),
     gc_grpc_port = or_default 50052 (parse_u16 (env_or env (asc ''STELLAR_GATEWAY_GRPC_PORT'') (asc ''50052''))),
     gc_api_url = env_or env (asc ''STELLAR_API_URL'') (asc ''http://127.0.0.1:8101''),
     gc_ibc_contract_id = env_or env (asc ''ROUTER_CONTRACT_ADDRESS'') []\<rparr>"

definition api_from_env :: "(bytes \<rightharpoonup> bytes) \<Rightarrow> api_config" where
  "api_from_env env = \<lparr>
     cf_host = env_or env (asc ''STELLAR_API_HOST'') (asc ''0.0.0.0''),
     cf_port = or_default 8101 (parse_u16 (env_or env (asc ''STELLAR_API_PORT'') (asc ''8101''))),
     cf_rpc_url = env_or env (asc ''STELLAR_RPC_URL'') (asc ''https://soroban-testnet.stellar.org''),
     cf_ibc_contract_id = env_or env (asc ''ROUTER_CONTRACT_ADDRESS'') [],
     cf_transfer_contract_id = env_or env (asc ''TRANSFER_CONTRACT_ADDRESS'') [],
     cf_network_passphrase = env_or env (asc ''NETWORK_PASSPHRASE'') (asc ''Test SDF Network ; September 2015'')\<rparr>"

section \<open>Start-up\<close>

text \<open>
  The client of the API service, the tracker, and the contract whose events are served. An address
  that cannot be parsed is treated like a missing one by the tracker, not by the events.
\<close>

definition build_router :: "(bytes \<Rightarrow> bytes option) \<Rightarrow> gateway_config \<Rightarrow> api_client \<times> gateway_state \<times> bytes option" where
  "build_router strkey cfg =
     (let ibc_contract_id = (if gc_ibc_contract_id cfg = [] then None else strkey (gc_ibc_contract_id cfg)) in
      (api_client_new (gc_api_url cfg), state_new ibc_contract_id,
       if gc_ibc_contract_id cfg \<noteq> [] then Some (gc_ibc_contract_id cfg) else None))"

definition api_app_state :: "api_config \<Rightarrow> app_state" where
  "api_app_state cfg = \<lparr>as_ibc_contract_id = cf_ibc_contract_id cfg, as_transfer_contract_id = cf_transfer_contract_id cfg,
     as_network_passphrase = cf_network_passphrase cfg\<rparr>"

definition gateway_started :: "('c, 's) gw_env \<Rightarrow> (bytes \<Rightarrow> bytes option) \<Rightarrow> gateway_config \<Rightarrow> ('c, 's) gw_env \<times> gateway_state" where
  "gateway_started g strkey cfg =
     (case build_router strkey cfg of
        (api, s, contract_id) \<Rightarrow> (g\<lparr>gw_api := api, gw_ibc_contract_id := contract_id\<rparr>, s))"

section \<open>Trimmed values\<close>

text \<open>
  A set variable is read without the white space and quotes around it; the default stands for a
  missing variable and for one that holds nothing else.
\<close>

lemma env_or_padded:
  assumes "clean v" and "set a \<subseteq> set white_space" "set b \<subseteq> set white_space" "set a' \<subseteq> set white_space" "set b' \<subseteq> set white_space"
    and "q \<in> set quotes" "q' \<in> set quotes"
  shows "env key = Some (concat a @ v @ concat b) \<Longrightarrow> env_or env key dflt = v"
    and "env key = Some (concat a @ (q @ (concat a' @ v @ concat b') @ q') @ concat b) \<Longrightarrow> env_or env key dflt = v"
    and "env key = Some (concat a) \<Longrightarrow> env_or env key dflt = dflt"
    and "env key = None \<Longrightarrow> env_or env key dflt = dflt"
proof -
  note inner = assms(1) [unfolded clean_def]
  have plain: "strip_both white_space v = v"
    using white_space_padded [of "[]" "[]" v] inner heads_not_printable by simp
  have unquoted: "strip_both quotes v = v"
    using strip_both_padded [of quotes "[]" "[]" v] inner heads_not_printable prefix_free_lists by (simp add: quotes_def)
  show "env key = Some (concat a @ v @ concat b) \<Longrightarrow> env_or env key dflt = v"
    using white_space_padded [OF assms(2, 3), of v] inner heads_not_printable plain unquoted
    by (simp add: env_or_def cleaned_def)
  let ?u = "concat a' @ v @ concat b'"
  have "strip_both white_space (concat a @ (q @ ?u @ q') @ concat b) = q @ ?u @ q'"
    using assms(6, 7) by (intro white_space_padded assms(2, 3)) (auto simp: quotes_def white_space_def)
  moreover have "strip_both quotes (q @ ?u @ q') = ?u"
    using strip_both_padded [of quotes "[q]" "[q']" ?u] assms(6, 7) prefix_free_lists padded_ends [OF assms(4, 5, 1)] inner
    by (auto simp: quotes_def)
  moreover have "strip_both white_space ?u = v"
    using white_space_padded [OF assms(4, 5), of v] inner heads_not_printable by simp
  ultimately show "env key = Some (concat a @ (q @ ?u @ q') @ concat b) \<Longrightarrow> env_or env key dflt = v"
    using inner by (simp add: env_or_def cleaned_def)
  show "env key = Some (concat a) \<Longrightarrow> env_or env key dflt = dflt"
    using strip_members [OF prefix_free_lists(1) assms(2), of "[]"]
    by (simp add: env_or_def cleaned_def strip_both_def)
  show "env key = None \<Longrightarrow> env_or env key dflt = dflt" by (simp add: env_or_def)
qed

section \<open>What the started services watch\<close>

text \<open>
  With a valid router address the tracker replays this contract only and its events are served; both
  services read the same variable.
\<close>

lemma started_watches_router:
  assumes "gc_ibc_contract_id cfg = addr" "addr \<noteq> []" "strkey addr = Some cid"
  shows "gw_ibc_contract_id (fst (gateway_started g strkey cfg)) = Some addr"
    and "state_matches (ScContract c) (snd (gateway_started g strkey cfg)) \<longleftrightarrow> c = cid"
  using assms by (simp_all add: gateway_started_def build_router_def Let_def state_new_def state_matches_def)

lemma services_agree_on_router:
  "gc_ibc_contract_id (gateway_from_env env) = as_ibc_contract_id (api_app_state (api_from_env env))"
  by (simp add: gateway_from_env_def api_app_state_def api_from_env_def)

text \<open>
  With an address that cannot be parsed the gateway starts all the same, and an entry that any
  contract creates at a provable path enters the tree whose root is served.
\<close>

lemma unparsed_router_tracks_any:
  assumes "strkey (gc_ibc_contract_id cfg) = None" and "gateway_started g strkey cfg = (g', s)"
    and "cda_contract d = ScContract c" and "scval_to_v2_path (cda_key d) = Some path" and "scval_as_bytes (cda_val d) = Some v"
  shows "apply_change sha (Created (ContractData d)) s = (s\<lparr>gs_smt := smt_insert sha path v (gs_smt s)\<rparr>, True)"
  using assms
  by (auto simp: gateway_started_def build_router_def Let_def state_new_def state_matches_def apply_change_def
      apply_contract_data_write_def)

end
