(* ===== verification/Store_Typing.thy ===== *)
theory Store_Typing
  imports Router_Properties
begin

text \<open>
  The types of the provable store. The contract writes under keys it has built itself and reads the
  entries back at the type \<open>BytesN<32>\<close>, which traps on a value of another length. Every run keeps the
  store such that no such read traps.
\<close>

section \<open>Typed entries\<close>

definition typed_entry :: "bytes \<Rightarrow> bytes \<Rightarrow> bool" where
  "typed_entry k v \<longleftrightarrow> (\<exists>c d n. k = c @ d # to_be_bytes n \<and> length c \<le> 119 \<and>
     (d = PACKET_RECEIPT_DISCRIMINATOR \<and> v = [RECEIPT_SENTINEL]
      \<or> d \<in> {PACKET_COMMITMENT_DISCRIMINATOR, ACK_COMMITMENT_DISCRIMINATOR} \<and> length v = 32))"

definition store_typed :: "router_state \<Rightarrow> bool" where
  "store_typed s \<longleftrightarrow> (\<forall>k v. r_store s k = Some v \<longrightarrow> typed_entry k v)"

lemma typed_entryI:
  "length c \<le> 119 \<Longrightarrow> length v = 32 \<Longrightarrow> typed_entry (c @ PACKET_COMMITMENT_DISCRIMINATOR # to_be_bytes n) v"
  "length c \<le> 119 \<Longrightarrow> length v = 32 \<Longrightarrow> typed_entry (c @ ACK_COMMITMENT_DISCRIMINATOR # to_be_bytes n) v"
  "length c \<le> 119 \<Longrightarrow> typed_entry (c @ PACKET_RECEIPT_DISCRIMINATOR # to_be_bytes n) [RECEIPT_SENTINEL]"
  unfolding typed_entry_def by blast+

lemma typed_entry_word:
  "typed_entry (c @ d # to_be_bytes n) v \<Longrightarrow> d \<noteq> PACKET_RECEIPT_DISCRIMINATOR \<Longrightarrow> length v = 32"
  by (auto simp: typed_entry_def path_bytes_inj)

lemma store_typed_write [intro]: "store_typed s \<Longrightarrow> typed_entry k v \<Longrightarrow> store_typed (set_provable k v s)"
  by (simp add: store_typed_def)

lemma store_typed_delete [intro]: "store_typed s \<Longrightarrow> store_typed (s\<lparr>r_store := (r_store s)(k := None)\<rparr>)"
  by (simp add: store_typed_def)

lemma store_typed_frame: "r_store s' = r_store s \<Longrightarrow> store_typed s' = store_typed s"
  by (simp add: store_typed_def)

lemma store_typed_constructor: "store_typed (router_constructor admin)"
  by (simp add: store_typed_def router_constructor_def empty_router_def)

lemma length_commit_v2_packet:
  "(\<And>x. length (sha x) = 32) \<Longrightarrow> commit_v2_packet sha p = Inr h \<Longrightarrow> length h = 32"
  by (auto simp: commit_v2_packet_def sha256_bytes_def bindE_simps Let_def)

lemma length_commit_v2_ack: "(\<And>x. length (sha x) = 32) \<Longrightarrow> length (commit_v2_acknowledgement sha acks) = 32"
  by (simp add: commit_v2_acknowledgement_def sha256_bytes_def Let_def)

lemma store_typed_exec:
  assumes sha: "\<And>x. length (sha x) = 32" and "store_typed s" "router_exec sha ce e call s x = Inr (r, s', x')"
  shows "store_typed s'"
proof (cases "registry_call call")
  case True
  then show ?thesis using registry_call_frame [OF _ assms(3)] assms(2) store_typed_frame by blast
next
  case False
  note keys = typed_entryI length_commit_v2_packet [OF sha] length_commit_v2_ack [OF sha]
  have pub: "store_typed (publish ev t) = store_typed t" for ev t by (simp add: store_typed_def)
  have upd: "store_typed (t\<lparr>r_next_seq_send := m\<rparr>) = store_typed t" for t m by (simp add: store_typed_def)
  show ?thesis using assms(2,3) False
    by (cases call)
       (auto simp: exec_simps bindE_simps pub upd received_state_def settled_state_def Let_def
         intro!: keys store_typed_write store_typed_delete)
qed

section \<open>Runs\<close>

text \<open>
  C35 (the provable store is well typed). Over every run of the router from its deployment, whatever
  entry points are called, the four that write the store directly included, each entry of the provable
  store lies under a v2 path of a client identifier that fits the path buffer, and holds the receipt
  sentinel under a receipt path and 32 bytes under a commitment or acknowledgement path. So the reads
  of the contract succeed exactly for the identifiers that fit, and none traps on a conversion.
\<close>

theorem provable_store_typed:
  assumes "\<And>x. length (sha x) = 32" and "router_run sha ce (\<lambda>_. True) (router_constructor admin, x0) (s, x)"
  shows "store_typed s
    \<and> packet_commitment c n s = (if length c \<le> 119 then Inr (commitment_at s c n) else Inl (Trap SliceOutOfBounds))
    \<and> acknowledgement c n s = (if length c \<le> 119 then Inr (ack_at s c n) else Inl (Trap SliceOutOfBounds))"
proof -
  have typed: "store_typed s"
    by (rule router_run_invariant [OF assms(2), where P = store_typed])
       (use store_typed_exec [OF assms(1)] in \<open>auto simp: store_typed_constructor\<close>)
  then have "length v = 32" if "commitment_at s c n = Some v \<or> ack_at s c n = Some v" for v
    using that typed_entry_word [of c PACKET_COMMITMENT_DISCRIMINATOR n v]
      typed_entry_word [of c ACK_COMMITMENT_DISCRIMINATOR n v]
    by (auto simp: store_typed_def view_defs discriminator_defs)
  then show ?thesis
    using typed by (auto simp: store_op_defs path_defs v2_path_key_def get_bytes32_def view_defs split: option.splits)
qed

theorem provable_store_typed_witness:
  "store_typed (received_state sample_sha sample_in [[1]] sample_ready)
   \<and> acknowledgement sample_client 1 (received_state sample_sha sample_in [[1]] sample_ready)
     = Inr (ack_at (received_state sample_sha sample_in [[1]] sample_ready) sample_client 1)"
  using provable_store_typed [OF length_sample_sha sample_received_run, where c = sample_client and n = 1]
  by (simp add: sample_client_def)

end
