(* ===== verification/Cli_Text.thy ===== *)
theory Cli_Text
  imports Service_Config
begin

text \<open>
  The text processing of the command-line tool \<open>interstellar\<close>: addresses and the \<open>.env\<close> file
  (\<open>shared.rs\<close>), environment variables (\<open>config.rs\<close>), the relayer's configuration file and output
  (\<open>services/hermes/mod.rs\<close>, \<open>tx/clients\<close>) and the output of other tools (\<open>tx/contracts/mod.rs\<close>).
\<close>

section \<open>Addresses (\<open>shared.rs\<close>)\<close>

datatype chain = ChainStellar | ChainCosmos | ChainCardano | ChainAll

definition is_upper :: "u8 \<Rightarrow> bool" where
  "is_upper c \<longleftrightarrow> 65 \<le> c \<and> c \<le> 90"

definition chain_of :: "bytes \<Rightarrow> chain option" where
  "chain_of address =
     (let addr = trim address in
      if starts_with (asc ''cosmos1'') addr then Some ChainCosmos
      else if length addr = 56 \<and> (starts_with (asc ''G'') addr \<or> starts_with (asc ''C'') addr)
        \<and> list_all (\<lambda>c. is_upper c \<or> is_digit c) addr then Some ChainStellar
      else None)"

section \<open>The \<open>.env\<close> file (\<open>shared.rs\<close>)\<close>

text \<open>The first line that satisfies the condition is replaced; without one the line is added at the end.\<close>

fun put_line :: "(bytes \<Rightarrow> bool) \<Rightarrow> bytes \<Rightarrow> bytes list \<Rightarrow> bytes list" where
  "put_line P v [] = [v]"
| "put_line P v (l # ls) = (if P l then v # ls else l # put_line P v ls)"

definition rendered :: "bytes \<Rightarrow> bytes" where
  "rendered v = (if has_white_space v then [34] @ v @ [34] else v)"

definition sets_key :: "bytes \<Rightarrow> bytes \<Rightarrow> bool" where
  "sets_key key line \<longleftrightarrow> starts_with (key @ [61]) (trim_start line)"

definition upsert_one :: "bytes \<times> bytes \<Rightarrow> bytes \<Rightarrow> bytes" where
  "upsert_one kv content =
     (let (key, v) = kv in
      if v = [] then content
      else join_nl (put_line (sets_key key) (key @ [61] @ rendered v) (lines content)) @ [10])"

definition env_upsert_text :: "(bytes \<times> bytes) list \<Rightarrow> bytes \<Rightarrow> bytes" where
  "env_upsert_text updates content = fold upsert_one updates content"

text \<open>What the first line for a key assigns to it.\<close>

definition assigned :: "bytes \<Rightarrow> bytes \<Rightarrow> bytes option" where
  "assigned content key = map_option (\<lambda>l. drop (Suc (length key)) (trim_start l)) (find (sets_key key) (lines content))"

section \<open>Reading the file back\<close>

lemma put_line_other: "(\<And>l. P l \<Longrightarrow> \<not> Q l) \<Longrightarrow> \<not> Q v \<Longrightarrow> find Q (put_line P v ls) = find Q ls"
  by (induction ls) auto

lemma put_line_same: "P v \<Longrightarrow> find P (put_line P v ls) = Some v"
  by (induction ls) auto

lemma put_line_ok: "line_ok v \<Longrightarrow> list_all line_ok ls \<Longrightarrow> list_all line_ok (put_line P v ls)"
  by (induction ls) auto

lemma put_line_ne [simp]: "put_line P v ls \<noteq> []"
  by (cases ls) auto

lemma one_key: "61 \<notin> set k \<Longrightarrow> 61 \<notin> set k' \<Longrightarrow> k @ 61 # r = k' @ 61 # r' \<Longrightarrow> k = k'"
  by (induction k arbitrary: k') (auto simp: Cons_eq_append_conv append_eq_Cons_conv)

text \<open>A key as the tool has them: no separator or line end, and no space or quote in front.\<close>

definition key_ok :: "bytes \<Rightarrow> bool" where
  "key_ok k \<longleftrightarrow> k \<noteq> [] \<and> printable (hd k) \<and> 61 \<notin> set k \<and> line_ok k"

lemma sets_key_unique: "key_ok k \<Longrightarrow> key_ok k' \<Longrightarrow> sets_key k l \<Longrightarrow> sets_key k' l \<Longrightarrow> k = k'"
  unfolding sets_key_def starts_with_iff key_ok_def by (metis append.assoc append_Cons append_Nil one_key)

lemma trim_start_key: "key_ok k \<Longrightarrow> trim_start (k @ s) = k @ s"
  unfolding trim_start_def key_ok_def using heads_not_printable(1) by (blast intro: strip_none matching_hd)

lemma sets_key_line [simp]: "key_ok k \<Longrightarrow> sets_key k (k @ 61 # v)"
  using trim_start_key [of k "61 # v"] by (simp add: sets_key_def starts_with_iff)

lemma rendered_ok: "line_ok v \<Longrightarrow> line_ok (rendered v)"
  by (auto simp: rendered_def line_ok_def)

lemma upsert_one_assigned:
  assumes "key_ok key" "key_ok k" "line_ok v" "13 \<notin> set content" "v \<noteq> []"
  shows "assigned (upsert_one (key, v) content) k = (if k = key then Some (rendered v) else assigned content k)"
    and "13 \<notin> set (upsert_one (key, v) content)"
proof -
  let ?l = "key @ 61 # rendered v"
  let ?ls = "put_line (sets_key key) ?l (lines content)"
  have ok: "list_all line_ok ?ls"
    using assms rendered_ok [of v] lines_ok [of content] by (intro put_line_ok) (auto simp: line_ok_def key_ok_def)
  then have ls: "lines (join_nl ?ls @ [10]) = ?ls" by (simp add: lines_join)
  have "find (sets_key key) ?ls = Some ?l" using assms by (intro put_line_same) simp
  moreover have "find (sets_key k) ?ls = find (sets_key k) (lines content)" if "k \<noteq> key"
    using that assms by (intro put_line_other) (blast dest: sets_key_unique sets_key_line)+
  ultimately show "assigned (upsert_one (key, v) content) k = (if k = key then Some (rendered v) else assigned content k)"
    using assms ls trim_start_key [of key "61 # rendered v"] by (auto simp: assigned_def upsert_one_def)
  have "13 \<notin> set (join_nl ls)" if "list_all line_ok ls" for ls
    using that by (induction ls rule: join_nl.induct) (auto simp: line_ok_def)
  then show "13 \<notin> set (upsert_one (key, v) content)" using ok assms(5) by (simp add: upsert_one_def)
qed

lemma env_upsert_assigned:
  assumes "list_all (\<lambda>(key, v). key_ok key \<and> line_ok v) updates" "key_ok k" "13 \<notin> set content"
  shows "assigned (env_upsert_text updates content) k =
    (case map_of (rev (filter (\<lambda>(_, v). v \<noteq> []) updates)) k of Some v \<Rightarrow> Some (rendered v) | None \<Rightarrow> assigned content k)"
  using assms
proof (induction updates arbitrary: content)
  case (Cons kv updates)
  obtain key v where kv: "kv = (key, v)" by (cases kv)
  show ?case
  proof (cases "v = []")
    case True
    then show ?thesis using Cons by (simp add: env_upsert_text_def kv upsert_one_def)
  next
    case False
    note one = upsert_one_assigned [of key k v content] upsert_one_assigned(2) [of key key v content]
    show ?thesis
      using Cons.IH [of "upsert_one kv content"] Cons.prems one False
      by (auto simp: env_upsert_text_def kv map_add_def split: option.splits)
  qed
qed (simp add: env_upsert_text_def)

section \<open>Environment variables (\<open>config.rs\<close>)\<close>

definition cli_get :: "(bytes \<rightharpoonup> bytes) \<Rightarrow> bytes \<Rightarrow> bytes \<Rightarrow> bytes" where
  "cli_get env key dflt = (case env key of Some v \<Rightarrow> strip_both quotes (trim v) | None \<Rightarrow> dflt)"

section \<open>The relayer's configuration (\<open>services/hermes/mod.rs\<close>, \<open>tx/clients/stellar.rs\<close>)\<close>

definition checksum_line :: "bytes \<Rightarrow> bool" where
  "checksum_line line \<longleftrightarrow> starts_with (asc ''wasm_checksum_hex'') (trim_start line)"

definition patched_line :: "bytes \<Rightarrow> bytes \<Rightarrow> bytes" where
  "patched_line checksum line =
     (if \<not> checksum_line line then line
      else take (length line - length (trim_start line)) line @ asc ''wasm_checksum_hex = '' @ [39] @ checksum @ [39])"

text \<open>\<open>None\<close>: there is no such line; \<open>Some None\<close>: the file is left as it is.\<close>

definition patch_wasm_checksum :: "bytes \<Rightarrow> bytes \<Rightarrow> bytes option option" where
  "patch_wasm_checksum checksum content =
     (let ls = lines content; patched = map (patched_line checksum) ls in
      if \<not> list_ex checksum_line ls then None
      else if list_ex (\<lambda>l. patched_line checksum l \<noteq> l) ls
      then Some (Some (join_nl patched @ (if content \<noteq> [] \<and> last content = 10 then [10] else [])))
      else Some None)"

fun checksum_in :: "bytes list \<Rightarrow> bool" where
  "checksum_in [] = False"
| "checksum_in (l # ls) =
     (if checksum_line l
      then (case split_once 61 l of
              Some (_, v) \<Rightarrow> strip_both [[39], [34], [32]] (trim v) \<noteq> []
            | None \<Rightarrow> checksum_in ls)
      else checksum_in ls)"

definition wasm_checksum_present :: "bytes option \<Rightarrow> bool" where
  "wasm_checksum_present file = (case file of None \<Rightarrow> False | Some content \<Rightarrow> checksum_in (lines content))"

section \<open>Output of other tools (\<open>tx/clients/mod.rs\<close>, \<open>tx/contracts/mod.rs\<close>)\<close>

text \<open>\<open>char::is_alphanumeric\<close>; the Unicode tables for characters outside ASCII are a parameter.\<close>

definition is_alphanumeric :: "(bytes \<Rightarrow> bool) \<Rightarrow> bytes \<Rightarrow> bool" where
  "is_alphanumeric uni c = (case c of [b] \<Rightarrow> is_digit b \<or> is_upper b \<or> 97 \<le> b \<and> b \<le> 122 | _ \<Rightarrow> uni c)"

definition client_token :: "bytes \<Rightarrow> bytes \<Rightarrow> bool" where
  "client_token prefix token =
     (let needle = prefix @ asc ''-''; rest = drop (length needle) token in
      starts_with needle token \<and> rest \<noteq> [] \<and> list_all is_digit rest)"

definition extract_client_id :: "(bytes \<Rightarrow> bool) \<Rightarrow> bytes \<Rightarrow> bytes \<Rightarrow> bytes option" where
  "extract_client_id uni output prefix =
     find (client_token prefix) (split_chars (\<lambda>c. \<not> (is_alphanumeric uni c \<or> c = asc ''-'')) (utf8_chars output))"

definition last_line :: "bytes \<Rightarrow> bytes" where
  "last_line out = or_default [] (find (\<lambda>l. l \<noteq> []) (map trim (rev (lines out))))"

section \<open>Patched files hold a checksum\<close>

lemma white_space_no_eq: "set ws \<subseteq> set white_space \<Longrightarrow> 61 \<notin> set (concat ws)"
proof -
  have "list_all (\<lambda>w. 61 \<notin> set w) white_space" by (simp add: white_space_def)
  then show "set ws \<subseteq> set white_space \<Longrightarrow> 61 \<notin> set (concat ws)" by (auto simp: list_all_iff)
qed

lemma patched_line_form:
  assumes "checksum_line l"
  obtains ws where "set ws \<subseteq> set white_space"
    and "patched_line c l = concat ws @ asc ''wasm_checksum_hex = '' @ [39] @ c @ [39]" and "set (concat ws) \<subseteq> set l"
proof -
  obtain ws where ws: "set ws \<subseteq> set white_space" "l = concat ws @ trim_start l"
    using strip_split [of white_space l] by (auto simp: trim_start_def)
  have "take (length l - length (trim_start l)) l = concat ws"
    by (subst (3) ws(2), subst (1) ws(2)) simp
  then have "patched_line c l = concat ws @ asc ''wasm_checksum_hex = '' @ [39] @ c @ [39]"
    using assms by (simp add: patched_line_def)
  moreover have "set (concat ws) \<subseteq> set l" by (subst ws(2)) auto
  ultimately show thesis using that ws(1) by blast
qed

lemma patched_checksum_line: "checksum_line (patched_line c l) \<longleftrightarrow> checksum_line l"
proof (cases "checksum_line l")
  case True
  then obtain ws where ws: "set ws \<subseteq> set white_space"
    "patched_line c l = concat ws @ asc ''wasm_checksum_hex = '' @ [39] @ c @ [39]"
    by (rule patched_line_form)
  have "trim_start (asc ''wasm_checksum_hex = '' @ [39] @ c @ [39]) = asc ''wasm_checksum_hex = '' @ [39] @ c @ [39]"
    unfolding trim_start_def
    by (rule strip_none, rule matching_hd) (simp_all add: asc_def white_space_def)
  then have "trim_start (patched_line c l) = asc ''wasm_checksum_hex'' @ asc '' = '' @ [39] @ c @ [39]"
    using ws strip_members [OF prefix_free_lists(1) ws(1)] by (simp add: trim_start_def asc_def)
  then show ?thesis using True by (simp add: checksum_line_def)
qed (simp add: patched_line_def)

lemma patched_value:
  assumes "checksum_line l" and "clean c"
  shows "\<exists>k v. split_once 61 (patched_line c l) = Some (k, v) \<and> strip_both [[39], [34], [32]] (trim v) = c"
proof -
  obtain ws where ws: "set ws \<subseteq> set white_space"
    "patched_line c l = concat ws @ asc ''wasm_checksum_hex = '' @ [39] @ c @ [39]"
    by (rule patched_line_form [OF assms(1)])
  have "asc ''wasm_checksum_hex = '' = asc ''wasm_checksum_hex '' @ 61 # [32]" by (simp add: asc_def)
  moreover have "61 \<notin> set (concat ws @ asc ''wasm_checksum_hex '')"
    using white_space_no_eq [OF ws(1)] by (simp add: asc_def)
  ultimately have "split_once 61 (patched_line c l) = Some (concat ws @ asc ''wasm_checksum_hex '', [32] @ ([39] @ c @ [39]))"
    using split_once_append [of 61 "concat ws @ asc ''wasm_checksum_hex ''" "[32] @ ([39] @ c @ [39])"] ws(2) by simp
  moreover have "trim (concat [[32]] @ ([39] @ c @ [39]) @ concat []) = [39] @ c @ [39]"
    unfolding trim_def by (rule white_space_padded) (simp_all add: white_space_def)
  moreover have "strip_both [[39], [34], [32]] (concat [[39]] @ c @ concat [[39]]) = c"
    using assms(2) by (intro strip_both_padded) (auto simp: prefix_free_def clean_def printable_def)
  ultimately show ?thesis by simp
qed

lemma patched_checksum_in:
  assumes "clean c" and "list_ex checksum_line ls"
  shows "checksum_in (map (patched_line c) ls)"
  using assms(2)
proof (induction ls)
  case (Cons l ls)
  show ?case
  proof (cases "checksum_line l")
    case True
    then show ?thesis using patched_value [OF True assms(1)] assms(1)
      by (auto simp: patched_checksum_line clean_def)
  next
    case False
    then show ?thesis using Cons by (simp add: patched_checksum_line)
  qed
qed simp

lemma patched_ok: "line_ok c \<Longrightarrow> line_ok l \<Longrightarrow> line_ok (patched_line c l)"
proof (cases "checksum_line l")
  case True
  assume "line_ok c" "line_ok l"
  moreover obtain ws where "patched_line c l = concat ws @ asc ''wasm_checksum_hex = '' @ [39] @ c @ [39]" "set (concat ws) \<subseteq> set l"
    by (rule patched_line_form [OF True])
  moreover have "line_ok (asc ''wasm_checksum_hex = '')" by (simp add: line_ok_def asc_def)
  ultimately show ?thesis unfolding line_ok_def by auto
qed (simp add: patched_line_def)

lemma patched_ne: "l \<noteq> [] \<Longrightarrow> patched_line c l \<noteq> []"
  by (simp add: patched_line_def)

text \<open>
  After a successful patch the check before the creation of the Stellar client passes, whether the
  file was written or already held the checksum.
\<close>

lemma patch_then_present:
  assumes "patch_wasm_checksum c content = Some r" and "clean c" "line_ok c" "13 \<notin> set content"
  shows "wasm_checksum_present (Some (or_default content r))"
proof -
  let ?ls = "lines content" and ?out = "map (patched_line c) (lines content)"
  from assms(1) have line: "list_ex checksum_line ?ls"
    by (auto simp: patch_wasm_checksum_def Let_def split: if_splits)
  then have ne: "?ls \<noteq> []" by auto
  then have content: "content \<noteq> []" by (auto simp: lines_def)
  have ok: "list_all line_ok ?out"
    using lines_ok [OF assms(4)] patched_ok [OF assms(3)] by (auto simp: list_all_iff)
  have "lines (join_nl ?out @ (if content \<noteq> [] \<and> last content = 10 then [10] else [])) = ?out"
  proof (cases "last content = 10")
    case True
    then show ?thesis using content ne ok by (simp add: lines_join)
  next
    case False
    then have "last ?out \<noteq> []"
      using lines_last [OF content] by (simp add: last_map patched_ne)
    then show ?thesis using False ne ok by (simp add: lines_join_open)
  qed
  moreover have "?out = ?ls" if "r = None"
    using assms(1) that line
    by (auto simp: patch_wasm_checksum_def Let_def list_ex_iff intro!: map_idI split: if_splits)
  ultimately have "lines (or_default content r) = ?out"
    using assms(1) by (auto simp: patch_wasm_checksum_def Let_def or_default_def split: if_splits)
  then show ?thesis
    using patched_checksum_in [OF assms(2) line] by (simp add: wasm_checksum_present_def)
qed

section \<open>Extracted identifiers\<close>

lemma client_token_minted: "client_token t (minted_id t n)"
  using decimal_digits [of _ n] by (auto simp: client_token_def minted_id_def asc_def Let_def list_all_iff starts_with_def)

text \<open>What is extracted has the form of an identifier, and an identifier that stands alone is found.\<close>

lemma extract_client_id_sound: "extract_client_id uni output prefix = Some i \<Longrightarrow> client_token prefix i"
  by (auto simp: extract_client_id_def find_Some_iff)

lemma find_skip: "find P xs = None \<Longrightarrow> find P (xs @ ys) = find P ys"
  by (induction xs) (auto split: if_splits)

lemma extract_client_id_finds:
  assumes "list_all (\<lambda>c. c < 0x80) pre" and "extract_client_id uni pre t = None"
    and "list_all (\<lambda>c. c < 0x80 \<and> (is_alphanumeric uni [c] \<or> c = 45)) t"
    and "s < 0x80" "s \<noteq> 45" "\<not> is_alphanumeric uni [s]" and "s' < 0x80" "s' \<noteq> 45" "\<not> is_alphanumeric uni [s']"
  shows "extract_client_id uni (pre @ s # minted_id t n @ s' # post) t = Some (minted_id t n)"
proof -
  let ?sep = "\<lambda>c. \<not> (is_alphanumeric uni c \<or> c = asc ''-'')" and ?i = "minted_id t n"
  have "d < 0x80" if "is_digit d" for d :: u8
    using that by (auto simp: is_digit_def word_le_nat_alt word_less_nat_alt)
  moreover have "d \<in> set (decimal n) \<Longrightarrow> is_digit d" for d by (rule decimal_digits)
  ultimately have id: "list_all (\<lambda>c. c < 0x80 \<and> (is_alphanumeric uni [c] \<or> c = 45)) ?i"
    using assms(3) by (auto simp: minted_id_def list_all_iff is_alphanumeric_def)
  let ?m = "map (\<lambda>c. [c])"
  have "utf8_chars (pre @ s # ?i @ s' # post) = ?m pre @ [s] # ?m ?i @ [s'] # utf8_chars post"
    using utf8_chars_ascii [of "pre @ s # ?i @ [s']" post] assms(1, 4, 7) id by (auto simp: list_all_iff)
  moreover have "?sep [s]" "?sep [s']" using assms(5, 6, 8, 9) by (simp_all add: asc_def)
  moreover have "split_chars ?sep (?m ?i) = [?i]"
    using split_chars_token [of ?sep "?m ?i"] id by (simp add: list_all_iff asc_def)
  ultimately have "split_chars ?sep (utf8_chars (pre @ s # ?i @ s' # post))
      = split_chars ?sep (?m pre) @ ?i # split_chars ?sep (utf8_chars post)"
    by (simp add: split_chars_sep)
  moreover have "find (client_token t) (split_chars ?sep (?m pre)) = None"
    using assms(2) utf8_chars_ascii [OF assms(1), of "[]"] by (simp add: extract_client_id_def)
  ultimately show ?thesis by (simp add: extract_client_id_def find_skip client_token_minted)
qed

section \<open>Duplicate keys\<close>

text \<open>
  Only the first line for a key is replaced. A reader for which the last line for a key counts does
  not see the new value when the file has two of them.
\<close>

definition last_assigned :: "bytes \<Rightarrow> bytes \<Rightarrow> bytes option" where
  "last_assigned content key = map_option (\<lambda>l. drop (Suc (length key)) (trim_start l)) (find (sets_key key) (rev (lines content)))"

lemma find_found: "find P xs \<noteq> None \<Longrightarrow> find P (xs @ ys) = find P xs"
  by (induction xs) auto

lemma put_line_shadowed: "length (filter P ls) \<ge> 2 \<Longrightarrow> find P (rev (put_line P v ls)) = find P (rev ls)"
proof (induction ls)
  case (Cons l ls)
  then have "filter P ls \<noteq> []" by (auto split: if_splits)
  then have "find P (rev ls) \<noteq> None" by (auto simp: find_None_iff filter_empty_conv)
  moreover from this have "find P (rev (put_line P v ls)) \<noteq> None" if "\<not> P l"
    using Cons that by simp
  ultimately show ?case using Cons by (auto simp: find_found)
qed simp

lemma upsert_shadowed:
  assumes "key_ok key" "line_ok v" "v \<noteq> []" "13 \<notin> set content"
    and "length (filter (sets_key key) (lines content)) \<ge> 2"
  shows "last_assigned (env_upsert_text [(key, v)] content) key = last_assigned content key"
proof -
  have "list_all line_ok (put_line (sets_key key) (key @ 61 # rendered v) (lines content))"
    using assms rendered_ok [of v] lines_ok [of content] by (intro put_line_ok) (auto simp: line_ok_def key_ok_def)
  then show ?thesis
    using assms(3) put_line_shadowed [OF assms(5), of "key @ 61 # rendered v"]
    by (simp add: last_assigned_def env_upsert_text_def upsert_one_def lines_join)
qed

section \<open>Written settings are read back\<close>

lemma cli_get_rendered:
  assumes "clean v" "env k = Some u" "u \<in> {v, rendered v}"
  shows "cli_get env k dflt = v"
proof -
  note v = assms(1) [unfolded clean_def]
  have quoted: "strip_both quotes (concat q @ v @ concat q) = v" if "set q \<subseteq> set quotes" for q
    using v that heads_not_printable by (intro strip_both_padded) (auto simp: prefix_free_lists, simp add: quotes_def)
  have white: "strip_both white_space w = w" if "w \<noteq> []" "hd w \<notin> hd ` set white_space" "last w \<notin> last ` set white_space" for w
    using white_space_padded [of "[]" "[]" w] that by simp
  have "34 \<notin> hd ` set white_space" "34 \<notin> last ` set white_space" by (simp_all add: white_space_def)
  then have "strip_both white_space ([34] @ v @ [34]) = [34] @ v @ [34]" by (intro white) auto
  moreover have "strip_both white_space v = v" using v heads_not_printable by (intro white) auto
  ultimately show ?thesis
    using quoted [of "[]"] quoted [of "[[34]]"] assms(2,3)
    by (auto simp: cli_get_def trim_def rendered_def quotes_def split: if_splits)
qed

text \<open>
  The loader of the file, \<open>dotenvy::from_path_override\<close>, as a parameter: \<open>read\<close> is how it takes a line,
  \<open>None\<close> for one that it does not take on its own (malformed, or with a substitution or a value that
  goes on in the next line), \<open>Some None\<close> for a blank line or a comment, and otherwise the variable and
  its value; \<open>load\<close> is what it makes of a text. When it takes every line, the last assignment of a
  variable counts.
\<close>

type_synonym line_reader = "bytes \<Rightarrow> (bytes \<times> bytes) option option"

definition assigns :: "line_reader \<Rightarrow> bytes \<Rightarrow> bytes \<Rightarrow> bytes option" where
  "assigns read k l = (case read l of Some (Some (k', u)) \<Rightarrow> if k' = k then Some u else None | _ \<Rightarrow> None)"

definition last_value :: "line_reader \<Rightarrow> bytes \<Rightarrow> bytes list \<Rightarrow> bytes option \<Rightarrow> bytes option" where
  "last_value read k = fold (\<lambda>l acc. case assigns read k l of Some u \<Rightarrow> Some u | None \<Rightarrow> acc)"

definition variable_name :: "bytes \<Rightarrow> bool" where
  "variable_name k \<longleftrightarrow> k \<noteq> [] \<and> \<not> is_digit (hd k) \<and> list_all (\<lambda>c. is_upper c \<or> is_digit c \<or> c = 95) k"

definition dotenv_law :: "line_reader \<Rightarrow> (bytes \<Rightarrow> bytes \<rightharpoonup> bytes) \<Rightarrow> bool" where
  "dotenv_law read load \<longleftrightarrow>
     (\<forall>k l r. variable_name k \<and> sets_key k l \<and> read l = Some r \<longrightarrow> (\<exists>u. r = Some (k, u)))
   \<and> (\<forall>text k. 13 \<notin> set text \<and> (\<forall>l \<in> set (lines text). read l \<noteq> None) \<longrightarrow> load text k = last_value read k (lines text) None)"

text \<open>The file assigns each of the variables at most once, in a line that the tool finds.\<close>

definition once :: "line_reader \<Rightarrow> bytes \<Rightarrow> bytes list \<Rightarrow> bool" where
  "once read k ls \<longleftrightarrow> length (filter (sets_key k) ls) \<le> 1 \<and> (\<forall>l \<in> set ls. assigns read k l \<noteq> None \<longrightarrow> sets_key k l)"

lemma variable_key_ok: "variable_name k \<Longrightarrow> key_ok k"
proof -
  assume "variable_name k"
  then have k: "k \<noteq> []" "\<forall>c \<in> set k. is_upper c \<or> is_digit c \<or> c = 95" by (auto simp: variable_name_def list_all_iff)
  have "printable c \<and> c \<noteq> 61 \<and> c \<noteq> 10 \<and> c \<noteq> 13" if "is_upper c \<or> is_digit c \<or> c = 95" for c
    using that by (auto simp: printable_def is_upper_def is_digit_def word_le_nat_alt)
  with k show ?thesis by (auto simp: key_ok_def line_ok_def)
qed

lemma last_value_put:
  assumes "once read k ls" "assigns read k v = Some u"
  shows "last_value read k (put_line (sets_key k) v ls) acc = Some u"
  using assms(1)
proof (induction ls arbitrary: acc)
  case (Cons l ls)
  have skip: "last_value read k ls a = a" if "filter (sets_key k) ls = []" for a
    using that Cons.prems by (induction ls arbitrary: a) (auto simp: last_value_def once_def split: if_splits option.splits)
  show ?case
  proof (cases "sets_key k l")
    case True
    then have "filter (sets_key k) ls = []" using Cons.prems by (simp add: once_def)
    from skip [OF this, of "Some u"] show ?thesis using True assms(2) by (simp add: last_value_def)
  next
    case False
    then have "assigns read k l = None" "once read k ls" using Cons.prems by (auto simp: once_def)
    with Cons.IH False show ?thesis by (simp add: last_value_def)
  qed
qed (simp add: last_value_def assms(2))

lemma last_value_put_other:
  assumes "assigns read k v = None" "\<forall>l \<in> set ls. P l \<longrightarrow> assigns read k l = None"
  shows "last_value read k (put_line P v ls) acc = last_value read k ls acc"
  using assms by (induction ls arbitrary: acc) (auto simp: last_value_def split: option.splits)

lemma put_line_set: "set (put_line P v ls) \<subseteq> insert v (set ls)"
  by (induction ls) auto

lemma put_line_count:
  "filter Q (put_line P v ls) = filter Q ls" if "\<not> Q v" "\<And>l. P l \<Longrightarrow> \<not> Q l"
  using that by (induction ls) auto

lemma put_line_count_same: "P v \<Longrightarrow> length (filter P ls) \<le> 1 \<Longrightarrow> length (filter P (put_line P v ls)) \<le> 1"
  by (induction ls) (auto simp: filter_empty_conv split: if_splits)

text \<open>A file that can be upserted: no carriage returns, every line taken, and each of the variables assigned at most once.\<close>

definition file_ok :: "line_reader \<Rightarrow> bytes set \<Rightarrow> bytes \<Rightarrow> bool" where
  "file_ok read ks content \<longleftrightarrow> 13 \<notin> set content \<and> (\<forall>l \<in> set (lines content). read l \<noteq> None)
     \<and> (\<forall>k \<in> ks. variable_name k \<and> once read k (lines content))"

lemma upsert_one_loaded:
  assumes law: "dotenv_law read load" and ok: "file_ok read ks content" and key: "key \<in> ks" "line_ok v" "v \<noteq> []"
    and written: "read (key @ 61 # rendered v) = Some (Some (key, u))"
  shows "file_ok read ks (upsert_one (key, v) content)"
    and "last_value read k (lines (upsert_one (key, v) content)) None = (if k = key then Some u else last_value read k (lines content) None)"
proof -
  let ?l = "key @ 61 # rendered v" and ?P = "sets_key key"
  let ?ls = "put_line ?P ?l (lines content)"
  have k: "variable_name key" "key_ok key" "once read key (lines content)"
    using ok key(1) variable_key_ok by (auto simp: file_ok_def)
  have cr: "13 \<notin> set content" and read: "\<forall>l \<in> set (lines content). read l \<noteq> None" using ok by (auto simp: file_ok_def)
  have "list_all line_ok ?ls"
    using k(2) cr key(2) rendered_ok [of v] lines_ok [of content] by (intro put_line_ok) (auto simp: line_ok_def key_ok_def)
  then have ls: "lines (upsert_one (key, v) content) = ?ls" using key(3) by (simp add: upsert_one_def lines_join)
  have P: "?P ?l" and self: "assigns read key ?l = Some u" using k(2) written by (simp_all add: assigns_def)
  have line: "assigns read k' l = None" if l: "?P l" "k' \<noteq> key" "l \<in> set (lines content)" for l k'
  proof -
    obtain r where "read l = Some r" using read l(3) by auto
    moreover from this obtain u where "r = Some (key, u)"
      using law [unfolded dotenv_law_def, THEN conjunct1, rule_format, of key l r] k(1) l(1) by auto
    ultimately show ?thesis using l(2) by (simp add: assigns_def)
  qed
  show "last_value read k (lines (upsert_one (key, v) content)) None = (if k = key then Some u else last_value read k (lines content) None)"
    using last_value_put [OF k(3) self] line written unfolding ls
    by (auto intro!: last_value_put_other simp: assigns_def [of _ _ ?l])
  have "once read k' ?ls" if "k' \<in> ks" for k'
  proof (cases "k' = key")
    case True
    then show ?thesis using k(3) P put_line_set [of ?P ?l "lines content"] put_line_count_same [of ?P ?l "lines content"] by (auto simp: once_def)
  next
    case False
    have k': "variable_name k'" "once read k' (lines content)" using ok that by (auto simp: file_ok_def)
    have "\<not> (sets_key k' l \<and> ?P l)" for l using sets_key_unique [OF variable_key_ok [OF k'(1)] k(2)] False by blast
    then have "filter (sets_key k') ?ls = filter (sets_key k') (lines content)" using P by (intro put_line_count) auto
    then show ?thesis
      using k'(2) put_line_set [of ?P ?l "lines content"] written False by (auto simp: once_def assigns_def [of _ _ ?l])
  qed
  moreover have "read l \<noteq> None" if "l \<in> set ?ls" for l
    using that put_line_set [of ?P ?l "lines content"] read written by auto
  moreover have "13 \<notin> set (upsert_one (key, v) content)"
    by (rule upsert_one_assigned(2) [OF k(2) k(2) key(2) cr key(3)])
  ultimately show "file_ok read ks (upsert_one (key, v) content)" using ok by (auto simp: file_ok_def ls)
qed

text \<open>What the loader makes of each line the tool writes: the value, with its quotation marks or without.\<close>

definition writes_read :: "line_reader \<Rightarrow> (bytes \<times> bytes) list \<Rightarrow> bool" where
  "writes_read read updates \<longleftrightarrow> (\<forall>(key, v) \<in> set updates. v \<noteq> [] \<longrightarrow>
     (\<exists>u \<in> {v, rendered v}. read (key @ 61 # rendered v) = Some (Some (key, u))))"

lemma env_upsert_loaded:
  assumes "dotenv_law read load" "file_ok read ks content" "list_all (\<lambda>(key, v). key \<in> ks \<and> line_ok v) updates" "writes_read read updates"
  shows "file_ok read ks (env_upsert_text updates content)
    \<and> (case map_of (rev (filter (\<lambda>(_, v). v \<noteq> []) updates)) k of
         Some v \<Rightarrow> \<exists>u \<in> {v, rendered v}. last_value read k (lines (env_upsert_text updates content)) None = Some u
       | None \<Rightarrow> last_value read k (lines (env_upsert_text updates content)) None = last_value read k (lines content) None)"
  using assms(2-4)
proof (induction updates arbitrary: content)
  case (Cons kv updates)
  obtain key v where kv: "kv = (key, v)" by (cases kv)
  have rest: "list_all (\<lambda>(key, v). key \<in> ks \<and> line_ok v) updates" "writes_read read updates"
    using Cons.prems by (auto simp: writes_read_def)
  show ?case
  proof (cases "v = []")
    case True
    then have eq: "env_upsert_text (kv # updates) content = env_upsert_text updates content"
      by (simp add: env_upsert_text_def kv upsert_one_def)
    show ?thesis using Cons.IH [OF Cons.prems(1) rest] True unfolding eq by (simp add: kv)
  next
    case False
    then obtain u where u: "u \<in> {v, rendered v}" "read (key @ 61 # rendered v) = Some (Some (key, u))"
      using Cons.prems(3) unfolding writes_read_def kv by auto
    have key: "key \<in> ks" "line_ok v" using Cons.prems(2) by (simp_all add: kv)
    note one = upsert_one_loaded [OF assms(1) Cons.prems(1) key False u(2)]
    have "env_upsert_text (kv # updates) content = env_upsert_text updates (upsert_one (key, v) content)"
      by (simp add: env_upsert_text_def kv)
    then show ?thesis
      using Cons.IH [OF one(1) rest] u(1) False by (auto simp: kv one(2) map_add_def split: option.splits)
  qed
qed (simp add: env_upsert_text_def)

text \<open>
  C37 (the tool reads back what it has written). Settings written to a \<open>.env\<close> file are the ones the
  tool reads when it loads the file over its environment, the last of several for one variable;
  empty values write nothing, and what the file gives to the variables that are not written does not
  change. The keys are upper-case variable names, the values single lines that begin and end with a
  printable character other than a quotation mark and that the loader takes as they are written; the
  old file has no carriage returns, the loader takes each of its lines, and it assigns each variable
  that is written at most once, in a line that starts with the variable and an equals sign. (When it
  assigns one twice the new value is not seen, see \<open>upsert_shadowed\<close>.)
\<close>

theorem env_file_roundtrip:
  assumes "dotenv_law read load"
    and "file_ok read (fst ` set updates) content" and "list_all (\<lambda>(_, v). line_ok v) updates" and "writes_read read updates"
    and "map_of (rev (filter (\<lambda>(_, v). v \<noteq> []) updates)) k = Some v" and "clean v"
  shows "cli_get (env ++ load (env_upsert_text updates content)) k dflt = v
    \<and> (\<forall>k'. k' \<notin> fst ` set updates \<longrightarrow> load (env_upsert_text updates content) k' = load content k')"
proof -
  have ks: "list_all (\<lambda>(key, v). key \<in> fst ` set updates \<and> line_ok v) updates"
    using assms(3) by (force simp: list_all_iff)
  note up = env_upsert_loaded [OF assms(1,2) ks assms(4)]
  have loaded: "load t k' = last_value read k' (lines t) None" if "file_ok read (fst ` set updates) t" for t k'
    using assms(1) that by (simp add: dotenv_law_def file_ok_def)
  obtain u where "u \<in> {v, rendered v}" "load (env_upsert_text updates content) k = Some u"
    using up [of k] assms(5) loaded by auto
  then have "cli_get (env ++ load (env_upsert_text updates content)) k dflt = v"
    using cli_get_rendered [OF assms(6), of "env ++ load (env_upsert_text updates content)" k u dflt] by simp
  moreover have "load (env_upsert_text updates content) k' = load content k'" if "k' \<notin> fst ` set updates" for k'
  proof -
    have "map_of (rev (filter (\<lambda>(_, v). v \<noteq> []) updates)) k' = None" using that by (force simp: map_of_eq_None_iff)
    then show ?thesis using up [of k'] loaded [OF assms(2)] loaded by simp
  qed
  ultimately show ?thesis by blast
qed

definition sample_reader :: line_reader where
  "sample_reader l = Some (split_once 61 (trim_start l))"

definition sample_loader :: "bytes \<Rightarrow> bytes \<rightharpoonup> bytes" where
  "sample_loader text k = last_value sample_reader k (lines text) None"

lemma sample_dotenv: "dotenv_law sample_reader sample_loader"
proof -
  have "\<exists>u. split_once 61 (trim_start l) = Some (k, u)" if "variable_name k" "sets_key k l" for k l
    using that variable_key_ok [OF that(1)] split_once_append [of 61 k]
    by (auto simp: sets_key_def starts_with_iff key_ok_def)
  then show ?thesis by (auto simp: dotenv_law_def sample_reader_def sample_loader_def)
qed

theorem env_file_roundtrip_witness:
  "cli_get (Map.empty ++ sample_loader (env_upsert_text [(asc ''A'', asc ''x y'')] (asc ''B=1'' @ [10] @ asc ''A=2''))) (asc ''A'') [] = asc ''x y''
   \<and> sample_loader (env_upsert_text [(asc ''A'', asc ''x y'')] (asc ''B=1'' @ [10] @ asc ''A=2'')) (asc ''B'') = Some (asc ''1'')"
proof -
  let ?t = "asc ''B=1'' @ [10] @ asc ''A=2''" and ?u = "[(asc ''A'', asc ''x y'')]"
  have "13 \<notin> set ?t" "clean (asc ''x y'')" "variable_name (asc ''A'')" "asc ''B'' \<noteq> asc ''A''"
    "line_ok (asc ''x y'')" "asc ''x y'' \<noteq> []" "sample_loader ?t (asc ''B'') = Some (asc ''1'')"
    "length (filter (sets_key (asc ''A'')) (lines ?t)) \<le> 1"
    "list_all (\<lambda>l. assigns sample_reader (asc ''A'') l \<noteq> None \<longrightarrow> sets_key (asc ''A'') l) (lines ?t)"
    "sample_reader (asc ''A'' @ 61 # rendered (asc ''x y'')) = Some (Some (asc ''A'', rendered (asc ''x y'')))"
    by code_simp+
  moreover from this have "file_ok sample_reader (fst ` set ?u) ?t" "writes_read sample_reader ?u"
    by (auto simp: file_ok_def once_def writes_read_def list_all_iff sample_reader_def)
  ultimately show ?thesis
    using env_file_roundtrip [OF sample_dotenv, of ?u ?t "asc ''A''" "asc ''x y''" Map.empty "[]"] by simp
qed

end
