(* ===== verification/Cli_Host.thy ===== *)
theory Cli_Host
  imports Cli_Text
begin

text \<open>
  What the command-line tool sees of its machine: processes (\<open>run.rs\<close>, \<open>tools.rs\<close>), files
  (\<open>shared.rs\<close>, \<open>services/hermes/mod.rs\<close>), HTTP and TCP probes (\<open>probe.rs\<close>) and the clock. The machine is the
  parameter \<open>host\<close> over a type of worlds. An operation maps a world to a result and the next world,
  or to \<open>None\<close> when it does not return.
\<close>

section \<open>The machine\<close>

record exit =
  ex_written :: bool
  ex_success :: bool
  ex_status :: bytes
  ex_stdout :: bytes
  ex_stderr :: bytes

text \<open>
  Times are in milliseconds. A process that cannot be started, a failed request and an unreadable file are
  \<open>None\<close>. No process is waited for with a time limit: when one never ends, \<open>h_spawn\<close> as a whole is \<open>None\<close>.
  \<open>ex_written\<close> tells whether the process has taken its whole input.
\<close>

record 'w host =
  h_spawn :: "bytes \<Rightarrow> bytes \<Rightarrow> bytes list \<Rightarrow> bytes \<Rightarrow> 'w \<Rightarrow> (exit option \<times> 'w) option"
  h_read :: "bytes \<Rightarrow> 'w \<Rightarrow> bytes option"
  h_write :: "bytes \<Rightarrow> bytes \<Rightarrow> 'w \<Rightarrow> 'w option"
  h_exists :: "bytes \<Rightarrow> 'w \<Rightarrow> bool"
  h_is_dir :: "bytes \<Rightarrow> 'w \<Rightarrow> bool"
  h_get :: "bytes \<Rightarrow> 'w \<Rightarrow> (nat \<times> json option) option \<times> 'w"
  h_post :: "bytes \<Rightarrow> json \<Rightarrow> 'w \<Rightarrow> (nat \<times> json option) option \<times> 'w"
  h_connect :: "bytes \<Rightarrow> 'w \<Rightarrow> bool \<times> 'w"
  h_sleep :: "nat \<Rightarrow> 'w \<Rightarrow> 'w"
  h_now :: "'w \<Rightarrow> nat"

datatype cli_error =
    SpawnFailed bytes
  | StdinFailed
  | ExitedWith bytes "bytes list" bytes "bytes option"
  | WriteFailed bytes
  | ReadFailed bytes
  | ChecksumLineMissing
  | Unset bytes
  | ToolMissing bytes
  | NotReachable bytes
  | Unresolved bytes
  | UnknownContract bytes
  | MustCrossChains
  | Unclassified bytes
  | HttpFailed bytes
  | HttpStatus bytes nat
  | BadResponse bytes
  | InvalidKey bytes
  | SigningFailed
  | TxRejected bytes u32
  | TxFailedOnChain u64
  | TxNotFoundYet
  | ChecksumNotRegistered
  | ArtifactMissing bytes
  | NothingToBuild
  | ArithmeticOverflow
  | RootNotFound
  | AddressRequired
  | Unimplemented
  | UnexpectedClientId bytes bytes
  | NoClientsListed
  | FlowsFailed "bytes list"

section \<open>Fallible operations on worlds\<close>

type_synonym ('w, 'a) cli = "'w \<Rightarrow> ((cli_error + 'a) \<times> 'w) option"

definition retC :: "'a \<Rightarrow> ('w, 'a) cli" where
  "retC a w = Some (Inr a, w)"

definition liftC :: "cli_error + 'a \<Rightarrow> ('w, 'a) cli" where
  "liftC r w = Some (r, w)"

definition bindC :: "('w, 'a) cli \<Rightarrow> ('a \<Rightarrow> ('w, 'b) cli) \<Rightarrow> ('w, 'b) cli" where
  "bindC m f w = Option.bind (m w) (\<lambda>(r, w'). case r of Inl e \<Rightarrow> Some (Inl e, w') | Inr a \<Rightarrow> f a w')"

text \<open>The outcome of an operation as a value: \<open>is_ok\<close>, \<open>ok()\<close>, \<open>if let Err(e)\<close>.\<close>

definition tryC :: "('w, 'a) cli \<Rightarrow> ('w, cli_error + 'a) cli" where
  "tryC m w = map_option (\<lambda>(r, w'). (Inr r, w')) (m w)"

fun forC :: "('a \<Rightarrow> ('w, unit) cli) \<Rightarrow> 'a list \<Rightarrow> ('w, unit) cli" where
  "forC f [] = retC ()"
| "forC f (a # as) = bindC (f a) (\<lambda>_. forC f as)"

lemma bindC_eq_Inr [bindE_simps]:
  "bindC m f w = Some (Inr b, w'') \<longleftrightarrow> (\<exists>a w'. m w = Some (Inr a, w') \<and> f a w' = Some (Inr b, w''))"
proof (cases "m w")
  case (Some p)
  then show ?thesis by (cases p; cases "fst p") (auto simp: bindC_def)
qed (simp add: bindC_def)

lemma bindC_Inr [simp]: "m w = Some (Inr a, w') \<Longrightarrow> bindC m f w = f a w'"
  by (simp add: bindC_def)

lemma bindC_Inl [simp]: "m w = Some (Inl e, w') \<Longrightarrow> bindC m f w = Some (Inl e, w')"
  by (simp add: bindC_def)

lemma retC_eq_Inr [bindE_simps]: "retC a w = Some (Inr b, w') \<longleftrightarrow> b = a \<and> w' = w"
  by (auto simp: retC_def)

lemma liftC_eq_Inr [bindE_simps]: "liftC r w = Some (Inr b, w') \<longleftrightarrow> r = Inr b \<and> w' = w"
  by (auto simp: liftC_def)

lemma tryC_eq_Inr [bindE_simps]: "tryC m w = Some (Inr r, w') \<longleftrightarrow> m w = Some (r, w')"
  by (auto simp: tryC_def)

lemma bindC_returns: "m w = Some (r, w') \<Longrightarrow> (\<And>a. r = Inr a \<Longrightarrow> f a w' \<noteq> None) \<Longrightarrow> bindC m f w \<noteq> None"
  by (auto simp: bindC_def split: sum.splits)

section \<open>Processes (\<open>run.rs\<close>)\<close>

definition spawn :: "'w host \<Rightarrow> bytes \<Rightarrow> bytes \<Rightarrow> bytes list \<Rightarrow> bytes \<Rightarrow> ('w, exit) cli" where
  "spawn h root program args input w =
     map_option (\<lambda>(r, w'). (ok_or (SpawnFailed program) r, w')) (h_spawn h root program args input w)"

text \<open>\<open>command_inherit\<close> and \<open>command_streaming\<close> differ in what is shown only.\<close>

definition run_command :: "'w host \<Rightarrow> bytes \<Rightarrow> bytes \<Rightarrow> bytes list \<Rightarrow> ('w, unit) cli" where
  "run_command h root program args =
     bindC (spawn h root program args []) (\<lambda>x.
     liftC (ensure (ex_success x) (ExitedWith program args (ex_status x) None)))"

definition run_piped :: "'w host \<Rightarrow> bytes \<Rightarrow> bytes \<Rightarrow> bytes list \<Rightarrow> bytes \<Rightarrow> ('w, unit) cli" where
  "run_piped h root program args input =
     bindC (spawn h root program args input) (\<lambda>x.
     bindC (liftC (ensure (ex_written x) StdinFailed)) (\<lambda>_.
     liftC (ensure (ex_success x) (ExitedWith program args (ex_status x) None))))"

definition run_capture :: "'w host \<Rightarrow> bytes \<Rightarrow> bytes \<Rightarrow> bytes list \<Rightarrow> ('w, bytes) cli" where
  "run_capture h root program args =
     bindC (spawn h root program args []) (\<lambda>x.
     bindC (liftC (ensure (ex_success x) (ExitedWith program args (ex_status x) None))) (\<lambda>_.
     retC (trim (ex_stdout x))))"

definition run_capture_quiet :: "'w host \<Rightarrow> bytes \<Rightarrow> bytes \<Rightarrow> bytes list \<Rightarrow> ('w, bytes) cli" where
  "run_capture_quiet h root program args =
     bindC (spawn h root program args []) (\<lambda>x.
     bindC (liftC (ensure (ex_success x) (ExitedWith program args (ex_status x) (Some (ex_stderr x))))) (\<lambda>_.
     retC (trim (ex_stdout x))))"

definition run_capture_all :: "'w host \<Rightarrow> bytes \<Rightarrow> bytes \<Rightarrow> bytes list \<Rightarrow> ('w, bytes) cli" where
  "run_capture_all h root program args =
     bindC (spawn h root program args []) (\<lambda>x.
     let combined = ex_stdout x @ ex_stderr x in
     bindC (liftC (ensure (ex_success x) (ExitedWith program args (ex_status x) (Some combined)))) (\<lambda>_.
     retC combined))"

definition run_has :: "'w host \<Rightarrow> bytes \<Rightarrow> ('w, bool) cli" where
  "run_has h program w =
     map_option (\<lambda>(r, w'). (Inr (case r of Some x \<Rightarrow> ex_success x | None \<Rightarrow> False), w'))
       (h_spawn h [] program [asc ''--version''] [] w)"

text \<open>The text of an error of a process: what \<open>format!("{error:#}")\<close> gives.\<close>

fun join_sp :: "bytes list \<Rightarrow> bytes" where
  "join_sp [] = []"
| "join_sp [a] = a"
| "join_sp (a # b # as) = a @ [32] @ join_sp (b # as)"

fun process_error :: "cli_error \<Rightarrow> bytes" where
  "process_error (ExitedWith program args status out) =
     program @ [32] @ join_sp args @ asc '' exited with '' @ status
     @ (case out of Some s \<Rightarrow> asc '':'' @ [10] @ s | None \<Rightarrow> [])"
| "process_error StdinFailed = asc ''failed to write to child stdin''"
| "process_error (SpawnFailed program) = asc ''failed to spawn '' @ program"
| "process_error _ = []"

section \<open>Tools (\<open>tools.rs\<close>)\<close>

definition COMPOSE_PROFILES :: "bytes list" where
  "COMPOSE_PROFILES = [asc ''--profile'', asc ''local'', asc ''--profile'', asc ''hermes'']"

definition compose_argv :: "bytes list \<Rightarrow> bytes list" where
  "compose_argv extra = asc ''compose'' # COMPOSE_PROFILES @ extra"

definition docker_compose :: "'w host \<Rightarrow> bytes \<Rightarrow> bytes list \<Rightarrow> ('w, unit) cli" where
  "docker_compose h root extra = run_command h root (asc ''docker'') (compose_argv extra)"

section \<open>Files (\<open>shared.rs\<close>, \<open>services/hermes/mod.rs\<close>)\<close>

text \<open>\<open>Path::join\<close> with a relative path.\<close>

definition path_join :: "bytes \<Rightarrow> bytes \<Rightarrow> bytes" where
  "path_join root p = (if root = [] \<or> last root = 47 then root @ p else root @ [47] @ p)"

definition read_file :: "'w host \<Rightarrow> bytes \<Rightarrow> ('w, bytes) cli" where
  "read_file h path w = Some (ok_or (ReadFailed path) (h_read h path w), w)"

definition write_file :: "'w host \<Rightarrow> bytes \<Rightarrow> bytes \<Rightarrow> ('w, unit) cli" where
  "write_file h path content w =
     (case h_write h path content w of
        Some w' \<Rightarrow> Some (Inr (), w')
      | None \<Rightarrow> Some (Inl (WriteFailed path), w))"

definition env_upsert :: "'w host \<Rightarrow> bytes \<Rightarrow> (bytes \<times> bytes) list \<Rightarrow> ('w, unit) cli" where
  "env_upsert h path updates w =
     write_file h path (env_upsert_text updates (or_default [] (h_read h path w))) w"

definition patch_checksum_file :: "'w host \<Rightarrow> bytes \<Rightarrow> bytes \<Rightarrow> ('w, bool) cli" where
  "patch_checksum_file h config_path checksum =
     bindC (read_file h config_path) (\<lambda>content.
     bindC (liftC (ok_or ChecksumLineMissing (patch_wasm_checksum checksum content))) (\<lambda>patched.
     case patched of
       None \<Rightarrow> retC False
     | Some out \<Rightarrow> bindC (write_file h config_path out) (\<lambda>_. retC True)))"

section \<open>Probes (\<open>probe.rs\<close>)\<close>

definition is_success :: "nat \<Rightarrow> bool" where
  "is_success status \<longleftrightarrow> 200 \<le> status \<and> status < 300"

definition http_ok :: "'w host \<Rightarrow> bytes \<Rightarrow> 'w \<Rightarrow> bool \<times> 'w" where
  "http_ok h url w =
     (let (r, w') = h_get h url w in (case r of Some (status, _) \<Rightarrow> is_success status | None \<Rightarrow> False, w'))"

partial_function (option) wait_loop :: "'w host \<Rightarrow> bytes \<Rightarrow> nat \<Rightarrow> nat \<Rightarrow> 'w \<Rightarrow> (bool \<times> 'w) option" where
  "wait_loop h url timeout_secs start w =
     (let (up, w1) = http_ok h url w in
      if up then Some (True, w1)
      else if (h_now h w1 - start) div 1000 \<ge> timeout_secs then Some (False, w1)
      else wait_loop h url timeout_secs start (h_sleep h 5000 w1))"

definition wait_http :: "'w host \<Rightarrow> bytes \<Rightarrow> nat \<Rightarrow> ('w, bool) cli" where
  "wait_http h url timeout_secs w =
     map_option (\<lambda>(up, w'). (Inr up, w')) (wait_loop h url timeout_secs (h_now h w) w)"

definition tcp_ok :: "'w host \<Rightarrow> bytes \<Rightarrow> ('w, bool) cli" where
  "tcp_ok h addr w = (let (up, w') = h_connect h addr w in Some (Inr up, w'))"

text \<open>\<open>send\<close>, \<open>error_for_status\<close> and \<open>json\<close> of the HTTP client in sequence.\<close>

definition status_error :: "nat \<Rightarrow> bool" where
  "status_error status \<longleftrightarrow> 400 \<le> status \<and> status < 600"

definition get_checked :: "'w host \<Rightarrow> bytes \<Rightarrow> 'w \<Rightarrow> (cli_error + json) \<times> 'w" where
  "get_checked h url w =
     (let (r, w') = h_get h url w in
      (bindE (ok_or (HttpFailed url) r) (\<lambda>(status, body).
       bindE (ensure (\<not> status_error status) (HttpStatus url status)) (\<lambda>_.
       ok_or (BadResponse url) body)), w'))"

section \<open>Waiting ends\<close>

text \<open>A sleep lasts at least as long as asked for, and the clock does not go back during a request.\<close>

definition clock_law :: "'w host \<Rightarrow> bool" where
  "clock_law h \<longleftrightarrow> (\<forall>d w. h_now h w + d \<le> h_now h (h_sleep h d w))
     \<and> (\<forall>url w. h_now h w \<le> h_now h (snd (h_get h url w)))"

lemma clock_law_sleep: "clock_law h \<Longrightarrow> h_now h w + d \<le> h_now h (h_sleep h d w)"
  by (simp add: clock_law_def)

lemma clock_law_get: "clock_law h \<Longrightarrow> h_get h url w = (r, w') \<Longrightarrow> h_now h w \<le> h_now h w'"
  unfolding clock_law_def by (metis snd_conv)

lemma http_ok_clock: "clock_law h \<Longrightarrow> http_ok h url w = (b, w') \<Longrightarrow> h_now h w \<le> h_now h w'"
  by (auto simp: http_ok_def split: prod.splits dest: clock_law_get)

lemma wait_loop_returns:
  assumes "clock_law h" and "start \<le> h_now h w"
  shows "\<exists>b w'. wait_loop h url t start w = Some (b, w') \<and> (\<not> b \<longrightarrow> start + 1000 * t \<le> h_now h w')"
  using assms(2)
proof (induction "start + 1000 * t - h_now h w" arbitrary: w rule: less_induct)
  case less
  obtain b w1 where ok: "http_ok h url w = (b, w1)" by (cases "http_ok h url w")
  note later = http_ok_clock [OF assms(1) ok] less.prems
  have elapsed: "(h_now h w1 - start) div 1000 \<ge> t \<longleftrightarrow> start + 1000 * t \<le> h_now h w1"
    using later by (auto simp: less_eq_div_iff_mult_less_eq)
  show ?case
  proof (cases "b \<or> start + 1000 * t \<le> h_now h w1")
    case True
    then have "wait_loop h url t start w = Some (b, w1)"
      by (subst wait_loop.simps) (auto simp: ok elapsed)
    then show ?thesis using True by blast
  next
    case False
    have "h_now h w + 5000 \<le> h_now h (h_sleep h 5000 w1)"
      using later clock_law_sleep [OF assms(1), of w1 5000] by linarith
    moreover from this have "start + 1000 * t - h_now h (h_sleep h 5000 w1) < start + 1000 * t - h_now h w"
      using False later by linarith
    moreover have "wait_loop h url t start w = wait_loop h url t start (h_sleep h 5000 w1)"
      using False by (subst wait_loop.simps) (simp add: ok elapsed)
    ultimately show ?thesis using less.hyps [of "h_sleep h 5000 w1"] less.prems by simp
  qed
qed

lemma wait_http_returns: "clock_law h \<Longrightarrow> \<exists>b w'. wait_http h url t w = Some (Inr b, w')"
  using wait_loop_returns [of h "h_now h w" w url t] by (auto simp: wait_http_def)

section \<open>Operations that return\<close>

text \<open>Every step of an operation returns when its parts do; only a loop needs an argument of its own.\<close>

definition total :: "('w, 'a) cli \<Rightarrow> bool" where
  "total m \<longleftrightarrow> (\<forall>w. m w \<noteq> None)"

named_theorems total_intros

definition programs_return :: "'w host \<Rightarrow> bool" where
  "programs_return h \<longleftrightarrow> (\<forall>dir p args input w. h_spawn h dir p args input w \<noteq> None)"

lemma total_bindC [total_intros]: "total m \<Longrightarrow> (\<And>a. total (f a)) \<Longrightarrow> total (bindC m f)"
  unfolding total_def using bindC_returns by (metis not_Some_eq surj_pair)

lemma total_basic [total_intros]:
  "total (retC a)" "total (liftC r)"
  "total (read_file h path)" "total (write_file h path content)" "total (tcp_ok h addr)" "total (env_upsert h path updates)"
  by (auto simp: total_def retC_def liftC_def read_file_def write_file_def tcp_ok_def env_upsert_def
    split: prod.splits option.splits)

lemma total_spawn [total_intros]: "programs_return h \<Longrightarrow> total (spawn h root p args input)" "programs_return h \<Longrightarrow> total (run_has h p)"
  by (auto simp: total_def programs_return_def spawn_def run_has_def)

lemma total_tryC [total_intros]: "total m \<Longrightarrow> total (tryC m)"
  by (simp add: total_def tryC_def)

lemma total_cases [total_intros]:
  "(b \<Longrightarrow> total m) \<Longrightarrow> (\<not> b \<Longrightarrow> total m') \<Longrightarrow> total (if b then m else m')"
  "(\<And>x y. p = (x, y) \<Longrightarrow> total (f x y)) \<Longrightarrow> total (case p of (x, y) \<Rightarrow> f x y)"
  "(v = None \<Longrightarrow> total m) \<Longrightarrow> (\<And>x. v = Some x \<Longrightarrow> total (g x)) \<Longrightarrow> total (case v of None \<Rightarrow> m | Some x \<Rightarrow> g x)"
  "(\<And>e. r = Inl e \<Longrightarrow> total (k e)) \<Longrightarrow> (\<And>a. r = Inr a \<Longrightarrow> total (l a)) \<Longrightarrow> total (case r of Inl e \<Rightarrow> k e | Inr a \<Rightarrow> l a)"
  by (auto split: prod.splits option.splits sum.splits)

lemma total_Let [total_intros]: "(\<And>x. x = v \<Longrightarrow> total (f x)) \<Longrightarrow> total (Let v f)"
  by simp

lemma total_forC [total_intros]: "(\<And>a. total (f a)) \<Longrightarrow> total (forC f as)"
  by (induction as) (auto intro: total_intros)

lemma total_processes [total_intros]:
  assumes "programs_return h"
  shows "total (run_command h root p args)" "total (run_piped h root p args input)" "total (run_capture h root p args)"
    "total (run_capture_quiet h root p args)" "total (run_capture_all h root p args)" "total (docker_compose h root extra)"
  unfolding run_command_def run_piped_def run_capture_def run_capture_quiet_def run_capture_all_def docker_compose_def
  using assms by (intro total_intros; assumption?)+

lemma total_patch_checksum_file [total_intros]: "total (patch_checksum_file h path checksum)"
  unfolding patch_checksum_file_def by (intro total_intros)

lemma total_wait_http [total_intros]: "clock_law h \<Longrightarrow> total (wait_http h url t)"
  using wait_http_returns [of h url t] by (fastforce simp: total_def)

lemma total_returns: "total m \<Longrightarrow> \<exists>r w'. m w = Some (r, w')"
  unfolding total_def by (metis not_Some_eq surj_pair)

end
