(* ===== verification/Cli_Cosmos.thy ===== *)
theory Cli_Cosmos
  imports Cli_Host
begin

text \<open>
  The Cosmos side of the command-line tool: \<open>services/cosmos/config.rs\<close> and the signer
  \<open>services/cosmos/tx.rs\<close>, which funds accounts, submits proposals and votes through the REST
  interface of a chain. Keys, transaction signing and the protobuf encoders are parameters.
\<close>

section \<open>Configuration (\<open>services/cosmos/config.rs\<close>)\<close>

datatype cosmos_network = Devnet | Testnet

record cosmos_config =
  co_network :: cosmos_network
  co_chain_id :: bytes
  co_rpc_url :: bytes
  co_rest_url :: bytes
  co_faucet_url :: "bytes option"
  co_key_name :: bytes
  co_relayer_mnemonic :: bytes
  co_receiver_address :: bytes
  co_account_prefix :: bytes
  co_gas_denom :: bytes
  co_relayer_key_hex :: bytes
  co_validator_key_hex :: bytes

definition cosmos_devnet :: "(bytes \<rightharpoonup> bytes) \<Rightarrow> cosmos_config" where
  "cosmos_devnet env = \<lparr>co_network = Devnet,
     co_chain_id = cli_get env (asc ''COSMOS_CHAIN_ID'') (asc ''simd-1''),
     co_rpc_url = cli_get env (asc ''COSMOS_RPC_URL'') (asc ''http://127.0.0.1:26657''),
     co_rest_url = cli_get env (asc ''COSMOS_REST_URL'') (asc ''http://127.0.0.1:1317''),
     co_faucet_url = None,
     co_key_name = cli_get env (asc ''COSMOS_KEY_NAME'') (asc ''relayer''),
     co_relayer_mnemonic = cli_get env (asc ''COSMOS_RELAYER_MNEMONIC'') [],
     co_receiver_address = cli_get env (asc ''COSMOS_RECEIVER_ADDRESS'') [],
     co_account_prefix = cli_get env (asc ''COSMOS_ACCOUNT_PREFIX'') (asc ''cosmos''),
     co_gas_denom = cli_get env (asc ''COSMOS_GAS_DENOM'') (asc ''stake''),
     co_relayer_key_hex = cli_get env (asc ''COSMOS_RELAYER_PRIVATE_KEY'') [],
     co_validator_key_hex = cli_get env (asc ''COSMOS_VALIDATOR_PRIVATE_KEY'') []\<rparr>"

definition cosmos_testnet :: "(bytes \<rightharpoonup> bytes) \<Rightarrow> cosmos_config" where
  "cosmos_testnet env = \<lparr>co_network = Testnet,
     co_chain_id = cli_get env (asc ''COSMOS_TESTNET_CHAIN_ID'') (asc ''provider''),
     co_rpc_url = cli_get env (asc ''COSMOS_TESTNET_RPC_URL'') (asc ''https://rpc.provider-sentry-01.hub-testnet.polypore.xyz''),
     co_rest_url = cli_get env (asc ''COSMOS_TESTNET_REST_URL'') (asc ''https://rest.provider-sentry-01.hub-testnet.polypore.xyz''),
     co_faucet_url = Some (cli_get env (asc ''COSMOS_TESTNET_FAUCET_URL'') (asc ''https://faucet.polypore.xyz'')),
     co_key_name = cli_get env (asc ''COSMOS_KEY_NAME'') (asc ''relayer''),
     co_relayer_mnemonic = cli_get env (asc ''COSMOS_RELAYER_MNEMONIC'') [],
     co_receiver_address = cli_get env (asc ''COSMOS_TESTNET_RECEIVER_ADDRESS'') [],
     co_account_prefix = cli_get env (asc ''COSMOS_ACCOUNT_PREFIX'') (asc ''cosmos''),
     co_gas_denom = cli_get env (asc ''COSMOS_TESTNET_GAS_DENOM'') (asc ''uatom''),
     co_relayer_key_hex = cli_get env (asc ''COSMOS_RELAYER_PRIVATE_KEY'') [],
     co_validator_key_hex = cli_get env (asc ''COSMOS_VALIDATOR_PRIVATE_KEY'') []\<rparr>"

definition cosmos_is_local :: "cosmos_config \<Rightarrow> bool" where
  "cosmos_is_local cfg \<longleftrightarrow> co_network cfg = Devnet"

section \<open>Accounts and the signer (\<open>services/cosmos/tx.rs\<close>)\<close>

record 'k cosmos_libs =
  ck_hex_decode :: "bytes \<Rightarrow> bytes option"
  ck_key :: "bytes \<Rightarrow> 'k option"
  ck_account_id :: "'k \<Rightarrow> bytes \<Rightarrow> bytes option"
  ck_denom_ok :: "bytes \<Rightarrow> bool"
  ck_chain_ok :: "bytes \<Rightarrow> bool"
  ck_sign :: "'k \<Rightarrow> bytes \<Rightarrow> u64 \<Rightarrow> u64 \<Rightarrow> bytes \<Rightarrow> u64 \<Rightarrow> bytes \<Rightarrow> 128 word \<Rightarrow> any_msg \<Rightarrow> bytes option"
  ck_base64 :: "bytes \<Rightarrow> bytes"
  ck_msg_send :: "bytes \<Rightarrow> bytes \<Rightarrow> bytes \<Rightarrow> bytes \<Rightarrow> bytes"
  ck_store_code :: "bytes \<Rightarrow> bytes \<Rightarrow> bytes"
  ck_proposal :: "any_msg \<Rightarrow> bytes \<Rightarrow> bytes \<Rightarrow> bytes \<Rightarrow> bytes \<Rightarrow> bytes \<Rightarrow> bytes"
  ck_vote :: "u64 \<Rightarrow> bytes \<Rightarrow> u32 \<Rightarrow> bytes"

record 'k account =
  acc_key :: 'k
  acc_address :: bytes

record account_info =
  ai_account_number :: u64
  ai_sequence :: u64

record broadcast_result =
  br_tx_hash :: bytes
  br_code :: u32
  br_raw_log :: bytes

record 'k cosmos_signer =
  sg_rest_url :: bytes
  sg_chain_id :: bytes
  sg_gas_denom :: bytes
  sg_relayer :: "'k account option"
  sg_validator :: "'k account option"

definition load_key :: "'k cosmos_libs \<Rightarrow> bytes \<Rightarrow> bytes \<Rightarrow> bytes \<Rightarrow> cli_error + 'k account option" where
  "load_key lb hex_str prefix label =
     (let trimmed = trim hex_str in
      if trimmed = [] then Inr None
      else bindE (ok_or (InvalidKey label) (ck_hex_decode lb trimmed)) (\<lambda>bs.
           bindE (ok_or (InvalidKey label) (ck_key lb bs)) (\<lambda>key.
           bindE (ok_or (InvalidKey label) (ck_account_id lb key prefix)) (\<lambda>address.
           Inr (Some \<lparr>acc_key = key, acc_address = address\<rparr>)))))"

definition signer_from_config :: "'k cosmos_libs \<Rightarrow> cosmos_config \<Rightarrow> cli_error + 'k cosmos_signer" where
  "signer_from_config lb cfg =
     bindE (load_key lb (co_relayer_key_hex cfg) (co_account_prefix cfg) (asc ''COSMOS_RELAYER_PRIVATE_KEY'')) (\<lambda>relayer.
     bindE (load_key lb (co_validator_key_hex cfg) (co_account_prefix cfg) (asc ''COSMOS_VALIDATOR_PRIVATE_KEY'')) (\<lambda>validator.
     Inr \<lparr>sg_rest_url = co_rest_url cfg, sg_chain_id = co_chain_id cfg, sg_gas_denom = co_gas_denom cfg,
          sg_relayer = relayer, sg_validator = validator\<rparr>))"

definition signer_relayer :: "'k cosmos_signer \<Rightarrow> cli_error + 'k account" where
  "signer_relayer sg = ok_or (Unset (asc ''COSMOS_RELAYER_PRIVATE_KEY'')) (sg_relayer sg)"

definition relayer_address :: "'k cosmos_signer \<Rightarrow> cli_error + bytes" where
  "relayer_address sg = bindE (signer_relayer sg) (\<lambda>a. Inr (acc_address a))"

definition signer_validator :: "'k cosmos_signer \<Rightarrow> cli_error + 'k account" where
  "signer_validator sg = ok_or (Unset (asc ''COSMOS_VALIDATOR_PRIVATE_KEY'')) (sg_validator sg)"

definition rest :: "'k cosmos_signer \<Rightarrow> bytes \<Rightarrow> bytes" where
  "rest sg path = trim_end 47 (sg_rest_url sg) @ path"

definition node_info_ok :: "'w host \<Rightarrow> 'k cosmos_signer \<Rightarrow> ('w, bool) cli" where
  "node_info_ok h sg w =
     (let (up, w') = http_ok h (rest sg (asc ''/cosmos/base/tendermint/v1beta1/node_info'')) w in Some (Inr up, w'))"

definition get_body :: "'w host \<Rightarrow> bytes \<Rightarrow> ('w, json) cli" where
  "get_body h url w = Some (get_checked h url w)"

definition checksums :: "'w host \<Rightarrow> 'k cosmos_signer \<Rightarrow> ('w, bytes list) cli" where
  "checksums h sg =
     bindC (get_body h (rest sg (asc ''/ibc/lightclients/wasm/v1/checksums''))) (\<lambda>body.
     retC (case get_array body (asc ''checksums'') of Some arr \<Rightarrow> List.map_filter json_str arr | None \<Rightarrow> []))"

definition account_path :: "bytes \<Rightarrow> bytes" where
  "account_path address = asc ''/cosmos/auth/v1beta1/accounts/'' @ address"

definition account_exists :: "'w host \<Rightarrow> 'k cosmos_signer \<Rightarrow> bytes \<Rightarrow> ('w, bool) cli" where
  "account_exists h sg address w =
     (let url = rest sg (account_path address); (r, w') = h_get h url w in
      Some (bindE (ok_or (HttpFailed url) r) (\<lambda>(status, _).
            if status = 404 then Inr False
            else bindE (ensure (\<not> status_error status) (HttpStatus url status)) (\<lambda>_. Inr True)), w'))"

text \<open>\<open>str::parse::<u64>\<close>: an optional plus sign and digits.\<close>

definition parse_u64 :: "bytes \<Rightarrow> u64 option" where
  "parse_u64 s =
     (case parse_digits (case s of c # r \<Rightarrow> if c = 43 then r else s | [] \<Rightarrow> []) of
        Some n \<Rightarrow> if n < 2 ^ 64 then Some (of_nat n) else None
      | None \<Rightarrow> None)"

definition fetch_account_info :: "'w host \<Rightarrow> 'k cosmos_signer \<Rightarrow> bytes \<Rightarrow> ('w, account_info) cli" where
  "fetch_account_info h sg address =
     bindC (get_body h (rest sg (account_path address))) (\<lambda>body.
     bindC (liftC (ok_or (BadResponse (asc ''account'')) (json_get body (asc ''account'')))) (\<lambda>account.
     bindC (liftC (ok_or (BadResponse (asc ''account_number''))
              (Option.bind (get_str account (asc ''account_number'')) parse_u64))) (\<lambda>account_number.
     retC \<lparr>ai_account_number = account_number,
           ai_sequence = or_default 0 (Option.bind (get_str account (asc ''sequence'')) parse_u64)\<rparr>)))"

text \<open>\<open>Value::pointer\<close> through objects.\<close>

fun json_pointer :: "json \<Rightarrow> bytes list \<Rightarrow> json option" where
  "json_pointer v [] = Some v"
| "json_pointer v (k # ks) = Option.bind (json_get v k) (\<lambda>u. json_pointer u ks)"

definition or_else :: "'a option \<Rightarrow> 'a option \<Rightarrow> 'a option" where
  "or_else a b = (case a of Some v \<Rightarrow> Some v | None \<Rightarrow> b)"

definition gov_module_address :: "'w host \<Rightarrow> 'k cosmos_signer \<Rightarrow> ('w, bytes) cli" where
  "gov_module_address h sg =
     bindC (get_body h (rest sg (asc ''/cosmos/auth/v1beta1/module_accounts/gov''))) (\<lambda>body.
     let p = or_else (or_else (json_pointer body [asc ''account'', asc ''value'', asc ''address''])
                              (json_pointer body [asc ''account'', asc ''base_account'', asc ''address'']))
                     (json_pointer body [asc ''account'', asc ''address'']) in
     liftC (ok_or (BadResponse (asc ''gov module address'')) (Option.bind p json_str)))"

definition tx_by_hash :: "'w host \<Rightarrow> 'k cosmos_signer \<Rightarrow> bytes \<Rightarrow> 'w \<Rightarrow> (cli_error + json) \<times> 'w" where
  "tx_by_hash h sg tx_hash w =
     (let url = rest sg (asc ''/cosmos/tx/v1beta1/txs/'' @ tx_hash); (r, w') = h_get h url w in
      (bindE (ok_or (HttpFailed url) r) (\<lambda>(status, body).
       bindE (ensure (status \<noteq> 404) TxNotFoundYet) (\<lambda>_.
       bindE (ensure (\<not> status_error status) (HttpStatus url status)) (\<lambda>_.
       ok_or (BadResponse url) body))), w'))"

text \<open>Polling with a pause that doubles up to two seconds, until the deadline.\<close>

partial_function (option) wait_tx_loop ::
  "'w host \<Rightarrow> 'k cosmos_signer \<Rightarrow> bytes \<Rightarrow> nat \<Rightarrow> nat \<Rightarrow> 'w \<Rightarrow> ((cli_error + json) \<times> 'w) option" where
  "wait_tx_loop h sg tx_hash deadline delay w =
     (let (r, w1) = tx_by_hash h sg tx_hash w in
      if \<not> isl r then Some (r, w1)
      else if h_now h w1 < deadline
      then wait_tx_loop h sg tx_hash deadline (if delay < 2000 then delay * 2 else delay) (h_sleep h delay w1)
      else Some (r, w1))"

definition wait_for_tx :: "'w host \<Rightarrow> 'k cosmos_signer \<Rightarrow> bytes \<Rightarrow> nat \<Rightarrow> ('w, json) cli" where
  "wait_for_tx h sg tx_hash timeout w = wait_tx_loop h sg tx_hash (h_now h w + timeout) 500 w"

section \<open>Transactions\<close>

definition broadcast_tx_bytes :: "'k cosmos_libs \<Rightarrow> 'w host \<Rightarrow> 'k cosmos_signer \<Rightarrow> bytes \<Rightarrow> ('w, broadcast_result) cli" where
  "broadcast_tx_bytes lb h sg tx_bytes w =
     (let url = rest sg (asc ''/cosmos/tx/v1beta1/txs'');
          body = JObj [(asc ''tx_bytes'', JStr (ck_base64 lb tx_bytes)), (asc ''mode'', JStr (asc ''BROADCAST_MODE_SYNC''))];
          (r, w') = h_post h url body w in
      Some (bindE (ok_or (HttpFailed url) r) (\<lambda>(status, answer).
            bindE (ensure (is_success status) (HttpStatus url status)) (\<lambda>_.
            bindE (ok_or (BadResponse url) answer) (\<lambda>v.
            bindE (ok_or (BadResponse (asc ''tx_response'')) (json_get v (asc ''tx_response''))) (\<lambda>tx_response.
            Inr \<lparr>br_tx_hash = or_default [] (get_str tx_response (asc ''txhash'')),
                 br_code = ucast (or_default 0 (get_u64 tx_response (asc ''code''))),
                 br_raw_log = or_default [] (get_str tx_response (asc ''raw_log''))\<rparr>)))), w'))"

definition sign_and_broadcast ::
  "'k cosmos_libs \<Rightarrow> 'w host \<Rightarrow> 'k cosmos_signer \<Rightarrow> 'k account \<Rightarrow> any_msg \<Rightarrow> bytes \<Rightarrow> u64 \<Rightarrow> 128 word
   \<Rightarrow> ('w, broadcast_result) cli" where
  "sign_and_broadcast lb h sg account msg memo gas_limit fee_amount =
     bindC (fetch_account_info h sg (acc_address account)) (\<lambda>info.
     bindC (liftC (ensure (ck_denom_ok lb (sg_gas_denom sg)) (BadResponse (asc ''gas denom'')))) (\<lambda>_.
     bindC (liftC (ensure (ck_chain_ok lb (sg_chain_id sg)) (BadResponse (asc ''chain id'')))) (\<lambda>_.
     bindC (liftC (ok_or SigningFailed (ck_sign lb (acc_key account) (sg_chain_id sg) (ai_account_number info)
              (ai_sequence info) memo gas_limit (sg_gas_denom sg) fee_amount msg))) (\<lambda>tx_raw_bytes.
     broadcast_tx_bytes lb h sg tx_raw_bytes))))"

definition accepted :: "broadcast_result \<Rightarrow> cli_error + unit" where
  "accepted result = ensure (br_code result = 0) (TxRejected (br_raw_log result) (br_code result))"

text \<open>The result says whether the account was funded, rather than found.\<close>

definition fund_account ::
  "'k cosmos_libs \<Rightarrow> 'w host \<Rightarrow> 'k cosmos_signer \<Rightarrow> bytes \<Rightarrow> 128 word \<Rightarrow> u64 \<Rightarrow> 128 word \<Rightarrow> bool \<Rightarrow> ('w, bool) cli" where
  "fund_account lb h sg to_addr amount gas_limit fee_amount skip_if_exists =
     bindC (if skip_if_exists then account_exists h sg to_addr else retC False) (\<lambda>known.
     if known then retC False
     else
       bindC (liftC (signer_validator sg)) (\<lambda>validator.
       let msg = \<lparr>am_type_url = asc ''/cosmos.bank.v1beta1.MsgSend'',
                  am_value = ck_msg_send lb (acc_address validator) to_addr (sg_gas_denom sg) (decimal (unat amount))\<rparr> in
       bindC (sign_and_broadcast lb h sg validator msg (asc ''bank-send'') gas_limit fee_amount) (\<lambda>result.
       bindC (liftC (accepted result)) (\<lambda>_. retC True))))"

fun proposal_in_attrs :: "json list \<Rightarrow> u64 option" where
  "proposal_in_attrs [] = None"
| "proposal_in_attrs (attr # attrs) =
     (if get_str attr (asc ''key'') = Some (asc ''proposal_id'')
      then or_else (Option.bind (get_str attr (asc ''value'')) parse_u64) (proposal_in_attrs attrs)
      else proposal_in_attrs attrs)"

text \<open>A proposal event without an attribute list ends the search.\<close>

fun proposal_in_events :: "json list \<Rightarrow> u64 option" where
  "proposal_in_events [] = None"
| "proposal_in_events (ev # evs) =
     (if get_str ev (asc ''type'') = Some (asc ''submit_proposal'')
      then (case get_array ev (asc ''attributes'') of
              None \<Rightarrow> None
            | Some attrs \<Rightarrow> or_else (proposal_in_attrs attrs) (proposal_in_events evs))
      else proposal_in_events evs)"

definition extract_proposal_id :: "json \<Rightarrow> u64 option" where
  "extract_proposal_id landed =
     Option.bind (or_else (json_pointer landed [asc ''tx_response'', asc ''events'']) (json_get landed (asc ''events''))) (\<lambda>events.
     Option.bind (json_array events) proposal_in_events)"

definition submit_store_code ::
  "'k cosmos_libs \<Rightarrow> 'w host \<Rightarrow> 'k cosmos_signer \<Rightarrow> bytes \<Rightarrow> bytes \<Rightarrow> bytes \<Rightarrow> 128 word \<Rightarrow> u64 \<Rightarrow> 128 word \<Rightarrow> nat
   \<Rightarrow> ('w, u64) cli" where
  "submit_store_code lb h sg wasm_bytes title summary deposit_amount gas_limit fee_amount wait_timeout =
     bindC (gov_module_address h sg) (\<lambda>gov_addr.
     bindC (liftC (signer_relayer sg)) (\<lambda>relayer.
     let store_code = \<lparr>am_type_url = asc ''/ibc.lightclients.wasm.v1.MsgStoreCode'', am_value = ck_store_code lb gov_addr wasm_bytes\<rparr>;
         msg = \<lparr>am_type_url = asc ''/cosmos.gov.v1.MsgSubmitProposal'',
                am_value = ck_proposal lb store_code (sg_gas_denom sg) (decimal (unat deposit_amount))
                             (acc_address relayer) title summary\<rparr> in
     bindC (sign_and_broadcast lb h sg relayer msg (asc ''upload-lc-wasm'') gas_limit fee_amount) (\<lambda>result.
     bindC (liftC (accepted result)) (\<lambda>_.
     bindC (wait_for_tx h sg (br_tx_hash result) wait_timeout) (\<lambda>landed.
     let landed_code = or_default 0 (Option.bind (json_pointer landed [asc ''tx_response'', asc ''code'']) json_u64) in
     bindC (liftC (ensure (landed_code = 0) (TxFailedOnChain landed_code))) (\<lambda>_.
     liftC (ok_or (BadResponse (asc ''proposal_id'')) (extract_proposal_id landed))))))))"

text \<open>The validator votes, or the relayer when no validator is configured.\<close>

definition vote :: "'k cosmos_libs \<Rightarrow> 'w host \<Rightarrow> 'k cosmos_signer \<Rightarrow> u64 \<Rightarrow> u32 \<Rightarrow> u64 \<Rightarrow> 128 word \<Rightarrow> ('w, unit) cli" where
  "vote lb h sg proposal_id choice gas_limit fee_amount =
     bindC (liftC (case signer_validator sg of Inr a \<Rightarrow> Inr a | Inl _ \<Rightarrow> signer_relayer sg)) (\<lambda>voter.
     let msg = \<lparr>am_type_url = asc ''/cosmos.gov.v1.MsgVote'', am_value = ck_vote lb proposal_id (acc_address voter) choice\<rparr> in
     bindC (sign_and_broadcast lb h sg voter msg (asc ''upload-lc-wasm-vote'') gas_limit fee_amount) (\<lambda>result.
     liftC (accepted result)))"

section \<open>Waiting for a transaction ends\<close>

text \<open>
  The world in which the first successful request of a sequence of polls is made; between two polls
  the tool sleeps.
\<close>

inductive polled :: "'w host \<Rightarrow> 'k cosmos_signer \<Rightarrow> bytes \<Rightarrow> 'w \<Rightarrow> 'w \<Rightarrow> bool" for h sg tx_hash where
  polled_now: "polled h sg tx_hash w w"
| polled_later: "tx_by_hash h sg tx_hash w = (Inl e, w1) \<Longrightarrow> polled h sg tx_hash (h_sleep h d w1) w2
    \<Longrightarrow> polled h sg tx_hash w w2"

lemma tx_by_hash_clock: "clock_law h \<Longrightarrow> tx_by_hash h sg x w = (r, w') \<Longrightarrow> h_now h w \<le> h_now h w'"
  by (auto simp: tx_by_hash_def Let_def split: prod.splits dest: clock_law_get)

lemma wait_tx_loop_returns:
  assumes "clock_law h" and "0 < delay"
  shows "\<exists>r w1 w'. wait_tx_loop h sg x deadline delay w = Some (r, w') \<and> polled h sg x w w1
    \<and> tx_by_hash h sg x w1 = (r, w') \<and> (isl r \<longrightarrow> deadline \<le> h_now h w')"
  using assms(2)
proof (induction "deadline - h_now h w" arbitrary: w delay rule: less_induct)
  case less
  obtain r w1 where tx: "tx_by_hash h sg x w = (r, w1)" by (cases "tx_by_hash h sg x w")
  show ?case
  proof (cases "isl r \<and> h_now h w1 < deadline")
    case False
    then have "wait_tx_loop h sg x deadline delay w = Some (r, w1)"
      by (subst wait_tx_loop.simps) (auto simp: tx)
    then show ?thesis using False tx polled_now by (metis not_less)
  next
    case True
    let ?d = "if delay < 2000 then delay * 2 else delay"
    have "deadline - h_now h (h_sleep h delay w1) < deadline - h_now h w"
      using True less.prems tx_by_hash_clock [OF assms(1) tx] clock_law_sleep [OF assms(1), of w1 delay] by linarith
    moreover have "wait_tx_loop h sg x deadline delay w = wait_tx_loop h sg x deadline ?d (h_sleep h delay w1)"
      using True by (subst wait_tx_loop.simps) (simp add: tx)
    moreover obtain e where "r = Inl e" using True by (cases r) auto
    moreover obtain r' w2 w' where "wait_tx_loop h sg x deadline ?d (h_sleep h delay w1) = Some (r', w')"
      and "polled h sg x (h_sleep h delay w1) w2" "tx_by_hash h sg x w2 = (r', w')" "isl r' \<longrightarrow> deadline \<le> h_now h w'"
    proof -
      have "0 < ?d" using less.prems by simp
      from less.hyps [OF calculation(1) this] show thesis using that by blast
    qed
    ultimately show ?thesis using polled_later [of h sg x w e w1 delay w2] tx by metis
  qed
qed

text \<open>
  Waiting for a transaction ends. When sleeping takes at least the time asked for, the wait for
  a transaction returns. It returns the answer to the last of a sequence of requests of which all
  others failed, and an error only after the deadline.
\<close>

lemma wait_for_tx_returns:
  assumes "clock_law h"
  shows "\<exists>r w1 w'. wait_for_tx h sg tx_hash timeout w = Some (r, w') \<and> polled h sg tx_hash w w1
    \<and> tx_by_hash h sg tx_hash w1 = (r, w') \<and> (isl r \<longrightarrow> h_now h w + timeout \<le> h_now h w')"
  unfolding wait_for_tx_def by (rule wait_tx_loop_returns [OF assms]) simp

text \<open>A machine with nothing but a clock, where a transaction lands after three quarters of a second.\<close>

definition clock_host :: "nat host" where
  "clock_host = \<lparr>h_spawn = (\<lambda>_ _ _ _ w. Some (None, w)), h_read = (\<lambda>_ _. None), h_write = (\<lambda>_ _ _. None),
     h_exists = (\<lambda>_ _. False), h_is_dir = (\<lambda>_ _. False),
     h_get = (\<lambda>_ w. (Some (if w < 750 then (404, None) else (200, Some (JStr [7]))), w + 1)),
     h_post = (\<lambda>_ _ w. (None, w)), h_connect = (\<lambda>_ w. (False, w)), h_sleep = (\<lambda>d w. w + d), h_now = (\<lambda>w. w)\<rparr>"

definition clock_signer :: "unit cosmos_signer" where
  "clock_signer = \<lparr>sg_rest_url = [], sg_chain_id = [], sg_gas_denom = [], sg_relayer = None, sg_validator = None\<rparr>"

lemma clock_host_law: "clock_law clock_host"
  by (simp add: clock_law_def clock_host_def)

lemma wait_for_tx_returns_witness:
  "\<exists>r w'. wait_for_tx clock_host clock_signer [1] 60000 0 = Some (r, w') \<and> (isl r \<longrightarrow> 60000 \<le> w')"
  using wait_for_tx_returns [OF clock_host_law, of clock_signer "[1]" 60000 0] by (fastforce simp: clock_host_def)

section \<open>The signer's requests return\<close>

lemma total_requests [total_intros]:
  "total (node_info_ok h sg)" "total (get_body h url)" "total (account_exists h sg address)" "total (broadcast_tx_bytes lb h sg tx)"
  by (auto simp: total_def node_info_ok_def get_body_def account_exists_def broadcast_tx_bytes_def Let_def split: prod.splits)

lemma total_queries [total_intros]:
  "total (checksums h sg)" "total (fetch_account_info h sg address)" "total (gov_module_address h sg)"
  "total (sign_and_broadcast lb h sg a msg memo gas fee)"
  unfolding checksums_def fetch_account_info_def gov_module_address_def sign_and_broadcast_def
  by (intro total_intros)+

lemma total_wait_for_tx [total_intros]: "clock_law h \<Longrightarrow> total (wait_for_tx h sg x t)"
  using wait_tx_loop_returns [of h 500 sg x] by (fastforce simp: total_def wait_for_tx_def)

lemma total_transactions [total_intros]:
  "total (fund_account lb h sg a amount gas fee skip)" "total (vote lb h sg p choice gas fee)"
  "clock_law h \<Longrightarrow> total (submit_store_code lb h sg wasm title summary deposit gas fee t)"
  unfolding fund_account_def vote_def submit_store_code_def
  by (intro total_intros; assumption?)+

end
