(* ===== verification/Cli_Config.thy ===== *)
theory Cli_Config
  imports Cli_Cosmos
begin

text \<open>
  The configuration of the command-line tool: \<open>config.rs\<close>, the \<open>config.rs\<close> of the services and the
  parts of it that the contract and client commands read. The environment, with the variables of the
  \<open>.env\<close> file loaded over it, is a parameter.
\<close>

section \<open>Services\<close>

datatype client_types = TypeTendermint | TypeAttestation | TypeMock

fun client_type_str :: "client_types \<Rightarrow> bytes" where
  "client_type_str TypeAttestation = asc ''attestation''"
| "client_type_str TypeTendermint = asc ''07-tendermint''"
| "client_type_str TypeMock = asc ''mock''"

record image_ref =
  im_image :: bytes
  im_tag :: bytes
  im_registry :: bytes

definition image_reference :: "image_ref \<Rightarrow> bytes" where
  "image_reference r =
     (if im_registry r = [] then im_image r @ asc '':'' @ im_tag r
      else im_registry r @ asc ''/'' @ im_image r @ asc '':'' @ im_tag r)"

record stellar_config =
  st_chain_id :: bytes
  st_signing_key :: bytes
  st_rpc_url :: bytes
  st_network_passphrase :: bytes
  st_cli_identity :: bytes
  st_key_name :: bytes
  st_gateway_url :: bytes
  st_api_url :: bytes
  st_ibc_router :: bytes
  st_transfer_app :: bytes

definition stellar_from_env :: "(bytes \<rightharpoonup> bytes) \<Rightarrow> stellar_config" where
  "stellar_from_env env =
     (let api_port = cli_get env (asc ''STELLAR_API_PORT'') (asc ''8101'');
          grpc_port = cli_get env (asc ''STELLAR_GATEWAY_GRPC_PORT'') (asc ''50052'') in
      \<lparr>st_chain_id = cli_get env (asc ''STELLAR_CHAIN_ID'') (asc ''stellar-testnet''),
       st_signing_key = cli_get env (asc ''STELLAR_SIGNING_KEY'') [],
       st_rpc_url = cli_get env (asc ''STELLAR_RPC_URL'') (asc ''https://soroban-testnet.stellar.org''),
       st_network_passphrase = cli_get env (asc ''NETWORK_PASSPHRASE'') (asc ''Test SDF Network ; September 2015''),
       st_cli_identity = cli_get env (asc ''DEPLOYER_IDENTITY'') (asc ''admin''),
       st_key_name = cli_get env (asc ''STELLAR_KEY_NAME'') (asc ''stellar-relayer''),
       st_gateway_url = cli_get env (asc ''STELLAR_GATEWAY_URL'') (asc ''127.0.0.1:'' @ grpc_port),
       st_api_url = cli_get env (asc ''STELLAR_API_URL'') (asc ''http://127.0.0.1:'' @ api_port),
       st_ibc_router = cli_get env (asc ''STELLAR_ROUTER_CONTRACT'') [],
       st_transfer_app = cli_get env (asc ''STELLAR_TRANSFER_CONTRACT'') []\<rparr>)"

record hermes_config =
  he_image :: image_ref
  he_config :: bytes
  he_config_path :: bytes
  he_repo_url :: bytes
  he_branch :: bytes

definition hermes_from_env :: "(bytes \<rightharpoonup> bytes) \<Rightarrow> bytes \<Rightarrow> hermes_config" where
  "hermes_from_env env root =
     (let branch = cli_get env (asc ''HERMES_BRANCH'') (asc ''main'') in
      \<lparr>he_image = \<lparr>im_image = cli_get env (asc ''HERMES_IMAGE'') (asc ''amandagonsalvesx/stellar-hermes-cardano''),
                  im_tag = cli_get env (asc ''HERMES_TAG'') (asc ''latest''),
                  im_registry = cli_get env (asc ''HERMES_REGISTRY'') []\<rparr>,
       he_config = path_join root (asc ''hermes-config.toml''),
       he_config_path = cli_get env (asc ''HERMES_CONFIG_PATH'') (asc ''/home/hermes/.hermes/config.toml''),
       he_repo_url = cli_get env (asc ''HERMES_REPO_URL'') [],
       he_branch = (if trim branch = [] then asc ''main'' else branch)\<rparr>)"

definition gateway_image_from_env :: "(bytes \<rightharpoonup> bytes) \<Rightarrow> image_ref" where
  "gateway_image_from_env env =
     \<lparr>im_image = cli_get env (asc ''GATEWAY_IMAGE'') (asc ''amandagonsalvesx/stellar-eureka-gateway''),
      im_tag = cli_get env (asc ''GATEWAY_TAG'') (asc ''latest''),
      im_registry = cli_get env (asc ''GATEWAY_REGISTRY'') []\<rparr>"

section \<open>The configuration (\<open>config.rs\<close>)\<close>

record deployment_config =
  dp_ibc_router :: bytes
  dp_transfer_app :: bytes
  dp_deployer_address :: bytes
  dp_transfer_port :: bytes
  dp_mock_client_type :: bytes
  dp_attestation_client_type :: bytes
  dp_tendermint_client_type :: bytes
  dp_cosmos_client_id :: bytes
  dp_stellar_client_id :: bytes

definition non_empty :: "bytes \<Rightarrow> bytes option" where
  "non_empty v = (if v = [] then None else Some v)"

definition cosmos_client :: "deployment_config \<Rightarrow> bytes option" where
  "cosmos_client d = non_empty (dp_cosmos_client_id d)"

definition stellar_client :: "deployment_config \<Rightarrow> bytes option" where
  "stellar_client d = non_empty (dp_stellar_client_id d)"

record accounts_config =
  ac_stellar_sender_identity :: bytes
  ac_stellar_sender_address :: bytes
  ac_stellar_receiver_identity :: bytes
  ac_stellar_receiver_address :: bytes
  ac_cosmos_sender_key_name :: bytes
  ac_cosmos_sender_address :: bytes
  ac_cosmos_receiver_key_name :: bytes
  ac_cosmos_receiver_address :: bytes

definition accounts_from_env :: "(bytes \<rightharpoonup> bytes) \<Rightarrow> accounts_config" where
  "accounts_from_env env = \<lparr>
     ac_stellar_sender_identity = cli_get env (asc ''STELLAR_SENDER_IDENTITY'') (asc ''stellar-sender''),
     ac_stellar_sender_address = cli_get env (asc ''STELLAR_SENDER_ADDRESS'') [],
     ac_stellar_receiver_identity = cli_get env (asc ''STELLAR_RECEIVER_IDENTITY'') (asc ''stellar-receiver''),
     ac_stellar_receiver_address = cli_get env (asc ''STELLAR_RECEIVER_ADDRESS'') [],
     ac_cosmos_sender_key_name = cli_get env (asc ''COSMOS_SENDER_KEY_NAME'') (asc ''cosmos-sender''),
     ac_cosmos_sender_address = cli_get env (asc ''COSMOS_SENDER_ADDRESS'') [],
     ac_cosmos_receiver_key_name = cli_get env (asc ''COSMOS_RECEIVER_KEY_NAME'') (asc ''cosmos-receiver''),
     ac_cosmos_receiver_address = cli_get env (asc ''COSMOS_RECEIVER_ADDRESS'') []\<rparr>"

record cli_config =
  cg_cosmos :: cosmos_config
  cg_stellar :: stellar_config
  cg_hermes :: hermes_config
  cg_api :: image_ref
  cg_gateway :: image_ref
  cg_deployment :: deployment_config
  cg_accounts :: accounts_config

definition deployment_from_env :: "(bytes \<rightharpoonup> bytes) \<Rightarrow> deployment_config" where
  "deployment_from_env env = \<lparr>
     dp_ibc_router = cli_get env (asc ''ROUTER_CONTRACT_ADDRESS'') [],
     dp_transfer_app = cli_get env (asc ''TRANSFER_CONTRACT_ADDRESS'') [],
     dp_deployer_address = cli_get env (asc ''DEPLOYER_ADDRESS'') [],
     dp_transfer_port = cli_get env (asc ''TRANSFER_PORT'') (asc ''transfer''),
     dp_mock_client_type = cli_get env (asc ''MOCK_CLIENT_TYPE'') (client_type_str TypeMock),
     dp_attestation_client_type = cli_get env (asc ''ATTESTATION_CLIENT_TYPE'') (client_type_str TypeAttestation),
     dp_tendermint_client_type = cli_get env (asc ''TENDERMINT_CLIENT_TYPE'') (client_type_str TypeTendermint),
     dp_cosmos_client_id = cli_get env (asc ''COSMOS_CLIENT_ID'') [],
     dp_stellar_client_id = cli_get env (asc ''STELLAR_CLIENT_ID'') []\<rparr>"

definition config_load :: "(bytes \<rightharpoonup> bytes) \<Rightarrow> bytes \<Rightarrow> cli_config" where
  "config_load env root = \<lparr>
     cg_cosmos = cosmos_devnet env, cg_stellar = stellar_from_env env, cg_hermes = hermes_from_env env root,
     cg_api = \<lparr>im_image = cli_get env (asc ''API_IMAGE'') (asc ''amandagonsalvesx/stellar-eureka-api''),
               im_tag = cli_get env (asc ''API_TAG'') (asc ''latest''), im_registry = cli_get env (asc ''API_REGISTRY'') []\<rparr>,
     cg_gateway = gateway_image_from_env env, cg_deployment = deployment_from_env env, cg_accounts = accounts_from_env env\<rparr>"

definition api_health_url :: "cli_config \<Rightarrow> bytes" where
  "api_health_url cfg = st_api_url (cg_stellar cfg) @ asc ''/health''"

section \<open>What the commands read (\<open>tx/contracts/config.rs\<close>, \<open>tx/clients/config.rs\<close>)\<close>

record contracts_config =
  cc_rpc_url :: bytes
  cc_network_passphrase :: bytes
  cc_signing_key :: bytes
  cc_deployer_address :: bytes
  cc_ibc_router :: bytes
  cc_transfer_port :: bytes
  cc_mock_client_type :: bytes
  cc_attestation_client_type :: bytes
  cc_tendermint_client_type :: bytes
  cc_hermes_config :: bytes

definition contracts_config_of :: "cli_config \<Rightarrow> contracts_config" where
  "contracts_config_of cfg =
     (let s = cg_stellar cfg; d = cg_deployment cfg in
      \<lparr>cc_rpc_url = st_rpc_url s, cc_network_passphrase = st_network_passphrase s, cc_signing_key = st_signing_key s,
       cc_deployer_address = dp_deployer_address d, cc_ibc_router = dp_ibc_router d, cc_transfer_port = dp_transfer_port d,
       cc_mock_client_type = dp_mock_client_type d, cc_attestation_client_type = dp_attestation_client_type d,
       cc_tendermint_client_type = dp_tendermint_client_type d, cc_hermes_config = he_config (cg_hermes cfg)\<rparr>)"

definition net_flags :: "contracts_config \<Rightarrow> bytes list" where
  "net_flags cfg = [asc ''--rpc-url'', cc_rpc_url cfg, asc ''--network-passphrase'', cc_network_passphrase cfg]"

fun config_client_type :: "contracts_config \<Rightarrow> client_types \<Rightarrow> bytes" where
  "config_client_type cfg TypeMock = cc_mock_client_type cfg"
| "config_client_type cfg TypeAttestation = cc_attestation_client_type cfg"
| "config_client_type cfg TypeTendermint = cc_tendermint_client_type cfg"

record clients_config =
  cl_stellar_chain_id :: bytes
  cl_cosmos_chain_id :: bytes
  cl_gateway_url :: bytes
  cl_cosmos_rpc_url :: bytes
  cl_api_url :: bytes
  cl_hermes_config :: bytes
  cl_hermes_config_path :: bytes
  cl_cosmos_client :: "bytes option"
  cl_stellar_client :: "bytes option"

definition clients_config_of :: "cli_config \<Rightarrow> clients_config" where
  "clients_config_of cfg = \<lparr>
     cl_stellar_chain_id = st_chain_id (cg_stellar cfg), cl_cosmos_chain_id = co_chain_id (cg_cosmos cfg),
     cl_gateway_url = st_gateway_url (cg_stellar cfg), cl_cosmos_rpc_url = co_rpc_url (cg_cosmos cfg),
     cl_api_url = st_api_url (cg_stellar cfg), cl_hermes_config = he_config (cg_hermes cfg),
     cl_hermes_config_path = he_config_path (cg_hermes cfg),
     cl_cosmos_client = cosmos_client (cg_deployment cfg), cl_stellar_client = stellar_client (cg_deployment cfg)\<rparr>"

definition cosmos_status_url :: "clients_config \<Rightarrow> bytes" where
  "cosmos_status_url cfg = cl_cosmos_rpc_url cfg @ asc ''/status''"

text \<open>
  The check command reports \<open>ROUTER_CONTRACT_ADDRESS\<close> from a field that another variable fills, so the
  report does not depend on the variable it names.
\<close>

lemma check_reads_other_variable:
  "st_ibc_router (cg_stellar (config_load (env(asc ''ROUTER_CONTRACT_ADDRESS'' := v)) root))
     = st_ibc_router (cg_stellar (config_load env root))"
  by (simp add: config_load_def stellar_from_env_def cli_get_def asc_def)

text \<open>Unlike the services, the tool takes an empty variable for a value, not for a missing one.\<close>

lemma empty_variable_differs:
  assumes "env key = Some []" and "dflt \<noteq> []"
  shows "cli_get env key dflt = []" "env_or env key dflt = dflt"
  using assms by (simp_all add: cli_get_def env_or_def cleaned_def trim_def strip_both_def)

end
