(* ===== verification/Cli_Contracts.thy ===== *)
theory Cli_Contracts
  imports Cli_Config
begin

text \<open>
  The contract commands of the tool, \<open>tx/contracts/mod.rs\<close>, \<open>build.rs\<close>, \<open>upload.rs\<close> and \<open>deploy_all.rs\<close>:
  building, uploading, deploying and invoking Soroban contracts through the \<open>stellar\<close> program.
\<close>

section \<open>Building and uploading\<close>

definition SOROBAN_WASMS :: "bytes list" where
  "SOROBAN_WASMS = [asc ''stellar_mock_light_client'', asc ''stellar_ibc_router'', asc ''stellar_ibc_transfer'',
     asc ''stellar_tendermint_light_client'', asc ''stellar_attestation_light_client'']"

definition wasm_dir :: "bytes \<Rightarrow> bytes" where
  "wasm_dir root = path_join root (asc ''contracts/soroban/target/wasm32v1-none/contract'')"

definition wasm_path :: "bytes \<Rightarrow> bytes \<Rightarrow> bytes" where
  "wasm_path root name = path_join (wasm_dir root) (name @ asc ''.wasm'')"

definition contracts_build :: "'w host \<Rightarrow> bytes \<Rightarrow> ('w, unit) cli" where
  "contracts_build h root =
     run_command h (path_join root (asc ''contracts/soroban'')) (asc ''stellar'')
       [asc ''contract'', asc ''build'', asc ''--profile'', asc ''contract'']"

text \<open>The hash is printed.\<close>

definition contracts_upload :: "'w host \<Rightarrow> contracts_config \<Rightarrow> bytes \<Rightarrow> bytes \<Rightarrow> ('w, bytes) cli" where
  "contracts_upload h cfg root wasm =
     bindC (run_capture h root (asc ''stellar'')
       ([asc ''contract'', asc ''upload'', asc ''--source'', cc_signing_key cfg] @ net_flags cfg @ [asc ''--wasm'', wasm])) (\<lambda>out.
     retC (last_line out))"

definition upload_all :: "'w host \<Rightarrow> contracts_config \<Rightarrow> bytes \<Rightarrow> ('w, unit) cli" where
  "upload_all h cfg root =
     bindC (contracts_build h root) (\<lambda>_.
     forC (\<lambda>name. bindC (contracts_upload h cfg root (wasm_path root name)) (\<lambda>_. retC ())) SOROBAN_WASMS)"

section \<open>Deploying and invoking\<close>

definition stellar_base_as :: "contracts_config \<Rightarrow> bytes \<Rightarrow> bytes \<Rightarrow> bytes list" where
  "stellar_base_as cfg sub source = [asc ''contract'', sub, asc ''--source'', source] @ net_flags cfg"

definition stellar_base :: "contracts_config \<Rightarrow> bytes \<Rightarrow> bytes list" where
  "stellar_base cfg sub = stellar_base_as cfg sub (cc_signing_key cfg)"

definition deploy_args :: "contracts_config \<Rightarrow> bytes \<Rightarrow> bytes list \<Rightarrow> bytes list" where
  "deploy_args cfg wasm ctor =
     stellar_base cfg (asc ''deploy'') @ [asc ''--wasm'', wasm] @ (if ctor \<noteq> [] then asc ''--'' # ctor else [])"

definition deploy :: "'w host \<Rightarrow> contracts_config \<Rightarrow> bytes \<Rightarrow> bytes \<Rightarrow> bytes list \<Rightarrow> ('w, bytes) cli" where
  "deploy h cfg root wasm ctor =
     bindC (run_capture h root (asc ''stellar'') (deploy_args cfg wasm ctor)) (\<lambda>out. retC (last_line out))"

definition MAX_ATTEMPTS :: nat where
  "MAX_ATTEMPTS = 6"

text \<open>\<open>left\<close> counts the attempts that remain after this one; a stale sequence number is worth another.\<close>

fun retry_loop :: "'w host \<Rightarrow> bytes \<Rightarrow> bytes list \<Rightarrow> nat \<Rightarrow> ('w, unit) cli" where
  "retry_loop h root refs left w =
     bindC (tryC (run_capture_all h root (asc ''stellar'') refs)) (\<lambda>outcome.
     case outcome of
       Inr _ \<Rightarrow> retC ()
     | Inl error \<Rightarrow>
         if contains (asc ''TxBadSeq'') (process_error error) \<and> 0 < left
         then (\<lambda>w1. retry_loop h root refs (left - 1) (h_sleep h 4000 w1))
         else liftC (Inl error)) w"

declare retry_loop.simps [simp del]

definition invoke_with_seq_retry :: "'w host \<Rightarrow> bytes \<Rightarrow> bytes list \<Rightarrow> ('w, unit) cli" where
  "invoke_with_seq_retry h root refs = retry_loop h root refs (MAX_ATTEMPTS - 1)"

definition invoke_args :: "contracts_config \<Rightarrow> bytes \<Rightarrow> bytes list \<Rightarrow> bytes \<Rightarrow> bytes list" where
  "invoke_args cfg contract call source =
     stellar_base_as cfg (asc ''invoke'') source @ [asc ''--id'', contract, asc ''--''] @ call"

definition invoke_as :: "'w host \<Rightarrow> contracts_config \<Rightarrow> bytes \<Rightarrow> bytes \<Rightarrow> bytes list \<Rightarrow> bytes \<Rightarrow> ('w, unit) cli" where
  "invoke_as h cfg root contract call source = invoke_with_seq_retry h root (invoke_args cfg contract call source)"

definition invoke :: "'w host \<Rightarrow> contracts_config \<Rightarrow> bytes \<Rightarrow> bytes \<Rightarrow> bytes list \<Rightarrow> ('w, unit) cli" where
  "invoke h cfg root contract call = invoke_as h cfg root contract call (cc_signing_key cfg)"

section \<open>Deployments (\<open>deploy_all.rs\<close>)\<close>

text \<open>The address of a secret key, an error for a malformed one, is the parameter \<open>key_address\<close>.\<close>

definition deployer_address :: "(bytes \<Rightarrow> bytes option) \<Rightarrow> contracts_config \<Rightarrow> cli_error + bytes" where
  "deployer_address key_address cfg =
     (if cc_deployer_address cfg \<noteq> [] then Inr (cc_deployer_address cfg)
      else ok_or (InvalidKey (asc ''STELLAR_SIGNING_KEY'')) (key_address (cc_signing_key cfg)))"

definition register_type_call :: "bytes \<Rightarrow> bytes \<Rightarrow> bytes list" where
  "register_type_call client_type lc =
     [asc ''register_client_type'', asc ''--client_type'', client_type, asc ''--lc_address'', lc]"

definition register_port_call :: "bytes \<Rightarrow> bytes \<Rightarrow> bytes list" where
  "register_port_call port app = [asc ''register_port'', asc ''--port_id'', port, asc ''--app_address'', app]"

definition deploy_all ::
  "'w host \<Rightarrow> (bytes \<Rightarrow> bytes option) \<Rightarrow> contracts_config \<Rightarrow> bytes \<Rightarrow> bool \<Rightarrow> bool \<Rightarrow> ('w, bool) cli" where
  "deploy_all h key_address cfg root force attestation =
     bindC (liftC (ensure (cc_signing_key cfg \<noteq> []) (Unset (asc ''STELLAR_SIGNING_KEY'')))) (\<lambda>_.
     if cc_ibc_router cfg \<noteq> [] \<and> \<not> force then retC False
     else
       bindC (contracts_build h root) (\<lambda>_.
       bindC (liftC (deployer_address key_address cfg)) (\<lambda>deployer.
       bindC (deploy h cfg root (wasm_path root (asc ''stellar_mock_light_client'')) []) (\<lambda>mock.
       bindC (deploy h cfg root (wasm_path root (asc ''stellar_ibc_router'')) [asc ''--admin'', deployer]) (\<lambda>router.
       bindC (deploy h cfg root (wasm_path root (asc ''stellar_ibc_transfer''))
                [asc ''--router'', router, asc ''--admin'', deployer]) (\<lambda>transfer.
       bindC (if attestation then deploy h cfg root (wasm_path root (asc ''stellar_attestation_light_client'')) []
              else retC []) (\<lambda>attestation_id.
       bindC (deploy h cfg root (wasm_path root (asc ''stellar_tendermint_light_client'')) []) (\<lambda>tendermint_id.
       bindC (invoke h cfg root router (register_type_call (config_client_type cfg TypeMock) mock)) (\<lambda>_.
       bindC (if attestation_id \<noteq> []
              then invoke h cfg root router (register_type_call (config_client_type cfg TypeAttestation) attestation_id)
              else retC ()) (\<lambda>_.
       bindC (invoke h cfg root router (register_type_call (config_client_type cfg TypeTendermint) tendermint_id)) (\<lambda>_.
       bindC (invoke h cfg root router (register_port_call (cc_transfer_port cfg) transfer)) (\<lambda>_.
       bindC (env_upsert h (path_join root (asc ''.env''))
                [(asc ''ROUTER_CONTRACT_ADDRESS'', router), (asc ''TRANSFER_CONTRACT_ADDRESS'', transfer),
                 (asc ''MOCK_LC_CONTRACT_ID'', mock), (asc ''ATTESTATION_LC_CONTRACT_ID'', attestation_id),
                 (asc ''TENDERMINT_LC_CONTRACT_ID'', tendermint_id), (asc ''DEPLOYER_ADDRESS'', deployer)]) (\<lambda>_.
       retC True)))))))))))))"

definition deploy_one ::
  "'w host \<Rightarrow> (bytes \<Rightarrow> bytes option) \<Rightarrow> contracts_config \<Rightarrow> bytes \<Rightarrow> bytes \<Rightarrow> ('w, bytes) cli" where
  "deploy_one h key_address cfg root name =
     bindC (liftC (ensure (name \<in> set SOROBAN_WASMS) (UnknownContract name))) (\<lambda>_.
     bindC (contracts_build h root) (\<lambda>_.
     bindC (liftC (deployer_address key_address cfg)) (\<lambda>deployer.
     bindC (if name = asc ''stellar_ibc_router'' then retC [asc ''--admin'', deployer]
            else if name = asc ''stellar_ibc_transfer'' then
              bindC (liftC (ensure (cc_ibc_router cfg \<noteq> []) (Unset (asc ''ROUTER_CONTRACT_ADDRESS'')))) (\<lambda>_.
              retC [asc ''--router'', cc_ibc_router cfg, asc ''--admin'', deployer])
            else retC []) (\<lambda>ctor.
     deploy h cfg root (wasm_path root name) ctor))))"

section \<open>Retries\<close>

lemma spawn_Inr: "spawn h root p args input w = Some (Inr x, w') \<longleftrightarrow> h_spawn h root p args input w = Some (Some x, w')"
  by (auto simp: spawn_def bindE_simps)

lemma run_capture_all_cases:
  "run_capture_all h root p args w = Some (r, w') \<Longrightarrow>
   \<exists>o'. h_spawn h root p args [] w = Some (o', w') \<and> ((\<exists>x. o' = Some x \<and> ex_success x) \<longleftrightarrow> (\<exists>b. r = Inr b))"
  by (cases "h_spawn h root p args [] w")
     (auto simp: run_capture_all_def spawn_def bindC_def ok_or_def ensure_def liftC_def retC_def Let_def
       split: option.splits if_splits sum.splits)

text \<open>What failed attempts and pauses keep holds before the attempt that succeeds.\<close>

lemma retry_loop_succeeds:
  assumes fails: "\<And>v r v'. h_spawn h root (asc ''stellar'') refs [] v = Some (r, v') \<Longrightarrow> \<not> (\<exists>x. r = Some x \<and> ex_success x) \<Longrightarrow> P v \<Longrightarrow> P v'"
    and sleeps: "\<And>d v. P v \<Longrightarrow> P (h_sleep h d v)"
    and "P w" "retry_loop h root refs left w = Some (Inr (), w')"
  shows "\<exists>v x. P v \<and> h_spawn h root (asc ''stellar'') refs [] v = Some (Some x, w') \<and> ex_success x"
  using assms(3,4)
proof (induction left arbitrary: w rule: less_induct)
  case (less left)
  obtain r w1 where r: "run_capture_all h root (asc ''stellar'') refs w = Some (r, w1)"
    using less.prems(2) by (subst (asm) retry_loop.simps) (auto simp: bindE_simps)
  obtain o' where o': "h_spawn h root (asc ''stellar'') refs [] w = Some (o', w1)"
    "(\<exists>x. o' = Some x \<and> ex_success x) \<longleftrightarrow> (\<exists>b. r = Inr b)"
    using run_capture_all_cases [OF r] by (elim exE conjE) (rule that)
  show ?case
  proof (cases r)
    case (Inr b)
    then have "w' = w1" using less.prems(2) by (subst (asm) retry_loop.simps) (auto simp: r bindE_simps)
    then show ?thesis using o' Inr less.prems(1) by blast
  next
    case (Inl e)
    then have "P w1" using fails o' less.prems(1) by (metis Inl_Inr_False)
    moreover have "0 < left" "retry_loop h root refs (left - 1) (h_sleep h 4000 w1) = Some (Inr (), w')"
      using less.prems(2) Inl by (subst (asm) retry_loop.simps, auto simp: r bindE_simps split: if_splits)+
    ultimately show ?thesis using less.IH [of "left - 1" "h_sleep h 4000 w1"] sleeps by simp
  qed
qed

section \<open>Every contract command returns\<close>

lemma total_retry_loop [total_intros]: "programs_return h \<Longrightarrow> total (retry_loop h root refs left)"
proof (induction left rule: less_induct)
  case (less left)
  have "total (\<lambda>w. retry_loop h root refs (left - 1) (h_sleep h 4000 w))" if "0 < left"
    using less.IH [of "left - 1"] less.prems that by (simp add: total_def)
  with less.prems have "total (bindC (tryC (run_capture_all h root (asc ''stellar'') refs)) (\<lambda>outcome. case outcome of
      Inr _ \<Rightarrow> retC ()
    | Inl error \<Rightarrow>
        if contains (asc ''TxBadSeq'') (process_error error) \<and> 0 < left
        then (\<lambda>w1. retry_loop h root refs (left - 1) (h_sleep h 4000 w1)) else liftC (Inl error)))"
    by (intro total_intros) simp_all
  then show ?case by (simp add: total_def retry_loop.simps [of h root refs left])
qed

lemma total_contracts [total_intros]:
  assumes "programs_return h"
  shows "total (contracts_build h root)" "total (contracts_upload h cfg root wasm)" "total (deploy h cfg root wasm ctor)"
    "total (invoke_as h cfg root contract call source)" "total (invoke h cfg root contract call)"
  unfolding contracts_build_def contracts_upload_def deploy_def invoke_def invoke_as_def invoke_with_seq_retry_def
  using assms by (intro total_intros; assumption?)+

lemma total_deployments [total_intros]:
  assumes "programs_return h"
  shows "total (upload_all h cfg root)" "total (deploy_all h key_address cfg root force attestation)"
  "total (deploy_one h key_address cfg root name)"
  unfolding upload_all_def deploy_all_def deploy_one_def using assms by (intro total_intros; assumption?)+

end
