(* ===== verification/Cli_Deployment.thy ===== *)
theory Cli_Deployment
  imports Cli_Contracts Router_Properties
begin

text \<open>
  What a deployment with the tool leaves behind, over the contracts of this development: when the
  \<open>stellar\<close> program does what it reports, the router whose address is written to the \<open>.env\<close> file has
  been constructed for the deployer, knows the light clients and the transfer application, and has
  been run by registration calls only.
\<close>

section \<open>The \<open>stellar\<close> program\<close>

text \<open>The calls of the router as the program takes them on its command line; \<open>addr\<close> reads an address.\<close>

definition router_args :: "(bytes \<Rightarrow> address) \<Rightarrow> bytes list \<Rightarrow> router_call option" where
  "router_args addr call =
     (case call of
        [f, n1, v1, n2, v2] \<Rightarrow>
          if f = asc ''register_client_type'' \<and> n1 = asc ''--client_type'' \<and> n2 = asc ''--lc_address''
          then Some (RegisterClientType v1 (addr v2))
          else if f = asc ''register_port'' \<and> n1 = asc ''--port_id'' \<and> n2 = asc ''--app_address''
          then Some (RegisterPort v1 (addr v2)) else None
      | _ \<Rightarrow> None)"

text \<open>
  The router a deployment constructs. \<open>led w\<close> are the routers on the ledger of a world, by contract
  address.
\<close>

definition deployed_router :: "(bytes \<Rightarrow> address) \<Rightarrow> bytes \<Rightarrow> bytes \<Rightarrow> bytes list \<Rightarrow> router_state option" where
  "deployed_router addr root wasm ctor =
     (case ctor of
        [n, admin] \<Rightarrow> if wasm = wasm_path root (asc ''stellar_ibc_router'') \<and> n = asc ''--admin''
                      then Some (router_constructor (addr admin)) else None
      | _ \<Rightarrow> None)"

definition env_file :: "bytes \<Rightarrow> bytes" where
  "env_file root = path_join root (asc ''.env'')"

definition kept :: "'w host \<Rightarrow> ('w \<Rightarrow> bytes \<rightharpoonup> router_state) \<Rightarrow> bytes \<Rightarrow> 'w \<Rightarrow> 'w \<Rightarrow> bool" where
  "kept h led root w w' \<longleftrightarrow> led w' = led w \<and> h_read h (env_file root) w' = h_read h (env_file root) w"

text \<open>
  What the tool relies on. A successful deployment prints the address of the new contract in its last
  line and has constructed it; a successful registration has been executed by the router; a command
  that fails, a build and a pause leave the ledger alone; and the program leaves the \<open>.env\<close> file alone.
\<close>

definition deploy_law where
  "deploy_law h addr led cfg root \<longleftrightarrow>
     (\<forall>wasm ctor w x w'. h_spawn h root (asc ''stellar'') (deploy_args cfg wasm ctor) [] w = Some (Some x, w') \<and> ex_success x \<longrightarrow>
        (let a = last_line (trim (ex_stdout x)) in
         line_ok a \<and> a \<noteq> []
         \<and> led w' = (case deployed_router addr root wasm ctor of Some s \<Rightarrow> (led w)(a \<mapsto> s) | None \<Rightarrow> led w)
         \<and> h_read h (env_file root) w' = h_read h (env_file root) w))"

definition invoke_law where
  "invoke_law sha ce ext h addr led cfg root \<longleftrightarrow>
     (\<forall>contract call source w r w'.
        h_spawn h root (asc ''stellar'') (invoke_args cfg contract call source) [] w = Some (r, w') \<longrightarrow>
        (if \<exists>x. r = Some x \<and> ex_success x
         then \<forall>c. router_args addr call = Some c \<longrightarrow>
           (\<exists>s e ret s'. led w contract = Some s \<and> router_exec sha ce e c s ext = Inr (ret, s', ext)
              \<and> led w' = (led w)(contract \<mapsto> s') \<and> h_read h (env_file root) w' = h_read h (env_file root) w)
         else kept h led root w w'))"

definition stellar_law ::
  "(bytes \<Rightarrow> bytes) \<Rightarrow> 'x callees \<Rightarrow> 'x \<Rightarrow> 'w host \<Rightarrow> (bytes \<Rightarrow> address) \<Rightarrow> ('w \<Rightarrow> bytes \<rightharpoonup> router_state)
   \<Rightarrow> contracts_config \<Rightarrow> bytes \<Rightarrow> bool" where
  "stellar_law sha ce ext h addr led cfg root \<longleftrightarrow>
     deploy_law h addr led cfg root \<and> invoke_law sha ce ext h addr led cfg root
   \<and> (\<forall>w r w'. h_spawn h (path_join root (asc ''contracts/soroban'')) (asc ''stellar'')
        [asc ''contract'', asc ''build'', asc ''--profile'', asc ''contract''] [] w = Some (r, w') \<longrightarrow> kept h led root w w')
   \<and> (\<forall>d w. kept h led root w (h_sleep h d w))"

text \<open>A written file is read back, and is not on the ledger.\<close>

definition file_law :: "'w host \<Rightarrow> ('w \<Rightarrow> bytes \<rightharpoonup> router_state) \<Rightarrow> bool" where
  "file_law h led \<longleftrightarrow> (\<forall>path content w w'. h_write h path content w = Some w' \<longrightarrow>
     h_read h path w' = Some content \<and> led w' = led w)"

text \<open>
  \<open>code w\<close> is the ledger's record of the contracts ever created on it: for each contract the code file
  and the constructor arguments it was created from. Contracts are never removed from it, whoever
  acts. A successful deployment has created a contract at an address that had none.
\<close>

definition code_law :: "'w host \<Rightarrow> ('w \<Rightarrow> bytes \<rightharpoonup> bytes \<times> bytes list) \<Rightarrow> contracts_config \<Rightarrow> bytes \<Rightarrow> bool" where
  "code_law h code cfg root \<longleftrightarrow>
     (\<forall>wasm ctor w x w'. h_spawn h root (asc ''stellar'') (deploy_args cfg wasm ctor) [] w = Some (Some x, w') \<and> ex_success x \<longrightarrow>
        (let a = last_line (trim (ex_stdout x)) in code w a = None \<and> code w' a = Some (wasm, ctor)))
   \<and> (\<forall>d p args input w r w'. h_spawn h d p args input w = Some (r, w') \<longrightarrow> code w \<subseteq>\<^sub>m code w')
   \<and> (\<forall>d w. code w \<subseteq>\<^sub>m code (h_sleep h d w))
   \<and> (\<forall>path content w w'. h_write h path content w = Some w' \<longrightarrow> code w \<subseteq>\<^sub>m code w')"

section \<open>Effects of the commands\<close>

lemma kept_trans: "kept h led root w w' \<Longrightarrow> kept h led root w' w'' \<Longrightarrow> kept h led root w w''"
  by (simp add: kept_def)

lemma deploy_effect:
  assumes "deploy_law h addr led cfg root" "deploy h cfg root wasm ctor w = Some (Inr a, w')"
  shows "line_ok a \<and> a \<noteq> []
    \<and> led w' = (case deployed_router addr root wasm ctor of Some s \<Rightarrow> (led w)(a \<mapsto> s) | None \<Rightarrow> led w)
    \<and> h_read h (env_file root) w' = h_read h (env_file root) w"
  using assms unfolding deploy_law_def deploy_def run_capture_def
  by (fastforce simp: bindE_simps spawn_Inr Let_def)

lemma build_effect:
  assumes "stellar_law sha ce ext h addr led cfg root" "contracts_build h root w = Some (Inr (), w')"
  shows "kept h led root w w'"
  using assms unfolding stellar_law_def contracts_build_def run_command_def
  by (fastforce simp: bindE_simps spawn_Inr)

definition registered where
  "registered sha ce ext h led root contract c w w' \<longleftrightarrow>
     (\<exists>s e ret s'. led w contract = Some s \<and> router_exec sha ce e c s ext = Inr (ret, s', ext)
        \<and> led w' = (led w)(contract \<mapsto> s') \<and> h_read h (env_file root) w' = h_read h (env_file root) w)"

lemma registered_kept:
  "kept h led root w w1 \<Longrightarrow> registered sha ce ext h led root contract c w1 w' \<Longrightarrow>
   registered sha ce ext h led root contract c w w'"
  by (simp add: registered_def kept_def)

lemma invoke_law_cases:
  assumes "invoke_law sha ce ext h addr led cfg root"
    "h_spawn h root (asc ''stellar'') (invoke_args cfg contract call source) [] w = Some (r, w')"
  shows "r = Some x \<Longrightarrow> ex_success x \<Longrightarrow> router_args addr call = Some c \<Longrightarrow> registered sha ce ext h led root contract c w w'"
    and "\<not> (\<exists>x. r = Some x \<and> ex_success x) \<Longrightarrow> kept h led root w w'"
  using assms(1) [unfolded invoke_law_def, rule_format, OF assms(2)] by (auto simp: registered_def)

lemma retry_effect:
  assumes "stellar_law sha ce ext h addr led cfg root" "router_args addr call = Some c"
    "retry_loop h root (invoke_args cfg contract call source) left w = Some (Inr (), w')"
  shows "registered sha ce ext h led root contract c w w'"
proof -
  have law: "invoke_law sha ce ext h addr led cfg root" and sleep: "kept h led root v (h_sleep h d v)" for d v
    using assms(1) by (simp_all add: stellar_law_def)
  have "\<exists>v x. kept h led root w v
      \<and> h_spawn h root (asc ''stellar'') (invoke_args cfg contract call source) [] v = Some (Some x, w') \<and> ex_success x"
  proof (rule retry_loop_succeeds [OF _ _ _ assms(3), where P = "kept h led root w"])
    show "kept h led root w v'"
      if "h_spawn h root (asc ''stellar'') (invoke_args cfg contract call source) [] v = Some (r, v')"
        "\<not> (\<exists>x. r = Some x \<and> ex_success x)" "kept h led root w v" for v r v'
      by (rule kept_trans [OF that(3) invoke_law_cases(2) [OF law that(1,2)]])
    show "kept h led root w (h_sleep h d v)" if "kept h led root w v" for d v by (rule kept_trans [OF that sleep])
  qed (simp add: kept_def)
  then obtain v x where v: "kept h led root w v" "ex_success x"
    "h_spawn h root (asc ''stellar'') (invoke_args cfg contract call source) [] v = Some (Some x, w')" by (elim exE conjE) (rule that)
  show ?thesis by (rule registered_kept [OF v(1) invoke_law_cases(1) [OF law v(3) refl v(2) assms(2)]])
qed

lemma invoke_effect:
  assumes "stellar_law sha ce ext h addr led cfg root" "router_args addr call = Some c"
    "invoke h cfg root contract call w = Some (Inr (), w')"
  shows "registered sha ce ext h led root contract c w w'"
  using retry_effect [OF assms(1,2)] assms(3) by (simp add: invoke_def invoke_as_def invoke_with_seq_retry_def)

section \<open>Created contracts\<close>

definition grows :: "('w \<Rightarrow> 'a \<rightharpoonup> 'b) \<Rightarrow> ('w, 'c) cli \<Rightarrow> bool" where
  "grows code m \<longleftrightarrow> (\<forall>w r w'. m w = Some (r, w') \<longrightarrow> code w \<subseteq>\<^sub>m code w')"

named_theorems grows_intros

lemma growsD: "grows code m \<Longrightarrow> m w = Some (r, w') \<Longrightarrow> code w \<subseteq>\<^sub>m code w'"
  by (simp add: grows_def)

lemma grows_basic [grows_intros]: "grows code (retC a)" "grows code (liftC r)"
  by (auto simp: grows_def retC_def liftC_def)

lemma grows_bindC [grows_intros]: "grows code m \<Longrightarrow> (\<And>a. grows code (f a)) \<Longrightarrow> grows code (bindC m f)"
proof -
  assume m: "grows code m" and f: "\<And>a. grows code (f a)"
  have "code w \<subseteq>\<^sub>m code w'" if run: "bindC m f w = Some (r, w')" for w r w'
  proof -
    obtain x w1 where x: "m w = Some (x, w1)" using run by (cases "m w") (auto simp: bindC_def)
    show ?thesis
    proof (cases x)
      case (Inl e)
      then show ?thesis using run x growsD [OF m x] by simp
    next
      case (Inr a)
      then show ?thesis using run x by (intro map_le_trans [OF growsD [OF m x] growsD [OF f]]) simp
    qed
  qed
  then show ?thesis by (simp add: grows_def)
qed

lemma grows_cases [grows_intros]:
  "grows code m \<Longrightarrow> grows code m' \<Longrightarrow> grows code (if b then m else m')"
  "(\<And>e. grows code (k e)) \<Longrightarrow> (\<And>a. grows code (l a)) \<Longrightarrow> grows code (case r of Inl e \<Rightarrow> k e | Inr a \<Rightarrow> l a)"
  "(\<And>x. grows code (j x)) \<Longrightarrow> grows code (Let v j)"
  by (auto split: sum.splits)

lemma grows_tryC [grows_intros]: "grows code m \<Longrightarrow> grows code (tryC m)"
  by (fastforce simp: grows_def tryC_def)

lemma grows_spawn [grows_intros]: "code_law h code cfg root \<Longrightarrow> grows code (spawn h d p args input)"
  by (fastforce simp: grows_def spawn_def code_law_def)

lemma grows_retry_loop [grows_intros]:
  assumes "code_law h code cfg root"
  shows "grows code (retry_loop h d refs left)"
proof (induction left rule: less_induct)
  case (less left)
  have "grows code (\<lambda>w. retry_loop h d refs (left - 1) (h_sleep h 4000 w))" if "0 < left"
    using less.IH [of "left - 1"] that assms unfolding grows_def code_law_def by (metis diff_less map_le_trans zero_less_one)
  then have "grows code (bindC (tryC (run_capture_all h d (asc ''stellar'') refs)) (\<lambda>outcome. case outcome of
      Inr _ \<Rightarrow> retC ()
    | Inl error \<Rightarrow>
        if contains (asc ''TxBadSeq'') (process_error error) \<and> 0 < left
        then (\<lambda>w1. retry_loop h d refs (left - 1) (h_sleep h 4000 w1)) else liftC (Inl error)))"
    unfolding run_capture_all_def by (cases "0 < left") (auto intro!: grows_intros assms)
  then show ?case by (simp add: grows_def retry_loop.simps [of h d refs left])
qed

lemma grows_commands:
  assumes "code_law h code cfg root"
  shows "grows code (contracts_build h d)" "grows code (deploy h cc d wasm ctor)" "grows code (invoke h cc d contract call)"
    "grows code (env_upsert h path updates)"
proof -
  show "grows code (contracts_build h d)" "grows code (deploy h cc d wasm ctor)" "grows code (invoke h cc d contract call)"
    unfolding contracts_build_def deploy_def invoke_def invoke_as_def invoke_with_seq_retry_def run_command_def run_capture_def
    using assms by (intro grows_intros; assumption?)+
  show "grows code (env_upsert h path updates)"
    using assms by (auto simp: grows_def env_upsert_def write_file_def code_law_def split: option.splits)
qed

text \<open>A contract that was not there before a run and was created in it.\<close>

definition created :: "('w \<Rightarrow> bytes \<rightharpoonup> bytes \<times> bytes list) \<Rightarrow> bytes \<Rightarrow> 'w \<Rightarrow> 'w \<Rightarrow> bytes \<Rightarrow> bytes \<Rightarrow> bytes list \<Rightarrow> bool" where
  "created code root w w' a name ctor \<longleftrightarrow> code w a = None \<and> code w' a = Some (wasm_path root name, ctor)"

lemma deploy_created:
  assumes "code_law h code cfg root" "deploy h cfg root (wasm_path root name) ctor v = Some (Inr a, v')"
    "code w \<subseteq>\<^sub>m code v" "code v' \<subseteq>\<^sub>m code w'"
  shows "created code root w w' a name ctor"
proof -
  have "code v a = None \<and> code v' a = Some (wasm_path root name, ctor)"
    using assms(1,2) unfolding code_law_def deploy_def run_capture_def by (fastforce simp: bindE_simps spawn_Inr Let_def)
  then show ?thesis using assms(3,4) unfolding created_def map_le_def by (metis domIff option.distinct(1))
qed

section \<open>The deployed router\<close>

text \<open>A router of the ledger that registrations have led to from its construction.\<close>

definition wired where
  "wired sha ce ext led contract admin s w \<longleftrightarrow>
     led w contract = Some s \<and> router_run sha ce registry_call (router_constructor admin, ext) (s, ext)"

lemma router_args_type [simp]: "router_args addr (register_type_call t lc) = Some (RegisterClientType t (addr lc))"
  by (simp add: router_args_def register_type_call_def)

lemma router_args_port [simp]: "router_args addr (register_port_call p app) = Some (RegisterPort p (addr app))"
  by (simp add: router_args_def register_port_call_def)

lemma registered_wired:
  assumes "registered sha ce ext h led root contract c w w'" "registry_call c" "wired sha ce ext led contract admin s w"
  shows "\<exists>e ret s'. router_exec sha ce e c s ext = Inr (ret, s', ext) \<and> wired sha ce ext led contract admin s' w'
    \<and> h_read h (env_file root) w' = h_read h (env_file root) w"
proof -
  obtain e ret s' where e: "router_exec sha ce e c s ext = Inr (ret, s', ext)" "led w' = (led w)(contract \<mapsto> s')"
    "h_read h (env_file root) w' = h_read h (env_file root) w"
    using assms(1,3) by (auto simp: registered_def wired_def)
  then have "router_step sha ce registry_call (s, ext) (s', ext)" using assms(2) by (auto intro: router_step.intros)
  then have "wired sha ce ext led contract admin s' w'"
    using assms(3) e(2) unfolding wired_def by (auto intro: rtranclp.rtrancl_into_rtrancl)
  then show ?thesis using e by blast
qed

lemma type_wired:
  assumes "stellar_law sha ce ext h addr led cfg root" "wired sha ce ext led contract admin s w"
    "invoke h cfg root contract (register_type_call t lc) w = Some (Inr (), w')"
  shows "wired sha ce ext led contract admin (s\<lparr>r_client_type_addr := (r_client_type_addr s)(t \<mapsto> addr lc)\<rparr>) w'
    \<and> h_read h (env_file root) w' = h_read h (env_file root) w"
  using registered_wired [OF invoke_effect [OF assms(1) router_args_type assms(3)] _ assms(2)]
  by (auto simp: bindE_simps ret_unit_def register_client_type_def)

lemma port_wired:
  assumes "stellar_law sha ce ext h addr led cfg root" "wired sha ce ext led contract admin s w"
    "invoke h cfg root contract (register_port_call p app) w = Some (Inr (), w')"
  shows "wired sha ce ext led contract admin (s\<lparr>r_port := (r_port s)(p \<mapsto> addr app)\<rparr>) w'
    \<and> h_read h (env_file root) w' = h_read h (env_file root) w"
  using registered_wired [OF invoke_effect [OF assms(1) router_args_port assms(3)] _ assms(2)]
  by (auto simp: bindE_simps ret_unit_def register_port_def)

lemma deploy_router_wired:
  assumes "deploy_law h addr led cfg root"
    "deploy h cfg root (wasm_path root (asc ''stellar_ibc_router'')) [asc ''--admin'', deployer] w = Some (Inr a, w')"
  shows "line_ok a \<and> a \<noteq> [] \<and> wired sha ce ext led a (addr deployer) (router_constructor (addr deployer)) w'
    \<and> h_read h (env_file root) w' = h_read h (env_file root) w"
  using deploy_effect [OF assms] by (simp add: wired_def deployed_router_def)

lemma deploy_other_wired:
  assumes "deploy_law h addr led cfg root" "deploy h cfg root wasm ctor w = Some (Inr a, w')"
    "wired sha ce ext led contract admin s w" "length ctor \<noteq> 2"
  shows "line_ok a \<and> a \<noteq> [] \<and> wired sha ce ext led contract admin s w'
    \<and> h_read h (env_file root) w' = h_read h (env_file root) w"
proof -
  have "deployed_router addr root wasm ctor = None"
    using assms(4) by (auto simp: deployed_router_def split: list.splits)
  then show ?thesis using deploy_effect [OF assms(1,2)] assms(3) by (simp add: wired_def)
qed

lemma env_written:
  assumes "file_law h led" "env_upsert h path updates w = Some (Inr (), w')" "distinct (map fst updates)"
    "list_all (\<lambda>(key, v). key_ok key \<and> line_ok v) updates" "13 \<notin> set (or_default [] (h_read h path w))"
  shows "led w' = led w \<and> (\<exists>content. h_read h path w' = Some content
    \<and> list_all (\<lambda>(k, v). v \<noteq> [] \<longrightarrow> assigned content k = Some (rendered v)) updates)"
proof -
  have "map_of (rev (filter (\<lambda>(_, v). v \<noteq> []) updates)) k = Some v" if "(k, v) \<in> set updates" "v \<noteq> []" for k v
    using assms(3) that by (subst map_of_eq_Some_iff) (auto simp: distinct_map_filter rev_map [symmetric])
  then have "assigned (env_upsert_text updates (or_default [] (h_read h path w))) k = Some (rendered v)"
    if "(k, v) \<in> set updates" "v \<noteq> []" for k v
    using that assms(4,5) env_upsert_assigned [of updates k] by (fastforce simp: list_all_iff)
  then show ?thesis
    using assms(1,2) by (auto simp: env_upsert_def write_file_def file_law_def list_all_iff split: option.splits)
qed

definition wired_router :: "address \<Rightarrow> contracts_config \<Rightarrow> (bytes \<Rightarrow> address) \<Rightarrow> bytes \<Rightarrow> bytes \<Rightarrow> bytes \<Rightarrow> bytes \<Rightarrow> router_state" where
  "wired_router admin cfg addr mock attestation_id tendermint_id transfer =
     (router_constructor admin)\<lparr>
       r_client_type_addr :=
         (let types = [config_client_type cfg TypeMock \<mapsto> addr mock];
              types = (if attestation_id \<noteq> [] then types(config_client_type cfg TypeAttestation \<mapsto> addr attestation_id) else types)
          in types(config_client_type cfg TypeTendermint \<mapsto> addr tendermint_id)),
       r_port := [cc_transfer_port cfg \<mapsto> addr transfer]\<rparr>"

lemma constructor_maps [simp]:
  "r_client_type_addr (router_constructor a) = Map.empty" "r_port (router_constructor a) = Map.empty"
  by (simp_all add: router_constructor_def empty_router_def)

lemma deployment_keys:
  "list_all key_ok [asc ''ROUTER_CONTRACT_ADDRESS'', asc ''TRANSFER_CONTRACT_ADDRESS'', asc ''MOCK_LC_CONTRACT_ID'',
     asc ''ATTESTATION_LC_CONTRACT_ID'', asc ''TENDERMINT_LC_CONTRACT_ID'', asc ''DEPLOYER_ADDRESS'']"
  "distinct [asc ''ROUTER_CONTRACT_ADDRESS'', asc ''TRANSFER_CONTRACT_ADDRESS'', asc ''MOCK_LC_CONTRACT_ID'',
     asc ''ATTESTATION_LC_CONTRACT_ID'', asc ''TENDERMINT_LC_CONTRACT_ID'', asc ''DEPLOYER_ADDRESS'']"
  by code_simp+

lemma deployment_written:
  assumes "file_law h led" "13 \<notin> set (or_default [] (h_read h path w))"
    "env_upsert h path
       [(asc ''ROUTER_CONTRACT_ADDRESS'', router), (asc ''TRANSFER_CONTRACT_ADDRESS'', transfer),
        (asc ''MOCK_LC_CONTRACT_ID'', mock), (asc ''ATTESTATION_LC_CONTRACT_ID'', attestation_id),
        (asc ''TENDERMINT_LC_CONTRACT_ID'', tendermint_id), (asc ''DEPLOYER_ADDRESS'', deployer)] w = Some (Inr (), w')"
    "list_all line_ok [router, transfer, mock, attestation_id, tendermint_id, deployer]"
    "[] \<notin> {router, transfer, mock, tendermint_id}"
  shows "led w' = led w \<and> (\<exists>content. h_read h path w' = Some content
    \<and> assigned content (asc ''ROUTER_CONTRACT_ADDRESS'') = Some (rendered router)
    \<and> assigned content (asc ''TRANSFER_CONTRACT_ADDRESS'') = Some (rendered transfer)
    \<and> assigned content (asc ''MOCK_LC_CONTRACT_ID'') = Some (rendered mock)
    \<and> assigned content (asc ''TENDERMINT_LC_CONTRACT_ID'') = Some (rendered tendermint_id)
    \<and> (attestation_id \<noteq> [] \<longrightarrow> assigned content (asc ''ATTESTATION_LC_CONTRACT_ID'') = Some (rendered attestation_id)))"
  using env_written [OF assms(1,3) _ _ assms(2)] deployment_keys assms(4,5) by auto

lemma deploy_all_parts:
  assumes "deploy_all h key_address cfg root force attestation w = Some (Inr True, w')"
  obtains deployer mock router transfer attestation_id tendermint_id w1 w2 w3 w4 w5 w6 w7 w8 w9 w10 where
    "deployer_address key_address cfg = Inr deployer"
    and "contracts_build h root w = Some (Inr (), w1)"
    and "deploy h cfg root (wasm_path root (asc ''stellar_mock_light_client'')) [] w1 = Some (Inr mock, w2)"
    and "deploy h cfg root (wasm_path root (asc ''stellar_ibc_router'')) [asc ''--admin'', deployer] w2 = Some (Inr router, w3)"
    and "deploy h cfg root (wasm_path root (asc ''stellar_ibc_transfer''))
               [asc ''--router'', router, asc ''--admin'', deployer] w3 = Some (Inr transfer, w4)"
    and "(if attestation then deploy h cfg root (wasm_path root (asc ''stellar_attestation_light_client'')) []
               else retC []) w4 = Some (Inr attestation_id, w5)"
    and "deploy h cfg root (wasm_path root (asc ''stellar_tendermint_light_client'')) [] w5 = Some (Inr tendermint_id, w6)"
    and "invoke h cfg root router (register_type_call (config_client_type cfg TypeMock) mock) w6 = Some (Inr (), w7)"
    and "(if attestation_id \<noteq> []
               then invoke h cfg root router (register_type_call (config_client_type cfg TypeAttestation) attestation_id)
               else retC ()) w7 = Some (Inr (), w8)"
    and "invoke h cfg root router (register_type_call (config_client_type cfg TypeTendermint) tendermint_id) w8
               = Some (Inr (), w9)"
    and "invoke h cfg root router (register_port_call (cc_transfer_port cfg) transfer) w9 = Some (Inr (), w10)"
    and "env_upsert h (env_file root)
                [(asc ''ROUTER_CONTRACT_ADDRESS'', router), (asc ''TRANSFER_CONTRACT_ADDRESS'', transfer),
                 (asc ''MOCK_LC_CONTRACT_ID'', mock), (asc ''ATTESTATION_LC_CONTRACT_ID'', attestation_id),
                 (asc ''TENDERMINT_LC_CONTRACT_ID'', tendermint_id), (asc ''DEPLOYER_ADDRESS'', deployer)] w10 = Some (Inr (), w')"
  using assms unfolding deploy_all_def env_file_def by (auto simp: bindE_simps split: if_splits)

text \<open>The contracts of a deployment are created by it.\<close>

lemma deploy_all_creates:
  assumes code: "code_law h code cfg root" and b: "contracts_build h root w = Some (Inr (), w1)"
    and m: "deploy h cfg root (wasm_path root (asc ''stellar_mock_light_client'')) [] w1 = Some (Inr mock, w2)"
    and r: "deploy h cfg root (wasm_path root (asc ''stellar_ibc_router'')) [asc ''--admin'', deployer] w2 = Some (Inr router, w3)"
    and t: "deploy h cfg root (wasm_path root (asc ''stellar_ibc_transfer''))
      [asc ''--router'', router, asc ''--admin'', deployer] w3 = Some (Inr transfer, w4)"
    and a: "(if attestation then deploy h cfg root (wasm_path root (asc ''stellar_attestation_light_client'')) []
      else retC []) w4 = Some (Inr attestation_id, w5)"
    and l: "deploy h cfg root (wasm_path root (asc ''stellar_tendermint_light_client'')) [] w5 = Some (Inr tendermint_id, w6)"
    and i: "invoke h cfg root router c1 w6 = Some (Inr (), w7)"
      "(if b2 then invoke h cfg root router c2 else retC ()) w7 = Some (Inr (), w8)"
      "invoke h cfg root router c3 w8 = Some (Inr (), w9)" "invoke h cfg root router c4 w9 = Some (Inr (), w10)"
    and u: "env_upsert h path updates w10 = Some (Inr (), w')"
  shows "created code root w w' router (asc ''stellar_ibc_router'') [asc ''--admin'', deployer]"
    and "created code root w w' transfer (asc ''stellar_ibc_transfer'') [asc ''--router'', router, asc ''--admin'', deployer]"
    and "created code root w w' mock (asc ''stellar_mock_light_client'') []"
    and "created code root w w' tendermint_id (asc ''stellar_tendermint_light_client'') []"
    and "attestation \<Longrightarrow> created code root w w' attestation_id (asc ''stellar_attestation_light_client'') []"
proof -
  note g = grows_commands [OF code]
  have att: "grows code (if attestation then deploy h cfg root (wasm_path root (asc ''stellar_attestation_light_client'')) [] else retC [])"
    and inv: "grows code (if b2 then invoke h cfg root router c2 else retC ())"
    by (intro grows_intros g)+
  note b1 = growsD [OF g(1) b]
  note b2 = map_le_trans [OF b1 growsD [OF g(2) m]]
  note b3 = map_le_trans [OF b2 growsD [OF g(2) r]]
  note b4 = map_le_trans [OF b3 growsD [OF g(2) t]]
  note b5 = map_le_trans [OF b4 growsD [OF att a]]
  have late: "code w6 \<subseteq>\<^sub>m code w'"
    by (rule map_le_trans [OF growsD [OF g(3) i(1)] map_le_trans [OF growsD [OF inv i(2)]
          map_le_trans [OF growsD [OF g(3) i(3)] map_le_trans [OF growsD [OF g(3) i(4)] growsD [OF g(4) u]]]]])
  have w5: "code w5 \<subseteq>\<^sub>m code w'" by (rule map_le_trans [OF growsD [OF g(2) l] late])
  have w4: "code w4 \<subseteq>\<^sub>m code w'" by (rule map_le_trans [OF growsD [OF att a] w5])
  have w3: "code w3 \<subseteq>\<^sub>m code w'" by (rule map_le_trans [OF growsD [OF g(2) t] w4])
  have w2: "code w2 \<subseteq>\<^sub>m code w'" by (rule map_le_trans [OF growsD [OF g(2) r] w3])
  show "created code root w w' router (asc ''stellar_ibc_router'') [asc ''--admin'', deployer]"
    by (rule deploy_created [OF code r b2 w3])
  show "created code root w w' transfer (asc ''stellar_ibc_transfer'') [asc ''--router'', router, asc ''--admin'', deployer]"
    by (rule deploy_created [OF code t b3 w4])
  show "created code root w w' mock (asc ''stellar_mock_light_client'') []"
    by (rule deploy_created [OF code m b1 w2])
  show "created code root w w' tendermint_id (asc ''stellar_tendermint_light_client'') []"
    by (rule deploy_created [OF code l b5 late])
  show "created code root w w' attestation_id (asc ''stellar_attestation_light_client'') []" if attestation
    using a that by (intro deploy_created [OF code _ b4 w5]) simp
qed

text \<open>
  C36 (refinement). Let a deployment report success, nobody else acting on the routers of the ledger
  meanwhile. It has created, at addresses that had no contract before it, the router, the mock and the
  Tendermint light client, the attestation light client when asked for, and the transfer application
  behind this router, each from its code file and for the deployer. It leaves that router in exactly
  one state: constructed for the deployer, with the light clients just created registered under the
  configured client types, and the transfer application just created bound to the configured port.
  That state is one the router's own registration calls lead to from its construction. In the
  \<open>.env\<close> file the first line for each of their variables assigns these addresses. Retries of a
  registration, which a stale sequence number causes, do not show.
\<close>

theorem deploy_all_wires:
  assumes law: "stellar_law sha ce ext h addr led cfg root" and code: "code_law h code cfg root" and files: "file_law h led"
    and run: "deploy_all h key_address cfg root force attestation w = Some (Inr True, w')"
    and deployer: "\<And>a. deployer_address key_address cfg = Inr a \<Longrightarrow> line_ok a"
    and no_cr: "13 \<notin> set (or_default [] (h_read h (env_file root) w))"
  shows "\<exists>deployer router transfer mock attestation_id tendermint_id content.
    deployer_address key_address cfg = Inr deployer \<and> (attestation_id \<noteq> []) = attestation
    \<and> created code root w w' router (asc ''stellar_ibc_router'') [asc ''--admin'', deployer]
    \<and> created code root w w' transfer (asc ''stellar_ibc_transfer'') [asc ''--router'', router, asc ''--admin'', deployer]
    \<and> created code root w w' mock (asc ''stellar_mock_light_client'') []
    \<and> created code root w w' tendermint_id (asc ''stellar_tendermint_light_client'') []
    \<and> (attestation \<longrightarrow> created code root w w' attestation_id (asc ''stellar_attestation_light_client'') [])
    \<and> wired sha ce ext led router (addr deployer)
        (wired_router (addr deployer) cfg addr mock attestation_id tendermint_id transfer) w'
    \<and> h_read h (env_file root) w' = Some content
    \<and> assigned content (asc ''ROUTER_CONTRACT_ADDRESS'') = Some (rendered router)
    \<and> assigned content (asc ''TRANSFER_CONTRACT_ADDRESS'') = Some (rendered transfer)
    \<and> assigned content (asc ''MOCK_LC_CONTRACT_ID'') = Some (rendered mock)
    \<and> assigned content (asc ''TENDERMINT_LC_CONTRACT_ID'') = Some (rendered tendermint_id)
    \<and> (attestation \<longrightarrow> assigned content (asc ''ATTESTATION_LC_CONTRACT_ID'') = Some (rendered attestation_id))"
proof -
  note dep = law [unfolded stellar_law_def, THEN conjunct1]
  from run show ?thesis
  proof (cases rule: deploy_all_parts)
    case (1 deployer mock router transfer attestation_id tendermint_id w1 w2 w3 w4 w5 w6 w7 w8 w9 w10)
    let ?s0 = "router_constructor (addr deployer)"
    let ?s1 = "?s0\<lparr>r_client_type_addr := [config_client_type cfg TypeMock \<mapsto> addr mock]\<rparr>"
    let ?s2 = "if attestation_id \<noteq> [] then ?s1\<lparr>r_client_type_addr :=
      (r_client_type_addr ?s1)(config_client_type cfg TypeAttestation \<mapsto> addr attestation_id)\<rparr> else ?s1"
    let ?same = "\<lambda>w w'. h_read h (env_file root) w' = h_read h (env_file root) w"
    have m: "line_ok mock \<and> mock \<noteq> [] \<and> ?same w w2"
      using deploy_effect [OF dep 1(3)] build_effect [OF law 1(2)] by (simp add: kept_def)
    have r: "line_ok router \<and> router \<noteq> [] \<and> wired sha ce ext led router (addr deployer) ?s0 w3 \<and> ?same w2 w3"
      by (rule deploy_router_wired [OF dep 1(4)])
    have t: "line_ok transfer \<and> transfer \<noteq> [] \<and> wired sha ce ext led router (addr deployer) ?s0 w4 \<and> ?same w3 w4"
      using deploy_other_wired [OF dep 1(5)] r by force
    have a: "line_ok attestation_id \<and> (attestation_id \<noteq> []) = attestation
        \<and> wired sha ce ext led router (addr deployer) ?s0 w5 \<and> ?same w4 w5"
    proof (cases attestation)
      case True
      then show ?thesis using deploy_other_wired [OF dep, of _ "[]" w4 attestation_id w5] 1(6) t by force
    qed (use 1(6) t in \<open>simp add: bindE_simps line_ok_def\<close>)
    have tm: "line_ok tendermint_id \<and> tendermint_id \<noteq> [] \<and> wired sha ce ext led router (addr deployer) ?s0 w6 \<and> ?same w5 w6"
      using deploy_other_wired [OF dep 1(7)] a by force
    have i1: "wired sha ce ext led router (addr deployer) ?s1 w7 \<and> ?same w6 w7"
      using type_wired [OF law _ 1(8)] tm by force
    have i2: "wired sha ce ext led router (addr deployer) ?s2 w8 \<and> ?same w7 w8"
      using 1(9) type_wired [OF law conjunct1 [OF i1]] i1 by (auto simp: bindE_simps split: if_splits)
    have i3: "wired sha ce ext led router (addr deployer) (?s2\<lparr>r_client_type_addr :=
        (r_client_type_addr ?s2)(config_client_type cfg TypeTendermint \<mapsto> addr tendermint_id)\<rparr>) w9 \<and> ?same w8 w9"
      by (rule type_wired [OF law conjunct1 [OF i2] 1(10)])
    have i4: "wired sha ce ext led router (addr deployer)
        (wired_router (addr deployer) cfg addr mock attestation_id tendermint_id transfer) w10 \<and> ?same w9 w10"
      using port_wired [OF law conjunct1 [OF i3] 1(11)] by (simp add: wired_router_def split: if_splits)
    note same = m r t a tm i1 i2 i3 i4
    have "13 \<notin> set (or_default [] (h_read h (env_file root) w10))" using same no_cr by simp
    then have "led w' = led w10" and *: "\<exists>content. h_read h (env_file root) w' = Some content
        \<and> assigned content (asc ''ROUTER_CONTRACT_ADDRESS'') = Some (rendered router)
        \<and> assigned content (asc ''TRANSFER_CONTRACT_ADDRESS'') = Some (rendered transfer)
        \<and> assigned content (asc ''MOCK_LC_CONTRACT_ID'') = Some (rendered mock)
        \<and> assigned content (asc ''TENDERMINT_LC_CONTRACT_ID'') = Some (rendered tendermint_id)
        \<and> (attestation_id \<noteq> [] \<longrightarrow> assigned content (asc ''ATTESTATION_LC_CONTRACT_ID'') = Some (rendered attestation_id))"
      using deployment_written [OF files _ 1(12)] deployer [OF 1(1)] same by auto
    then have final: "wired sha ce ext led router (addr deployer)
        (wired_router (addr deployer) cfg addr mock attestation_id tendermint_id transfer) w'"
      using i4 by (simp add: wired_def)
    from * obtain content where env: "h_read h (env_file root) w' = Some content"
      "assigned content (asc ''ROUTER_CONTRACT_ADDRESS'') = Some (rendered router)"
      "assigned content (asc ''TRANSFER_CONTRACT_ADDRESS'') = Some (rendered transfer)"
      "assigned content (asc ''MOCK_LC_CONTRACT_ID'') = Some (rendered mock)"
      "assigned content (asc ''TENDERMINT_LC_CONTRACT_ID'') = Some (rendered tendermint_id)"
      "attestation_id \<noteq> [] \<longrightarrow> assigned content (asc ''ATTESTATION_LC_CONTRACT_ID'') = Some (rendered attestation_id)"
      by (elim exE conjE) (rule that)
    show ?thesis
      by (rule exI [of _ deployer], rule exI [of _ router], rule exI [of _ transfer], rule exI [of _ mock],
          rule exI [of _ attestation_id], rule exI [of _ tendermint_id], rule exI [of _ content])
         (use 1(1) a final env deploy_all_creates [OF code 1(2-12)] in simp)
  qed
qed

section \<open>A deployment\<close>

definition sample_addr :: "bytes \<Rightarrow> address" where
  "sample_addr b = (if b = asc ''GD'' then 5 else sum_list (map unat b))"

definition sample_id :: "bytes \<Rightarrow> bytes" where
  "sample_id wasm =
     (if wasm = wasm_path (asc ''/r'') (asc ''stellar_ibc_router'') then asc ''CR''
      else if wasm = wasm_path (asc ''/r'') (asc ''stellar_ibc_transfer'') then asc ''CT''
      else if wasm = wasm_path (asc ''/r'') (asc ''stellar_mock_light_client'') then asc ''CM''
      else if wasm = wasm_path (asc ''/r'') (asc ''stellar_attestation_light_client'') then asc ''CA'' else asc ''CL'')"

definition sample_ok :: "bytes \<Rightarrow> exit" where
  "sample_ok out = \<lparr>ex_written = True, ex_success = True, ex_status = [], ex_stdout = out, ex_stderr = []\<rparr>"

type_synonym sample_world = "(bytes \<rightharpoonup> router_state) \<times> (bytes \<rightharpoonup> bytes) \<times> (bytes \<rightharpoonup> bytes \<times> bytes list)"

definition sample_code :: "sample_world \<Rightarrow> bytes \<rightharpoonup> bytes \<times> bytes list" where
  "sample_code w = snd (snd w)"

definition sample_deploy :: "bytes \<Rightarrow> bytes list \<Rightarrow> sample_world \<Rightarrow> exit option \<times> sample_world" where
  "sample_deploy wasm ctor w =
     (if sample_code w (sample_id wasm) \<noteq> None then (None, w)
      else
        (Some (sample_ok (sample_id wasm @ [10])),
         (case deployed_router sample_addr (asc ''/r'') wasm ctor of
            Some s \<Rightarrow> (fst w)(sample_id wasm \<mapsto> s) | None \<Rightarrow> fst w),
         fst (snd w), (sample_code w)(sample_id wasm \<mapsto> (wasm, ctor))))"

definition sample_invoke :: "bytes \<Rightarrow> bytes list \<Rightarrow> sample_world \<Rightarrow> exit option \<times> sample_world" where
  "sample_invoke contract call w =
     (case (router_args sample_addr call, fst w contract) of
        (Some c, Some s) \<Rightarrow>
          (case router_exec (\<lambda>b. b) sample_callees sample_signers c s () of
             Inr (_, s', _) \<Rightarrow> (Some (sample_ok []), (fst w)(contract \<mapsto> s'), snd w)
           | Inl _ \<Rightarrow> (None, w))
      | _ \<Rightarrow> (None, w))"

definition sample_spawn :: "bytes list \<Rightarrow> sample_world \<Rightarrow> exit option \<times> sample_world" where
  "sample_spawn args w =
     (case drop 8 args of
        _ # wasm # tail \<Rightarrow>
          if args ! 1 = asc ''deploy'' then sample_deploy wasm (tl tail) w else sample_invoke wasm (tl tail) w
      | _ \<Rightarrow> (Some (sample_ok []), w))"

definition sample_deploy_host :: "sample_world host" where
  "sample_deploy_host = \<lparr>h_spawn = (\<lambda>_ _ args _ w. Some (sample_spawn args w)), h_read = (\<lambda>p w. fst (snd w) p),
     h_write = (\<lambda>p content w. Some (fst w, (fst (snd w))(p \<mapsto> content), snd (snd w))),
     h_exists = (\<lambda>_ _. False), h_is_dir = (\<lambda>_ _. False), h_get = (\<lambda>_ w. (None, w)),
     h_post = (\<lambda>_ _ w. (None, w)), h_connect = (\<lambda>_ w. (False, w)), h_sleep = (\<lambda>_ w. w), h_now = (\<lambda>w. 0)\<rparr>"

definition sample_cc :: contracts_config where
  "sample_cc = \<lparr>cc_rpc_url = [], cc_network_passphrase = [], cc_signing_key = asc ''SD'', cc_deployer_address = asc ''GD'',
     cc_ibc_router = [], cc_transfer_port = asc ''transfer'', cc_mock_client_type = asc ''mock-client'',
     cc_attestation_client_type = asc ''attestation'', cc_tendermint_client_type = asc ''07-tendermint'', cc_hermes_config = []\<rparr>"

lemma sample_id_printed [simp]:
  "last_line (trim (sample_id wasm @ [10])) = sample_id wasm" "line_ok (sample_id wasm)" "sample_id wasm \<noteq> []"
proof -
  have "list_all (\<lambda>a. last_line (trim (a @ [10])) = a \<and> line_ok a \<and> a \<noteq> []) [asc ''CR'', asc ''CT'', asc ''CM'', asc ''CA'', asc ''CL'']"
    by code_simp
  then show "last_line (trim (sample_id wasm @ [10])) = sample_id wasm" "line_ok (sample_id wasm)" "sample_id wasm \<noteq> []"
    by (auto simp: sample_id_def)
qed

lemma sample_spawn_args [simp]:
  "sample_spawn (deploy_args cfg wasm ctor) w = sample_deploy wasm ctor w"
  "sample_spawn (invoke_args cfg contract call source) w = sample_invoke contract call w"
  by (simp_all add: sample_spawn_def deploy_args_def invoke_args_def stellar_base_def stellar_base_as_def net_flags_def)

lemma sample_deploy_law: "deploy_law sample_deploy_host sample_addr fst sample_cc (asc ''/r'')"
  by (auto simp: deploy_law_def sample_deploy_host_def sample_deploy_def sample_ok_def Let_def split: option.splits)

lemma sample_invoke_law:
  "invoke_law (\<lambda>b. b) sample_callees () sample_deploy_host sample_addr fst sample_cc (asc ''/r'')"
proof (unfold invoke_law_def, intro allI impI)
  fix contract call source w r w'
  assume "h_spawn sample_deploy_host (asc ''/r'') (asc ''stellar'') (invoke_args sample_cc contract call source) [] w = Some (r, w')"
  then have run: "sample_invoke contract call w = (r, w')" by (simp add: sample_deploy_host_def)
  show "if \<exists>x. r = Some x \<and> ex_success x
    then \<forall>c. router_args sample_addr call = Some c \<longrightarrow>
      (\<exists>s e ret s'. fst w contract = Some s \<and> router_exec (\<lambda>b. b) sample_callees e c s () = Inr (ret, s', ())
         \<and> fst w' = (fst w)(contract \<mapsto> s')
         \<and> h_read sample_deploy_host (env_file (asc ''/r'')) w' = h_read sample_deploy_host (env_file (asc ''/r'')) w)
    else kept sample_deploy_host fst (asc ''/r'') w w'"
  proof (cases "r = None")
    case True
    then have "w' = w" using run by (auto simp: sample_invoke_def split: option.splits sum.splits)
    then show ?thesis using True by (simp add: kept_def)
  next
    case False
    then obtain c s ret s' where "router_args sample_addr call = Some c" "fst w contract = Some s"
      "router_exec (\<lambda>b. b) sample_callees sample_signers c s () = Inr (ret, s', ())" "r = Some (sample_ok [])"
      "w' = ((fst w)(contract \<mapsto> s'), snd w)"
      using run by (auto simp: sample_invoke_def split: option.splits sum.splits)
    then show ?thesis by (simp add: sample_ok_def sample_deploy_host_def) (intro exI conjI, assumption, rule refl)
  qed
qed

lemma sample_spawn_grows: "sample_spawn args w = (r, w') \<Longrightarrow> sample_code w \<subseteq>\<^sub>m sample_code w'"
  by (auto simp: sample_spawn_def sample_deploy_def sample_invoke_def sample_code_def map_le_def
    split: list.splits if_splits option.splits sum.splits prod.splits)

lemma sample_code_law: "code_law sample_deploy_host sample_code sample_cc (asc ''/r'')"
proof (unfold code_law_def, intro conjI allI impI)
  fix wasm ctor w x w'
  assume "h_spawn sample_deploy_host (asc ''/r'') (asc ''stellar'') (deploy_args sample_cc wasm ctor) [] w = Some (Some x, w') \<and> ex_success x"
  then have "sample_deploy wasm ctor w = (Some x, w')" by (simp add: sample_deploy_host_def)
  then have "sample_code w (sample_id wasm) = None" "sample_code w' (sample_id wasm) = Some (wasm, ctor)"
    "x = sample_ok (sample_id wasm @ [10])"
    by (cases "sample_code w (sample_id wasm)"; auto simp: sample_deploy_def sample_code_def)+
  then show "let a = last_line (trim (ex_stdout x)) in sample_code w a = None \<and> sample_code w' a = Some (wasm, ctor)"
    by (simp add: Let_def sample_ok_def)
next
  show "sample_code w \<subseteq>\<^sub>m sample_code w'" if "h_spawn sample_deploy_host d p args input w = Some (r, w')" for d p args input w r w'
    using that by (intro sample_spawn_grows) (simp add: sample_deploy_host_def)
qed (auto simp: sample_deploy_host_def sample_code_def)

lemma sample_stellar_law:
  "stellar_law (\<lambda>b. b) sample_callees () sample_deploy_host sample_addr fst sample_cc (asc ''/r'')"
  using sample_deploy_law sample_invoke_law
  by (simp add: stellar_law_def sample_deploy_host_def sample_spawn_def kept_def)

lemma sample_file_law: "file_law sample_deploy_host fst"
  by (auto simp: file_law_def sample_deploy_host_def)

lemma sample_deploy_run [simp]:
  "sample_code w (sample_id wasm) = None \<Longrightarrow>
   deploy sample_deploy_host sample_cc (asc ''/r'') wasm ctor w = Some (Inr (sample_id wasm),
     (case deployed_router sample_addr (asc ''/r'') wasm ctor of Some s \<Rightarrow> (fst w)(sample_id wasm \<mapsto> s) | None \<Rightarrow> fst w),
     fst (snd w), (sample_code w)(sample_id wasm \<mapsto> (wasm, ctor)))"
  by (simp add: deploy_def run_capture_def spawn_def bindC_def liftC_def retC_def sample_deploy_host_def
    sample_deploy_def sample_ok_def)

lemma sample_ids [simp]:
  "sample_id (wasm_path (asc ''/r'') (asc ''stellar_ibc_router'')) = asc ''CR''"
  "sample_id (wasm_path (asc ''/r'') (asc ''stellar_ibc_transfer'')) = asc ''CT''"
  "sample_id (wasm_path (asc ''/r'') (asc ''stellar_mock_light_client'')) = asc ''CM''"
  "sample_id (wasm_path (asc ''/r'') (asc ''stellar_attestation_light_client'')) = asc ''CA''"
  "sample_id (wasm_path (asc ''/r'') (asc ''stellar_tendermint_light_client'')) = asc ''CL''"
  "distinct [asc ''CR'', asc ''CT'', asc ''CM'', asc ''CA'', asc ''CL'']"
  by code_simp+

lemma sample_build_run [simp]: "contracts_build sample_deploy_host (asc ''/r'') w = Some (Inr (), w)"
  by (simp add: contracts_build_def run_command_def spawn_def bindC_def liftC_def retC_def sample_deploy_host_def
    sample_spawn_def sample_ok_def)

lemma sample_invoke_run:
  "router_args sample_addr call = Some c \<Longrightarrow> fst w contract = Some s \<Longrightarrow>
   router_exec (\<lambda>b. b) sample_callees sample_signers c s () = Inr (ret, s', ()) \<Longrightarrow>
   invoke sample_deploy_host sample_cc (asc ''/r'') contract call w = Some (Inr (), (fst w)(contract \<mapsto> s'), snd w)"
  by (simp add: invoke_def invoke_as_def invoke_with_seq_retry_def retry_loop.simps run_capture_all_def spawn_def
    bindC_def tryC_def liftC_def retC_def sample_deploy_host_def sample_invoke_def sample_ok_def)

lemma sample_types_valid:
  "validate_client_type (asc ''mock-client'') = Inr ()" "validate_client_type (asc ''attestation'') = Inr ()"
  "validate_client_type (asc ''07-tendermint'') = Inr ()" "validate_port_id (asc ''transfer'') = Inr ()"
  by code_simp+

lemma sample_type_run:
  "s = the (fst w contract) \<Longrightarrow> fst w contract \<noteq> None \<Longrightarrow> r_admin s = Some 5 \<Longrightarrow> validate_client_type t = Inr () \<Longrightarrow>
   invoke sample_deploy_host sample_cc (asc ''/r'') contract (register_type_call t lc) w =
   Some (Inr (), (fst w)(contract \<mapsto> s\<lparr>r_client_type_addr := (r_client_type_addr s)(t \<mapsto> sample_addr lc)\<rparr>), snd w)"
  by (rule sample_invoke_run [OF router_args_type, where ret = RetUnit])
     (auto simp: ret_unit_def register_client_type_def require_auth_def sample_signers_def sample_env_def)

lemma sample_port_run:
  "s = the (fst w contract) \<Longrightarrow> fst w contract \<noteq> None \<Longrightarrow> r_admin s = Some 5 \<Longrightarrow> validate_port_id p = Inr () \<Longrightarrow> r_port s p = None \<Longrightarrow>
   invoke sample_deploy_host sample_cc (asc ''/r'') contract (register_port_call p app) w =
   Some (Inr (), (fst w)(contract \<mapsto> s\<lparr>r_port := (r_port s)(p \<mapsto> sample_addr app)\<rparr>), snd w)"
  by (rule sample_invoke_run [OF router_args_port, where ret = RetUnit])
     (auto simp: ret_unit_def register_port_def require_auth_def sample_signers_def sample_env_def)

lemma sample_deployment:
  "\<exists>w'. deploy_all sample_deploy_host (\<lambda>_. None) sample_cc (asc ''/r'') False True (Map.empty, Map.empty, Map.empty)
   = Some (Inr True, w')"
proof -
  have [simp]: "sample_code (a, b, c) = c" for a b c by (simp add: sample_code_def)
  have [simp]: "asc ''CR'' \<noteq> asc ''CT''" "asc ''CT'' \<noteq> asc ''CR''" "asc ''CM'' \<noteq> asc ''CR''" "asc ''CR'' \<noteq> asc ''CM''"
    "asc ''CM'' \<noteq> asc ''CT''" "asc ''CT'' \<noteq> asc ''CM''" "asc ''CA'' \<noteq> asc ''CR''" "asc ''CA'' \<noteq> asc ''CT''" "asc ''CA'' \<noteq> asc ''CM''"
    "asc ''CL'' \<noteq> asc ''CR''" "asc ''CL'' \<noteq> asc ''CT''" "asc ''CL'' \<noteq> asc ''CM''" "asc ''CL'' \<noteq> asc ''CA''"
    by (simp_all add: asc_def)
  have [simp]: "sample_addr (asc ''GD'') = 5" "r_admin (router_constructor a) = Some a" for a
    by (simp_all add: sample_addr_def router_constructor_def)
  have [simp]: "env_upsert sample_deploy_host path updates w =
    Some (Inr (), fst w, (fst (snd w))(path \<mapsto> env_upsert_text updates (or_default [] (fst (snd w) path))), snd (snd w))" for path updates w
    by (simp add: env_upsert_def write_file_def sample_deploy_host_def)
  have [simp]: "asc ''SD'' \<noteq> []" "asc ''GD'' \<noteq> []" by (simp_all add: asc_def)
  have [simp]: "cc_signing_key sample_cc \<noteq> []" "cc_deployer_address sample_cc = asc ''GD''" "cc_ibc_router sample_cc = []"
    "cc_transfer_port sample_cc = asc ''transfer''" "cc_mock_client_type sample_cc = asc ''mock-client''"
    "cc_attestation_client_type sample_cc = asc ''attestation''" "cc_tendermint_client_type sample_cc = asc ''07-tendermint''"
    by (simp_all add: sample_cc_def)
  show ?thesis
    unfolding deploy_all_def
    by (simp add: deployer_address_def sample_type_run sample_port_run sample_types_valid deployed_router_def retC_def
       bindC_def liftC_def )
qed

theorem deploy_all_wires_witness:
  "\<exists>w' router transfer mock attestation_id tendermint_id.
    deploy_all sample_deploy_host (\<lambda>_. None) sample_cc (asc ''/r'') False True (Map.empty, Map.empty, Map.empty) = Some (Inr True, w')
    \<and> attestation_id \<noteq> [] \<and> created sample_code (asc ''/r'') (Map.empty, Map.empty, Map.empty) w' router (asc ''stellar_ibc_router'') [asc ''--admin'', asc ''GD'']
    \<and> created sample_code (asc ''/r'') (Map.empty, Map.empty, Map.empty) w' tendermint_id (asc ''stellar_tendermint_light_client'') []
    \<and> wired (\<lambda>b. b) sample_callees () fst router 5
        (wired_router 5 sample_cc sample_addr mock attestation_id tendermint_id transfer) w'"
proof -
  have law: "stellar_law (\<lambda>b. b) sample_callees () sample_deploy_host sample_addr fst sample_cc (asc ''/r'')"
    and files: "file_law sample_deploy_host fst"
    by (rule sample_stellar_law) (rule sample_file_law)
  have deployer: "deployer_address (\<lambda>_. None) sample_cc = Inr (asc ''GD'')" and ok: "line_ok (asc ''GD'')"
    and admin: "sample_addr (asc ''GD'') = 5"
    by (code_simp, code_simp, simp add: sample_addr_def)
  obtain w' where run: "deploy_all sample_deploy_host (\<lambda>_. None) sample_cc (asc ''/r'') False True (Map.empty, Map.empty, Map.empty)
      = Some (Inr True, w')"
    using sample_deployment by blast
  have "13 \<notin> set (or_default [] (h_read sample_deploy_host (env_file (asc ''/r'')) (Map.empty, Map.empty, Map.empty)))"
    by (simp add: sample_deploy_host_def or_default_def)
  from deploy_all_wires [OF law sample_code_law files run _ this] deployer ok admin run show ?thesis by force
qed

end
