(* ===== verification/Cli_Upload.thy ===== *)
theory Cli_Upload
  imports Cli_Contracts
begin

text \<open>
  The upload of the CosmWasm light client to the Cosmos chain, \<open>tx/contracts/wasm.rs\<close>: by proposal and
  vote on the development network, or as a prepared proposal on the test network. The digest in
  hexadecimal, \<open>sha_hex\<close>, and the printer of JSON values, \<open>pretty\<close>, are parameters.
\<close>

section \<open>Building the light client\<close>

definition CRATE :: bytes where
  "CRATE = asc ''light-client-wasm''"

definition wasm_artifact :: "bytes \<Rightarrow> bytes" where
  "wasm_artifact root = path_join root (asc ''target/wasm32-unknown-unknown/release/light_client_wasm.wasm'')"

definition file_exists :: "'w host \<Rightarrow> bytes \<Rightarrow> ('w, bool) cli" where
  "file_exists h path w = Some (Inr (h_exists h path w), w)"

definition build_wasm :: "'w host \<Rightarrow> (bytes \<Rightarrow> bytes) \<Rightarrow> bytes \<Rightarrow> ('w, bytes \<times> bytes) cli" where
  "build_wasm h sha_hex root =
     bindC (run_command h root (asc ''cargo'')
       [asc ''build'', asc ''--target'', asc ''wasm32-unknown-unknown'', asc ''-p'', CRATE, asc ''--release'']) (\<lambda>_.
     let wasm_file = wasm_artifact root in
     bindC (file_exists h wasm_file) (\<lambda>found.
     bindC (liftC (ensure found (ArtifactMissing wasm_file))) (\<lambda>_.
     bindC (run_has h (asc ''wasm-opt'')) (\<lambda>opt.
     bindC (if opt
            then run_command h root (asc ''wasm-opt'')
              [asc ''--enable-bulk-memory'', asc ''--llvm-memory-copy-fill-lowering'', asc ''-O1'', asc ''--strip-debug'',
               wasm_file, asc ''-o'', wasm_file]
            else retC ()) (\<lambda>_.
     bindC (read_file h wasm_file) (\<lambda>content.
     retC (content, sha_hex content)))))))"

section \<open>Uploading\<close>

definition DEPOSIT_AMOUNT :: "128 word" where "DEPOSIT_AMOUNT = 10000000"
definition STORE_GAS_LIMIT :: u64 where "STORE_GAS_LIMIT = 60000000"
definition STORE_FEE_AMOUNT :: "128 word" where "STORE_FEE_AMOUNT = 1800000"
definition VOTE_OPTION :: u32 where "VOTE_OPTION = 1"
definition VOTE_GAS_LIMIT :: u64 where "VOTE_GAS_LIMIT = 200000"
definition VOTE_FEE_AMOUNT :: "128 word" where "VOTE_FEE_AMOUNT = 10000"
definition TX_WAIT_TIMEOUT_SECS :: nat where "TX_WAIT_TIMEOUT_SECS = 60"
definition VOTING_PERIOD_SECS :: nat where "VOTING_PERIOD_SECS = 25"
definition VERIFY_RETRIES :: nat where "VERIFY_RETRIES = 15"
definition VERIFY_INTERVAL_SECS :: nat where "VERIFY_INTERVAL_SECS = 2"
definition FUND_AMOUNT :: "128 word" where "FUND_AMOUNT = 100000000"
definition FUND_GAS_LIMIT :: u64 where "FUND_GAS_LIMIT = 200000"
definition FUND_FEE_AMOUNT :: "128 word" where "FUND_FEE_AMOUNT = 10000"

definition ascii_lower :: "u8 \<Rightarrow> u8" where
  "ascii_lower b = (if is_upper b then b + 32 else b)"

definition eq_ignore_ascii_case :: "bytes \<Rightarrow> bytes \<Rightarrow> bool" where
  "eq_ignore_ascii_case a b \<longleftrightarrow> map ascii_lower a = map ascii_lower b"

text \<open>A pause, and the attempts that are left.\<close>

definition sleep_secs :: "'w host \<Rightarrow> nat \<Rightarrow> ('w, unit) cli" where
  "sleep_secs h n w = Some (Inr (), h_sleep h (1000 * n) w)"

fun checksum_loop :: "'w host \<Rightarrow> 'k cosmos_signer \<Rightarrow> bytes \<Rightarrow> nat \<Rightarrow> ('w, bool) cli" where
  "checksum_loop h sg local_sha 0 = retC False"
| "checksum_loop h sg local_sha (Suc n) =
     bindC (tryC (checksums h sg)) (\<lambda>r.
     if (case r of Inr cs \<Rightarrow> list_ex (\<lambda>c. eq_ignore_ascii_case c local_sha) cs | Inl _ \<Rightarrow> False) then retC True
     else bindC (sleep_secs h VERIFY_INTERVAL_SECS) (\<lambda>_. checksum_loop h sg local_sha n))"

definition checksum_registered :: "'w host \<Rightarrow> 'k cosmos_signer \<Rightarrow> bytes \<Rightarrow> ('w, bool) cli" where
  "checksum_registered h sg local_sha = checksum_loop h sg local_sha VERIFY_RETRIES"

section \<open>The test network\<close>

definition GOV_AUTHORITY :: bytes where
  "GOV_AUTHORITY = asc ''cosmos10d07y265gmmuvt4z0w9aw880jnsr700j6zn9kn''"

definition TESTNET_DEPOSIT_UATOM :: nat where
  "TESTNET_DEPOSIT_UATOM = 10000000"

definition ensure_gaiad_key :: "'w host \<Rightarrow> bytes \<Rightarrow> bytes \<Rightarrow> bytes \<Rightarrow> bytes \<Rightarrow> ('w, unit) cli" where
  "ensure_gaiad_key h root name mnemonic keyring =
     bindC (tryC (run_capture_quiet h root (asc ''gaiad'')
       [asc ''keys'', asc ''show'', name, asc ''-a'', asc ''--keyring-backend'', keyring])) (\<lambda>known.
     case known of
       Inr _ \<Rightarrow> retC ()
     | Inl _ \<Rightarrow>
         run_piped h root (asc ''gaiad'')
           [asc ''keys'', asc ''add'', name, asc ''--recover'', asc ''--keyring-backend'', keyring] (mnemonic @ [10]))"

definition testnet_mnemonic :: "(bytes \<rightharpoonup> bytes) \<Rightarrow> cosmos_config \<Rightarrow> bytes" where
  "testnet_mnemonic env cfg =
     (let testnet_specific = cli_get env (asc ''COSMOS_TESTNET_MNEMONIC'') [] in
      if trim testnet_specific = [] then co_relayer_mnemonic cfg else testnet_specific)"

definition resolve_testnet_key ::
  "'w host \<Rightarrow> (bytes \<rightharpoonup> bytes) \<Rightarrow> bytes \<Rightarrow> bytes option \<Rightarrow> cosmos_config \<Rightarrow> bytes \<Rightarrow> ('w, bytes option) cli" where
  "resolve_testnet_key h env root from_key testnet keyring =
     (case from_key of
        Some key \<Rightarrow>
          bindC (run_has h (asc ''gaiad'')) (\<lambda>installed.
          bindC (liftC (ensure installed (ToolMissing (asc ''gaiad'')))) (\<lambda>_. retC (Some key)))
      | None \<Rightarrow>
          let mnemonic = testnet_mnemonic env testnet in
          if trim mnemonic = [] then retC None
          else
            bindC (run_has h (asc ''gaiad'')) (\<lambda>installed.
            bindC (liftC (ensure installed (ToolMissing (asc ''gaiad'')))) (\<lambda>_.
            let key_name = cli_get env (asc ''COSMOS_TESTNET_KEY_NAME'') (asc ''interstellar-cosmos'') in
            bindC (ensure_gaiad_key h root key_name (trim mnemonic) keyring) (\<lambda>_. retC (Some key_name)))))"

definition store_code_proposal :: "bytes \<Rightarrow> bytes \<Rightarrow> json" where
  "store_code_proposal authority wasm_b64 =
     JObj [(asc ''messages'', JArr [JObj [(asc ''@type'', JStr (asc ''/ibc.lightclients.wasm.v1.MsgStoreCode'')),
             (asc ''signer'', JStr authority), (asc ''wasm_byte_code'', JStr wasm_b64)]]),
           (asc ''title'', JStr (asc ''Store Stellar 08-wasm light client'')),
           (asc ''summary'', JStr (asc ''Registers the Stellar light client wasm for the 08-wasm client type'')),
           (asc ''deposit'', JStr (decimal TESTNET_DEPOSIT_UATOM @ asc ''uatom''))]"

text \<open>Without a key the command to run is printed instead.\<close>

definition prepare_testnet_proposal ::
  "'k cosmos_libs \<Rightarrow> 'w host \<Rightarrow> (bytes \<Rightarrow> bytes) \<Rightarrow> (json \<Rightarrow> bytes) \<Rightarrow> (bytes \<rightharpoonup> bytes) \<Rightarrow> bytes \<Rightarrow> bytes option
   \<Rightarrow> ('w, unit) cli" where
  "prepare_testnet_proposal lb h sha_hex pretty env root from_key =
     (let testnet = cosmos_testnet env in
      bindC (build_wasm h sha_hex root) (\<lambda>(content, sha).
      let authority = cli_get env (asc ''COSMOS_TESTNET_GOV_AUTHORITY'') GOV_AUTHORITY;
          proposal_path = path_join root (asc ''provider-store-code-proposal.json'') in
      bindC (write_file h proposal_path (pretty (store_code_proposal authority (ck_base64 lb content)))) (\<lambda>_.
      let keyring = cli_get env (asc ''COSMOS_TESTNET_KEYRING_BACKEND'') (asc ''test'') in
      bindC (resolve_testnet_key h env root from_key testnet keyring) (\<lambda>resolved.
      case resolved of
        Some key \<Rightarrow>
          run_command h root (asc ''gaiad'')
            [asc ''tx'', asc ''gov'', asc ''submit-proposal'', proposal_path, asc ''--from'', key, asc ''--keyring-backend'', keyring,
             asc ''--node'', co_rpc_url testnet, asc ''--chain-id'', co_chain_id testnet, asc ''--gas'', asc ''auto'',
             asc ''--gas-adjustment'', asc ''1.5'', asc ''--gas-prices'', asc ''0.025uatom'', asc ''-y'']
      | None \<Rightarrow> retC ()))))"

text \<open>When the node does not answer, the upload is given up with a warning, and no error.\<close>

definition upload ::
  "'k cosmos_libs \<Rightarrow> 'w host \<Rightarrow> (bytes \<Rightarrow> bytes) \<Rightarrow> (json \<Rightarrow> bytes) \<Rightarrow> (bytes \<rightharpoonup> bytes) \<Rightarrow> contracts_config \<Rightarrow> bytes
   \<Rightarrow> bool \<Rightarrow> bytes option \<Rightarrow> ('w, unit) cli" where
  "upload lb h sha_hex pretty env cfg root testnet from_key =
     (if testnet then prepare_testnet_proposal lb h sha_hex pretty env root from_key
      else
        bindC (build_wasm h sha_hex root) (\<lambda>(content, local_sha).
        bindC (liftC (signer_from_config lb (cosmos_devnet env))) (\<lambda>signer.
        bindC (node_info_ok h signer) (\<lambda>up.
        if \<not> up then retC ()
        else
          bindC (liftC (relayer_address signer)) (\<lambda>relayer.
          bindC (fund_account lb h signer relayer FUND_AMOUNT FUND_GAS_LIMIT FUND_FEE_AMOUNT True) (\<lambda>_.
          bindC (submit_store_code lb h signer content (asc ''upload-light-client-wasm: '' @ CRATE)
                   (asc ''Registers light_client_wasm.wasm for the 08-wasm client type'')
                   DEPOSIT_AMOUNT STORE_GAS_LIMIT STORE_FEE_AMOUNT (1000 * TX_WAIT_TIMEOUT_SECS)) (\<lambda>proposal_id.
          bindC (vote lb h signer proposal_id VOTE_OPTION VOTE_GAS_LIMIT VOTE_FEE_AMOUNT) (\<lambda>_.
          bindC (sleep_secs h VOTING_PERIOD_SECS) (\<lambda>_.
          bindC (checksum_registered h signer local_sha) (\<lambda>registered.
          bindC (liftC (ensure registered ChecksumNotRegistered)) (\<lambda>_.
          bindC (patch_checksum_file h (cc_hermes_config cfg) local_sha) (\<lambda>_.
          retC ()))))))))))))"

section \<open>Uploads return\<close>

lemma total_upload_steps [total_intros]: "total (file_exists h path)" "total (sleep_secs h n)"
  by (simp_all add: total_def file_exists_def sleep_secs_def)

lemma total_checksum_loop [total_intros]: "total (checksum_loop h sg sha n)"
  by (induction n) (auto intro!: total_intros)

lemma total_upload [total_intros]: "clock_law h \<Longrightarrow> programs_return h \<Longrightarrow> total (upload lb h sha_hex pretty env cfg root testnet from_key)"
  unfolding upload_def prepare_testnet_proposal_def resolve_testnet_key_def ensure_gaiad_key_def build_wasm_def
    checksum_registered_def
  by (intro total_intros; assumption?)

section \<open>What an upload has checked\<close>

text \<open>The world after a number of polls of the checksums, none of which was the last.\<close>

fun polled :: "'w host \<Rightarrow> 'k cosmos_signer \<Rightarrow> nat \<Rightarrow> 'w \<Rightarrow> 'w option" where
  "polled h sg 0 w = Some w"
| "polled h sg (Suc k) w =
     Option.bind (checksums h sg w) (\<lambda>(_, w1). polled h sg k (h_sleep h (1000 * VERIFY_INTERVAL_SECS) w1))"

lemma checksum_loop_True:
  assumes "checksum_loop h sg sha n w = Some (Inr True, w')"
  shows "\<exists>k w1 cs c. k < n \<and> polled h sg k w = Some w1 \<and> checksums h sg w1 = Some (Inr cs, w') \<and> c \<in> set cs
    \<and> eq_ignore_ascii_case c sha"
  using assms
proof (induction n arbitrary: w)
  case (Suc n)
  then obtain r w1 where r: "checksums h sg w = Some (r, w1)"
    and step: "(if (case r of Inr cs \<Rightarrow> list_ex (\<lambda>c. eq_ignore_ascii_case c sha) cs | Inl _ \<Rightarrow> False) then retC True
      else bindC (sleep_secs h VERIFY_INTERVAL_SECS) (\<lambda>_. checksum_loop h sg sha n)) w1 = Some (Inr True, w')"
    by (auto simp: bindE_simps)
  show ?case
  proof (cases "case r of Inr cs \<Rightarrow> list_ex (\<lambda>c. eq_ignore_ascii_case c sha) cs | Inl _ \<Rightarrow> False")
    case True
    then show ?thesis using r step by (intro exI [of _ 0]) (auto simp: bindE_simps list_ex_iff split: sum.splits)
  next
    case False
    then have "checksum_loop h sg sha n (h_sleep h (1000 * VERIFY_INTERVAL_SECS) w1) = Some (Inr True, w')"
      using step by (auto simp: bindE_simps sleep_secs_def)
    from Suc.IH [OF this] obtain k w2 cs c where "k < n"
      "polled h sg k (h_sleep h (1000 * VERIFY_INTERVAL_SECS) w1) = Some w2" "checksums h sg w2 = Some (Inr cs, w')" "c \<in> set cs"
      "eq_ignore_ascii_case c sha" by (elim exE conjE) (rule that)
    then show ?thesis using r by (intro exI [of _ "Suc k"] exI [of _ w2] exI [of _ cs] exI [of _ c]) simp
  qed
qed (simp add: bindE_simps)

definition read_back :: "'w host \<Rightarrow> bool" where
  "read_back h \<longleftrightarrow> (\<forall>path content w w'. h_write h path content w = Some w' \<longrightarrow> h_read h path w' = Some content)"

lemma patch_file_effect:
  assumes "read_back h" "clean c" "line_ok c" "patch_checksum_file h path c w = Some (Inr b, w')"
  shows "\<exists>before r. h_read h path w = Some before \<and> patch_wasm_checksum c before = Some r
    \<and> h_read h path w' = Some (or_default before r) \<and> (13 \<notin> set before \<longrightarrow> wasm_checksum_present (h_read h path w'))"
proof -
  obtain content r where c: "h_read h path w = Some content" and r: "patch_wasm_checksum c content = Some r"
    and step: "(case r of None \<Rightarrow> retC False | Some out \<Rightarrow> bindC (write_file h path out) (\<lambda>_. retC True)) w = Some (Inr b, w')"
    using assms(4) by (auto simp: patch_checksum_file_def bindE_simps read_file_def)
  have "h_read h path w' = Some (or_default content r)"
  proof (cases r)
    case None
    then show ?thesis using step c by (simp add: bindE_simps or_default_def)
  next
    case (Some out)
    then have "h_write h path out w = Some w'" using step by (auto simp: bindE_simps write_file_def split: option.splits)
    then show ?thesis using assms(1) Some by (simp add: read_back_def or_default_def)
  qed
  then show ?thesis using c r patch_then_present [OF r assms(2,3)] by simp
qed

text \<open>What is done on the chain when the node answers.\<close>

abbreviation register_on_chain where
  "register_on_chain lb h cfg sg content sha \<equiv>
     bindC (liftC (relayer_address sg)) (\<lambda>relayer.
     bindC (fund_account lb h sg relayer FUND_AMOUNT FUND_GAS_LIMIT FUND_FEE_AMOUNT True) (\<lambda>_.
     bindC (submit_store_code lb h sg content (asc ''upload-light-client-wasm: '' @ CRATE)
              (asc ''Registers light_client_wasm.wasm for the 08-wasm client type'')
              DEPOSIT_AMOUNT STORE_GAS_LIMIT STORE_FEE_AMOUNT (1000 * TX_WAIT_TIMEOUT_SECS)) (\<lambda>proposal_id.
     bindC (vote lb h sg proposal_id VOTE_OPTION VOTE_GAS_LIMIT VOTE_FEE_AMOUNT) (\<lambda>_.
     bindC (sleep_secs h VOTING_PERIOD_SECS) (\<lambda>_.
     bindC (checksum_registered h sg sha) (\<lambda>registered.
     bindC (liftC (ensure registered ChecksumNotRegistered)) (\<lambda>_.
     bindC (patch_checksum_file h (cc_hermes_config cfg) sha) (\<lambda>_.
     retC ()))))))))"

lemma bindC_InrE:
  assumes "bindC m f w = Some (Inr b, w'')"
  obtains a w' where "m w = Some (Inr a, w')" "f a w' = Some (Inr b, w'')"
  using assms by (auto simp: bindC_eq_Inr)

lemma register_steps:
  assumes "register_on_chain lb h cfg sg content sha w2 = Some (Inr (), w')"
  obtains relayer funded w3 p w4 w5 w7 b where "relayer_address sg = Inr relayer"
    "fund_account lb h sg relayer FUND_AMOUNT FUND_GAS_LIMIT FUND_FEE_AMOUNT True w2 = Some (Inr funded, w3)"
    "submit_store_code lb h sg content (asc ''upload-light-client-wasm: '' @ CRATE)
       (asc ''Registers light_client_wasm.wasm for the 08-wasm client type'')
       DEPOSIT_AMOUNT STORE_GAS_LIMIT STORE_FEE_AMOUNT (1000 * TX_WAIT_TIMEOUT_SECS) w3 = Some (Inr p, w4)"
    "vote lb h sg p VOTE_OPTION VOTE_GAS_LIMIT VOTE_FEE_AMOUNT w4 = Some (Inr (), w5)"
    "checksum_registered h sg sha (h_sleep h (1000 * VOTING_PERIOD_SECS) w5) = Some (Inr True, w7)"
    "patch_checksum_file h (cc_hermes_config cfg) sha w7 = Some (Inr b, w')"
  using assms
  by (elim bindC_InrE) (rule that; auto simp: bindE_simps sleep_secs_def)

lemma upload_steps:
  assumes "upload lb h sha_hex pretty env cfg root False from_key w = Some (Inr (), w')"
  obtains content sg w1 up w2 where "build_wasm h sha_hex root w = Some (Inr (content, sha_hex content), w1)"
    "signer_from_config lb (cosmos_devnet env) = Inr sg" "node_info_ok h sg w1 = Some (Inr up, w2)"
    "\<not> up \<Longrightarrow> w' = w2" "up \<Longrightarrow> register_on_chain lb h cfg sg content (sha_hex content) w2 = Some (Inr (), w')"
proof -
  from assms have "bindC (build_wasm h sha_hex root) (\<lambda>(content, sha).
      bindC (liftC (signer_from_config lb (cosmos_devnet env))) (\<lambda>sg.
      bindC (node_info_ok h sg) (\<lambda>up. if \<not> up then retC () else register_on_chain lb h cfg sg content sha))) w = Some (Inr (), w')"
    by (simp only: upload_def if_False)
  then obtain x w1 where x: "build_wasm h sha_hex root w = Some (Inr x, w1)"
    and rest: "(case x of (content, sha) \<Rightarrow> bindC (liftC (signer_from_config lb (cosmos_devnet env))) (\<lambda>sg.
      bindC (node_info_ok h sg) (\<lambda>up. if \<not> up then retC () else register_on_chain lb h cfg sg content sha))) w1 = Some (Inr (), w')"
    by (elim bindC_InrE) (rule that)
  have built: "build_wasm h sha_hex root w = Some (Inr (fst x, sha_hex (fst x)), w1)" "snd x = sha_hex (fst x)"
    using x by (auto simp: build_wasm_def bindE_simps Let_def split: if_splits)
  from rest obtain sg v up w2 where "liftC (signer_from_config lb (cosmos_devnet env)) w1 = Some (Inr sg, v)"
    "node_info_ok h sg v = Some (Inr up, w2)"
    "(if \<not> up then retC () else register_on_chain lb h cfg sg (fst x) (snd x)) w2 = Some (Inr (), w')"
    unfolding case_prod_unfold by (elim bindC_InrE) (rule that)
  then show thesis
    by (intro that [OF built(1), of sg up w2]) (simp_all add: liftC_eq_Inr retC_eq_Inr built(2))
qed

lemma registered_on_chain:
  assumes "read_back h" "\<forall>b. clean (sha_hex b) \<and> line_ok (sha_hex b)"
    "register_on_chain lb h cfg sg content (sha_hex content) w2 = Some (Inr (), w')"
  shows "\<exists>relayer funded w3 p w4 w5 k w6 cs c w7 before patched.
    fund_account lb h sg relayer FUND_AMOUNT FUND_GAS_LIMIT FUND_FEE_AMOUNT True w2 = Some (Inr funded, w3)
    \<and> submit_store_code lb h sg content (asc ''upload-light-client-wasm: '' @ CRATE)
        (asc ''Registers light_client_wasm.wasm for the 08-wasm client type'')
        DEPOSIT_AMOUNT STORE_GAS_LIMIT STORE_FEE_AMOUNT (1000 * TX_WAIT_TIMEOUT_SECS) w3 = Some (Inr p, w4)
    \<and> vote lb h sg p VOTE_OPTION VOTE_GAS_LIMIT VOTE_FEE_AMOUNT w4 = Some (Inr (), w5)
    \<and> k < VERIFY_RETRIES \<and> polled h sg k (h_sleep h (1000 * VOTING_PERIOD_SECS) w5) = Some w6
    \<and> checksums h sg w6 = Some (Inr cs, w7) \<and> c \<in> set cs \<and> eq_ignore_ascii_case c (sha_hex content)
    \<and> h_read h (cc_hermes_config cfg) w7 = Some before \<and> patch_wasm_checksum (sha_hex content) before = Some patched
    \<and> h_read h (cc_hermes_config cfg) w' = Some (or_default before patched)
    \<and> (13 \<notin> set before \<longrightarrow> wasm_checksum_present (h_read h (cc_hermes_config cfg) w'))"
proof -
  obtain relayer funded w3 p w4 w5 w7 b where sent:
    "fund_account lb h sg relayer FUND_AMOUNT FUND_GAS_LIMIT FUND_FEE_AMOUNT True w2 = Some (Inr funded, w3)"
    "submit_store_code lb h sg content (asc ''upload-light-client-wasm: '' @ CRATE)
       (asc ''Registers light_client_wasm.wasm for the 08-wasm client type'')
       DEPOSIT_AMOUNT STORE_GAS_LIMIT STORE_FEE_AMOUNT (1000 * TX_WAIT_TIMEOUT_SECS) w3 = Some (Inr p, w4)"
    "vote lb h sg p VOTE_OPTION VOTE_GAS_LIMIT VOTE_FEE_AMOUNT w4 = Some (Inr (), w5)"
    and reg: "checksum_registered h sg (sha_hex content) (h_sleep h (1000 * VOTING_PERIOD_SECS) w5) = Some (Inr True, w7)"
    and patch: "patch_checksum_file h (cc_hermes_config cfg) (sha_hex content) w7 = Some (Inr b, w')"
    using register_steps [OF assms(3)] that by metis
  obtain k w6 cs c where polls: "k < VERIFY_RETRIES" "polled h sg k (h_sleep h (1000 * VOTING_PERIOD_SECS) w5) = Some w6"
    "checksums h sg w6 = Some (Inr cs, w7)" "c \<in> set cs" "eq_ignore_ascii_case c (sha_hex content)"
    using checksum_loop_True [OF reg [unfolded checksum_registered_def]] by (elim exE conjE) (rule that)
  obtain before patched where config: "h_read h (cc_hermes_config cfg) w7 = Some before"
    "patch_wasm_checksum (sha_hex content) before = Some patched"
    "h_read h (cc_hermes_config cfg) w' = Some (or_default before patched)"
    "13 \<notin> set before \<longrightarrow> wasm_checksum_present (h_read h (cc_hermes_config cfg) w')"
    using patch_file_effect [OF assms(1) _ _ patch] assms(2) by auto
  show ?thesis by (intro exI conjI) (rule sent polls config)+
qed


section \<open>An upload\<close>

text \<open>A node that gives one answer to every question.\<close>

definition sample_account :: json where
  "sample_account = JObj [(asc ''address'', JStr (asc ''gov'')), (asc ''account_number'', JStr (asc ''7''))]"

definition sample_tx_response :: json where
  "sample_tx_response = JObj [(asc ''txhash'', JStr (asc ''T'')),
     (asc ''events'', JArr [JObj [(asc ''type'', JStr (asc ''submit_proposal'')),
        (asc ''attributes'', JArr [JObj [(asc ''key'', JStr (asc ''proposal_id'')), (asc ''value'', JStr (asc ''3''))]])]])]"

definition sample_answer :: json where
  "sample_answer = JObj [(asc ''checksums'', JArr [JStr (asc ''AB'')]), (asc ''account'', sample_account),
     (asc ''tx_response'', sample_tx_response)]"

definition sample_upload_host :: "(nat \<times> (bytes \<rightharpoonup> bytes)) host" where
  "sample_upload_host = \<lparr>
     h_spawn = (\<lambda>_ _ _ _ w. Some (Some \<lparr>ex_written = True, ex_success = True, ex_status = [], ex_stdout = [], ex_stderr = []\<rparr>, w)),
     h_read = (\<lambda>p w. snd w p), h_write = (\<lambda>p c w. Some (fst w, (snd w)(p \<mapsto> c))),
     h_exists = (\<lambda>p w. snd w p \<noteq> None), h_is_dir = (\<lambda>_ _. False),
     h_get = (\<lambda>_ w. (Some (200, Some sample_answer), w)), h_post = (\<lambda>_ _ w. (Some (200, Some sample_answer), w)),
     h_connect = (\<lambda>_ w. (True, w)), h_sleep = (\<lambda>d w. (fst w + d, snd w)), h_now = fst\<rparr>"

definition sample_libs :: "unit cosmos_libs" where
  "sample_libs = \<lparr>ck_hex_decode = Some, ck_key = (\<lambda>_. Some ()), ck_account_id = (\<lambda>_ _. Some (asc ''cosmos1r'')),
     ck_denom_ok = (\<lambda>_. True), ck_chain_ok = (\<lambda>_. True), ck_sign = (\<lambda>_ _ _ _ _ _ _ _ _. Some [1]), ck_base64 = (\<lambda>b. b),
     ck_msg_send = (\<lambda>_ _ _ _. []), ck_store_code = (\<lambda>_ _. []), ck_proposal = (\<lambda>_ _ _ _ _ _. []), ck_vote = (\<lambda>_ _ _. [])\<rparr>"

definition sample_upload_env :: "bytes \<rightharpoonup> bytes" where
  "sample_upload_env = [asc ''COSMOS_RELAYER_PRIVATE_KEY'' \<mapsto> asc ''01'']"

definition sample_upload_config :: contracts_config where
  "sample_upload_config = \<lparr>cc_rpc_url = [], cc_network_passphrase = [], cc_signing_key = [], cc_deployer_address = [],
     cc_ibc_router = [], cc_transfer_port = [], cc_mock_client_type = [], cc_attestation_client_type = [],
     cc_tendermint_client_type = [], cc_hermes_config = asc ''/h''\<rparr>"

definition sample_files :: "bytes \<rightharpoonup> bytes" where
  "sample_files = [wasm_artifact (asc ''/r'') \<mapsto> [0], asc ''/h'' \<mapsto> asc ''wasm_checksum_hex = '' @ [39, 39]]"

lemma sample_upload_laws: "clock_law sample_upload_host" "read_back sample_upload_host"
  by (auto simp: clock_law_def read_back_def sample_upload_host_def split: if_splits)

lemma sample_programs_return: "programs_return sample_upload_host"
  by (simp add: programs_return_def sample_upload_host_def)

lemma sample_digest: "clean (asc ''ab'') \<and> line_ok (asc ''ab'')"
  by code_simp

lemma sample_host_steps [simp]:
  "get_checked sample_upload_host url w = (Inr sample_answer, w)"
  "node_info_ok sample_upload_host sg w = Some (Inr True, w)"
  "account_exists sample_upload_host sg a w = Some (Inr True, w)"
  "tx_by_hash sample_upload_host sg x w = (Inr sample_answer, w)"
  "run_command sample_upload_host root p args w = Some (Inr (), w)"
  "run_has sample_upload_host p w = Some (Inr True, w)"
  "file_exists sample_upload_host p w = Some (Inr (snd w p \<noteq> None), w)"
  "h_read sample_upload_host p w = snd w p"
  "h_write sample_upload_host p c w = Some (fst w, (snd w)(p \<mapsto> c))"
  by (simp_all add: get_checked_def node_info_ok_def http_ok_def account_exists_def tx_by_hash_def run_command_def run_has_def
    spawn_def bindC_def liftC_def sample_upload_host_def is_success_def status_error_def file_exists_def)

lemma sample_answers [simp]:
  "get_array sample_answer (asc ''checksums'') = Some [JStr (asc ''AB'')]"
  "json_get sample_answer (asc ''account'') = Some sample_account"
  "json_get sample_answer (asc ''tx_response'') = Some sample_tx_response"
  "json_get sample_account (asc ''value'') = None" "json_get sample_account (asc ''base_account'') = None"
  "json_get sample_account (asc ''address'') = Some (JStr (asc ''gov''))"
  "get_str sample_account (asc ''account_number'') = Some (asc ''7'')" "parse_u64 (asc ''7'') = Some 7"
  "json_get sample_tx_response (asc ''code'') = None" "get_str sample_tx_response (asc ''txhash'') = Some (asc ''T'')"
  "get_str sample_tx_response (asc ''raw_log'') = None"
  by (simp_all add: sample_answer_def sample_account_def sample_tx_response_def get_array_def get_str_def json_get_def
    json_array_def json_str_def asc_def parse_u64_def parse_digits_def is_digit_def undecimal_def)

lemma sample_libs_simps [simp]:
  "ck_hex_decode sample_libs b = Some b" "ck_key sample_libs b = Some ()" "ck_account_id sample_libs k b = Some (asc ''cosmos1r'')"
  "ck_denom_ok sample_libs d" "ck_chain_ok sample_libs d" "ck_sign sample_libs k c n sq m g d f msg = Some [1]"
  by (simp_all add: sample_libs_def)

lemma sample_proposal [simp]: "extract_proposal_id sample_answer = Some 3"
  by (simp add: extract_proposal_id_def or_else_def sample_answer_def sample_tx_response_def get_array_def get_str_def json_get_def
    json_array_def json_str_def asc_def parse_u64_def parse_digits_def is_digit_def undecimal_def)

lemma sample_sent_steps [simp]:
  "fund_account sample_libs sample_upload_host sg a amount gas fee True w = Some (Inr False, w)"
  "sign_and_broadcast sample_libs sample_upload_host sg acc msg memo gas fee w =
     Some (Inr \<lparr>br_tx_hash = asc ''T'', br_code = 0, br_raw_log = []\<rparr>, w)"
  "wait_for_tx sample_upload_host sg x n w = Some (Inr sample_answer, w)"
proof -
  have "broadcast_tx_bytes sample_libs sample_upload_host sg tx w =
      Some (Inr \<lparr>br_tx_hash = asc ''T'', br_code = 0, br_raw_log = []\<rparr>, w)" for tx
    by (simp add: broadcast_tx_bytes_def Let_def sample_upload_host_def is_success_def get_u64_def or_default_def)
  then show "sign_and_broadcast sample_libs sample_upload_host sg acc msg memo gas fee w =
     Some (Inr \<lparr>br_tx_hash = asc ''T'', br_code = 0, br_raw_log = []\<rparr>, w)"
    by (simp add: sign_and_broadcast_def fetch_account_info_def get_body_def bindC_def liftC_def retC_def)
qed (simp_all add: fund_account_def bindC_def retC_def wait_for_tx_def wait_tx_loop.simps)

lemma sample_store_vote [simp]:
  "sg_relayer sg = Some acc \<Longrightarrow>
   submit_store_code sample_libs sample_upload_host sg c t s d g f n w = Some (Inr 3, w)"
  "sg_relayer sg = Some acc \<Longrightarrow> sg_validator sg = None \<Longrightarrow>
   vote sample_libs sample_upload_host sg p ch g f w = Some (Inr (), w)"
  by (simp_all add: submit_store_code_def vote_def gov_module_address_def get_body_def bindC_def liftC_def retC_def Let_def
    signer_relayer_def signer_validator_def accepted_def or_else_def json_str_def or_default_def)

lemma sample_listed [simp]: "checksums sample_upload_host sg w = Some (Inr [asc ''AB''], w)"
  by (simp add: checksums_def get_body_def bindC_def retC_def json_str_def map_filter_simps)

lemma sample_polled: "polled sample_upload_host sg k w = Some w' \<Longrightarrow> snd w' = snd w"
proof (induction k arbitrary: w)
  case (Suc k)
  moreover have "snd (h_sleep sample_upload_host d v) = snd v" for d v by (simp add: sample_upload_host_def)
  ultimately show ?case by simp
qed simp

lemma sample_registered [simp]: "checksum_registered sample_upload_host sg (asc ''ab'') w = Some (Inr True, w)"
proof -
  have "eq_ignore_ascii_case (asc ''AB'') (asc ''ab'')" by code_simp
  then show ?thesis
    by (simp add: checksum_registered_def VERIFY_RETRIES_def numeral_eq_Suc tryC_def bindC_def retC_def)
qed

lemma sample_signer:
  "\<exists>sg acc. signer_from_config sample_libs (cosmos_devnet sample_upload_env) = Inr sg \<and> sg_relayer sg = Some acc \<and> sg_validator sg = None"
proof -
  have "trim (co_relayer_key_hex (cosmos_devnet sample_upload_env)) \<noteq> []"
    "trim (co_validator_key_hex (cosmos_devnet sample_upload_env)) = []"
    unfolding cosmos_devnet_def cosmos_config.simps by code_simp+
  then show ?thesis by (simp add: signer_from_config_def load_key_def Let_def)
qed

lemma sample_built [simp]:
  "build_wasm sample_upload_host (\<lambda>_. asc ''ab'') (asc ''/r'') (n, sample_files) = Some (Inr ([0], asc ''ab''), n, sample_files)"
proof -
  have "sample_files (wasm_artifact (asc ''/r'')) = Some [0]"
    by (simp add: sample_files_def wasm_artifact_def path_join_def asc_def)
  then show ?thesis
    by (simp add: build_wasm_def bindC_def liftC_def retC_def read_file_def Let_def)
qed

lemma sample_patched:
  "\<exists>w'. patch_checksum_file sample_upload_host (asc ''/h'') (asc ''ab'') (n, sample_files) = Some (Inr True, w')"
proof -
  let ?c = "asc ''wasm_checksum_hex = '' @ [39, 39]"
  have ls: "lines ?c = [?c]" using lines_join_open [of "[?c]"] by (simp add: line_ok_def asc_def)
  have t: "trim_start ?c = ?c"
    unfolding trim_start_def by (rule strip_none, rule matching_hd) (simp_all add: asc_def white_space_def)
  then have "checksum_line ?c" by (simp add: checksum_line_def starts_with_def asc_def)
  then have "patched_line (asc ''ab'') ?c = asc ''wasm_checksum_hex = '' @ [39] @ asc ''ab'' @ [39]"
    using t by (simp add: patched_line_def)
  then have out: "patch_wasm_checksum (asc ''ab'') ?c = Some (Some (asc ''wasm_checksum_hex = '' @ [39] @ asc ''ab'' @ [39]))"
    using ls \<open>checksum_line ?c\<close> by (simp add: patch_wasm_checksum_def asc_def)
  have "sample_files (asc ''/h'') = Some ?c" "13 \<notin> set ?c" "13 \<notin> set (asc ''wasm_checksum_hex = '' @ [39] @ asc ''ab'' @ [39])"
    by (simp_all add: sample_files_def asc_def)
  then show ?thesis
    using out by (simp add: patch_checksum_file_def bindC_def liftC_def retC_def read_file_def write_file_def)
qed

lemma sample_upload_run:
  "\<exists>w'. upload sample_libs sample_upload_host (\<lambda>_. asc ''ab'') (\<lambda>_. []) sample_upload_env sample_upload_config
     (asc ''/r'') False None (0, sample_files) = Some (Inr (), w')"
proof -
  obtain sg acc where sg: "signer_from_config sample_libs (cosmos_devnet sample_upload_env) = Inr sg"
    "sg_relayer sg = Some acc" "sg_validator sg = None"
    using sample_signer by blast
  have [simp]: "sleep_secs sample_upload_host k w = Some (Inr (), fst w + 1000 * k, snd w)" for k w
    by (simp add: sleep_secs_def sample_upload_host_def)
  obtain w' where "patch_checksum_file sample_upload_host (asc ''/h'') (asc ''ab'') (0 + 1000 * VOTING_PERIOD_SECS, sample_files) = Some (Inr True, w')"
    using sample_patched by blast
  then show ?thesis
    using sg by (simp add: upload_def bindC_def liftC_def retC_def relayer_address_def signer_relayer_def sample_upload_config_def)
qed


end
