(* ===== verification/Cli_Clients.thy ===== *)
theory Cli_Clients
  imports Cli_Upload
begin

text \<open>
  The client commands of the tool: creating light clients and registering counterparties through the
  relayer's container (\<open>tx/clients/\<close>, \<open>services/hermes/container.rs\<close>), and importing the relayer's keys
  (\<open>services/hermes/keys.rs\<close>).
\<close>

section \<open>The relayer's container\<close>

definition hermes_exec :: "'w host \<Rightarrow> bytes \<Rightarrow> bytes \<Rightarrow> bytes list \<Rightarrow> ('w, bytes) cli" where
  "hermes_exec h root config_path args =
     bindC (docker_compose h root [asc ''up'', asc ''-d'', asc ''hermes'']) (\<lambda>_.
     run_capture_all h root (asc ''docker'')
       ([asc ''compose'', asc ''--profile'', asc ''local'', asc ''--profile'', asc ''hermes'', asc ''exec'', asc ''-T'', asc ''hermes'',
         asc ''hermes'', asc ''--config'', config_path] @ args))"

definition compose_run_args :: "bytes \<Rightarrow> bytes list" where
  "compose_run_args script =
     [asc ''compose'', asc ''--profile'', asc ''local'', asc ''--profile'', asc ''hermes'', asc ''run'', asc ''--rm'', asc ''--no-deps'',
      asc ''-T'', asc ''--entrypoint'', asc ''sh'', asc ''hermes'', asc ''-c'', script]"

definition import_mnemonic :: "'w host \<Rightarrow> cli_config \<Rightarrow> bytes \<Rightarrow> bytes \<Rightarrow> bytes \<Rightarrow> bytes \<Rightarrow> ('w, unit) cli" where
  "import_mnemonic h cfg root chain_id key_name mnemonic =
     run_piped h root (asc ''docker'')
       (compose_run_args (asc ''cat > /tmp/m.txt && hermes --config '' @ he_config_path (cg_hermes cfg) @ asc '' keys add --chain ''
          @ chain_id @ asc '' --mnemonic-file /tmp/m.txt --key-name '' @ key_name
          @ asc '' --overwrite; rc=$?; rm -f /tmp/m.txt; exit $rc''))
       (mnemonic @ [10])"

definition import_secret :: "'w host \<Rightarrow> cli_config \<Rightarrow> bytes \<Rightarrow> bytes \<Rightarrow> bytes \<Rightarrow> bytes \<Rightarrow> ('w, unit) cli" where
  "import_secret h cfg root chain_id key_name secret =
     run_piped h root (asc ''docker'')
       (compose_run_args (asc ''cat > /tmp/k.json && hermes --config '' @ he_config_path (cg_hermes cfg) @ asc '' keys add --chain ''
          @ chain_id @ asc '' --key-file /tmp/k.json --key-name '' @ key_name
          @ asc '' --overwrite; rc=$?; rm -f /tmp/k.json; exit $rc''))
       (asc ''{'' @ [34] @ asc ''secret_key'' @ [34] @ asc '':'' @ [34] @ secret @ [34] @ asc ''}'' @ [10])"

text \<open>
  The keys of the test network are imported when there is a mnemonic for them, and a failure there is
  a warning; the container is stopped first, whether or not that succeeds.
\<close>

definition keys_import :: "'w host \<Rightarrow> (bytes \<rightharpoonup> bytes) \<Rightarrow> cli_config \<Rightarrow> bytes \<Rightarrow> ('w, unit) cli" where
  "keys_import h env cfg root =
     (let cosmos = cg_cosmos cfg; stellar = cg_stellar cfg; testnet = cosmos_testnet env;
          mnemonic = testnet_mnemonic env cosmos in
      bindC (liftC (ensure (co_relayer_mnemonic cosmos \<noteq> []) (Unset (asc ''COSMOS_RELAYER_MNEMONIC'')))) (\<lambda>_.
      bindC (liftC (ensure (st_signing_key stellar \<noteq> []) (Unset (asc ''STELLAR_SIGNING_KEY'')))) (\<lambda>_.
      bindC (tryC (docker_compose h root [asc ''stop'', asc ''hermes''])) (\<lambda>_.
      bindC (import_mnemonic h cfg root (co_chain_id cosmos) (co_key_name cosmos) (co_relayer_mnemonic cosmos)) (\<lambda>_.
      bindC (if trim mnemonic \<noteq> []
             then bindC (tryC (import_mnemonic h cfg root (co_chain_id testnet) (co_key_name testnet) (trim mnemonic))) (\<lambda>_. retC ())
             else retC ()) (\<lambda>_.
      bindC (import_secret h cfg root (st_chain_id stellar) (st_key_name stellar) (st_signing_key stellar)) (\<lambda>_.
      docker_compose h root [asc ''up'', asc ''-d'', asc ''hermes''])))))))"

section \<open>Creating clients\<close>

record create_spec =
  cr_host_chain :: bytes
  cr_reference_chain :: bytes
  cr_id_prefix :: bytes
  cr_result_env_var :: bytes
  cr_existing :: "bytes option"

definition http_up :: "'w host \<Rightarrow> bytes \<Rightarrow> ('w, bool) cli" where
  "http_up h url w = (let (up, w') = http_ok h url w in Some (Inr up, w'))"

definition create :: "'w host \<Rightarrow> (bytes \<Rightarrow> bool) \<Rightarrow> clients_config \<Rightarrow> bytes \<Rightarrow> create_spec \<Rightarrow> bool \<Rightarrow> ('w, bytes) cli" where
  "create h uni cfg root spec force =
     (case (cr_existing spec, force) of
        (Some existing, False) \<Rightarrow> retC existing
      | _ \<Rightarrow>
          bindC (run_has h (asc ''docker'')) (\<lambda>installed.
          bindC (liftC (ensure installed (ToolMissing (asc ''docker'')))) (\<lambda>_.
          bindC (tcp_ok h (cl_gateway_url cfg)) (\<lambda>gateway.
          bindC (liftC (ensure gateway (NotReachable (cl_gateway_url cfg)))) (\<lambda>_.
          bindC (http_up h (cosmos_status_url cfg)) (\<lambda>cosmos.
          bindC (liftC (ensure cosmos (NotReachable (cl_cosmos_rpc_url cfg)))) (\<lambda>_.
          bindC (hermes_exec h root (cl_hermes_config_path cfg)
                   [asc ''create'', asc ''client'', asc ''--host-chain'', cr_host_chain spec,
                    asc ''--reference-chain'', cr_reference_chain spec]) (\<lambda>output.
          bindC (liftC (ok_or (Unresolved (cr_id_prefix spec)) (extract_client_id uni output (cr_id_prefix spec)))) (\<lambda>client_id.
          bindC (env_upsert h (path_join root (asc ''.env'')) [(cr_result_env_var spec, client_id)]) (\<lambda>_.
          retC client_id))))))))))"

definition cosmos_spec :: "clients_config \<Rightarrow> create_spec" where
  "cosmos_spec cfg = \<lparr>cr_host_chain = cl_stellar_chain_id cfg, cr_reference_chain = cl_cosmos_chain_id cfg,
     cr_id_prefix = asc ''07-tendermint'', cr_result_env_var = asc ''COSMOS_CLIENT_ID'', cr_existing = cl_cosmos_client cfg\<rparr>"

definition stellar_spec :: "clients_config \<Rightarrow> create_spec" where
  "stellar_spec cfg = \<lparr>cr_host_chain = cl_cosmos_chain_id cfg, cr_reference_chain = cl_stellar_chain_id cfg,
     cr_id_prefix = asc ''08-wasm'', cr_result_env_var = asc ''STELLAR_CLIENT_ID'', cr_existing = cl_stellar_client cfg\<rparr>"

definition create_cosmos :: "'w host \<Rightarrow> (bytes \<Rightarrow> bool) \<Rightarrow> clients_config \<Rightarrow> bytes \<Rightarrow> bool \<Rightarrow> ('w, bytes) cli" where
  "create_cosmos h uni cfg root force = create h uni cfg root (cosmos_spec cfg) force"

text \<open>The Stellar client needs a checksum in the relayer's configuration.\<close>

definition create_stellar :: "'w host \<Rightarrow> (bytes \<Rightarrow> bool) \<Rightarrow> clients_config \<Rightarrow> bytes \<Rightarrow> bool \<Rightarrow> ('w, bytes) cli" where
  "create_stellar h uni cfg root force =
     (case (force, cl_stellar_client cfg) of
        (False, Some existing) \<Rightarrow> retC existing
      | _ \<Rightarrow>
          (\<lambda>w. bindC (liftC (ensure (wasm_checksum_present (h_read h (cl_hermes_config cfg) w)) (Unset (asc ''wasm_checksum_hex'')))) (\<lambda>_.
               create h uni cfg root (stellar_spec cfg) force) w))"

section \<open>Registering counterparties\<close>

definition register_counterparty_with ::
  "'w host \<Rightarrow> clients_config \<Rightarrow> bytes \<Rightarrow> bytes \<Rightarrow> bytes \<Rightarrow> bytes \<Rightarrow> ('w, unit) cli" where
  "register_counterparty_with h cfg root side cosmos_id stellar_id =
     (let (chain_id, client, counterparty, prefix) =
        (if side = asc ''stellar'' then (cl_stellar_chain_id cfg, cosmos_id, stellar_id, asc ''ibc'')
         else (cl_cosmos_chain_id cfg, stellar_id, cosmos_id, [])) in
      bindC (liftC (ensure (client \<noteq> [] \<and> counterparty \<noteq> []) (Unset (asc ''COSMOS_CLIENT_ID'')))) (\<lambda>_.
      bindC (run_has h (asc ''docker'')) (\<lambda>installed.
      bindC (liftC (ensure installed (ToolMissing (asc ''docker'')))) (\<lambda>_.
      bindC (hermes_exec h root (cl_hermes_config_path cfg)
               [asc ''create'', asc ''counterparty'', asc ''--chain'', chain_id, asc ''--client'', client,
                asc ''--counterparty-client'', counterparty, asc ''--commitment-prefix'', prefix]) (\<lambda>_.
      retC ())))))"

definition counterparty_run :: "'w host \<Rightarrow> clients_config \<Rightarrow> bytes \<Rightarrow> bytes \<Rightarrow> ('w, unit) cli" where
  "counterparty_run h cfg root side =
     register_counterparty_with h cfg root side (or_default [] (cl_cosmos_client cfg)) (or_default [] (cl_stellar_client cfg))"

section \<open>Every client command returns\<close>

lemma total_hermes [total_intros]:
  assumes "programs_return h"
  shows "total (hermes_exec h root path args)" "total (keys_import h env cfg root)"
  unfolding hermes_exec_def keys_import_def import_mnemonic_def import_secret_def
  using assms by (intro total_intros; assumption?)+

lemma total_http_up [total_intros]: "total (http_up h url)"
  by (auto simp: total_def http_up_def split: prod.splits)

lemma total_create [total_intros]: "programs_return h \<Longrightarrow> total (create h uni cfg root spec force)"
  unfolding create_def by (cases "cr_existing spec"; cases force; simp; intro total_intros; assumption?)

lemma total_clients [total_intros]:
  assumes "programs_return h"
  shows "total (create_cosmos h uni cfg root force)" "total (create_stellar h uni cfg root force)"
  "total (register_counterparty_with h cfg root side c s)" "total (counterparty_run h cfg root side)"
proof -
  show "total (create_cosmos h uni cfg root force)" unfolding create_cosmos_def using assms by (intro total_intros; assumption?)
  have "total (\<lambda>w. bindC (liftC (ensure (b w) er)) (\<lambda>_. create h uni cfg root (stellar_spec cfg) force) w)" for b er
    using total_create [OF assms, of uni cfg root "stellar_spec cfg" force]
    by (auto simp: total_def bindC_def liftC_def ensure_def)
  then show "total (create_stellar h uni cfg root force)"
    using assms by (auto simp: create_stellar_def intro: total_intros split: option.splits bool.splits)
  show "total (register_counterparty_with h cfg root side c s)" "total (counterparty_run h cfg root side)"
    unfolding counterparty_run_def register_counterparty_with_def using assms by (intro total_intros; assumption?)+
qed

section \<open>What a creation records\<close>

text \<open>
  A created client has the form of an identifier of its type, and the next run finds it as the
  existing one: with it the command does nothing but return it.
\<close>

lemma create_result:
  assumes "create h uni cfg root spec force w = Some (Inr i, w')" "cr_existing spec = None \<or> force"
  shows "client_token (cr_id_prefix spec) i
    \<and> (\<exists>w1. env_upsert h (path_join root (asc ''.env'')) [(cr_result_env_var spec, i)] w1 = Some (Inr (), w'))"
  using assms by (auto simp: create_def bindE_simps extract_client_id_sound split: option.splits bool.splits)

lemma create_existing: "cr_existing spec = Some i \<Longrightarrow> create h uni cfg root spec False w = Some (Inr i, w)"
  by (simp add: create_def retC_def)

end
