(* ===== verification/Cli_Transfer.thy ===== *)
theory Cli_Transfer
  imports Cli_Clients
begin

text \<open>
  Transfers (\<open>tx/transfer/mod.rs\<close>) and the dispatch of the transaction commands (\<open>tx/mod.rs\<close>). The wall
  clock in seconds, an error before 1970, is the parameter \<open>clock\<close>. The queries only print and are left
  out.
\<close>

section \<open>Transfers\<close>

record transfer_params =
  tp_denom :: bytes
  tp_amount :: i128
  tp_receiver :: bytes
  tp_sender :: bytes
  tp_memo :: bytes
  tp_timeout_secs :: u64
  tp_mint :: bool

definition i128_string :: "i128 \<Rightarrow> bytes" where
  "i128_string n = (if n < 0 then 45 # decimal (nat (- n)) else decimal (nat n))"

text \<open>The first line that starts with the prefix of addresses.\<close>

definition cosmos_line :: "bytes \<Rightarrow> bytes option" where
  "cosmos_line out = find (starts_with (asc ''cosmos'')) (map trim (lines out))"

definition cosmos_relayer_address :: "'w host \<Rightarrow> cli_config \<Rightarrow> bytes \<Rightarrow> ('w, bytes) cli" where
  "cosmos_relayer_address h cfg root =
     (let key_name = co_key_name (cg_cosmos cfg) in
      bindC (run_capture_all h root (asc ''docker'')
        [asc ''compose'', asc ''exec'', asc ''-T'', asc ''cosmos'', asc ''simd'', asc ''keys'', asc ''show'', key_name, asc ''-a'',
         asc ''--keyring-backend'', asc ''test'', asc ''--home'', asc ''/root/.simapp'']) (\<lambda>out.
      liftC (ok_or (Unresolved key_name) (cosmos_line out))))"

text \<open>The sum is checked for overflow, as in every build of the workspace.\<close>

definition transfer_timeout :: "('w \<Rightarrow> u64 option) \<Rightarrow> u64 \<Rightarrow> ('w, u64) cli" where
  "transfer_timeout clock secs w =
     (case clock w of
        None \<Rightarrow> Some (Inl (BadResponse (asc ''clock'')), w)
      | Some now \<Rightarrow>
          if unat now + unat secs < 2 ^ 64 then Some (Inr (now + secs), w) else Some (Inl ArithmeticOverflow, w))"

definition mint_call :: "bytes \<Rightarrow> bytes \<Rightarrow> i128 \<Rightarrow> bytes list" where
  "mint_call sender denom amount =
     [asc ''mint'', asc ''--to'', sender, asc ''--denom'', denom, asc ''--amount'', i128_string amount]"

definition initiate_call :: "bytes \<Rightarrow> bytes \<Rightarrow> bytes \<Rightarrow> i128 \<Rightarrow> bytes \<Rightarrow> u64 \<Rightarrow> bytes \<Rightarrow> bytes list" where
  "initiate_call sender source_client denom amount receiver timeout memo =
     [asc ''initiate_transfer'', asc ''--sender'', sender, asc ''--source_client_id'', source_client, asc ''--denom'', denom,
      asc ''--amount'', i128_string amount, asc ''--receiver'', receiver, asc ''--timeout_timestamp'', decimal (unat timeout),
      asc ''--memo'', [34] @ memo @ [34]]"

definition transfer_sender :: "cli_config \<Rightarrow> transfer_params \<Rightarrow> bytes" where
  "transfer_sender cfg args =
     (if tp_sender args \<noteq> [] then tp_sender args
      else if ac_stellar_sender_address (cg_accounts cfg) \<noteq> [] then ac_stellar_sender_address (cg_accounts cfg)
      else dp_deployer_address (cg_deployment cfg))"

definition sender_identity :: "cli_config \<Rightarrow> bytes" where
  "sender_identity cfg =
     (if ac_stellar_sender_identity (cg_accounts cfg) \<noteq> [] then ac_stellar_sender_identity (cg_accounts cfg)
      else st_cli_identity (cg_stellar cfg))"

definition transfer_receiver :: "'w host \<Rightarrow> cli_config \<Rightarrow> bytes \<Rightarrow> transfer_params \<Rightarrow> ('w, bytes) cli" where
  "transfer_receiver h cfg root args =
     (if tp_receiver args \<noteq> [] then retC (tp_receiver args)
      else if trim (co_receiver_address (cg_cosmos cfg)) \<noteq> [] then retC (trim (co_receiver_address (cg_cosmos cfg)))
      else cosmos_relayer_address h cfg root)"

definition stellar_to_cosmos ::
  "'w host \<Rightarrow> ('w \<Rightarrow> u64 option) \<Rightarrow> cli_config \<Rightarrow> bytes \<Rightarrow> transfer_params \<Rightarrow> ('w, unit) cli" where
  "stellar_to_cosmos h clock cfg root args =
     (let transfer_app = dp_transfer_app (cg_deployment cfg); source_client = dp_cosmos_client_id (cg_deployment cfg);
          sender = transfer_sender cfg args; cc = contracts_config_of cfg in
      bindC (liftC (ensure (transfer_app \<noteq> []) (Unset (asc ''TRANSFER_CONTRACT_ADDRESS'')))) (\<lambda>_.
      bindC (liftC (ensure (source_client \<noteq> []) (Unset (asc ''COSMOS_CLIENT_ID'')))) (\<lambda>_.
      bindC (liftC (ensure (sender \<noteq> []) (Unset (asc ''STELLAR_SENDER_ADDRESS'')))) (\<lambda>_.
      bindC (transfer_receiver h cfg root args) (\<lambda>receiver.
      bindC (transfer_timeout clock (tp_timeout_secs args)) (\<lambda>timeout.
      bindC (if tp_mint args then invoke h cc root transfer_app (mint_call sender (tp_denom args) (tp_amount args))
             else retC ()) (\<lambda>_.
      invoke_as h cc root transfer_app
        (initiate_call sender source_client (tp_denom args) (tp_amount args) receiver timeout (tp_memo args))
        (sender_identity cfg))))))))"

text \<open>Not implemented: \<open>shared::pending\<close> prints a notice.\<close>

definition cosmos_to_stellar :: "('w, unit) cli" where
  "cosmos_to_stellar = retC ()"

section \<open>Commands (\<open>tx/mod.rs\<close>)\<close>

datatype sides = SideCosmos | SideStellar | SideBoth

fun sides_of :: "bool \<Rightarrow> bool \<Rightarrow> sides" where
  "sides_of True False = SideCosmos"
| "sides_of False True = SideStellar"
| "sides_of _ _ = SideBoth"

record side_args =
  sa_cosmos :: bool
  sa_stellar :: bool
  sa_force :: bool

datatype clients_tx_cmd = ClientsCreate side_args | ClientsCounterparty side_args

record deploy_options =
  da_cosmos :: bool
  da_contract :: "bytes option"
  da_force :: bool
  da_attestation :: bool

datatype contracts_tx_cmd = ContractsUpload | ContractsDeploy deploy_options | ContractsInvoke bytes "bytes list"

record transfer_args =
  ta_from :: bytes
  ta_to :: bytes
  ta_amount :: i128
  ta_denom :: bytes
  ta_timeout_secs :: u64
  ta_no_mint :: bool

definition clients_tx :: "'w host \<Rightarrow> (bytes \<Rightarrow> bool) \<Rightarrow> cli_config \<Rightarrow> bytes \<Rightarrow> clients_tx_cmd \<Rightarrow> ('w, unit) cli" where
  "clients_tx h uni cfg root cmd =
     (let cc = clients_config_of cfg in
      case cmd of
        ClientsCreate args \<Rightarrow>
          (case sides_of (sa_cosmos args) (sa_stellar args) of
             SideCosmos \<Rightarrow> bindC (create_cosmos h uni cc root (sa_force args)) (\<lambda>_. retC ())
           | SideStellar \<Rightarrow> bindC (create_stellar h uni cc root (sa_force args)) (\<lambda>_. retC ())
           | SideBoth \<Rightarrow>
               bindC (create_cosmos h uni cc root (sa_force args)) (\<lambda>_.
               bindC (create_stellar h uni cc root (sa_force args)) (\<lambda>_. retC ())))
      | ClientsCounterparty args \<Rightarrow>
          (case sides_of (sa_cosmos args) (sa_stellar args) of
             SideCosmos \<Rightarrow> counterparty_run h cc root (asc ''cosmos'')
           | SideStellar \<Rightarrow> counterparty_run h cc root (asc ''stellar'')
           | SideBoth \<Rightarrow>
               bindC (counterparty_run h cc root (asc ''cosmos'')) (\<lambda>_.
               counterparty_run h cc root (asc ''stellar''))))"

definition contracts_tx ::
  "'k cosmos_libs \<Rightarrow> 'w host \<Rightarrow> (bytes \<Rightarrow> bytes option) \<Rightarrow> (bytes \<Rightarrow> bytes) \<Rightarrow> (json \<Rightarrow> bytes) \<Rightarrow> (bytes \<rightharpoonup> bytes)
   \<Rightarrow> cli_config \<Rightarrow> bytes \<Rightarrow> contracts_tx_cmd \<Rightarrow> ('w, unit) cli" where
  "contracts_tx lb h key_address sha_hex pretty env cfg root cmd =
     (let cc = contracts_config_of cfg in
      case cmd of
        ContractsUpload \<Rightarrow> upload_all h cc root
      | ContractsDeploy args \<Rightarrow>
          if da_cosmos args then upload lb h sha_hex pretty env cc root False None
          else
            (case da_contract args of
               Some name \<Rightarrow> bindC (deploy_one h key_address cc root name) (\<lambda>_. retC ())
             | None \<Rightarrow> bindC (deploy_all h key_address cc root (da_force args) (da_attestation args)) (\<lambda>_. retC ()))
      | ContractsInvoke contract call \<Rightarrow> invoke h cc root contract call)"

definition transfer_tx :: "'w host \<Rightarrow> ('w \<Rightarrow> u64 option) \<Rightarrow> cli_config \<Rightarrow> bytes \<Rightarrow> transfer_args \<Rightarrow> ('w, unit) cli" where
  "transfer_tx h clock cfg root args =
     bindC (liftC (ok_or (Unclassified (ta_from args)) (chain_of (ta_from args)))) (\<lambda>src.
     bindC (liftC (ok_or (Unclassified (ta_to args)) (chain_of (ta_to args)))) (\<lambda>dst.
     let params = \<lparr>tp_denom = ta_denom args, tp_amount = ta_amount args, tp_receiver = ta_to args, tp_sender = ta_from args,
                   tp_memo = [], tp_timeout_secs = ta_timeout_secs args, tp_mint = \<not> ta_no_mint args\<rparr> in
     case (src, dst) of
       (ChainStellar, ChainCosmos) \<Rightarrow> stellar_to_cosmos h clock cfg root params
     | (ChainCosmos, ChainStellar) \<Rightarrow> cosmos_to_stellar
     | _ \<Rightarrow> liftC (Inl MustCrossChains)))"

section \<open>Every transaction command returns\<close>

lemma total_transfer_timeout [total_intros]: "total (transfer_timeout clock secs)"
  by (auto simp: total_def transfer_timeout_def split: option.splits)

lemma total_transfers [total_intros]:
  assumes "programs_return h"
  shows "total (cosmos_relayer_address h cfg root)" "total (transfer_receiver h cfg root args)"
  "total (stellar_to_cosmos h clock cfg root params)" "total cosmos_to_stellar"
  unfolding cosmos_relayer_address_def transfer_receiver_def stellar_to_cosmos_def cosmos_to_stellar_def
  using assms by (intro total_intros; assumption?)+

lemma total_transfer_tx [total_intros]: "programs_return h \<Longrightarrow> total (transfer_tx h clock cfg root args)"
  unfolding transfer_tx_def by (intro total_intros) (auto intro: total_intros split: chain.splits)

lemma total_clients_tx [total_intros]: "programs_return h \<Longrightarrow> total (clients_tx h uni cfg root cmd)"
  unfolding clients_tx_def by (auto intro!: total_intros split: clients_tx_cmd.splits sides.splits)

lemma total_contracts_tx [total_intros]:
  "clock_law h \<Longrightarrow> programs_return h \<Longrightarrow> total (contracts_tx lb h key_address sha_hex pretty env cfg root cmd)"
  unfolding contracts_tx_def by (auto intro!: total_intros split: contracts_tx_cmd.splits)

end
