(* ===== verification/Cli_Services.thy ===== *)
theory Cli_Services
  imports Cli_Transfer
begin

text \<open>
  The services and the life cycle of the stack: \<open>services/mod.rs\<close>, \<open>stack.rs\<close>, \<open>accounts/mod.rs\<close>,
  \<open>start.rs\<close>, \<open>repo.rs\<close> and the dispatch of the commands in \<open>main.rs\<close>. What the commands print is left
  out; those that do nothing else are a parameter of the dispatch.
\<close>

section \<open>Services (\<open>services/mod.rs\<close>)\<close>

datatype service = ServiceApi | ServiceGateway | ServiceHermes | ServiceCosmos

record service_args =
  sv_api :: bool
  sv_gateway :: bool
  sv_hermes :: bool
  sv_cosmos :: bool

fun service_compose :: "service \<Rightarrow> bytes" where
  "service_compose ServiceApi = asc ''api''"
| "service_compose ServiceGateway = asc ''gateway''"
| "service_compose ServiceHermes = asc ''hermes''"
| "service_compose ServiceCosmos = asc ''cosmos''"

definition buildable :: "service \<Rightarrow> bool" where
  "buildable s \<longleftrightarrow> s \<noteq> ServiceCosmos"

fun service_image :: "(bytes \<rightharpoonup> bytes) \<Rightarrow> cli_config \<Rightarrow> service \<Rightarrow> bytes" where
  "service_image env cfg ServiceApi = image_reference (cg_api cfg)"
| "service_image env cfg ServiceGateway = image_reference (cg_gateway cfg)"
| "service_image env cfg ServiceHermes = image_reference (he_image (cg_hermes cfg))"
| "service_image env cfg ServiceCosmos = cli_get env (asc ''COSMOS_CHAIN_IMAGE'') (asc ''ghcr.io/cosmos/ibc-go-wasm-simd:v11.0.0'')"

definition ALL_SERVICES :: "service list" where
  "ALL_SERVICES = [ServiceApi, ServiceGateway, ServiceHermes, ServiceCosmos]"

definition selected :: "service_args \<Rightarrow> service list" where
  "selected args =
     (let picked = (if sv_api args then [ServiceApi] else []) @ (if sv_gateway args then [ServiceGateway] else [])
                 @ (if sv_hermes args then [ServiceHermes] else []) @ (if sv_cosmos args then [ServiceCosmos] else []) in
      if picked = [] then ALL_SERVICES else picked)"

definition service_names :: "service list \<Rightarrow> bytes list" where
  "service_names services = map service_compose services"

definition services_pull :: "'w host \<Rightarrow> bytes \<Rightarrow> service list \<Rightarrow> ('w, unit) cli" where
  "services_pull h root services = docker_compose h root (asc ''pull'' # service_names services)"

definition services_up :: "'w host \<Rightarrow> bytes \<Rightarrow> service list \<Rightarrow> ('w, unit) cli" where
  "services_up h root services =
     bindC (services_pull h root services) (\<lambda>_.
     docker_compose h root ([asc ''up'', asc ''-d''] @ service_names services))"

definition services_down :: "'w host \<Rightarrow> bytes \<Rightarrow> service list \<Rightarrow> ('w, unit) cli" where
  "services_down h root services = docker_compose h root ([asc ''rm'', asc ''-s'', asc ''-f''] @ service_names services)"

definition services_restart :: "'w host \<Rightarrow> bytes \<Rightarrow> service list \<Rightarrow> ('w, unit) cli" where
  "services_restart h root services = bindC (services_down h root services) (\<lambda>_. services_up h root services)"

text \<open>The relayer is built from a checkout, made on first use and reset to the branch afterwards.\<close>

definition hermes_repo :: "'w host \<Rightarrow> cli_config \<Rightarrow> bytes \<Rightarrow> ('w, bytes) cli" where
  "hermes_repo h cfg root =
     (let hermes = cg_hermes cfg; checkout = path_join root (asc ''target/hermes-relayer'') in
      bindC (liftC (ensure (trim (he_repo_url hermes) \<noteq> []) (Unset (asc ''HERMES_REPO_URL'')))) (\<lambda>_.
      bindC (\<lambda>w. (if h_is_dir h (path_join checkout (asc ''.git'')) w
                  then run_command h checkout (asc ''git'') [asc ''remote'', asc ''set-url'', asc ''origin'', he_repo_url hermes]
                  else run_command h root (asc ''git'') [asc ''clone'', he_repo_url hermes, checkout]) w) (\<lambda>_.
      bindC (run_command h checkout (asc ''git'') [asc ''fetch'', asc ''origin'', he_branch hermes]) (\<lambda>_.
      bindC (run_command h checkout (asc ''git'') [asc ''checkout'', he_branch hermes]) (\<lambda>_.
      bindC (run_command h checkout (asc ''git'') [asc ''reset'', asc ''--hard'', asc ''origin/'' @ he_branch hermes]) (\<lambda>_.
      retC checkout))))))"

definition docker_login :: "'w host \<Rightarrow> (bytes \<rightharpoonup> bytes) \<Rightarrow> bytes \<Rightarrow> ('w, unit) cli" where
  "docker_login h env root =
     (let user = cli_get env (asc ''DOCKER_USERNAME'') []; token = cli_get env (asc ''DOCKER_TOKEN'') [] in
      if user = [] \<or> token = [] then retC ()
      else run_piped h root (asc ''docker'') [asc ''login'', asc ''-u'', user, asc ''--password-stdin''] token)"

definition build_image ::
  "'w host \<Rightarrow> (bytes \<rightharpoonup> bytes) \<Rightarrow> cli_config \<Rightarrow> bytes \<Rightarrow> service \<Rightarrow> bytes \<Rightarrow> bytes \<Rightarrow> bool \<Rightarrow> ('w, unit) cli" where
  "build_image h env cfg root s dockerfile ctx push =
     (let image = service_image env cfg s in
      bindC (run_command h root (asc ''docker'') [asc ''build'', asc ''-t'', image, asc ''-f'', dockerfile, ctx]) (\<lambda>_.
      if \<not> push then retC ()
      else
        bindC (docker_login h env root) (\<lambda>_.
        run_command h root (asc ''docker'') [asc ''push'', image])))"

definition build_one ::
  "'w host \<Rightarrow> (bytes \<rightharpoonup> bytes) \<Rightarrow> cli_config \<Rightarrow> bytes \<Rightarrow> service \<Rightarrow> bool \<Rightarrow> ('w, unit) cli" where
  "build_one h env cfg root s push =
     (case s of
        ServiceApi \<Rightarrow> build_image h env cfg root s (asc ''crates/api/Dockerfile'') (asc ''.'') push
      | ServiceGateway \<Rightarrow> build_image h env cfg root s (asc ''crates/gateway/Dockerfile'') (asc ''.'') push
      | ServiceHermes \<Rightarrow>
          bindC (hermes_repo h cfg root) (\<lambda>repo.
          build_image h env cfg root s (repo @ asc ''/ci/release/hermes.Dockerfile'') repo push)
      | ServiceCosmos \<Rightarrow> retC ())"

definition build_or_push ::
  "'w host \<Rightarrow> (bytes \<rightharpoonup> bytes) \<Rightarrow> cli_config \<Rightarrow> bytes \<Rightarrow> service_args \<Rightarrow> bool \<Rightarrow> ('w, unit) cli" where
  "build_or_push h env cfg root args push =
     bindC (liftC (ensure (\<not> sv_cosmos args) NothingToBuild)) (\<lambda>_.
     forC (\<lambda>s. build_one h env cfg root s push) (filter buildable (selected args)))"

datatype services_cmd =
    ServicesPull service_args | ServicesUp service_args | ServicesRestart service_args
  | ServicesDown service_args | ServicesBuild service_args | ServicesPush service_args

fun services_run :: "'w host \<Rightarrow> (bytes \<rightharpoonup> bytes) \<Rightarrow> cli_config \<Rightarrow> bytes \<Rightarrow> services_cmd \<Rightarrow> ('w, unit) cli" where
  "services_run h env cfg root (ServicesPull args) = services_pull h root (selected args)"
| "services_run h env cfg root (ServicesUp args) = services_up h root (selected args)"
| "services_run h env cfg root (ServicesRestart args) = services_restart h root (selected args)"
| "services_run h env cfg root (ServicesDown args) = services_down h root (selected args)"
| "services_run h env cfg root (ServicesBuild args) = build_or_push h env cfg root args False"
| "services_run h env cfg root (ServicesPush args) = build_or_push h env cfg root args True"

section \<open>The stack (\<open>stack.rs\<close>)\<close>

definition stack_up :: "'w host \<Rightarrow> bytes \<Rightarrow> bool \<Rightarrow> bool \<Rightarrow> ('w, unit) cli" where
  "stack_up h root cosmos_only stellar_only =
     docker_compose h root ([asc ''up'', asc ''-d'']
       @ (if cosmos_only then [asc ''cosmos''] else if stellar_only then [asc ''api'', asc ''gateway'']
          else [asc ''cosmos'', asc ''api'', asc ''gateway'']))"

definition stack_down :: "'w host \<Rightarrow> bytes \<Rightarrow> bool \<Rightarrow> ('w, unit) cli" where
  "stack_down h root volumes = docker_compose h root (asc ''down'' # (if volumes then [asc ''--volumes''] else []))"

section \<open>Accounts (\<open>accounts/mod.rs\<close>)\<close>

definition COSMOS_HOME :: bytes where
  "COSMOS_HOME = asc ''/root/.simapp''"

definition COSMOS_FUND_AMOUNT :: bytes where
  "COSMOS_FUND_AMOUNT = asc ''1000000000stake''"

definition KEYRING_FLAGS :: "bytes list" where
  "KEYRING_FLAGS = [asc ''--keyring-backend'', asc ''test'', asc ''--home'', COSMOS_HOME]"

definition simd :: "'w host \<Rightarrow> bytes \<Rightarrow> bytes list \<Rightarrow> ('w, bytes) cli" where
  "simd h root args =
     run_capture_all h root (asc ''docker'')
       ([asc ''compose'', asc ''exec'', asc ''-T'', asc ''cosmos'', asc ''simd''] @ args @ KEYRING_FLAGS)"

text \<open>What a successful query prints, when it prints anything.\<close>

definition stellar_key_query :: "'w host \<Rightarrow> bytes \<Rightarrow> bytes \<Rightarrow> bytes \<Rightarrow> ('w, bytes option) cli" where
  "stellar_key_query h root what name =
     bindC (tryC (run_capture_quiet h root (asc ''stellar'') [asc ''keys'', what, name])) (\<lambda>r.
     retC (case r of Inr s \<Rightarrow> non_empty (trim s) | Inl _ \<Rightarrow> None))"

definition stellar_address :: "'w host \<Rightarrow> bytes \<Rightarrow> bytes \<Rightarrow> ('w, bytes option) cli" where
  "stellar_address h root name = stellar_key_query h root (asc ''public-key'') name"

definition stellar_secret :: "'w host \<Rightarrow> bytes \<Rightarrow> bytes \<Rightarrow> ('w, bytes option) cli" where
  "stellar_secret h root name = stellar_key_query h root (asc ''secret'') name"

definition fund_stellar_identity :: "'w host \<Rightarrow> cli_config \<Rightarrow> bytes \<Rightarrow> bytes \<Rightarrow> ('w, unit) cli" where
  "fund_stellar_identity h cfg root name =
     bindC (tryC (run_capture_all h root (asc ''stellar'')
       [asc ''keys'', asc ''fund'', name, asc ''--rpc-url'', st_rpc_url (cg_stellar cfg),
        asc ''--network-passphrase'', st_network_passphrase (cg_stellar cfg)])) (\<lambda>_. retC ())"

definition ensure_stellar_identity :: "'w host \<Rightarrow> cli_config \<Rightarrow> bytes \<Rightarrow> bytes \<Rightarrow> bool \<Rightarrow> ('w, bytes \<times> bytes) cli" where
  "ensure_stellar_identity h cfg root name force =
     bindC (stellar_address h root name) (\<lambda>existing.
     case (existing, force) of
       (Some addr, False) \<Rightarrow>
         bindC (fund_stellar_identity h cfg root name) (\<lambda>_.
         bindC (stellar_secret h root name) (\<lambda>secret.
         retC (addr, or_default [] secret)))
     | _ \<Rightarrow>
         bindC (run_command h root (asc ''stellar'')
           ([asc ''keys'', asc ''generate'', name, asc ''--rpc-url'', st_rpc_url (cg_stellar cfg),
             asc ''--network-passphrase'', st_network_passphrase (cg_stellar cfg), asc ''--fund'']
            @ (if existing \<noteq> None then [asc ''--overwrite''] else []))) (\<lambda>_.
         bindC (stellar_address h root name) (\<lambda>resolved.
         bindC (liftC (ok_or (Unresolved name) resolved)) (\<lambda>addr.
         bindC (stellar_secret h root name) (\<lambda>secret.
         retC (addr, or_default [] secret))))))"

definition provision_stellar :: "'w host \<Rightarrow> cli_config \<Rightarrow> bytes \<Rightarrow> bool \<Rightarrow> ('w, unit) cli" where
  "provision_stellar h cfg root force =
     (let sender_id = ac_stellar_sender_identity (cg_accounts cfg);
          receiver_id = ac_stellar_receiver_identity (cg_accounts cfg) in
      bindC (run_has h (asc ''stellar'')) (\<lambda>installed.
      bindC (liftC (ensure installed (ToolMissing (asc ''stellar'')))) (\<lambda>_.
      bindC (ensure_stellar_identity h cfg root sender_id force) (\<lambda>(sender_addr, sender_secret).
      bindC (ensure_stellar_identity h cfg root receiver_id force) (\<lambda>(receiver_addr, receiver_secret).
      env_upsert h (path_join root (asc ''.env''))
        [(asc ''STELLAR_SENDER_IDENTITY'', sender_id), (asc ''STELLAR_SENDER_ADDRESS'', sender_addr),
         (asc ''STELLAR_SENDER_KEY'', sender_secret), (asc ''STELLAR_RECEIVER_IDENTITY'', receiver_id),
         (asc ''STELLAR_RECEIVER_ADDRESS'', receiver_addr), (asc ''STELLAR_RECEIVER_KEY'', receiver_secret)])))))"

definition cosmos_key_address :: "'w host \<Rightarrow> bytes \<Rightarrow> bytes \<Rightarrow> ('w, bytes option) cli" where
  "cosmos_key_address h root name =
     bindC (tryC (simd h root [asc ''keys'', asc ''show'', name, asc ''-a''])) (\<lambda>r.
     retC (case r of Inr out \<Rightarrow> non_empty (or_default [] (cosmos_line out)) | Inl _ \<Rightarrow> None))"

definition add_cosmos_key :: "'w host \<Rightarrow> bytes \<Rightarrow> bytes \<Rightarrow> ('w, bytes \<times> bool) cli" where
  "add_cosmos_key h root name =
     bindC (simd h root [asc ''keys'', asc ''add'', name]) (\<lambda>_.
     bindC (cosmos_key_address h root name) (\<lambda>resolved.
     bindC (liftC (ok_or (Unresolved name) resolved)) (\<lambda>addr. retC (addr, True))))"

definition ensure_cosmos_key :: "'w host \<Rightarrow> bytes \<Rightarrow> bytes \<Rightarrow> bool \<Rightarrow> ('w, bytes \<times> bool) cli" where
  "ensure_cosmos_key h root name force =
     bindC (cosmos_key_address h root name) (\<lambda>existing.
     case existing of
       Some addr \<Rightarrow>
         if \<not> force then retC (addr, False)
         else bindC (simd h root [asc ''keys'', asc ''delete'', name, asc ''--yes'']) (\<lambda>_. add_cosmos_key h root name)
     | None \<Rightarrow> add_cosmos_key h root name)"

definition fund_cosmos :: "'w host \<Rightarrow> cli_config \<Rightarrow> bytes \<Rightarrow> bytes \<Rightarrow> ('w, unit) cli" where
  "fund_cosmos h cfg root address =
     bindC (simd h root [asc ''tx'', asc ''bank'', asc ''send'', co_key_name (cg_cosmos cfg), address, COSMOS_FUND_AMOUNT,
       asc ''--chain-id'', co_chain_id (cg_cosmos cfg), asc ''--gas'', asc ''auto'', asc ''--gas-adjustment'', asc ''1.5'',
       asc ''--gas-prices'', asc ''0.025stake'', asc ''--broadcast-mode'', asc ''sync'', asc ''--yes'']) (\<lambda>_. retC ())"

definition provision_cosmos :: "'w host \<Rightarrow> cli_config \<Rightarrow> bytes \<Rightarrow> bool \<Rightarrow> ('w, unit) cli" where
  "provision_cosmos h cfg root force =
     (let sender_name = ac_cosmos_sender_key_name (cg_accounts cfg);
          receiver_name = ac_cosmos_receiver_key_name (cg_accounts cfg) in
      if \<not> cosmos_is_local (cg_cosmos cfg) then retC ()
      else
        bindC (ensure_cosmos_key h root sender_name force) (\<lambda>(sender_addr, sender_created).
        bindC (ensure_cosmos_key h root receiver_name force) (\<lambda>(receiver_addr, _).
        bindC (if sender_created then fund_cosmos h cfg root sender_addr else retC ()) (\<lambda>_.
        env_upsert h (path_join root (asc ''.env''))
          [(asc ''COSMOS_SENDER_KEY_NAME'', sender_name), (asc ''COSMOS_SENDER_ADDRESS'', sender_addr),
           (asc ''COSMOS_RECEIVER_KEY_NAME'', receiver_name), (asc ''COSMOS_RECEIVER_ADDRESS'', receiver_addr)]))))"

definition provision :: "'w host \<Rightarrow> cli_config \<Rightarrow> bytes \<Rightarrow> bool \<Rightarrow> ('w, unit) cli" where
  "provision h cfg root force =
     bindC (provision_stellar h cfg root force) (\<lambda>_. provision_cosmos h cfg root force)"

end
