(* ===== verification/Cli_Query.thy ===== *)
theory Cli_Query
  imports Cli_Services
begin

text \<open>
  The commands that read and print: queries (\<open>tx/query/\<close>), the check of the prerequisites (\<open>check.rs\<close>,
  \<open>shared.rs\<close>), the accounts (\<open>accounts/mod.rs\<close>) and the installation (\<open>install.rs\<close>), with the lines of the
  logger (\<open>logger.rs\<close>) as their result, and the dispatch of the transaction commands (\<open>tx/mod.rs\<close>).
\<close>

section \<open>Lines (\<open>logger.rs\<close>)\<close>

datatype line =
    Banner bytes
  | Step bytes
  | OkLine bytes
  | Warn bytes
  | FailLine bytes
  | Detail bytes
  | Hint bytes
  | StatusLine bytes bool bytes

definition paint :: "bool \<Rightarrow> bytes \<Rightarrow> bytes \<Rightarrow> bytes" where
  "paint tty code s = (if tty then 27 # asc ''['' @ code @ asc ''m'' @ s @ 27 # asc ''[0m'' else s)"

text \<open>The padding of \<open>format!("{s:<n}")\<close> counts characters.\<close>

definition pad_right :: "nat \<Rightarrow> bytes \<Rightarrow> bytes" where
  "pad_right n s = s @ replicate (n - length (utf8_chars s)) 32"

definition arrow_mark :: bytes where
  "arrow_mark = [0xE2, 0x86, 0x92]"

text \<open>What \<open>emit\<close> gets: the line without the newline that \<open>println!\<close> adds.\<close>

fun line_text :: "bool \<Rightarrow> line \<Rightarrow> bytes" where
  "line_text tty (Banner s) = 10 # paint tty (asc ''1;36'') (asc ''=== '' @ s @ asc '' ==='')"
| "line_text tty (Step s) = paint tty (asc ''1;34'') [0xE2, 0x96, 0xB6] @ [32] @ paint tty (asc ''1'') s"
| "line_text tty (OkLine s) = asc ''  '' @ paint tty (asc ''1;32'') [0xE2, 0x9C, 0x93] @ [32] @ s"
| "line_text tty (Warn s) = asc ''  '' @ paint tty (asc ''1;33'') (asc ''!'') @ [32] @ s"
| "line_text tty (FailLine s) = asc ''  '' @ paint tty (asc ''1;31'') [0xE2, 0x9C, 0x97] @ [32] @ s"
| "line_text tty (Detail s) = asc ''    '' @ paint tty (asc ''2'') s"
| "line_text tty (Hint s) = 10 # paint tty (asc ''1;35'') arrow_mark @ [32] @ s"
| "line_text tty (StatusLine label up note) =
     asc ''  '' @ paint tty (if up then asc ''1;32'' else asc ''1;31'') [0xE2, 0x97, 0x8F] @ [32] @ pad_right 16 label @ [32]
     @ pad_right 6 (if up then paint tty (asc ''32'') (asc ''up'') else paint tty (asc ''31'') (asc ''down'')) @ [32]
     @ paint tty (asc ''2'') note"

text \<open>The text between two parts of a message: a dash between spaces.\<close>

definition dash :: bytes where
  "dash = [32, 0xE2, 0x80, 0x94, 32]"

fun join_comma :: "bytes list \<Rightarrow> bytes" where
  "join_comma [] = []"
| "join_comma [a] = a"
| "join_comma (a # b # as) = a @ asc '', '' @ join_comma (b # as)"

section \<open>Clients of the router (\<open>shared.rs\<close>)\<close>

definition client_ids_in :: "json \<Rightarrow> bytes list" where
  "client_ids_in client = List.map_filter json_str (or_default [] (get_array client (asc ''client_ids'')))"

definition shown_ids :: "bytes option \<Rightarrow> json \<Rightarrow> bytes list" where
  "shown_ids wanted client =
     (case wanted of Some i \<Rightarrow> filter (\<lambda>x. x = i) (client_ids_in client) | None \<Rightarrow> client_ids_in client)"

definition client_line :: "bytes option \<Rightarrow> json \<Rightarrow> line" where
  "client_line wanted client =
     OkLine (or_default (asc ''?'') (get_str client (asc ''client_type'')) @ asc '': '' @ join_comma (shown_ids wanted client))"

definition print_clients :: "json \<Rightarrow> bytes option \<Rightarrow> line list" where
  "print_clients v wanted =
     (case get_array v (asc ''clients'') of
        None \<Rightarrow> [Warn (asc ''unexpected response shape from /stellar/clients'')]
      | Some clients \<Rightarrow>
          (let shown = filter (\<lambda>c. shown_ids wanted c \<noteq> []) clients in
           map (client_line wanted) shown
           @ (if shown = []
              then [Detail (case wanted of Some i \<Rightarrow> asc ''no client '' @ i @ asc '' on the stellar router''
                                         | None \<Rightarrow> asc ''no clients created yet'')]
              else [])))"

definition shown_check :: "bytes \<Rightarrow> bool \<Rightarrow> bytes \<Rightarrow> line" where
  "shown_check name present note =
     (if present then OkLine (name @ asc '' found'') else FailLine (name @ asc '' not found'' @ dash @ note))"

definition shown_flag :: "bytes \<Rightarrow> bool \<Rightarrow> bytes \<Rightarrow> line" where
  "shown_flag name is_set note =
     (if is_set then OkLine (name @ asc '' set'') else Warn (name @ asc '' unset'' @ dash @ note))"

section \<open>Queries of clients (\<open>probe.rs\<close>, \<open>tx/query/clients.rs\<close>)\<close>

definition probe_json :: "'w host \<Rightarrow> bytes \<Rightarrow> ('w, json option) cli" where
  "probe_json h url w =
     (let (r, w') = h_get h url w in
      Some (Inr (case r of Some (status, body) \<Rightarrow> if is_success status then body else None | None \<Rightarrow> None), w'))"

definition clients_url :: "clients_config \<Rightarrow> bytes" where
  "clients_url cc = cl_api_url cc @ asc ''/stellar/clients''"

definition clients_health_url :: "clients_config \<Rightarrow> bytes" where
  "clients_health_url cc = cl_api_url cc @ asc ''/health''"

definition state_type :: "json option \<Rightarrow> bytes" where
  "state_type state = or_default (asc ''?'') (Option.bind state (\<lambda>s. get_str s (asc ''@type'')))"

definition stellar_clients :: "'w host \<Rightarrow> cli_config \<Rightarrow> bytes option \<Rightarrow> ('w, line list) cli" where
  "stellar_clients h cfg client_id =
     (let cc = clients_config_of cfg; top = Banner (asc ''query clients'' @ dash @ asc ''stellar router'') in
      bindC (http_up h (clients_health_url cc)) (\<lambda>up.
      if \<not> up then retC [top, Warn (asc ''api unreachable'' @ dash @ asc ''start it with `interstellar up`'')]
      else
        bindC (probe_json h (clients_url cc)) (\<lambda>v.
        case v of
          Some value \<Rightarrow> retC (top # print_clients value client_id)
        | None \<Rightarrow> retC [top, Warn (asc ''could not read /stellar/clients'')])))"

definition client_states_url :: "cli_config \<Rightarrow> bytes" where
  "client_states_url cfg = co_rest_url (cg_cosmos cfg) @ asc ''/ibc/core/client/v1/client_states''"

definition state_line :: "json \<Rightarrow> line" where
  "state_line state =
     OkLine (or_default (asc ''?'') (get_str state (asc ''client_id'')) @ asc '': ''
             @ state_type (json_get state (asc ''client_state'')))"

definition cosmos_client_lines :: "bytes option \<Rightarrow> json \<Rightarrow> line list" where
  "cosmos_client_lines client_id v =
     (case get_array v (asc ''client_states'') of
        Some states \<Rightarrow> if states = [] then [Detail (asc ''no clients on cosmos'')] else map state_line states
      | None \<Rightarrow>
          (case json_get v (asc ''client_state'') of
             Some state \<Rightarrow> [OkLine (or_default (asc ''?'') client_id @ asc '': '' @ state_type (Some state))]
           | None \<Rightarrow> [Warn (asc ''unexpected client_states response shape'')]))"

definition cosmos_clients :: "'w host \<Rightarrow> cli_config \<Rightarrow> bytes option \<Rightarrow> ('w, line list) cli" where
  "cosmos_clients h cfg client_id =
     (let top = Banner (asc ''query clients'' @ dash @ asc ''cosmos'');
          url = (case client_id of Some i \<Rightarrow> client_states_url cfg @ asc ''/'' @ i | None \<Rightarrow> client_states_url cfg) in
      bindC (probe_json h url) (\<lambda>v.
      case v of
        None \<Rightarrow> retC [top, Warn (asc ''could not read '' @ url)]
      | Some value \<Rightarrow> retC (top # cosmos_client_lines client_id value)))"

section \<open>Queries of balances (\<open>tx/query/balances.rs\<close>)\<close>

definition balance_args :: "cli_config \<Rightarrow> bytes \<Rightarrow> bytes list" where
  "balance_args cfg address =
     [asc ''contract'', asc ''invoke'', asc ''--id'', dp_transfer_app (cg_deployment cfg),
      asc ''--source'', st_signing_key (cg_stellar cfg), asc ''--rpc-url'', st_rpc_url (cg_stellar cfg),
      asc ''--network-passphrase'', st_network_passphrase (cg_stellar cfg), asc ''--'', asc ''balance_of'', asc ''--who'', address]"

definition stellar_balances :: "'w host \<Rightarrow> cli_config \<Rightarrow> bytes \<Rightarrow> bytes \<Rightarrow> bytes option \<Rightarrow> ('w, line list) cli" where
  "stellar_balances h cfg root address denom =
     (let top = Banner (asc ''balances'' @ dash @ asc ''stellar '' @ address); d = or_default [] denom;
          using = (if d \<noteq> [] then [Detail (asc ''using denom'' @ dash @ d)] else []) in
      if dp_transfer_app (cg_deployment cfg) = []
      then retC [top, Warn (asc ''TRANSFER_CONTRACT_ADDRESS unset'' @ dash @ asc ''run `interstellar start` first'')]
      else
        bindC (tryC (run_capture_quiet h root (asc ''stellar'') (balance_args cfg address))) (\<lambda>r.
        case r of
          Inr out \<Rightarrow> retC (top # using @ [OkLine (asc ''balance: '' @ strip_both [[34]] (trim out) @ [32] @ d)])
        | Inl e \<Rightarrow> retC (top # using @ [Warn (asc ''could not get balance for address '' @ address)])))"

definition coin_denom :: "json \<Rightarrow> bytes" where
  "coin_denom coin = or_default (asc ''?'') (get_str coin (asc ''denom''))"

definition coin_line :: "json \<Rightarrow> line" where
  "coin_line coin = Detail (or_default (asc ''?'') (get_str coin (asc ''amount'')) @ [32] @ coin_denom coin)"

fun coin_lines :: "bytes option \<Rightarrow> json list \<Rightarrow> line list" where
  "coin_lines denom [] = []"
| "coin_lines denom (coin # coins) =
     coin_line coin # (if denom = Some (coin_denom coin) then [] else coin_lines denom coins)"

definition cosmos_balances :: "'w host \<Rightarrow> cli_config \<Rightarrow> bytes \<Rightarrow> bytes option \<Rightarrow> ('w, line list) cli" where
  "cosmos_balances h cfg address denom =
     (let top = Banner (asc ''balances'' @ dash @ asc ''cosmos '' @ address);
          url = co_rest_url (cg_cosmos cfg) @ asc ''/cosmos/bank/v1beta1/balances/'' @ address in
      bindC (probe_json h url) (\<lambda>v.
      retC (top # (case v of
          None \<Rightarrow> [Warn (asc ''could not query '' @ url)]
        | Some value \<Rightarrow>
            (case get_array value (asc ''balances'') of
               Some (c # cs) \<Rightarrow> coin_lines denom (c # cs)
             | _ \<Rightarrow> [Detail (asc ''(no balances)'')])))))"

section \<open>The query command (\<open>tx/query/mod.rs\<close>)\<close>

record query_args =
  qa_clients :: "bool option"
  qa_stellar :: bool
  qa_cosmos :: bool
  qa_client_id :: "bytes option"
  qa_address :: "bytes option"
  qa_denom :: "bytes option"

fun get_chain :: "bool \<Rightarrow> bool \<Rightarrow> chain" where
  "get_chain True False = ChainCosmos"
| "get_chain False True = ChainStellar"
| "get_chain _ _ = ChainAll"

text \<open>Two reports one after the other, and \<open>unimplemented!\<close>, which panics.\<close>

definition then_lines :: "('w, line list) cli \<Rightarrow> ('w, line list) cli \<Rightarrow> ('w, line list) cli" where
  "then_lines m k = bindC m (\<lambda>a. bindC k (\<lambda>b. retC (a @ b)))"

fun get_clients :: "'w host \<Rightarrow> cli_config \<Rightarrow> chain \<Rightarrow> query_args \<Rightarrow> ('w, line list) cli" where
  "get_clients h cfg ChainCosmos args = cosmos_clients h cfg (qa_client_id args)"
| "get_clients h cfg ChainStellar args = stellar_clients h cfg (qa_client_id args)"
| "get_clients h cfg ChainCardano args = liftC (Inl Unimplemented)"
| "get_clients h cfg ChainAll args =
     then_lines (stellar_clients h cfg (qa_client_id args)) (cosmos_clients h cfg (qa_client_id args))"

definition query_balance_of :: "'w host \<Rightarrow> cli_config \<Rightarrow> bytes \<Rightarrow> query_args \<Rightarrow> ('w, line list) cli" where
  "query_balance_of h cfg root args =
     (case qa_address args of
        None \<Rightarrow> liftC (Inl AddressRequired)
      | Some address \<Rightarrow>
          (case chain_of address of
             None \<Rightarrow> retC []
           | Some ChainCosmos \<Rightarrow> cosmos_balances h cfg address (qa_denom args)
           | Some ChainStellar \<Rightarrow> stellar_balances h cfg root address (qa_denom args)
           | Some ChainCardano \<Rightarrow> liftC (Inl Unimplemented)
           | Some ChainAll \<Rightarrow>
               then_lines (stellar_balances h cfg root address (qa_denom args)) (cosmos_balances h cfg address (qa_denom args))))"

definition query_run :: "'w host \<Rightarrow> cli_config \<Rightarrow> bytes \<Rightarrow> query_args \<Rightarrow> ('w, line list) cli" where
  "query_run h cfg root args =
     (if qa_clients args \<noteq> None then get_clients h cfg (get_chain (qa_cosmos args) (qa_stellar args)) args
      else if qa_address args \<noteq> None then query_balance_of h cfg root args
      else retC [])"

section \<open>Accounts and prerequisites (\<open>accounts/mod.rs\<close>, \<open>check.rs\<close>)\<close>

definition account_line :: "bytes \<Rightarrow> bytes \<Rightarrow> line" where
  "account_line label address =
     (if address = [] then Warn (pad_right 18 label @ asc '' (not provisioned'' @ dash @ asc ''run `interstellar start`)'')
      else OkLine (pad_right 18 label @ [32] @ address))"

definition accounts_show :: "cli_config \<Rightarrow> line list" where
  "accounts_show cfg =
     [Banner (asc ''accounts (dedicated sender + receiver per chain)''),
      Step (asc ''Stellar (Soroban)'' @ dash @ asc ''origin of a stellar'' @ arrow_mark @ asc ''cosmos transfer''),
      account_line (asc ''sender'') (ac_stellar_sender_address (cg_accounts cfg)),
      account_line (asc ''receiver'') (ac_stellar_receiver_address (cg_accounts cfg)),
      account_line (asc ''deployer / admin'') (dp_deployer_address (cg_deployment cfg)),
      Detail (asc ''relayer signer key: '' @ st_key_name (cg_stellar cfg) @ asc '' (held by stellar-api, not the gateway)''),
      Step (asc ''Cosmos (ibc-go v11 simd)'' @ dash @ asc ''destination''),
      account_line (asc ''sender'') (ac_cosmos_sender_address (cg_accounts cfg)),
      account_line (asc ''receiver'') (ac_cosmos_receiver_address (cg_accounts cfg)),
      Detail (asc ''relayer signer key: '' @ co_key_name (cg_cosmos cfg)),
      Hint (asc ''sender & receiver are dedicated accounts, distinct from the deployer/relayer keys'')]"

definition env_file_line :: "'w host \<Rightarrow> bytes \<Rightarrow> ('w, line) cli" where
  "env_file_line h root w =
     Some (Inr (if h_exists h (path_join root (asc ''.env'')) w then OkLine (asc ''.env present'')
                else FailLine (asc ''.env missing'' @ dash @ asc ''copy .env.example and fill it in'')), w)"

definition configuration_lines :: "cli_config \<Rightarrow> line list" where
  "configuration_lines cfg =
     [shown_flag (asc ''STELLAR_SIGNING_KEY'') (st_signing_key (cg_stellar cfg) \<noteq> []) (asc ''needed to deploy + sign on Stellar''),
      shown_flag (asc ''ROUTER_CONTRACT_ADDRESS'') (st_ibc_router (cg_stellar cfg) \<noteq> [])
        (asc ''router address (set by `interstellar contracts deploy-all`)''),
      shown_flag (asc ''TRANSFER_CONTRACT_ADDRESS'') (st_transfer_app (cg_stellar cfg) \<noteq> []) (asc ''transfer-app address'')]"

definition check_run :: "'w host \<Rightarrow> cli_config \<Rightarrow> bytes \<Rightarrow> ('w, line list) cli" where
  "check_run h cfg root =
     (let rest_url = co_rest_url (cg_cosmos cfg); api_url = st_api_url (cg_stellar cfg);
          gateway_url = st_gateway_url (cg_stellar cfg) in
      bindC (run_has h (asc ''docker'')) (\<lambda>docker.
      bindC (run_has h (asc ''stellar'')) (\<lambda>stellar.
      bindC (run_has h (asc ''cargo'')) (\<lambda>cargo.
      bindC (env_file_line h root) (\<lambda>env_file.
      bindC (http_up h (rest_url @ asc ''/cosmos'')) (\<lambda>cosmos.
      bindC (http_up h (api_url @ asc ''/health'')) (\<lambda>api.
      bindC (tcp_ok h gateway_url) (\<lambda>gateway.
      retC ([Banner (asc ''check'' @ dash @ asc ''prerequisites & configuration''),
             Step (asc ''toolchain''),
             shown_check (asc ''docker'') docker (asc ''required to run the chain + services''),
             shown_check (asc ''stellar'') stellar (asc ''Soroban CLI, used to build/deploy contracts''),
             shown_check (asc ''cargo'') cargo (asc ''builds the wasm light client + this CLI''),
             Step (asc ''repository''),
             OkLine (asc ''repo root: '' @ root),
             env_file,
             Step (asc ''configuration'')]
            @ configuration_lines cfg
            @ [Step (asc ''services''),
               StatusLine (co_chain_id (cg_cosmos cfg)) cosmos rest_url,
               StatusLine (asc ''stellar-api'') api api_url,
               StatusLine (asc ''gateway-grpc'') gateway gateway_url]
            @ (if \<not> cosmos \<or> \<not> api then [Hint (asc ''bring the stack up with: interstellar up'')] else [])
            @ [Step (asc ''accounts'')]
            @ accounts_show cfg)))))))))"

section \<open>Installation (\<open>install.rs\<close>)\<close>

definition cargo_bin_dir :: "(bytes \<rightharpoonup> bytes) \<Rightarrow> bytes" where
  "cargo_bin_dir env =
     (case env (asc ''CARGO_HOME'') of
        Some home \<Rightarrow> path_join home (asc ''bin'')
      | None \<Rightarrow>
          (case env (asc ''HOME'') of
             Some home \<Rightarrow> path_join (path_join home (asc ''.cargo'')) (asc ''bin'')
           | None \<Rightarrow> asc ''.cargo/bin''))"

fun split_byte :: "u8 \<Rightarrow> bytes \<Rightarrow> bytes list" where
  "split_byte b [] = [[]]"
| "split_byte b (c # s) =
     (if c = b then [] # split_byte b s else (c # hd (split_byte b s)) # tl (split_byte b s))"

text \<open>
  Paths are equal when their components are: whether they start at the root, whether a relative one
  starts with a dot, and the other segments that are neither empty nor a dot.
\<close>

definition path_components :: "bytes \<Rightarrow> bool \<times> bool \<times> bytes list" where
  "path_components p =
     (let parts = split_byte 47 p; absolute = starts_with [47] p in
      (absolute, \<not> absolute \<and> hd parts = asc ''.'', filter (\<lambda>s. s \<noteq> [] \<and> s \<noteq> asc ''.'') parts))"

definition on_path :: "(bytes \<rightharpoonup> bytes) \<Rightarrow> bytes \<Rightarrow> bool" where
  "on_path env dir =
     (case env (asc ''PATH'') of
        Some paths \<Rightarrow> list_ex (\<lambda>entry. path_components entry = path_components dir) (split_byte 58 paths)
      | None \<Rightarrow> False)"

definition install_run :: "'w host \<Rightarrow> (bytes \<rightharpoonup> bytes) \<Rightarrow> bytes \<Rightarrow> ('w, line list) cli" where
  "install_run h env root =
     (let bin_dir = cargo_bin_dir env in
      bindC (run_command h root (asc ''cargo'')
               [asc ''install'', asc ''--path'', path_join root (asc ''interstellar''), asc ''--force'']) (\<lambda>_.
      retC ([Banner (asc ''install'' @ dash @ asc ''cargo install interstellar''),
             Step (asc ''cargo install --path interstellar --force''),
             OkLine (asc ''installed: '' @ path_join bin_dir (asc ''interstellar''))]
            @ (if on_path env bin_dir
               then [OkLine (bin_dir @ asc '' is on PATH'' @ dash @ asc ''run: interstellar status'')]
               else [Warn (bin_dir @ asc '' is not on PATH''),
                     Detail (asc ''add it to your shell profile (bash/zsh):''),
                     Detail (asc ''export PATH='' @ [34] @ bin_dir @ asc '':$PATH'' @ [34])]))))"

section \<open>Transaction commands (\<open>tx/mod.rs\<close>)\<close>

text \<open>What the commands use besides the machine: libraries, the environment and the wall clock.\<close>

record ('k, 'w) tools =
  to_libs :: "'k cosmos_libs"
  to_key_address :: "bytes \<Rightarrow> bytes option"
  to_sha_hex :: "bytes \<Rightarrow> bytes"
  to_pretty :: "json \<Rightarrow> bytes"
  to_uni :: "bytes \<Rightarrow> bool"
  to_clock :: "'w \<Rightarrow> u64 option"

datatype tx_cmd =
    TxClients clients_tx_cmd
  | TxContracts contracts_tx_cmd
  | TxTransfer transfer_args
  | TxQuery query_args

text \<open>The lines of the reports are results; those that the other commands print on the way are left out.\<close>

definition silently :: "('w, 'a) cli \<Rightarrow> ('w, line list) cli" where
  "silently m = bindC m (\<lambda>_. retC [])"

fun tx_run ::
  "('k, 'w) tools \<Rightarrow> 'w host \<Rightarrow> (bytes \<rightharpoonup> bytes) \<Rightarrow> cli_config \<Rightarrow> bytes \<Rightarrow> tx_cmd \<Rightarrow> ('w, line list) cli" where
  "tx_run t h env cfg root (TxClients cmd) = silently (clients_tx h (to_uni t) cfg root cmd)"
| "tx_run t h env cfg root (TxContracts cmd) =
     silently (contracts_tx (to_libs t) h (to_key_address t) (to_sha_hex t) (to_pretty t) env cfg root cmd)"
| "tx_run t h env cfg root (TxTransfer args) = silently (transfer_tx h (to_clock t) cfg root args)"
| "tx_run t h env cfg root (TxQuery args) = query_run h cfg root args"

section \<open>Reports always succeed\<close>

text \<open>
  A report is an operation that ends with its lines, whatever the machine answers; a service that
  cannot be reached is a line of it.
\<close>

definition reports :: "('w, 'a) cli \<Rightarrow> bool" where
  "reports m \<longleftrightarrow> (\<forall>w. \<exists>a w'. m w = Some (Inr a, w'))"

named_theorems reports_intros

lemma reports_total: "reports m \<Longrightarrow> total m"
  unfolding reports_def total_def by (metis option.discI)

lemma reportsD: "reports m \<Longrightarrow> m w = Some (r, w') \<Longrightarrow> \<exists>a. r = Inr a"
  unfolding reports_def by (metis Pair_inject option.inject)

lemma reports_bindC [reports_intros]: "reports m \<Longrightarrow> (\<And>a. reports (f a)) \<Longrightarrow> reports (bindC m f)"
  unfolding reports_def by (metis bindC_Inr)

lemma reports_basic [reports_intros]:
  "reports (retC a)" "programs_return h \<Longrightarrow> reports (run_has h p)" "reports (tcp_ok h url)" "reports (http_up h url)" "reports (probe_json h url)"
  "reports (env_file_line h root)"
  by (auto simp: reports_def retC_def run_has_def programs_return_def tcp_ok_def http_up_def probe_json_def env_file_line_def split: prod.splits)
     (metis not_Some_eq surj_pair)

lemma reports_tryC [reports_intros]: "total m \<Longrightarrow> reports (tryC m)"
  unfolding reports_def total_def tryC_def by force

lemma reports_cases [reports_intros]:
  "(b \<Longrightarrow> reports m) \<Longrightarrow> (\<not> b \<Longrightarrow> reports m') \<Longrightarrow> reports (if b then m else m')"
  "(v = None \<Longrightarrow> reports m) \<Longrightarrow> (\<And>x. v = Some x \<Longrightarrow> reports (g x)) \<Longrightarrow> reports (case v of None \<Rightarrow> m | Some x \<Rightarrow> g x)"
  "(\<And>e. r = Inl e \<Longrightarrow> reports (k e)) \<Longrightarrow> (\<And>a. r = Inr a \<Longrightarrow> reports (l a)) \<Longrightarrow> reports (case r of Inl e \<Rightarrow> k e | Inr a \<Rightarrow> l a)"
  "(\<And>x. x = u \<Longrightarrow> reports (j x)) \<Longrightarrow> reports (Let u j)"
  by (auto split: option.splits sum.splits)

lemma reports_queries [reports_intros]:
  assumes "programs_return h"
  shows "reports (stellar_clients h cfg i)" "reports (cosmos_clients h cfg i)" "reports (cosmos_balances h cfg a d)"
  "reports (stellar_balances h cfg root a d)"
  unfolding stellar_clients_def cosmos_clients_def cosmos_balances_def stellar_balances_def
  using assms by (intro reports_intros total_intros; assumption?)+

lemma reports_then [reports_intros]: "reports m \<Longrightarrow> reports k \<Longrightarrow> reports (then_lines m k)"
  unfolding then_lines_def by (intro reports_intros)

lemma get_chain_range: "get_chain c s \<noteq> ChainCardano"
  by (cases c; cases s) simp_all

lemma chain_of_range: "chain_of a \<noteq> Some ChainCardano" "chain_of a \<noteq> Some ChainAll"
  by (simp_all add: chain_of_def Let_def)

text \<open>No query reaches \<open>unimplemented!\<close> or fails: the flags and the addresses never give the chain it stands for.\<close>

lemma query_reports [reports_intros]:
  assumes "programs_return h"
  shows "reports (query_run h cfg root args)"
proof -
  note [reports_intros] = reports_queries [OF assms]
  have "reports (get_clients h cfg (get_chain c s) args)" for c s
    using get_chain_range [of c s] by (cases "get_chain c s") (auto intro!: reports_intros)
  moreover have "reports (query_balance_of h cfg root args)" if "qa_address args \<noteq> None"
    using that chain_of_range unfolding query_balance_of_def
    by (auto intro!: reports_intros split: option.splits chain.splits)
  ultimately show ?thesis unfolding query_run_def by (intro reports_intros)
qed

lemma check_reports [reports_intros]: "programs_return h \<Longrightarrow> reports (check_run h cfg root)"
  unfolding check_run_def by (intro reports_intros; assumption?)

lemma total_install [total_intros]: "programs_return h \<Longrightarrow> total (install_run h env root)"
  unfolding install_run_def by (intro total_intros; assumption?)

lemma total_silently [total_intros]: "total m \<Longrightarrow> total (silently m)"
  unfolding silently_def by (intro total_intros)

lemma total_tx_run [total_intros]: "clock_law h \<Longrightarrow> programs_return h \<Longrightarrow> total (tx_run t h env cfg root cmd)"
  by (cases cmd) (auto intro!: total_intros reports_total [OF query_reports])

section \<open>What the reports say\<close>

text \<open>A search for a client finds it when the router lists it, under the type it is listed with.\<close>

lemma shown_ids_empty: "shown_ids (Some i) c = [] \<longleftrightarrow> i \<notin> set (client_ids_in c)"
  by (auto simp: shown_ids_def filter_empty_conv)

lemma print_clients_finds:
  assumes "get_array v (asc ''clients'') = Some cs"
  shows "(\<exists>s. OkLine s \<in> set (print_clients v (Some i))) \<longleftrightarrow> (\<exists>c \<in> set cs. i \<in> set (client_ids_in c))"
  using assms by (auto simp: print_clients_def Let_def client_line_def shown_ids_empty filter_empty_conv)

lemma print_clients_all:
  assumes "get_array v (asc ''clients'') = Some cs" "\<forall>c \<in> set cs. client_ids_in c \<noteq> []" "cs \<noteq> []"
  shows "print_clients v None = map (client_line None) cs"
  using assms by (auto simp: print_clients_def Let_def shown_ids_def filter_id_conv [THEN iffD2])

text \<open>
  The balances are listed in order up to the first one of the denomination asked for; those before it
  are listed too.
\<close>

lemma coin_lines_no_denom: "coin_lines None cs = map coin_line cs"
  by (induction cs) simp_all

lemma coin_lines_upto:
  assumes "\<forall>c \<in> set cs. coin_denom c \<noteq> d" "coin_denom c = d"
  shows "coin_lines (Some d) (cs @ c # ds) = map coin_line (cs @ [c])"
  using assms by (induction cs) auto

text \<open>
  The value given with the \<open>clients\<close> option does not matter, and an address that belongs to neither
  chain is a success without a line.
\<close>

lemma clients_value_ignored:
  "query_run h cfg root (args\<lparr>qa_clients := Some False\<rparr>) = query_run h cfg root (args\<lparr>qa_clients := Some True\<rparr>)"
  by (cases "get_chain (qa_cosmos args) (qa_stellar args)") (simp_all add: query_run_def)

lemma unknown_address_silent:
  "qa_clients args = None \<Longrightarrow> qa_address args = Some a \<Longrightarrow> chain_of a = None \<Longrightarrow> query_run h cfg root args w = Some (Inr [], w)"
  by (simp add: query_run_def query_balance_of_def retC_def)

text \<open>
  The report names \<open>ROUTER_CONTRACT_ADDRESS\<close> and does not depend on it: the field it reads is filled from
  another variable.
\<close>

lemma check_ignores_router_variable:
  "configuration_lines (config_load (env(asc ''ROUTER_CONTRACT_ADDRESS'' := v)) root) = configuration_lines (config_load env root)"
  by (simp add: configuration_lines_def config_load_def stellar_from_env_def cli_get_def asc_def)

text \<open>On a terminal the state of a service is longer than its column, colours included, so it is not padded.\<close>

lemma status_not_padded:
  "pad_right 6 (paint True (asc ''32'') (asc ''up'')) = paint True (asc ''32'') (asc ''up'')"
  "pad_right 6 (paint False (asc ''32'') (asc ''up'')) = asc ''up    ''"
  by (code_simp, code_simp)

text \<open>A directory is found between the separators of the search path, with or without a final slash.\<close>

lemma split_byte_ne [simp]: "split_byte b s \<noteq> []"
  by (cases s) auto

lemma split_byte_sep: "split_byte b (x @ b # y) = split_byte b x @ split_byte b y"
  by (induction x) auto

lemma split_byte_none: "b \<notin> set x \<Longrightarrow> split_byte b x = [x]"
  by (induction x) auto

lemma path_components_slash: "p \<noteq> [] \<Longrightarrow> path_components (p @ [47]) = path_components p"
  by (cases p) (auto simp: path_components_def Let_def split_byte_sep starts_with_def)

lemma on_path_entry:
  assumes "env (asc ''PATH'') = Some (pre @ 58 # dir @ slash @ 58 # post)" "58 \<notin> set dir" "dir \<noteq> []" "slash = [] \<or> slash = [47]"
  shows "on_path env dir"
proof -
  have "58 \<notin> set (dir @ slash)" using assms(2, 4) by auto
  moreover have "path_components (dir @ slash) = path_components dir"
    using assms(3, 4) path_components_slash by auto
  ultimately show ?thesis
    using assms(1) split_byte_sep [of 58 pre "(dir @ slash) @ 58 # post"] split_byte_sep [of 58 "dir @ slash" post]
    by (simp add: on_path_def list_ex_iff split_byte_none)
qed

end
