(* ===== verification/Cli_Flows.thy ===== *)
theory Cli_Flows
  imports Cli_Query
begin

text \<open>
  The self-tests of the tool (\<open>interstellar/src/tests/\<close>): the flows, each of which runs the commands of the
  tool against the running stack, and the runs of one flow or of all of them.
\<close>

section \<open>The flows\<close>

definition expect_prefix :: "bytes \<Rightarrow> bytes \<Rightarrow> cli_error + unit" where
  "expect_prefix i p = ensure (starts_with p i) (UnexpectedClientId p i)"

definition clients_flow :: "('k, 'w) tools \<Rightarrow> 'w host \<Rightarrow> cli_config \<Rightarrow> bytes \<Rightarrow> ('w, unit) cli" where
  "clients_flow t h cfg root =
     (let cc = clients_config_of cfg in
      bindC (create_cosmos h (to_uni t) cc root True) (\<lambda>cosmos_client.
      bindC (create_stellar h (to_uni t) cc root True) (\<lambda>stellar_client.
      bindC (liftC (expect_prefix cosmos_client (asc ''07-tendermint''))) (\<lambda>_.
      liftC (expect_prefix stellar_client (asc ''08-wasm''))))))"

definition ids_in_clients :: "json list \<Rightarrow> bytes list" where
  "ids_in_clients clients =
     List.map_filter json_str (concat (List.map_filter (\<lambda>c. get_array c (asc ''client_ids'')) clients))"

definition registered_clients :: "'w host \<Rightarrow> clients_config \<Rightarrow> ('w, bytes list) cli" where
  "registered_clients h cc =
     bindC (probe_json h (clients_url cc)) (\<lambda>v.
     bindC (liftC (ok_or (HttpFailed (clients_url cc)) v)) (\<lambda>value.
     bindC (liftC (ok_or (BadResponse (clients_url cc)) (get_array value (asc ''clients'')))) (\<lambda>clients.
     retC (ids_in_clients clients))))"

definition counterparty_flow :: "'w host \<Rightarrow> cli_config \<Rightarrow> bytes \<Rightarrow> ('w, unit) cli" where
  "counterparty_flow h cfg root =
     (let cc = clients_config_of cfg; d = cg_deployment cfg in
      bindC (liftC (ensure (\<not> (dp_cosmos_client_id d = [] \<or> dp_stellar_client_id d = [])) (Unset (asc ''COSMOS_CLIENT_ID'')))) (\<lambda>_.
      bindC (counterparty_run h cc root (asc ''stellar'')) (\<lambda>_.
      bindC (counterparty_run h cc root (asc ''cosmos'')) (\<lambda>_.
      bindC (registered_clients h cc) (\<lambda>listed.
      liftC (ensure (listed \<noteq> []) NoClientsListed))))))"

definition transfer_flow :: "('k, 'w) tools \<Rightarrow> 'w host \<Rightarrow> (bytes \<rightharpoonup> bytes) \<Rightarrow> cli_config \<Rightarrow> bytes \<Rightarrow> ('w, unit) cli" where
  "transfer_flow t h env cfg root =
     (let sender = ac_stellar_sender_address (cg_accounts cfg); receiver = ac_cosmos_receiver_address (cg_accounts cfg) in
      bindC (liftC (ensure (sender \<noteq> []) (Unset (asc ''STELLAR_SENDER_ADDRESS'')))) (\<lambda>_.
      bindC (liftC (ensure (receiver \<noteq> []) (Unset (asc ''COSMOS_RECEIVER_ADDRESS'')))) (\<lambda>_.
      bindC (tx_run t h env cfg root (TxTransfer
               \<lparr>ta_from = sender, ta_to = receiver, ta_amount = 1000, ta_denom = asc ''stake'', ta_timeout_secs = 600,
                ta_no_mint = False\<rparr>)) (\<lambda>_.
      retC ()))))"

definition all_clients :: query_args where
  "all_clients = \<lparr>qa_clients = Some True, qa_stellar = False, qa_cosmos = False, qa_client_id = None, qa_address = None,
     qa_denom = None\<rparr>"

definition query_flow :: "'w host \<Rightarrow> cli_config \<Rightarrow> bytes \<Rightarrow> ('w, unit) cli" where
  "query_flow h cfg root =
     (let cc = clients_config_of cfg; client_states = client_states_url cfg in
      bindC (http_up h (clients_health_url cc)) (\<lambda>api.
      bindC (liftC (ensure api (NotReachable (clients_health_url cc)))) (\<lambda>_.
      bindC (probe_json h (clients_url cc)) (\<lambda>clients.
      bindC (liftC (ensure (clients \<noteq> None) (HttpFailed (clients_url cc)))) (\<lambda>_.
      bindC (http_up h (cosmos_status_url cc)) (\<lambda>cosmos.
      bindC (liftC (ensure cosmos (NotReachable (cosmos_status_url cc)))) (\<lambda>_.
      bindC (probe_json h client_states) (\<lambda>v.
      bindC (liftC (ok_or (HttpFailed client_states) v)) (\<lambda>value.
      bindC (liftC (ensure (json_get value (asc ''client_states'') \<noteq> None) (BadResponse client_states))) (\<lambda>_.
      bindC (query_run h cfg root all_clients) (\<lambda>_. retC ())))))))))))"

section \<open>The runs (\<open>tests/mod.rs\<close>)\<close>

datatype ics = Ics02Clients | Ics02Counterparty | Ics20Transfer | Ics02Query

fun ics_label :: "ics \<Rightarrow> bytes" where
  "ics_label Ics02Clients = asc ''ics02-clients''"
| "ics_label Ics02Counterparty = asc ''ics02-counterparty''"
| "ics_label Ics20Transfer = asc ''ics20-transfer''"
| "ics_label Ics02Query = asc ''ics02-query''"

fun ics_exec :: "('k, 'w) tools \<Rightarrow> 'w host \<Rightarrow> (bytes \<rightharpoonup> bytes) \<Rightarrow> cli_config \<Rightarrow> bytes \<Rightarrow> ics \<Rightarrow> ('w, unit) cli" where
  "ics_exec t h env cfg root Ics02Clients = clients_flow t h cfg root"
| "ics_exec t h env cfg root Ics02Counterparty = counterparty_flow h cfg root"
| "ics_exec t h env cfg root Ics20Transfer = transfer_flow t h env cfg root"
| "ics_exec t h env cfg root Ics02Query = query_flow h cfg root"

definition ALL_FLOWS :: "ics list" where
  "ALL_FLOWS = [Ics02Clients, Ics02Counterparty, Ics20Transfer, Ics02Query]"

text \<open>\<open>load\<close> is the environment with the \<open>.env\<close> file of a directory read over it, so what a flow writes there is seen by the next.\<close>

definition test_one ::
  "('k, 'w) tools \<Rightarrow> 'w host \<Rightarrow> (bytes \<Rightarrow> 'w \<Rightarrow> bytes \<rightharpoonup> bytes) \<Rightarrow> bytes \<Rightarrow> ics \<Rightarrow> ('w, unit) cli" where
  "test_one t h load root i w = ics_exec t h (load root w) (config_load (load root w) root) root i w"

fun flows_loop ::
  "('k, 'w) tools \<Rightarrow> 'w host \<Rightarrow> (bytes \<Rightarrow> 'w \<Rightarrow> bytes \<rightharpoonup> bytes) \<Rightarrow> bytes \<Rightarrow> ics list \<Rightarrow> bytes list \<Rightarrow> ('w, bytes list) cli" where
  "flows_loop t h load root [] failures = retC failures"
| "flows_loop t h load root (i # is) failures =
     bindC (tryC (test_one t h load root i)) (\<lambda>r.
     flows_loop t h load root is (case r of Inr _ \<Rightarrow> failures | Inl _ \<Rightarrow> failures @ [ics_label i]))"

definition test_every :: "('k, 'w) tools \<Rightarrow> 'w host \<Rightarrow> (bytes \<Rightarrow> 'w \<Rightarrow> bytes \<rightharpoonup> bytes) \<Rightarrow> bytes \<Rightarrow> ('w, unit) cli" where
  "test_every t h load root =
     bindC (flows_loop t h load root ALL_FLOWS []) (\<lambda>failures. liftC (ensure (failures = []) (FlowsFailed failures)))"

fun test_run ::
  "('k, 'w) tools \<Rightarrow> 'w host \<Rightarrow> (bytes \<Rightarrow> 'w \<Rightarrow> bytes \<rightharpoonup> bytes) \<Rightarrow> bytes \<Rightarrow> ics option \<Rightarrow> ('w, unit) cli" where
  "test_run t h load root (Some i) = test_one t h load root i"
| "test_run t h load root None = test_every t h load root"

section \<open>Every flow returns\<close>

lemma total_flows [total_intros]:
  "programs_return h \<Longrightarrow> total (clients_flow t h cfg root)" "programs_return h \<Longrightarrow> total (counterparty_flow h cfg root)"
  "programs_return h \<Longrightarrow> total (query_flow h cfg root)"
  "clock_law h \<Longrightarrow> programs_return h \<Longrightarrow> total (transfer_flow t h env cfg root)"
  unfolding clients_flow_def counterparty_flow_def query_flow_def transfer_flow_def registered_clients_def
  by (intro total_intros reports_total [OF reports_basic(5)] reports_total [OF query_reports]; assumption?)+

lemma total_ics_exec [total_intros]: "clock_law h \<Longrightarrow> programs_return h \<Longrightarrow> total (ics_exec t h env cfg root i)"
  by (cases i) (auto intro: total_intros)

lemma total_test_one [total_intros]: "clock_law h \<Longrightarrow> programs_return h \<Longrightarrow> total (test_one t h load root i)"
  using total_ics_exec unfolding total_def test_one_def by blast

lemma total_flows_loop: "clock_law h \<Longrightarrow> programs_return h \<Longrightarrow> total (flows_loop t h load root is fs)"
  by (induction "is" arbitrary: fs) (auto intro!: total_intros)

lemma total_test_run [total_intros]: "clock_law h \<Longrightarrow> programs_return h \<Longrightarrow> total (test_run t h load root i)"
  by (cases i) (auto simp: test_every_def intro!: total_intros total_flows_loop)

section \<open>The verdict\<close>

text \<open>
  The flows of a list one after the other, each in the world that the one before it has left, with
  the outcome of each.
\<close>

inductive flow_runs for t h load root where
  none: "flow_runs t h load root [] w [] w"
| flow: "test_one t h load root i w = Some (r, w1) \<Longrightarrow> flow_runs t h load root is w1 rs w2
    \<Longrightarrow> flow_runs t h load root (i # is) w (r # rs) w2"

inductive_simps flow_runs_simps [simp]: "flow_runs t h load root [] w rs w'" "flow_runs t h load root (i # is) w rs w'"

definition failed_labels :: "ics list \<Rightarrow> (cli_error + unit) list \<Rightarrow> bytes list" where
  "failed_labels is rs = map (\<lambda>(i, r). ics_label i) (filter (\<lambda>(i, r). \<exists>e. r = Inl e) (zip is rs))"

lemma flows_loop_runs:
  "flows_loop t h load root is fs w = Some (Inr gs, w')
     \<longleftrightarrow> (\<exists>rs. flow_runs t h load root is w rs w' \<and> gs = fs @ failed_labels is rs)"
proof (induction "is" arbitrary: fs w)
  case Nil
  then show ?case by (auto simp: bindE_simps failed_labels_def)
next
  case (Cons i "is")
  show ?case
  proof
    assume "flows_loop t h load root (i # is) fs w = Some (Inr gs, w')"
    then obtain r w1 where r: "test_one t h load root i w = Some (r, w1)"
      "flows_loop t h load root is (case r of Inr _ \<Rightarrow> fs | Inl _ \<Rightarrow> fs @ [ics_label i]) w1 = Some (Inr gs, w')"
      by (auto simp: bindE_simps)
    then obtain rs where "flow_runs t h load root is w1 rs w'"
      "gs = (case r of Inr _ \<Rightarrow> fs | Inl _ \<Rightarrow> fs @ [ics_label i]) @ failed_labels is rs"
      using Cons.IH by blast
    then show "\<exists>rs. flow_runs t h load root (i # is) w rs w' \<and> gs = fs @ failed_labels (i # is) rs"
      using r(1) by (intro exI [of _ "r # rs"]) (auto simp: failed_labels_def split: sum.splits)
  next
    assume "\<exists>rs. flow_runs t h load root (i # is) w rs w' \<and> gs = fs @ failed_labels (i # is) rs"
    then obtain r rs w1 where r: "test_one t h load root i w = Some (r, w1)" "flow_runs t h load root is w1 rs w'"
      "gs = fs @ failed_labels (i # is) (r # rs)" by auto
    then have "flows_loop t h load root is (case r of Inr _ \<Rightarrow> fs | Inl _ \<Rightarrow> fs @ [ics_label i]) w1 = Some (Inr gs, w')"
      unfolding Cons.IH by (intro exI [of _ rs]) (auto simp: failed_labels_def split: sum.splits)
    then show "flows_loop t h load root (i # is) fs w = Some (Inr gs, w')"
      using r(1) by (auto simp: bindE_simps)
  qed
qed

text \<open>
  A run of all flows tries each of them, in the order of their dependencies, also after a failure. It
  succeeds exactly when all of them do.
\<close>

lemma test_every_passes:
  "test_every t h load root w = Some (Inr (), w') \<longleftrightarrow> flow_runs t h load root ALL_FLOWS w (replicate 4 (Inr ())) w'"
proof -
  have "failed_labels ALL_FLOWS rs = [] \<longleftrightarrow> rs = replicate 4 (Inr ())" if run: "flow_runs t h load root ALL_FLOWS w rs w'" for rs
  proof -
    obtain a b c d where "rs = [a, b, c, d]" using run by (auto simp: ALL_FLOWS_def)
    then show ?thesis
      by (cases a; cases b; cases c; cases d) (simp_all add: failed_labels_def ALL_FLOWS_def numeral_eq_Suc)
  qed
  moreover have "test_every t h load root w = Some (Inr (), w')
    \<longleftrightarrow> (\<exists>rs. flow_runs t h load root ALL_FLOWS w rs w' \<and> failed_labels ALL_FLOWS rs = [])"
    by (simp add: test_every_def bindE_simps flows_loop_runs ensure_eq_Inr) metis
  ultimately show ?thesis by blast
qed

section \<open>A flow finds what the one before it has written\<close>

text \<open>
  The loader sees a value that was written to the \<open>.env\<close> file, and neither processes nor requests
  change what it sees.
\<close>

definition ident_text :: "bytes \<Rightarrow> bool" where
  "ident_text v \<longleftrightarrow> v \<noteq> [] \<and> list_all (\<lambda>c. c = 45 \<or> is_digit c \<or> (97 \<le> c \<and> c \<le> 122)) v"

definition env_saved :: "'w host \<Rightarrow> (bytes \<Rightarrow> 'w \<Rightarrow> bytes \<rightharpoonup> bytes) \<Rightarrow> bytes \<Rightarrow> bool" where
  "env_saved h load root \<longleftrightarrow>
     (\<forall>k v w w'. ident_text v \<and> env_upsert h (path_join root (asc ''.env'')) [(k, v)] w = Some (Inr (), w')
        \<longrightarrow> load root w' = (load root w)(k \<mapsto> v))"

definition env_quiet :: "'w host \<Rightarrow> (bytes \<Rightarrow> 'w \<Rightarrow> bytes \<rightharpoonup> bytes) \<Rightarrow> bytes \<Rightarrow> bool" where
  "env_quiet h load root \<longleftrightarrow>
     (\<forall>d p args input w r w'. h_spawn h d p args input w = Some (r, w') \<longrightarrow> load root w' = load root w)
   \<and> (\<forall>url w. load root (snd (h_get h url w)) = load root w)
   \<and> (\<forall>a w. load root (snd (h_connect h a w)) = load root w)"

definition keeps :: "('w \<Rightarrow> 'x) \<Rightarrow> ('w, 'a) cli \<Rightarrow> bool" where
  "keeps f m \<longleftrightarrow> (\<forall>w r w'. m w = Some (r, w') \<longrightarrow> f w' = f w)"

lemma keepsD: "keeps f m \<Longrightarrow> m w = Some (r, w') \<Longrightarrow> f w' = f w"
  by (auto simp: keeps_def)

lemma keeps_bindC: "keeps f m \<Longrightarrow> (\<And>a. keeps f (k a)) \<Longrightarrow> keeps f (bindC m k)"
  unfolding keeps_def
proof (intro allI impI)
  fix w r w'
  assume m: "\<forall>w r w'. m w = Some (r, w') \<longrightarrow> f w' = f w" and k: "\<And>a. \<forall>w r w'. k a w = Some (r, w') \<longrightarrow> f w' = f w"
    and run: "bindC m k w = Some (r, w')"
  obtain x w1 where x: "m w = Some (x, w1)" using run by (cases "m w") (auto simp: bindC_def)
  show "f w' = f w"
  proof (cases x)
    case (Inl e)
    then show ?thesis using run m x by simp
  next
    case (Inr a)
    then have "k a w1 = Some (r, w')" using run x by simp
    then have "f w' = f w1" using k by blast
    also have "f w1 = f w" using m x by blast
    finally show ?thesis .
  qed
qed

lemma keeps_steps:
  assumes "env_quiet h load root"
  shows "keeps (load root) (spawn h d p args input)" "keeps (load root) (run_has h p)" "keeps (load root) (tcp_ok h url)"
    "keeps (load root) (http_up h url)" "keeps (load root) (liftC r)" "keeps (load root) (retC a)"
  using assms unfolding env_quiet_def
  by (auto simp: keeps_def spawn_def run_has_def tcp_ok_def http_up_def http_ok_def liftC_def retC_def split: prod.splits)
     (metis snd_conv)+

lemma keeps_hermes_exec: "env_quiet h load root \<Longrightarrow> keeps (load root) (hermes_exec h d path args)"
  unfolding hermes_exec_def docker_compose_def run_command_def run_capture_all_def Let_def
  by (intro keeps_bindC keeps_steps)

lemma client_token_plain: "client_token t i \<Longrightarrow> ident_text t \<Longrightarrow> ident_text i"
  by (auto simp: client_token_def Let_def ident_text_def list_all_iff starts_with_iff asc_def)

lemma plain_clean: "ident_text v \<Longrightarrow> clean v"
proof -
  assume "ident_text v"
  then have v: "v \<noteq> []" "\<forall>c \<in> set v. c = 45 \<or> is_digit c \<or> (97 \<le> c \<and> c \<le> 122)" by (auto simp: ident_text_def list_all_iff)
  have "printable c" if "c = 45 \<or> is_digit c \<or> (97 \<le> c \<and> c \<le> 122)" for c
    using that by (auto simp: printable_def is_digit_def word_le_nat_alt)
  then show ?thesis using v by (auto simp: clean_def)
qed

lemma prefixes_plain: "ident_text (asc ''07-tendermint'')" "ident_text (asc ''08-wasm'')"
  by code_simp+

lemma cli_get_plain: "ident_text v \<Longrightarrow> env k = Some v \<Longrightarrow> cli_get env k dflt = v"
  using cli_get_rendered [OF plain_clean, of v env k v] by simp

lemma create_writes:
  assumes "env_saved h load root" "env_quiet h load root" "ident_text (cr_id_prefix spec)"
    and "create h uni cc root spec True w = Some (Inr i, w')"
  shows "client_token (cr_id_prefix spec) i \<and> load root w' = (load root w)(cr_result_env_var spec \<mapsto> i)"
proof -
  obtain w1 where w1: "env_upsert h (path_join root (asc ''.env'')) [(cr_result_env_var spec, i)] w1 = Some (Inr (), w')"
    "load root w1 = load root w" "client_token (cr_id_prefix spec) i"
    using assms(4) unfolding create_def
    by (auto simp: bindE_simps extract_client_id_sound split: option.splits
      dest!: keepsD [OF keeps_hermes_exec [OF assms(2)]] keepsD [OF keeps_steps(2) [OF assms(2)]]
        keepsD [OF keeps_steps(3) [OF assms(2)]] keepsD [OF keeps_steps(4) [OF assms(2)]])
  then show ?thesis using assms(1) client_token_plain [OF w1(3) assms(3)] unfolding env_saved_def by metis
qed

text \<open>
  After a successful run of the client flow the configuration names the clients it has created, and
  the counterparty flow goes on to pair exactly these.
\<close>

lemma clients_flow_writes:
  assumes "env_saved h load root" "env_quiet h load root" "clients_flow t h cfg root w = Some (Inr (), w')"
  shows "\<exists>c s. client_token (asc ''07-tendermint'') c \<and> client_token (asc ''08-wasm'') s
    \<and> load root w' = (load root w)(asc ''COSMOS_CLIENT_ID'' \<mapsto> c, asc ''STELLAR_CLIENT_ID'' \<mapsto> s)"
proof -
  obtain c s w1 where c: "create h (to_uni t) (clients_config_of cfg) root (cosmos_spec (clients_config_of cfg)) True w = Some (Inr c, w1)"
    and s: "create h (to_uni t) (clients_config_of cfg) root (stellar_spec (clients_config_of cfg)) True w1 = Some (Inr s, w')"
    using assms(3) by (auto simp: clients_flow_def Let_def create_cosmos_def create_stellar_def bindE_simps split: option.splits)
  show ?thesis
    using create_writes [OF assms(1,2) _ c] create_writes [OF assms(1,2) _ s] prefixes_plain
    by (auto simp: cosmos_spec_def stellar_spec_def)
qed

lemma config_client_ids:
  "dp_cosmos_client_id (cg_deployment (config_load env root)) = cli_get env (asc ''COSMOS_CLIENT_ID'') []"
  "dp_stellar_client_id (cg_deployment (config_load env root)) = cli_get env (asc ''STELLAR_CLIENT_ID'') []"
  by (simp_all add: config_load_def deployment_from_env_def)

lemma created_clients_are_paired:
  assumes "env_saved h load root" "env_quiet h load root" "test_one t h load root Ics02Clients w = Some (Inr (), w1)"
    and "test_one t h load root Ics02Counterparty w1 = Some (Inr (), w2)"
  defines "cc \<equiv> clients_config_of (config_load (load root w1) root)"
  shows "\<exists>c s w3 w4. client_token (asc ''07-tendermint'') c \<and> client_token (asc ''08-wasm'') s
    \<and> register_counterparty_with h cc root (asc ''stellar'') c s w1 = Some (Inr (), w3)
    \<and> register_counterparty_with h cc root (asc ''cosmos'') c s w3 = Some (Inr (), w4)
    \<and> (\<exists>ids. registered_clients h cc w4 = Some (Inr ids, w2) \<and> ids \<noteq> [])"
proof -
  obtain c s where cs: "client_token (asc ''07-tendermint'') c" "client_token (asc ''08-wasm'') s"
    and env: "load root w1 = (load root w)(asc ''COSMOS_CLIENT_ID'' \<mapsto> c, asc ''STELLAR_CLIENT_ID'' \<mapsto> s)"
    using clients_flow_writes [OF assms(1,2) assms(3) [unfolded test_one_def ics_exec.simps]] by (elim exE conjE) (rule that)
  note plain = client_token_plain [OF cs(1) prefixes_plain(1)] client_token_plain [OF cs(2) prefixes_plain(2)]
  have "load root w1 (asc ''COSMOS_CLIENT_ID'') = Some c" "load root w1 (asc ''STELLAR_CLIENT_ID'') = Some s"
    by (simp_all add: env asc_def)
  then have "cl_cosmos_client cc = Some c" "cl_stellar_client cc = Some s"
    using plain by (simp_all add: cc_def clients_config_of_def cosmos_client_def stellar_client_def config_client_ids
      cli_get_plain non_empty_def ident_text_def)
  then show ?thesis
    using assms(4) cs unfolding test_one_def
    by (auto simp: counterparty_flow_def Let_def bindE_simps counterparty_run_def or_default_def cc_def) blast
qed

section \<open>The tool and the gateway read the same list\<close>

text \<open>From an answer of the API service the tool takes the identifiers that the gateway takes from it.\<close>

lemma map_filter_append: "List.map_filter f (xs @ ys) = List.map_filter f xs @ List.map_filter f ys"
  by (simp add: List.map_filter_def)

lemma ids_in_clients_Cons:
  "ids_in_clients (c # cs)
     = (case get_array c (asc ''client_ids'') of None \<Rightarrow> [] | Some arr \<Rightarrow> List.map_filter json_str arr) @ ids_in_clients cs"
  by (auto simp: ids_in_clients_def map_filter_append List.map_filter_simps split: option.splits)

lemma ids_in_clients_concat:
  "concat (map (\<lambda>c. case get_array c (asc ''client_ids'') of None \<Rightarrow> [] | Some arr \<Rightarrow> List.map_filter json_str arr) cs)
     = ids_in_clients cs"
  by (induction cs) (simp_all add: ids_in_clients_Cons, simp add: ids_in_clients_def List.map_filter_def)

lemma ids_in_clients_gateway:
  "get_json ht c (asc ''/stellar/clients'') = Inr body \<Longrightarrow> get_array body (asc ''clients'') = Some cs
     \<Longrightarrow> list_client_ids ht c = Inr (ids_in_clients cs)"
  by (simp add: list_client_ids_def ids_in_clients_concat)

end
