(* ===== verification/Cli_Main.thy ===== *)
theory Cli_Main
  imports Cli_Flows
begin

text \<open>
  Starting the whole stack (\<open>start.rs\<close>), finding the repository (\<open>repo.rs\<close>) and the dispatch of the
  commands (\<open>main.rs\<close>). Every command returns.
\<close>

section \<open>Start (\<open>start.rs\<close>)\<close>

definition WAIT_TIMEOUT_SECS :: nat where
  "WAIT_TIMEOUT_SECS = 300"

record start_args =
  sr_skip_images :: bool
  sr_skip_contracts :: bool
  sr_skip_wasm :: bool
  sr_skip_keys :: bool
  sr_skip_accounts :: bool
  sr_force_redeploy :: bool

definition ensure_api :: "'w host \<Rightarrow> cli_config \<Rightarrow> bytes \<Rightarrow> ('w, unit) cli" where
  "ensure_api h cfg root =
     bindC (http_up h (api_health_url cfg)) (\<lambda>up.
     if up then retC ()
     else
       bindC (docker_compose h root [asc ''up'', asc ''-d'', asc ''api'', asc ''gateway'']) (\<lambda>_.
       bindC (wait_http h (api_health_url cfg) WAIT_TIMEOUT_SECS) (\<lambda>ready.
       liftC (ensure ready (NotReachable (asc ''api''))))))"

definition start_contracts :: "('k, 'w) tools \<Rightarrow> 'w host \<Rightarrow> cli_config \<Rightarrow> bytes \<Rightarrow> bool \<Rightarrow> ('w, unit) cli" where
  "start_contracts t h cfg root force_redeploy =
     bindC (deploy_all h (to_key_address t) (contracts_config_of cfg) root force_redeploy False) (\<lambda>deployed.
     if deployed
     then
       bindC (docker_compose h root [asc ''up'', asc ''-d'', asc ''--force-recreate'', asc ''api'', asc ''gateway'']) (\<lambda>_.
       bindC (wait_http h (api_health_url cfg) WAIT_TIMEOUT_SECS) (\<lambda>_. retC ()))
     else retC ())"

definition start_run ::
  "('k, 'w) tools \<Rightarrow> 'w host \<Rightarrow> (bytes \<rightharpoonup> bytes) \<Rightarrow> cli_config \<Rightarrow> bytes \<Rightarrow> start_args \<Rightarrow> ('w, unit) cli" where
  "start_run t h env cfg root args =
     bindC (run_has h (asc ''docker'')) (\<lambda>installed.
     bindC (liftC (ensure installed (ToolMissing (asc ''docker'')))) (\<lambda>_.
     bindC (if sr_skip_images args then retC ()
            else docker_compose h root [asc ''pull'', asc ''cosmos'', asc ''api'', asc ''gateway'', asc ''hermes'']) (\<lambda>_.
     bindC (services_up h root [ServiceCosmos]) (\<lambda>_.
     bindC (ensure_api h cfg root) (\<lambda>_.
     bindC (if sr_skip_contracts args then retC () else start_contracts t h cfg root (sr_force_redeploy args)) (\<lambda>_.
     bindC (if sr_skip_wasm args then retC ()
            else upload (to_libs t) h (to_sha_hex t) (to_pretty t) env (contracts_config_of cfg) root False None) (\<lambda>_.
     bindC (if sr_skip_keys args then retC () else keys_import h env cfg root) (\<lambda>_.
     if sr_skip_accounts args then retC () else provision h cfg root False))))))))"

section \<open>The repository (\<open>repo.rs\<close>)\<close>

definition MARKER :: bytes where
  "MARKER = asc ''docker-compose.yml''"

text \<open>An absolute directory is the list of its components, the last one first.\<close>

definition dir_path :: "bytes list \<Rightarrow> bytes" where
  "dir_path cs = (if cs = [] then asc ''/'' else concat (map (\<lambda>c. 47 # c) (rev cs)))"

fun search_up :: "'w host \<Rightarrow> bytes list \<Rightarrow> 'w \<Rightarrow> bytes option" where
  "search_up h [] w = (if h_exists h (path_join (dir_path []) MARKER) w then Some (dir_path []) else None)"
| "search_up h (c # cs) w =
     (if h_exists h (path_join (dir_path (c # cs)) MARKER) w then Some (dir_path (c # cs)) else search_up h cs w)"

definition find_root :: "'w host \<Rightarrow> (bytes \<rightharpoonup> bytes) \<Rightarrow> bytes list option \<Rightarrow> ('w, bytes) cli" where
  "find_root h env current_dir w =
     (case env (asc ''STELLAR_IBC_ROOT'') of
        Some explicit \<Rightarrow>
          if h_exists h (path_join explicit MARKER) w then Some (Inr explicit, w) else Some (Inl RootNotFound, w)
      | None \<Rightarrow>
          (case current_dir of
             None \<Rightarrow> Some (Inl RootNotFound, w)
           | Some cs \<Rightarrow> Some (ok_or RootNotFound (search_up h cs w), w)))"

lemma search_up_sound:
  "search_up h cs w = Some d \<Longrightarrow> \<exists>pre suf. cs = pre @ suf \<and> d = dir_path suf \<and> h_exists h (path_join d MARKER) w
     \<and> (\<forall>pre' suf'. cs = pre' @ suf' \<and> length suf < length suf' \<longrightarrow> \<not> h_exists h (path_join (dir_path suf') MARKER) w)"
proof (induction cs)
  case Nil
  then show ?case by (auto split: if_splits)
next
  case (Cons c cs)
  show ?case
  proof (cases "h_exists h (path_join (dir_path (c # cs)) MARKER) w")
    case True
    then have "c # cs = [] @ (c # cs) \<and> d = dir_path (c # cs) \<and> h_exists h (path_join d MARKER) w
      \<and> (\<forall>pre' suf'. c # cs = pre' @ suf' \<and> length (c # cs) < length suf' \<longrightarrow> \<not> h_exists h (path_join (dir_path suf') MARKER) w)"
      using Cons.prems by (auto simp: Cons_eq_append_conv)
    then show ?thesis by blast
  next
    case False
    with Cons obtain pre suf where i: "cs = pre @ suf" "d = dir_path suf" "h_exists h (path_join d MARKER) w"
      "\<forall>pre' suf'. cs = pre' @ suf' \<and> length suf < length suf' \<longrightarrow> \<not> h_exists h (path_join (dir_path suf') MARKER) w"
      by auto
    then have "c # cs = (c # pre) @ suf \<and> d = dir_path suf \<and> h_exists h (path_join d MARKER) w
      \<and> (\<forall>pre' suf'. c # cs = pre' @ suf' \<and> length suf < length suf' \<longrightarrow> \<not> h_exists h (path_join (dir_path suf') MARKER) w)"
      using False by (auto simp: Cons_eq_append_conv)
    then show ?thesis by blast
  qed
qed

section \<open>The command line (\<open>main.rs\<close>)\<close>

datatype command =
    CmdInstall
  | CmdCheck
  | CmdUp bool bool
  | CmdDown bool
  | CmdStart start_args
  | CmdTx tx_cmd
  | CmdServices services_cmd
  | CmdHermesKeysImport
  | CmdTest "ics option"

text \<open>The lines that a report prints are the result of its command.\<close>

fun dispatch ::
  "('k, 'w) tools \<Rightarrow> 'w host \<Rightarrow> (bytes \<Rightarrow> 'w \<Rightarrow> bytes \<rightharpoonup> bytes) \<Rightarrow> (bytes \<rightharpoonup> bytes) \<Rightarrow> cli_config \<Rightarrow> bytes \<Rightarrow> command
   \<Rightarrow> ('w, line list) cli" where
  "dispatch t h load env cfg root CmdInstall = install_run h env root"
| "dispatch t h load env cfg root CmdCheck = check_run h cfg root"
| "dispatch t h load env cfg root (CmdUp cosmos stellar) = silently (stack_up h root cosmos stellar)"
| "dispatch t h load env cfg root (CmdDown volumes) = silently (stack_down h root volumes)"
| "dispatch t h load env cfg root (CmdStart args) = silently (start_run t h env cfg root args)"
| "dispatch t h load env cfg root (CmdTx cmd) = tx_run t h env cfg root cmd"
| "dispatch t h load env cfg root (CmdServices cmd) = silently (services_run h env cfg root cmd)"
| "dispatch t h load env cfg root CmdHermesKeysImport = silently (keys_import h env cfg root)"
| "dispatch t h load env cfg root (CmdTest i) = silently (test_run t h load root i)"

text \<open>\<open>load\<close> is the environment with the \<open>.env\<close> file of a directory read over it.\<close>

definition cli_main ::
  "('k, 'w) tools \<Rightarrow> 'w host \<Rightarrow> (bytes \<rightharpoonup> bytes) \<Rightarrow> (bytes \<Rightarrow> 'w \<Rightarrow> bytes \<rightharpoonup> bytes)
   \<Rightarrow> bytes list option \<Rightarrow> command \<Rightarrow> ('w, line list) cli" where
  "cli_main t h env load current_dir cmd =
     bindC (find_root h env current_dir) (\<lambda>root.
     (\<lambda>w. dispatch t h load (load root w) (config_load (load root w) root) root cmd w))"

section \<open>Every command returns\<close>

lemma total_services [total_intros]:
  assumes "programs_return h"
  shows "total (services_pull h root ss)" "total (services_up h root ss)" "total (services_down h root ss)"
  "total (services_restart h root ss)" "total (docker_login h env root)" "total (build_image h env cfg root s d c p)"
  "total (stack_up h root a b)" "total (stack_down h root v)"
  unfolding services_pull_def services_up_def services_down_def services_restart_def docker_login_def build_image_def
    stack_up_def stack_down_def
  using assms by (intro total_intros; assumption?)+

lemma total_branch: "total m \<Longrightarrow> total m' \<Longrightarrow> total (\<lambda>w. (if b w then m else m') w)"
  by (simp add: total_def)

lemma total_hermes_repo [total_intros]: "programs_return h \<Longrightarrow> total (hermes_repo h cfg root)"
  unfolding hermes_repo_def by (intro total_intros total_branch; assumption?)

lemma total_build [total_intros]:
  assumes "programs_return h"
  shows "total (build_one h env cfg root s p)" "total (build_or_push h env cfg root args p)"
proof -
  show one: "total (build_one h env cfg root s p)" for s
    unfolding build_one_def using assms by (cases s) (auto intro!: total_intros)
  show "total (build_or_push h env cfg root args p)"
    unfolding build_or_push_def using assms by (intro total_intros one)
qed

lemma total_services_run [total_intros]: "programs_return h \<Longrightarrow> total (services_run h env cfg root cmd)"
  by (cases cmd) (auto intro: total_intros)

lemma total_accounts [total_intros]:
  assumes "programs_return h"
  shows "total (stellar_address h root name)" "total (stellar_secret h root name)" "total (fund_stellar_identity h cfg root name)"
  "total (simd h root args)" "total (cosmos_key_address h root name)" "total (add_cosmos_key h root name)"
  "total (fund_cosmos h cfg root a)"
  unfolding stellar_address_def stellar_secret_def stellar_key_query_def fund_stellar_identity_def simd_def
    cosmos_key_address_def add_cosmos_key_def fund_cosmos_def
  using assms by (intro total_intros; assumption?)+

lemma total_identities [total_intros]:
  assumes "programs_return h"
  shows "total (ensure_stellar_identity h cfg root name force)" "total (ensure_cosmos_key h root name force)"
  unfolding ensure_stellar_identity_def ensure_cosmos_key_def
  using assms by (intro total_bindC total_intros; auto intro!: total_intros split: option.splits bool.splits)+

lemma total_provision [total_intros]: "programs_return h \<Longrightarrow> total (provision h cfg root force)"
  unfolding provision_def provision_stellar_def provision_cosmos_def by (intro total_intros; assumption?)

lemma total_start [total_intros]: "clock_law h \<Longrightarrow> programs_return h \<Longrightarrow> total (start_run t h env cfg root args)"
  unfolding start_run_def ensure_api_def start_contracts_def by (intro total_intros; assumption?)

lemma total_dispatch: "clock_law h \<Longrightarrow> programs_return h \<Longrightarrow> total (dispatch t h load env cfg root cmd)"
  by (cases cmd) (auto intro!: total_intros reports_total [OF check_reports])

lemma total_find_root [total_intros]: "total (find_root h env current_dir)"
  by (auto simp: total_def find_root_def split: option.splits)

text \<open>
  C40 (every command returns). When sleeping takes at least the time asked for, the clock does not
  go back during a request, and the programs the tool starts end (the tool waits for them without a
  time limit), every command of the tool returns, with a result or an error, whatever those
  programs print and exit with and the services it asks answer: the polls for a service and for a
  transaction, the retries of an invocation, the search for the repository, the wait for a checksum and
  the self-tests all end. A query and a check of the prerequisites never end with an error once the
  repository is found.
\<close>

theorem cli_returns:
  assumes "clock_law h" and "programs_return h"
  shows "\<exists>r w'. cli_main t h env load current_dir cmd w = Some (r, w')
    \<and> ((cmd = CmdCheck \<or> (\<exists>args. cmd = CmdTx (TxQuery args))) \<longrightarrow>
       (\<forall>root. find_root h env current_dir w = Some (Inr root, w) \<longrightarrow> (\<exists>ls. r = Inr ls)))"
proof -
  let ?run = "\<lambda>root w. dispatch t h load (load root w) (config_load (load root w) root) root cmd w"
  have "total (?run root)" for root
    unfolding total_def by (rule allI) (rule total_dispatch [OF assms, unfolded total_def, THEN spec])
  then have "total (cli_main t h env load current_dir cmd)"
    unfolding cli_main_def by (intro total_intros)
  from total_returns [OF this, of w] obtain r w' where r: "cli_main t h env load current_dir cmd w = Some (r, w')"
    by (elim exE) (rule that)
  have "\<exists>ls. r = Inr ls" if "cmd = CmdCheck \<or> (\<exists>args. cmd = CmdTx (TxQuery args))"
    "find_root h env current_dir w = Some (Inr root, w)" for root
  proof -
    have "reports (dispatch t h load (load root w) (config_load (load root w) root) root cmd)"
      using that(1) assms(2) by (auto intro: reports_intros)
    moreover have "dispatch t h load (load root w) (config_load (load root w) root) root cmd w = Some (r, w')"
      using r that(2) by (simp add: cli_main_def)
    ultimately show ?thesis by (rule reportsD)
  qed
  then show ?thesis using r by (intro exI [of _ r] exI [of _ w'] conjI impI allI)
qed

definition sample_tools :: "(unit, nat \<times> (bytes \<rightharpoonup> bytes)) tools" where
  "sample_tools = \<lparr>to_libs = sample_libs, to_key_address = (\<lambda>_. None), to_sha_hex = (\<lambda>_. asc ''ab''), to_pretty = (\<lambda>_. []),
     to_uni = (\<lambda>_. False), to_clock = (\<lambda>_. Some 0)\<rparr>"

theorem cli_returns_witness:
  "\<exists>r w'. cli_main sample_tools sample_upload_host Map.empty (\<lambda>_ _. sample_upload_env) (Some [asc ''r''])
     (CmdStart \<lparr>sr_skip_images = False, sr_skip_contracts = False, sr_skip_wasm = False, sr_skip_keys = False,
        sr_skip_accounts = False, sr_force_redeploy = True\<rparr>) (0, [asc ''/r/docker-compose.yml'' \<mapsto> []]) = Some (r, w')"
  by (rule ex_forward [OF cli_returns [OF sample_upload_laws(1) sample_programs_return]], elim exE conjE, rule exI)

section \<open>A sender that is not funded\<close>

text \<open>
  The sender is funded by the run that creates its key only. A run that fails after the creation is
  followed by one that finds the key, does not fund it and succeeds.
\<close>

lemma existing_sender_not_funded:
  assumes "cosmos_is_local (cg_cosmos cfg)"
    and "cosmos_key_address h root (ac_cosmos_sender_key_name (cg_accounts cfg)) w = Some (Inr (Some a), w1)"
    and "cosmos_key_address h root (ac_cosmos_receiver_key_name (cg_accounts cfg)) w1 = Some (Inr (Some b), w2)"
  shows "provision_cosmos h cfg root False w = env_upsert h (path_join root (asc ''.env''))
    [(asc ''COSMOS_SENDER_KEY_NAME'', ac_cosmos_sender_key_name (cg_accounts cfg)), (asc ''COSMOS_SENDER_ADDRESS'', a),
     (asc ''COSMOS_RECEIVER_KEY_NAME'', ac_cosmos_receiver_key_name (cg_accounts cfg)), (asc ''COSMOS_RECEIVER_ADDRESS'', b)] w2"
  using assms by (simp add: provision_cosmos_def ensure_cosmos_key_def bindC_def retC_def Let_def)

end
