(* ===== verification/Cli_Bridging.thy ===== *)
theory Cli_Bridging
  imports Cli_Main Transfer_Properties
begin

text \<open>
  A transfer started with the tool, over the transfer application of this development: the tokens that
  a successful command has moved, whatever retries its invocations took.
\<close>

section \<open>The transfer application behind the \<open>stellar\<close> program\<close>

text \<open>
  \<open>app w\<close> is the state of the application of a world, with that of the router behind it. A successful
  invocation has executed the call with the arguments of the command line, and a failed one and a
  pause have no effect.
\<close>

definition mint_law where
  "mint_law h addr app cc root contract \<longleftrightarrow>
     (\<forall>sender d n source w x w'.
        h_spawn h root (asc ''stellar'') (invoke_args cc contract (mint_call sender d n) source) [] w = Some (Some x, w') \<and> ex_success x
        \<longrightarrow> (\<exists>t. mint (addr sender) d n (fst (app w)) = Inr t \<and> app w' = (t, snd (app w))))"

definition initiate_law where
  "initiate_law cd send h addr app cc root contract \<longleftrightarrow>
     (\<forall>sender c d n rcv tmo source w x w'.
        h_spawn h root (asc ''stellar'') (invoke_args cc contract (initiate_call sender c d n rcv tmo []) source) [] w = Some (Some x, w')
        \<and> ex_success x
        \<longrightarrow> (\<exists>e q t r. current_contract e = addr contract
              \<and> initiate_transfer cd send e (addr sender) c d n rcv tmo [] (fst (app w)) (snd (app w)) = Inr (q, t, r)
              \<and> app w' = (t, r)))"

definition quiet_law where
  "quiet_law h app cc root contract \<longleftrightarrow>
     (\<forall>call source w r w'. h_spawn h root (asc ''stellar'') (invoke_args cc contract call source) [] w = Some (r, w')
        \<and> \<not> (\<exists>x. r = Some x \<and> ex_success x) \<longrightarrow> app w' = app w)
   \<and> (\<forall>d w. app (h_sleep h d w) = app w)"

definition app_law where
  "app_law cd send h addr app cc root contract \<longleftrightarrow>
     mint_law h addr app cc root contract \<and> initiate_law cd send h addr app cc root contract \<and> quiet_law h app cc root contract"

section \<open>Effects\<close>

lemma invoke_attempt:
  assumes "quiet_law h app cc root contract" "invoke_as h cc root contract call source w = Some (Inr (), w')"
  shows "\<exists>v x. app v = app w \<and> h_spawn h root (asc ''stellar'') (invoke_args cc contract call source) [] v = Some (Some x, w') \<and> ex_success x"
  using assms(2) unfolding invoke_as_def invoke_with_seq_retry_def
  by (rule retry_loop_succeeds [where P = "\<lambda>v. app v = app w", rotated -1])
     (use assms(1) in \<open>auto simp: quiet_law_def\<close>)

lemma mint_attempt:
  assumes "app_law cd send h addr app cc root contract" "invoke h cc root contract (mint_call sender d n) w = Some (Inr (), w')"
  shows "\<exists>t. mint (addr sender) d n (fst (app w)) = Inr t \<and> app w' = (t, snd (app w))"
proof -
  obtain v x where "app v = app w" "ex_success x"
    "h_spawn h root (asc ''stellar'') (invoke_args cc contract (mint_call sender d n) (cc_signing_key cc)) [] v = Some (Some x, w')"
    using invoke_attempt [of h app cc root contract] assms unfolding app_law_def invoke_def by blast
  then show ?thesis using assms(1) unfolding app_law_def mint_law_def by metis
qed

lemma initiate_attempt:
  assumes "app_law cd send h addr app cc root contract"
    "invoke_as h cc root contract (initiate_call sender c d n rcv tmo []) source w = Some (Inr (), w')"
  shows "\<exists>e q t r. current_contract e = addr contract
    \<and> initiate_transfer cd send e (addr sender) c d n rcv tmo [] (fst (app w)) (snd (app w)) = Inr (q, t, r) \<and> app w' = (t, r)"
proof -
  obtain v x where "app v = app w" "ex_success x"
    "h_spawn h root (asc ''stellar'') (invoke_args cc contract (initiate_call sender c d n rcv tmo []) source) [] v = Some (Some x, w')"
    using invoke_attempt [of h app cc root contract] assms unfolding app_law_def by blast
  then show ?thesis using assms(1) unfolding app_law_def initiate_law_def by metis
qed

lemma chain_of_ne: "chain_of a = Some c \<Longrightarrow> a \<noteq> []"
  by (auto simp: chain_of_def trim_def strip_both_def starts_with_def asc_def split: if_splits)

lemma mint_bal:
  "mint a d n t = Inr t' \<Longrightarrow> 0 < n \<and> balance_of b d' t' = (if b = a \<and> d' = d then balance_of a d t + n else balance_of b d' t)"
  by (auto simp: mint_def bindE_simps balance_of_def get_or_0_def add_i128_def ensure_def split: if_splits)

lemma transfer_tx_sides:
  assumes "transfer_tx h clock cfg root args w = Some (Inr (), w')"
  shows "chain_of (ta_from args) = Some ChainStellar \<and> chain_of (ta_to args) = Some ChainCosmos
    \<or> chain_of (ta_from args) = Some ChainCosmos \<and> chain_of (ta_to args) = Some ChainStellar \<and> w' = w"
proof -
  obtain src dst where "chain_of (ta_from args) = Some src" "chain_of (ta_to args) = Some dst"
    using assms by (auto simp: transfer_tx_def bindE_simps)
  then show ?thesis
    using assms by (cases src; cases dst) (auto simp: transfer_tx_def cosmos_to_stellar_def bindE_simps Let_def)
qed

text \<open>The direction from Stellar.\<close>

lemma stellar_transfer_moves:
  fixes cfg args
  defines "cc \<equiv> contracts_config_of cfg" and "contract \<equiv> dp_transfer_app (cg_deployment cfg)"
    and "d \<equiv> ta_denom args" and "n \<equiv> ta_amount args"
  assumes law: "app_law cd send h addr app cc root contract"
    and run: "transfer_tx h clock cfg root args w = Some (Inr (), w')"
    and src: "chain_of (ta_from args) = Some ChainStellar" and dst: "chain_of (ta_to args) = Some ChainCosmos"
  shows "\<exists>now e q t1 t r. clock w = Some now \<and> unat now + unat (ta_timeout_secs args) < 2 ^ 64
    \<and> (if ta_no_mint args then t1 = fst (app w) else mint (addr (ta_from args)) d n (fst (app w)) = Inr t1)
    \<and> initiate_transfer cd send e (addr (ta_from args)) (dp_cosmos_client_id (cg_deployment cfg)) d n (ta_to args)
        (now + ta_timeout_secs args) [] t1 (snd (app w)) = Inr (q, t, r)
    \<and> app w' = (t, r) \<and> 0 < n
    \<and> (\<forall>a d'. balance_of a d' t = balance_of a d' (fst (app w))
         + (if a = addr contract \<and> d' = d then n else 0)
         - (if a = addr (ta_from args) \<and> d' = d \<and> ta_no_mint args then n else 0))"
proof -
  let ?s = "ta_from args" and ?c = "dp_cosmos_client_id (cg_deployment cfg)"
  note ne = chain_of_ne [OF src] chain_of_ne [OF dst]
  obtain now w1 where now: "clock w = Some now" "unat now + unat (ta_timeout_secs args) < 2 ^ 64"
    and m: "(if \<not> ta_no_mint args then invoke h cc root contract (mint_call ?s d n) else retC ()) w = Some (Inr (), w1)"
    and i: "invoke_as h cc root contract (initiate_call ?s ?c d n (ta_to args) (now + ta_timeout_secs args) [])
        (sender_identity cfg) w1 = Some (Inr (), w')"
    using run ne unfolding transfer_tx_def
    by (auto simp: src dst stellar_to_cosmos_def transfer_sender_def transfer_receiver_def transfer_timeout_def Let_def bindE_simps
      cc_def contract_def d_def n_def split: option.splits if_splits)
  obtain t1 where t1: "app w1 = (t1, snd (app w))"
    "if ta_no_mint args then t1 = fst (app w) else mint (addr ?s) d n (fst (app w)) = Inr t1"
  proof (cases "ta_no_mint args")
    case True
    then show thesis using m that [of "fst (app w)"] by (simp add: bindE_simps)
  next
    case False
    then show thesis using m mint_attempt [OF law, of ?s d n w w1] that by auto
  qed
  obtain e q t r where e: "current_contract e = addr contract" "app w' = (t, r)"
    "initiate_transfer cd send e (addr ?s) ?c d n (ta_to args) (now + ta_timeout_secs args) [] t1 (snd (app w)) = Inr (q, t, r)"
    using initiate_attempt [OF law i] unfolding t1(1) by auto
  then obtain t2 where t2: "enforce_rate_limit e d n t1 = Inr t2" "accounts.move (addr ?s) (addr contract) d n t2 = Inr t" "0 < n"
    by (auto simp: initiate_transfer_eq_Inr)
  have "balance_of a d' t = balance_of a d' t1 - (if a = addr ?s \<and> d' = d then n else 0) + (if a = addr contract \<and> d' = d then n else 0)"
    for a d'
    using accounts.move_bal [OF t2(2)] enforce_rate_limit_frame(1) [OF t2(1)] by (simp add: balance_of_def)
  then have "balance_of a d' t = balance_of a d' (fst (app w)) + (if a = addr contract \<and> d' = d then n else 0)
      - (if a = addr ?s \<and> d' = d \<and> ta_no_mint args then n else 0)" for a d'
    using t1(2) mint_bal [of "addr ?s" d n "fst (app w)" t1 a d'] by (auto split: if_splits)
  then show ?thesis using now t1(2) e(2,3) t2(3) by blast
qed

text \<open>
  C38 (a transfer of the tool is a transfer of the application). A transfer command succeeds in two
  cases only. From a Stellar to a Cosmos address it has had the application mint the amount, unless
  told not to, and then initiate exactly one transfer of it, from the sender to the receiver of the
  command line, over the configured client, with the given time after the current one as its
  timeout. So, nobody else acting on the application meanwhile, its escrow has grown by the amount,
  the sender has paid it only when nothing was minted, and no other balance has changed. From a
  Cosmos to a Stellar address, where the command is a placeholder, it has done nothing at all.
\<close>

theorem cli_transfer_moves:
  fixes cfg args
  defines "cc \<equiv> contracts_config_of cfg" and "contract \<equiv> dp_transfer_app (cg_deployment cfg)"
    and "d \<equiv> ta_denom args" and "n \<equiv> ta_amount args"
  assumes law: "app_law cd send h addr app cc root contract"
    and run: "transfer_tx h clock cfg root args w = Some (Inr (), w')"
  shows "chain_of (ta_from args) = Some ChainStellar \<and> chain_of (ta_to args) = Some ChainCosmos
    \<and> (\<exists>now e q t1 t r. clock w = Some now \<and> unat now + unat (ta_timeout_secs args) < 2 ^ 64
      \<and> (if ta_no_mint args then t1 = fst (app w) else mint (addr (ta_from args)) d n (fst (app w)) = Inr t1)
      \<and> initiate_transfer cd send e (addr (ta_from args)) (dp_cosmos_client_id (cg_deployment cfg)) d n (ta_to args)
          (now + ta_timeout_secs args) [] t1 (snd (app w)) = Inr (q, t, r)
      \<and> app w' = (t, r) \<and> 0 < n
      \<and> (\<forall>a d'. balance_of a d' t = balance_of a d' (fst (app w))
           + (if a = addr contract \<and> d' = d then n else 0)
           - (if a = addr (ta_from args) \<and> d' = d \<and> ta_no_mint args then n else 0)))
    \<or> chain_of (ta_from args) = Some ChainCosmos \<and> chain_of (ta_to args) = Some ChainStellar \<and> w' = w"
proof (cases "chain_of (ta_from args) = Some ChainStellar \<and> chain_of (ta_to args) = Some ChainCosmos")
  case False
  with transfer_tx_sides [OF run] show ?thesis by blast
next
  case True
  note sides = conjunct1 [OF True] conjunct2 [OF True]
  show ?thesis unfolding contract_def d_def n_def
    by (rule disjI1, rule conjI [OF sides(1)], rule conjI [OF sides(2)],
        rule stellar_transfer_moves [OF law [unfolded cc_def contract_def] run sides])
qed

section \<open>A transfer\<close>

definition sample_cli_config :: cli_config where
  "sample_cli_config = (config_load Map.empty [])\<lparr>cg_deployment :=
     \<lparr>dp_ibc_router = [], dp_transfer_app = asc ''CT'', dp_deployer_address = [], dp_transfer_port = [], dp_mock_client_type = [],
      dp_attestation_client_type = [], dp_tendermint_client_type = [], dp_cosmos_client_id = asc ''07-tendermint-0'',
      dp_stellar_client_id = []\<rparr>\<rparr>"

definition sample_from :: bytes where
  "sample_from = 71 # replicate 55 65"

definition sample_transfer_args :: transfer_args where
  "sample_transfer_args = \<lparr>ta_from = sample_from, ta_to = asc ''cosmos1'', ta_amount = 40, ta_denom = asc ''uxlm'',
     ta_timeout_secs = 600, ta_no_mint = True\<rparr>"

definition sample_account_addr :: "bytes \<Rightarrow> address" where
  "sample_account_addr b = (if b = sample_from then 30 else 2)"

definition sample_initiate_args :: "bytes list" where
  "sample_initiate_args = invoke_args (contracts_config_of sample_cli_config) (asc ''CT'')
     (initiate_call sample_from (asc ''07-tendermint-0'') (asc ''uxlm'') 40 (asc ''cosmos1'') 1000 []) (sender_identity sample_cli_config)"

text \<open>A machine on which the one transfer of the sample succeeds.\<close>

definition sample_app_host :: "(transfer_state \<times> unit) host" where
  "sample_app_host = \<lparr>
     h_spawn = (\<lambda>_ _ args _ w.
       if args = sample_initiate_args \<and> fst w = sample_transfer
       then Some (Some \<lparr>ex_written = True, ex_success = True, ex_status = [], ex_stdout = [], ex_stderr = []\<rparr>, (sample_after, ()))
       else Some (None, w)),
     h_read = (\<lambda>_ _. None), h_write = (\<lambda>_ _ _. None), h_exists = (\<lambda>_ _. False), h_is_dir = (\<lambda>_ _. False),
     h_get = (\<lambda>_ w. (None, w)), h_post = (\<lambda>_ _ w. (None, w)), h_connect = (\<lambda>_ w. (False, w)), h_sleep = (\<lambda>_ w. w),
     h_now = (\<lambda>_. 0)\<rparr>"

lemma i128_string_inj: "i128_string m = i128_string n \<longleftrightarrow> m = n"
proof -
  have digit: "45 \<notin> set (decimal k)" for k using decimal_digits [of 45 k] by (auto simp: is_digit_def)
  have "45 # decimal j \<noteq> decimal k" for j k using digit [of k] by (metis list.set_intros(1))
  then show ?thesis by (auto simp: i128_string_def) metis+
qed

lemma mint_call_other: "invoke_args cc contract (mint_call a d n) source \<noteq> sample_initiate_args"
  by (simp add: sample_initiate_args_def invoke_args_def stellar_base_as_def net_flags_def mint_call_def initiate_call_def asc_def)

lemma initiate_args_inj:
  "invoke_args cc contract (initiate_call a c d n rcv tmo []) source = sample_initiate_args \<longleftrightarrow>
   invoke_args cc contract [] source = invoke_args (contracts_config_of sample_cli_config) (asc ''CT'') [] (sender_identity sample_cli_config)
   \<and> a = sample_from \<and> c = asc ''07-tendermint-0'' \<and> d = asc ''uxlm'' \<and> n = 40 \<and> rcv = asc ''cosmos1'' \<and> tmo = 1000"
proof -
  have "unat tmo = unat (1000 :: u64) \<longleftrightarrow> tmo = 1000" by (simp only: unsigned_word_eqI word_unat_eq_iff)
  then show ?thesis
    by (auto simp: sample_initiate_args_def invoke_args_def stellar_base_as_def net_flags_def initiate_call_def i128_string_inj
      simp del: unsigned_numeral)
qed

lemma sample_app_law:
  "app_law sample_transfer_codec sample_send sample_app_host sample_account_addr id (contracts_config_of sample_cli_config) [] (asc ''CT'')"
proof -
  have "sample_account_addr (asc ''CT'') = 2" "sample_account_addr sample_from = 30"
    by (simp_all add: sample_account_addr_def sample_from_def asc_def)
  moreover have "current_contract sample_sender_env = 2" by (simp add: sample_sender_env_def sample_env_def)
  ultimately have "initiate_law sample_transfer_codec sample_send sample_app_host sample_account_addr id
      (contracts_config_of sample_cli_config) [] (asc ''CT'')"
    using sample_initiate by (auto simp: initiate_law_def sample_app_host_def initiate_args_inj split: if_splits)
  moreover have "mint_law sample_app_host sample_account_addr id (contracts_config_of sample_cli_config) [] (asc ''CT'')"
    by (simp add: mint_law_def sample_app_host_def mint_call_other)
  moreover have "quiet_law sample_app_host id (contracts_config_of sample_cli_config) [] (asc ''CT'')"
    by (auto simp: quiet_law_def sample_app_host_def split: if_splits)
  ultimately show ?thesis by (simp add: app_law_def)
qed

lemma sample_chains: "chain_of sample_from = Some ChainStellar" "chain_of (asc ''cosmos1'') = Some ChainCosmos"
proof -
  have trimmed: "trim s = s" if "s \<noteq> []" "printable (hd s)" "printable (last s)" for s
    using white_space_padded [of "[]" "[]" s] that heads_not_printable unfolding trim_def by auto
  have "trim sample_from = sample_from" "trim (asc ''cosmos1'') = asc ''cosmos1''"
    by (rule trimmed; simp add: sample_from_def printable_def asc_def)+
  then show "chain_of sample_from = Some ChainStellar" "chain_of (asc ''cosmos1'') = Some ChainCosmos"
    by (simp_all add: chain_of_def sample_from_def starts_with_def asc_def is_upper_def list_all_iff)
qed

lemma sample_transfer_run:
  "transfer_tx sample_app_host (\<lambda>_. Some 400) sample_cli_config [] sample_transfer_args (sample_transfer, ()) = Some (Inr (), sample_after, ())"
proof -
  have fields: "dp_transfer_app (cg_deployment sample_cli_config) = asc ''CT''"
    "dp_cosmos_client_id (cg_deployment sample_cli_config) = asc ''07-tendermint-0''" "asc ''CT'' \<noteq> []" "asc ''07-tendermint-0'' \<noteq> []"
    "asc ''cosmos1'' \<noteq> []" "sample_from \<noteq> []"
    by (simp_all add: sample_cli_config_def asc_def sample_from_def)
  have call: "invoke_as sample_app_host (contracts_config_of sample_cli_config) [] (asc ''CT'')
      (initiate_call sample_from (asc ''07-tendermint-0'') (asc ''uxlm'') 40 (asc ''cosmos1'') 1000 []) (sender_identity sample_cli_config)
      (sample_transfer, ()) = Some (Inr (), sample_after, ())"
    by (simp add: invoke_as_def invoke_with_seq_retry_def retry_loop.simps run_capture_all_def spawn_def sample_initiate_args_def [symmetric]
      bindC_def tryC_def liftC_def retC_def sample_app_host_def)
  show ?thesis
    using fields call
    by (simp add: transfer_tx_def sample_transfer_args_def sample_chains stellar_to_cosmos_def transfer_sender_def transfer_receiver_def
      transfer_timeout_def bindC_def liftC_def retC_def Let_def)
qed

theorem cli_transfer_moves_witness:
  "transfer_tx sample_app_host (\<lambda>_. Some 400) sample_cli_config [] sample_transfer_args (sample_transfer, ()) = Some (Inr (), sample_after, ())
   \<and> balance_of 30 (asc ''uxlm'') sample_after = balance_of 30 (asc ''uxlm'') sample_transfer - 40
   \<and> balance_of 2 (asc ''uxlm'') sample_after = balance_of 2 (asc ''uxlm'') sample_transfer + 40"
proof -
  have app: "dp_transfer_app (cg_deployment sample_cli_config) = asc ''CT''" by (simp add: sample_cli_config_def)
  have addr: "sample_account_addr (asc ''CT'') = 2" "sample_account_addr sample_from = 30"
    by (simp_all add: sample_account_addr_def sample_from_def asc_def)
  show ?thesis
    using cli_transfer_moves [where cfg = sample_cli_config and args = sample_transfer_args, OF _ sample_transfer_run,
        of sample_transfer_codec sample_send sample_account_addr id] sample_app_law sample_chains sample_transfer_run
    by (auto simp: app addr sample_transfer_args_def)
qed

section \<open>The clients of the tool are those of the router\<close>

text \<open>
  When the request reaches the API service and the node holds the storage of a router that has run
  since its deployment, the self-test of the counterparties lists exactly the registered clients of
  the known types, and a search prints one of them exactly when it is registered.
\<close>

definition api_behind ::
  "'w host \<Rightarrow> clients_config \<Rightarrow> svc_libs \<Rightarrow> ('a, 't) soroban_server \<Rightarrow> app_state \<Rightarrow> 'w \<Rightarrow> 'w \<Rightarrow> bool" where
  "api_behind h cc lb srv st w w' \<longleftrightarrow> h_get h (clients_url cc) w = (Some (answer lb (api_route lb srv st (EpClients None))), w')"

lemma tool_lists_registry:
  assumes "router_run sha ce allowed (router_constructor admin, x0) (s, x)" and "api_behind h cc lb srv st w w'"
    and "router_contract lb st = Inr router" and "node_counts lb srv router s"
  shows "\<exists>ids. registered_clients h cc w = Some (Inr ids, w') \<and> distinct ids
    \<and> set ids = {i. \<exists>t \<in> set DEFAULT_CLIENT_TYPES. r_client_type s i = Some t}"
proof -
  have "probe_json h (clients_url cc) w = Some (Inr (Some (JObj [(asc ''clients'', JArr (listed_groups s))])), w')"
    using assms(2) by (simp add: probe_json_def api_behind_def svc_list_clients_eq [OF assms(3,4)] answer_def is_success_def)
  then have "registered_clients h cc w = Some (Inr (listed_ids s), w')"
    by (simp add: registered_clients_def get_array_def json_get_def json_array_def liftC_def retC_def
      flip: ids_in_clients_concat listed_groups_ids)
  then show ?thesis using listed_ids_registry [OF assms(1)] by blast
qed

lemma tool_search_exact:
  assumes "router_run sha ce allowed (router_constructor admin, x0) (s, x)"
  shows "(\<exists>l. OkLine l \<in> set (print_clients (JObj [(asc ''clients'', JArr (listed_groups s))]) (Some i)))
    \<longleftrightarrow> (\<exists>t \<in> set DEFAULT_CLIENT_TYPES. r_client_type s i = Some t)"
proof -
  have ids: "client_ids_in c = (case get_array c (asc ''client_ids'') of None \<Rightarrow> [] | Some arr \<Rightarrow> List.map_filter json_str arr)" for c
    by (simp add: client_ids_in_def or_default_def List.map_filter_simps split: option.splits)
  have "(\<exists>c \<in> set (listed_groups s). i \<in> set (client_ids_in c)) \<longleftrightarrow> i \<in> set (listed_ids s)"
    unfolding listed_groups_ids [symmetric] by (simp add: ids)
  then show ?thesis
    using listed_ids_registry(2) [OF assms]
    by (subst print_clients_finds) (auto simp: get_array_def json_get_def json_array_def)
qed

end
