(* ===== verification/Spec2Isabelle.thy ===== *)
theory Spec2Isabelle
  imports World_Supply Core_Commitment Wasm_Properties Service_Config Store_Typing Cli_Deployment Cli_Bridging
begin

text \<open>
  A verification of the Stellar IBC v2 implementation (\<open>src/\<close>): the contracts on the Stellar side, the
  light client on the Cosmos side, and the part of the gateway between them that decides what can
  be proved, with the services around it and the tool that deploys and operates them.

  \<^bold>\<open>The program.\<close> The router contract (\<open>contracts/soroban/ibc-router\<close>) keeps clients, ports, packet
  commitments, receipts and acknowledgements. It calls light-client contracts
  (\<open>contracts/soroban/light-clients\<close>: Tendermint, attestation, mock) to verify what the counterparty
  stores, and applications (\<open>contracts/soroban/ibc-transfer\<close>) to handle payloads. Off chain, the gateway
  (\<open>crates/core\<close>) replays the router's storage changes from the ledgers into a sparse Merkle tree and
  serves roots and ICS-23 proofs; the CosmWasm light client (\<open>contracts/cosmwasm/light-client\<close>) stores
  the roots and checks the proofs for the Cosmos chain. The command-line tool (\<open>interstellar\<close>) starts the
  services, deploys and wires the contracts, uploads the light client and starts transfers.

  \<^bold>\<open>Foundations.\<close> \<open>Prelude\<close> has the error monad (\<open>bindE\<close>, \<open>ensure\<close>, \<open>ok_or\<close>, loops \<open>foldE\<close>, \<open>mapE\<close>), byte
  encodings and the fact collections \<open>bindE_simps\<close> and \<open>codec_simps\<close>. \<open>Soroban_Host\<close> models what a
  contract sees of its host: faults, authorisation, checked arithmetic. An operation returns \<open>Inl\<close> of a
  fault and no state, because a panic discards all writes. \<open>Sample_Values\<close> and \<open>Sample_Codec\<close> hold
  concrete values for the parameters, used in witnesses only.

  \<^bold>\<open>The router.\<close> \<open>Identifiers\<close> (\<open>identifiers.rs\<close>), \<open>Ics24_Host\<close> (\<open>ics24_host.rs\<close>: paths and commitments),
  \<open>Router_State\<close> (\<open>types.rs\<close>, \<open>events.rs\<close>; the record \<open>callees\<close> gives the contracts it calls),
  \<open>Ibc_Store\<close> (\<open>ibc_store.rs\<close>), \<open>Ics02_Client\<close> (\<open>ics02_client.rs\<close>, \<open>port_router.rs\<close>), \<open>Packet_Handler\<close>
  (\<open>packet_handler.rs\<close>) and \<open>Router\<close> (\<open>lib.rs\<close>): every entry point, a step relation over calls by anyone
  in any order between arbitrary outside activity, and invariants of its runs. \<open>Router_Runs\<close> proves
  the run invariants (sequences, receipts, settlement, acknowledgements) and \<open>Router_Properties\<close> states
  them: exactly-once receipt, at-most-once settlement, consecutive sequences, what receipts and
  timeouts rest on, fresh identifiers, an append-only registry. Four store entry points ask for no
  authorisation; at-most-once settlement is about runs without them (\<open>checked_call\<close>), the other
  properties say what a call of one of them allows, as does the lemma \<open>forged_commitment_accepted\<close>. \<open>Store_Typing\<close>: the provable store is well typed
  over all runs, so no read of it traps.

  \<^bold>\<open>Light clients.\<close> \<open>Light_Client_Spec\<close> states as locales what a client contract promises the router
  (permanent freezes, monotone heights, clients that do not interfere); \<open>Tendermint_LC\<close>,
  \<open>Attestation_LC\<close> and \<open>Mock_LC\<close> model the contracts and interpret the locales.

  \<^bold>\<open>Transfer.\<close> \<open>Transfer_Codec\<close> (addresses and ICS-20 JSON) and \<open>Ibc_Transfer\<close> model
  \<open>ibc-transfer/src/lib.rs\<close>; the locale \<open>account_book\<close> carries the balance arguments.
  \<open>Transfer_Properties\<close>: conservation, refunds by the callbacks, the daily limit over any calls of a
  day, authorisation, and that the
  application's own JSON packets cannot be refunded by its XDR decoder.

  \<^bold>\<open>The contracts together.\<close> \<open>World\<close> deploys the router, the transfer application and the three light
  clients, resolves the router's calls to their models and the application's \<open>send_packet\<close> to the
  router, and takes any transaction of anyone as a step; it shows that no proof byte matters behind
  the Tendermint client and that anyone can freeze it. \<open>World_Supply\<close>: without minting, every token
  in the application came in a packet the router reported as received.

  \<^bold>\<open>Gateway core.\<close> \<open>Core_Commitment\<close> (agreement with the contract's paths and commitments), \<open>Core_Smt\<close>,
  \<open>Core_Smt_Proofs\<close> and \<open>Core_Smt_Properties\<close> (the tree equals the complete Merkle tree of depth 64;
  its proofs are complete and sound; the locale \<open>authenticated_store\<close>), \<open>Proof_Wire\<close> (ICS-23 messages),
  \<open>Core_Conversion\<close> (contract values), \<open>Core_State\<close> and \<open>Core_State_Properties\<close> (the ledger replay with
  failures of the ledger source: roots follow the ledgers, interrupted replays converge).

  \<^bold>\<open>CosmWasm light client.\<close> \<open>Wasm_Types\<close>, \<open>Wasm_Store\<close>, \<open>Wasm_Merkle\<close> and \<open>Wasm_Client\<close> model
  \<open>types.rs\<close>, \<open>msg.rs\<close>, \<open>error.rs\<close>, \<open>store.rs\<close>, \<open>smt.rs\<close>, \<open>merkle.rs\<close> and \<open>entrypoint.rs\<close>;
  \<open>Wasm_Properties\<close>: what an update rests on, permanence of consensus states, acceptance of every
  proof the gateway serves and soundness of what is accepted. This theory composes the router, the
  gateway and the light client.

  \<^bold>\<open>Services.\<close> \<open>Core_Soroban\<close> and \<open>Core_Soroban_Properties\<close> (\<open>ibc/soroban.rs\<close>, \<open>client_state.rs\<close>,
  \<open>consensus_state.rs\<close>) translate Tendermint states and headers to contract values: states survive the
  round trip and a relayed header is what the contract stores. \<open>Core_Event\<close> gives the relayer's text of
  an event. \<open>Api_Client\<close> (\<open>api_client.rs\<close>), \<open>Api_Rpc\<close> (\<open>crates/api/src/rpc.rs\<close>) and \<open>Api_Service\<close>
  (\<open>crates/api/src/services\<close>) are the two ends of the HTTP interface and the node behind it;
  \<open>Api_Properties\<close> shows that the client returns what the node answered and that the listed clients are
  the router's registry. \<open>Gateway_Service\<close> has the gRPC handlers (\<open>crates/gateway/src/query.rs\<close>, \<open>msg.rs\<close>)
  and \<open>Gateway_Properties\<close> what headers, states and messages carry. \<open>Service_Config\<close> reads the
  configurations and starts the handlers.

  \<^bold>\<open>Command-line tool.\<close> \<open>Rust_Text\<close> has the string operations of the language that the programs use on
  settings and outputs. \<open>Cli_Text\<close> (\<open>shared.rs\<close>, \<open>config.rs\<close>, the checksum line of the relayer's
  configuration): what is written to the \<open>.env\<close> file is read back by a loader for which the last
  assignment counts, when the file had at most one. \<open>Cli_Host\<close> (\<open>run.rs\<close>, \<open>tools.rs\<close>,
  \<open>probe.rs\<close>) gives processes, files, requests and the clock as a record of functions on a type of worlds;
  an operation maps a world to a result and a world, or to \<open>None\<close> when it does not return, as when it
  waits for a process that never ends; \<open>total\<close> operations return in every world. \<open>Cli_Cosmos\<close> is the signer for the Cosmos chain
  (\<open>services/cosmos\<close>), \<open>Cli_Config\<close> every setting, \<open>Cli_Contracts\<close> building, deploying and invoking
  contracts (\<open>tx/contracts\<close>), \<open>Cli_Upload\<close> the upload of the light client (\<open>wasm.rs\<close>), \<open>Cli_Clients\<close> clients,
  counterparties and relayer keys (\<open>tx/clients\<close>, \<open>services/hermes\<close>), \<open>Cli_Transfer\<close> transfers and the
  transaction commands (\<open>tx/transfer\<close>, \<open>tx/mod.rs\<close>), \<open>Cli_Services\<close> services and accounts,
  \<open>Cli_Query\<close> the reports (\<open>tx/query\<close>, \<open>check.rs\<close>, \<open>install.rs\<close>, \<open>logger.rs\<close>) with the lines they print, \<open>Cli_Flows\<close>
  the self-tests (\<open>tests/\<close>): a run of all flows succeeds exactly when each does, and what the client flow
  creates is what the next flow pairs. \<open>Cli_Main\<close> has the start sequence and the dispatch: every command
  returns when the clock advances and the programs it starts end, and reports never end with an error. \<open>Cli_Deployment\<close>
  and \<open>Cli_Bridging\<close> join the tool to the contracts: under laws that say that the \<open>stellar\<close> program does
  what it reports and that nobody else acts meanwhile, a deployment creates the contracts and leaves
  the router in the one state its registration calls give, a transfer command from Stellar has made exactly one transfer of the application, and the clients the tool lists are
  those of the registry.

  \<^bold>\<open>Parameters.\<close> SHA-256 is a function \<open>sha\<close>; theorems that need it assume a 32-byte output and freedom
  from collisions on the finitely many strings named in the statement, never injectivity. Ed25519,
  the XDR, protobuf, JSON and hexadecimal codecs, the ibc-rs types, the Stellar node and the called contracts are arguments, with the
  laws used of them (decoding undoes encoding) as hypotheses. No recursion uses fuel: a loop is
  structural, has a termination proof (decimal digits, trimming) or, for the two polls of the tool that
  end by the clock only, is a partial function whose return is proved.

  \<^bold>\<open>Not modelled.\<close> Sockets and servers (listening addresses, reflection, documentation pages); the
  parsing of the tool's arguments, and the lines its commands other than the reports print; the unit and
  integration tests; the texts of error messages and logs; ledger entry expiry beyond the record
  of time-to-live extensions.
\<close>

section \<open>From the router to the counterparty\<close>

text \<open>
  C7 (a sent packet can be proved to the counterparty). Suppose the router sends a packet, and the
  ledgers the gateway replays record its commitment under its path with no later change of that
  slot. Then the gateway, asked in order, finds the commitment under the path it computes itself,
  and the light client on the other chain, holding the root of that tree and not frozen, accepts the
  proof it serves for exactly the commitment of the packet sent.
\<close>

theorem sent_packet_provable:
  assumes "\<And>x. length (sha x) = 32" and "\<And>m. dec_merkle_proof cd (enc m) = Some m"
    and "send_packet sha e client timeout payloads rs = Inr (n, rs')"
    and "r_store rs' (core_packet_commitment_path client n) = Some c"
    and "tracks sha cid dec_meta get_ledger a l gs" and "l \<le> h"
    and "writes_of cid dec_meta get_ledger (ledger_range a h) = Some (ws @ (core_packet_commitment_path client n, Some c) # us)"
    and "\<forall>(k, w) \<in> set us. key_index sha k \<noteq> key_index sha (core_packet_commitment_path client n)"
    and "get_client_state cd st = Some cs" and "wc_frozen_height cs = None"
    and "get_consensus_state cd hh st = Some cons"
    and "ws_root cons = smt_root sha (history_tree sha cid dec_meta get_ledger a h)"
  shows "\<exists>gs' bs cp. proof_for_path sha enc dec_meta get_ledger h (core_packet_commitment_path client n) gs
      = (gs', Inr (Found (sha c) bs))
    \<and> wasm_verify_membership sha cd \<lparr>vm_height = \<lparr>wh_revision_number = 0, wh_revision_height = hh\<rparr>,
        vm_delay_time_period = 0, vm_delay_block_period = 0, vm_proof = bs,
        vm_merkle_path = [core_packet_commitment_path client n], vm_value = c\<rparr> st = Inr ()
    \<and> client_counterparty client rs = Some cp
    \<and> commit_v2_packet sha \<lparr>pk_sequence = n, pk_source_client = client, pk_dest_client = cp_client_id cp,
        pk_timeout_timestamp = timeout, pk_payloads = payloads\<rparr> = Inr c"
proof -
  let ?k = "core_packet_commitment_path client n" and ?t = "history_tree sha cid dec_meta get_ledger a h"
  obtain cp where cp: "r_counterparty rs client = Some cp"
    and commit: "commit_v2_packet sha (sent_packet client n cp timeout payloads) = Inr c"
    using assms(3, 4)
    by (auto simp: send_packet_eq_Inr set_provable_def publish_def core_packet_commitment_path_def core_v2_path_def
        PACKET_COMMITMENT_DISCRIMINATOR_def)
  then obtain x where "c = sha x" by (auto simp: commit_v2_packet_def bindE_simps sha256_bytes_def Let_def)
  then have c: "c \<noteq> []" using assms(1) [of x] by auto
  from root_at_tracks [OF assms(5, 6)] assms(7) obtain gs' where
    root: "root_at sha dec_meta get_ledger h gs = (gs', Inr (smt_root sha ?t))" and t: "gs_smt gs' = ?t"
    by (auto simp: tracks_def)
  have "smt_proves sha ?t ?k c"
    unfolding history_tree_def assms(7) option.sel by (rule smt_store.last_change_decides(1) [OF assms(8) c])
  then obtain p where p: "generate_membership_proof sha ?k ?t = Some p" "mp_value_hash p = sha c"
    by (auto simp: smt_proves_iff smt_leaf_def generate_membership_proof_def Let_def smt_sha256_def key_index_def)
  let ?bs = "serialize_membership_proof_with_index enc p ?k (sha c) (state_key_index sha ?k)"
  have "proof_for_path sha enc dec_meta get_ledger h ?k gs = (gs', Inr (Found (sha c) ?bs))"
    by (simp add: proof_for_path_def root t p Let_def)
  moreover have "wasm_verify_membership sha cd \<lparr>vm_height = \<lparr>wh_revision_number = 0, wh_revision_height = hh\<rparr>,
        vm_delay_time_period = 0, vm_delay_block_period = 0, vm_proof = ?bs, vm_merkle_path = [?k], vm_value = c\<rparr> st = Inr ()"
    by (rule accepts_membership [OF assms(1, 2, 9, 10) _ assms(12) p(1)]) (simp_all add: assms(11) p(2) c concat_path_def)
  ultimately show ?thesis using commit cp by (auto simp: sent_packet_def client_counterparty_def)
qed

text \<open>A ledger that records the commitment of the sample packet, for the witness.\<close>

definition relay_dec_meta :: meta_decoder where
  "relay_dec_meta x =
     Some (CloseMetaV2 [TxMetaV4 [] [[Created (ContractData
       \<lparr>cda_contract = ScContract [7], cda_key = ScvBytes (core_packet_commitment_path sample_client 1),
        cda_val = ScvBytes x\<rparr>)]] []])"

definition relay_commitment :: bytes where
  "relay_commitment = sample_sha (packet_preimages sample_sha sample_out ! 3)"

definition relay_source :: ledger_source where
  "relay_source h = Some (Some relay_commitment)"

lemma relay_writes:
  "writes_of None relay_dec_meta relay_source [5] = Some [(core_packet_commitment_path sample_client 1, Some relay_commitment)]"
proof -
  have "is_v2_provable_path (core_packet_commitment_path sample_client 1)" by code_simp
  then show ?thesis
    by (simp add: ledger_writes_def relay_source_def relay_dec_meta_def ibc_changes_def map_filter_simps written_path_def
        scval_to_v2_path_def scval_as_bytes_def)
qed

theorem sent_packet_provable_witness:
  "\<exists>bs st. wasm_verify_membership sample_sha sample_codec
     \<lparr>vm_height = \<lparr>wh_revision_number = 0, wh_revision_height = 10\<rparr>, vm_delay_time_period = 0, vm_delay_block_period = 0,
      vm_proof = bs, vm_merkle_path = [core_packet_commitment_path sample_client 1], vm_value = relay_commitment\<rparr> st = Inr ()"
proof -
  let ?root = "smt_root sample_sha (history_tree sample_sha None relay_dec_meta relay_source 5 5)"
  have r: "ledger_range 5 5 = [5]" by code_simp
  from root_at_fresh [of None relay_dec_meta relay_source 5 _ sample_sha] relay_writes
  obtain gs where gs: "tracks sample_sha None relay_dec_meta relay_source 5 5 gs" by (auto simp: r)
  have store: "r_store (sample_sent sample_sha) (core_packet_commitment_path sample_client 1) = Some relay_commitment"
    by (simp add: sample_sent_def publish_def set_provable_def core_packet_commitment_path_def core_v2_path_def
        PACKET_COMMITMENT_DISCRIMINATOR_def relay_commitment_def)
  have cons: "get_consensus_state sample_codec 10 (sample_storage ?root) = Some (sample_consensus ?root)" by simp
  have w: "writes_of None relay_dec_meta relay_source (ledger_range 5 5)
      = Some ([] @ (core_packet_commitment_path sample_client 1, Some relay_commitment) # [])"
    by (simp only: r relay_writes append_Nil)
  have nf: "wc_frozen_height sample_wasm_client = None" by (simp add: sample_wasm_client_def)
  show ?thesis
    using sent_packet_provable [OF length_sample_sha sample_merkle_codec sample_send store gs order_refl w _
        sample_storage_client nf cons] by (auto simp: sample_consensus_def)
qed

end
